(* ===== verification/Prelude.thy ===== *)
theory Prelude
  imports Main "HOL-Library.Word"
begin

text \<open>
  Shared vocabulary of the development: machine integers, the outcome type that every
  fallible or panicking Rust body is translated to, nullable pointers, decimal printing
  (the part of \<open>format!\<close> the messages use), and the generic lemmas that the component
  theories rely on.

  A Rust body of type \<open>Result<T>\<close> that runs under \<open>catch_unwind\<close> ends in one of three ways:
  it returns a value (\<open>Ok\<close>), returns a \<open>lance_core::Error\<close> (\<open>Err\<close>), or panics (\<open>Panic\<close>).
\<close>

subsection \<open>Machine integers\<close>

type_synonym u8 = "8 word"
type_synonym u16 = "16 word"
type_synonym u32 = "32 word"
type_synonym u64 = "64 word"
type_synonym i32 = "32 word"
type_synonym i64 = "64 word"

text \<open>The supported targets have 64-bit pointers; the helpers whose checks matter on narrower
  targets are polymorphic in the pointer width instead.\<close>

type_synonym usize = "64 word"

text \<open>\<open>checked_mul\<close>, \<open>checked_add\<close>, \<open>checked_sub\<close> and \<open>saturating_mul\<close> of the standard
  library's unsigned integers.\<close>

definition checked_mul :: "'w::len word \<Rightarrow> 'w word \<Rightarrow> 'w word option" where
  "checked_mul a b = (if unat a * unat b < 2 ^ LENGTH('w) then Some (a * b) else None)"

definition checked_add :: "'w::len word \<Rightarrow> 'w word \<Rightarrow> 'w word option" where
  "checked_add a b = (if unat a + unat b < 2 ^ LENGTH('w) then Some (a + b) else None)"

definition checked_sub :: "'w::len word \<Rightarrow> 'w word \<Rightarrow> 'w word option" where
  "checked_sub a b = (if b \<le> a then Some (a - b) else None)"

definition saturating_mul :: "'w::len word \<Rightarrow> 'w word \<Rightarrow> 'w word" where
  "saturating_mul a b = (case checked_mul a b of Some c \<Rightarrow> c | None \<Rightarrow> - 1)"

definition saturating_add :: "'w::len word \<Rightarrow> 'w word \<Rightarrow> 'w word" where
  "saturating_add a b = (case checked_add a b of Some c \<Rightarrow> c | None \<Rightarrow> - 1)"

lemma checked_mul_Some: "checked_mul a b = Some c \<longleftrightarrow>
    unat a * unat b < 2 ^ LENGTH('w) \<and> unat c = unat a * unat b"
  for a b c :: "'w::len word"
  by (auto simp: checked_mul_def unat_mult_lem word_unat_eq_iff unat_word_ariths)

lemma checked_mul_None: "checked_mul a b = None \<longleftrightarrow> 2 ^ LENGTH('w) \<le> unat a * unat b"
  for a b :: "'w::len word"
  by (auto simp: checked_mul_def)

lemma checked_add_Some: "checked_add a b = Some c \<longleftrightarrow>
    unat a + unat b < 2 ^ LENGTH('w) \<and> unat c = unat a + unat b"
  for a b c :: "'w::len word"
  by (auto simp: checked_add_def word_unat_eq_iff unat_word_ariths)

lemma checked_sub_Some: "checked_sub a b = Some c \<longleftrightarrow> unat b \<le> unat a \<and> unat c = unat a - unat b"
  for a b c :: "'w::len word"
proof -
  have "b \<le> a \<Longrightarrow> unat (a - b) = unat a - unat b"
    by (rule unat_sub)
  then show ?thesis
    by (auto simp: checked_sub_def word_le_nat_alt word_unat_eq_iff)
qed

lemma unat_saturating_mul:
  "unat (saturating_mul a b) = min (unat a * unat b) (2 ^ LENGTH('w) - 1)"
  for a b :: "'w::len word"
proof (cases "checked_mul a b")
  case None
  then show ?thesis
    by (auto simp: saturating_mul_def checked_mul_def unsigned_minus_1_eq_mask mask_eq_exp_minus_1 split: if_splits)
next
  case (Some c)
  then have "unat a * unat b < 2 ^ LENGTH('w)" "unat c = unat a * unat b"
    by (simp_all add: checked_mul_Some)
  with Some show ?thesis by (simp add: saturating_mul_def)
qed

lemma unat_saturating_add:
  "unat (saturating_add a b) = min (unat a + unat b) (2 ^ LENGTH('w) - 1)"
  for a b :: "'w::len word"
proof (cases "checked_add a b")
  case None
  then show ?thesis
    by (auto simp: saturating_add_def checked_add_def unsigned_minus_1_eq_mask mask_eq_exp_minus_1 split: if_splits)
next
  case (Some c)
  then have "unat a + unat b < 2 ^ LENGTH('w)" "unat c = unat a + unat b"
    by (simp_all add: checked_add_Some)
  with Some show ?thesis by (simp add: saturating_add_def)
qed

subsection \<open>Panics and outcomes\<close>

text \<open>The payload of a panic: \<open>panic!\<close> produces a \<open>&str\<close> or a \<open>String\<close>,
  \<open>panic_any\<close> anything else.\<close>

datatype payload = StrPayload string | StringPayload string | OtherPayload

text \<open>Running code that cannot fail otherwise: it returns, or it unwinds.\<close>

datatype 'a unwind = Returned 'a | Unwound payload

text \<open>The variants of \<open>lance_core::Error\<close> that the FFI layer tells apart.\<close>

datatype error_kind =
    InvalidInput | DatasetAlreadyExists | CommitConflict | DatasetNotFound | NotFound
  | IndexNotFound | IO | Index | NotSupported | OtherKind

text \<open>An error value: its variant, and what formatting it with \<open>Display\<close> does (an error may
  wrap a foreign source whose \<open>Display\<close> panics). The decoration that Lance's own \<open>Display\<close>
  puts around the message text is not part of the model.\<close>

datatype lance_error = LanceError (err_kind: error_kind) (err_display: "string unwind")

definition invalid_input :: "string \<Rightarrow> lance_error" where
  "invalid_input m = LanceError InvalidInput (Returned m)"

definition internal_error :: "string \<Rightarrow> lance_error" where
  "internal_error m = LanceError OtherKind (Returned m)"

lemma err_kind_simps [simp]:
  "err_kind (invalid_input m) = InvalidInput" "err_kind (internal_error m) = OtherKind"
  by (simp_all add: invalid_input_def internal_error_def)

lemma err_display_simps [simp]:
  "err_display (invalid_input m) = Returned m" "err_display (internal_error m) = Returned m"
  by (simp_all add: invalid_input_def internal_error_def)

datatype 'a outcome = Ok 'a | Err lance_error | Panic payload

text \<open>The \<open>?\<close> operator, with a panic propagating as well.\<close>

fun obind :: "'a outcome \<Rightarrow> ('a \<Rightarrow> 'b outcome) \<Rightarrow> 'b outcome" where
  "obind (Ok x) f = f x"
| "obind (Err e) f = Err e"
| "obind (Panic p) f = Panic p"

definition ok_or :: "'a option \<Rightarrow> lance_error \<Rightarrow> 'a outcome" where
  "ok_or x e = (case x of Some v \<Rightarrow> Ok v | None \<Rightarrow> Err e)"

text \<open>A guard of the code: \<open>if cond { return Err(e); }\<close>.\<close>

definition reject_if :: "bool \<Rightarrow> lance_error \<Rightarrow> 'a outcome \<Rightarrow> 'a outcome" where
  "reject_if c e k = (if c then Err e else k)"

lemma obind_eq_Ok: "obind m f = Ok y \<longleftrightarrow> (\<exists>x. m = Ok x \<and> f x = Ok y)"
  by (cases m) auto

lemma obind_eq_Err: "obind m f = Err e \<longleftrightarrow> m = Err e \<or> (\<exists>x. m = Ok x \<and> f x = Err e)"
  by (cases m) auto

lemma obind_eq_Panic: "obind m f = Panic p \<longleftrightarrow> m = Panic p \<or> (\<exists>x. m = Ok x \<and> f x = Panic p)"
  by (cases m) auto

lemma obind_assoc: "obind (obind m f) g = obind m (\<lambda>x. obind (f x) g)"
  by (cases m) auto

lemma obind_Ok_right [simp]: "obind m Ok = m"
  by (cases m) auto

lemma ok_or_simps [simp]: "ok_or (Some v) e = Ok v" "ok_or None e = Err e"
  by (simp_all add: ok_or_def)

lemma ok_or_eq_Ok: "ok_or x e = Ok v \<longleftrightarrow> x = Some v"
  by (cases x) auto

lemma ok_or_eq_Err: "ok_or x e = Err e' \<longleftrightarrow> x = None \<and> e' = e"
  by (cases x) auto

lemma ok_or_not_Panic [simp]: "ok_or x e \<noteq> Panic p"
  by (cases x) auto

lemma reject_if_simps [simp]: "reject_if True e k = Err e" "reject_if False e k = k"
  by (simp_all add: reject_if_def)

lemma reject_if_eq_Ok: "reject_if c e k = Ok v \<longleftrightarrow> \<not> c \<and> k = Ok v"
  by (simp add: reject_if_def)

lemma reject_if_eq_Err: "reject_if c e k = Err e' \<longleftrightarrow> (c \<and> e' = e) \<or> (\<not> c \<and> k = Err e')"
  by (auto simp: reject_if_def)

lemma reject_if_eq_Panic: "reject_if c e k = Panic p \<longleftrightarrow> \<not> c \<and> k = Panic p"
  by (simp add: reject_if_def)

lemmas outcome_ok = obind_eq_Ok ok_or_eq_Ok reject_if_eq_Ok
lemmas outcome_panic = obind_eq_Panic reject_if_eq_Panic

text \<open>\<open>iter().map(f).collect::<Result<Vec<_>>>()\<close>: the first failure wins.\<close>

fun otraverse :: "('a \<Rightarrow> 'b outcome) \<Rightarrow> 'a list \<Rightarrow> 'b list outcome" where
  "otraverse f [] = Ok []"
| "otraverse f (x # xs) = obind (f x) (\<lambda>y. obind (otraverse f xs) (\<lambda>ys. Ok (y # ys)))"

lemma otraverse_eq_Ok: "otraverse f xs = Ok ys \<longleftrightarrow> list_all2 (\<lambda>x y. f x = Ok y) xs ys"
  by (induction xs arbitrary: ys) (auto simp: obind_eq_Ok list_all2_Cons1)

lemma otraverse_cong [fundef_cong]:
  "xs = ys \<Longrightarrow> (\<And>x. x \<in> set ys \<Longrightarrow> f x = g x) \<Longrightarrow> otraverse f xs = otraverse g ys"
  by (induction ys arbitrary: xs) auto

subsection \<open>Nullable pointers\<close>

text \<open>A raw pointer argument is NULL or points at a value.\<close>

type_synonym 'a ptr = "'a option"

abbreviation null :: "'a ptr" where "null \<equiv> None"

definition is_null :: "'a ptr \<Rightarrow> bool" where
  "is_null p \<longleftrightarrow> p = None"

lemma is_null_simps [simp]: "is_null None" "\<not> is_null (Some x)"
  by (simp_all add: is_null_def)

subsection \<open>Decimal printing\<close>

fun digit_char :: "nat \<Rightarrow> char" where
  "digit_char n = char_of (48 + n mod 10)"

fun show_nat :: "nat \<Rightarrow> string" where
  "show_nat n = (if n < 10 then [digit_char n] else show_nat (n div 10) @ [digit_char n])"

declare show_nat.simps [simp del]

definition show_u :: "'w::len word \<Rightarrow> string" where
  "show_u w = show_nat (unat w)"

definition show_i :: "'w::len word \<Rightarrow> string" where
  "show_i w = (if sint w < 0 then ''-'' @ show_nat (nat (- sint w)) else show_nat (nat (sint w)))"

text \<open>\<open>{:?}\<close> of a string and of a slice of strings: quoted, with the escapes of the ASCII control
  characters that have a short one. Other non-printable characters are left as they are.\<close>

definition debug_char :: "char \<Rightarrow> string" where
  "debug_char c =
     (if c = CHR 0x22 then [CHR 0x5C, CHR 0x22] else if c = CHR 0x5C then [CHR 0x5C, CHR 0x5C]
      else if c = CHR 0x0A then [CHR 0x5C, CHR ''n''] else if c = CHR 0x0D then [CHR 0x5C, CHR ''r'']
      else if c = CHR 0x09 then [CHR 0x5C, CHR ''t''] else [c])"

definition debug_string :: "string \<Rightarrow> string" where
  "debug_string s = [CHR 0x22] @ concat (map debug_char s) @ [CHR 0x22]"

fun debug_items :: "string list \<Rightarrow> string" where
  "debug_items [] = []"
| "debug_items [s] = debug_string s"
| "debug_items (s # ss) = debug_string s @ '', '' @ debug_items ss"

definition debug_list :: "string list \<Rightarrow> string" where
  "debug_list ss = ''['' @ debug_items ss @ '']''"

text \<open>A value between single quotes, as messages write names.\<close>

definition quoted :: "string \<Rightarrow> string" where
  "quoted s = [CHR 0x27] @ s @ [CHR 0x27]"

end
