(* ===== verification/Query_Arrays.thy ===== *)
theory Query_Arrays
  imports Prelude
begin

text \<open>
  The query matrices of the vector searches: the part of \<open>src/scanner.rs\<close> that sizes, decodes and
  bounds them (\<open>batch_query_value_count\<close>, \<open>validate_batch_candidates\<close>, \<open>decode_query_values\<close>) and
  \<open>validate_query\<close> of \<open>src/multivector.rs\<close>. Floating-point numbers are kept as their bit patterns.
\<close>

subsection \<open>Floating-point bit patterns\<close>

text \<open>\<open>is_finite\<close>: the exponent field is not all ones.\<close>

definition f16_finite :: "u16 \<Rightarrow> bool" where
  "f16_finite w \<longleftrightarrow> take_bit 5 (drop_bit 10 w) \<noteq> 31"

definition f32_finite :: "u32 \<Rightarrow> bool" where
  "f32_finite w \<longleftrightarrow> take_bit 8 (drop_bit 23 w) \<noteq> 255"

definition f64_finite :: "u64 \<Rightarrow> bool" where
  "f64_finite w \<longleftrightarrow> take_bit 11 (drop_bit 52 w) \<noteq> 2047"

text \<open>The order of finite \<open>f32\<close> values: sign and magnitude, both zeros equal.\<close>

definition f32_key :: "u32 \<Rightarrow> int" where
  "f32_key w = (if bit w 31 then - uint (take_bit 31 w) else uint (take_bit 31 w))"

definition f32_ge :: "u32 \<Rightarrow> u32 \<Rightarrow> bool" where
  "f32_ge a b \<longleftrightarrow> f32_key b \<le> f32_key a"

subsection \<open>Data types and arrays\<close>

datatype prim_type = Float32 | Float16 | Float64 | UInt8 | Int8

text \<open>\<open>LanceDataType\<close> by its C discriminant, with the element's width, which is also its alignment.\<close>

fun prim_of_code :: "i32 \<Rightarrow> prim_type option" where
  "prim_of_code e =
     (if e = 0 then Some Float32 else if e = 1 then Some Float16 else if e = 2 then Some Float64
      else if e = 3 then Some UInt8 else if e = 4 then Some Int8 else None)"

fun prim_width :: "prim_type \<Rightarrow> nat" where
  "prim_width Float32 = 4"
| "prim_width Float16 = 2"
| "prim_width Float64 = 8"
| "prim_width UInt8 = 1"
| "prim_width Int8 = 1"

datatype query_array =
    Float32Array "u32 list"
  | Float16Array "u16 list"
  | Float64Array "u64 list"
  | UInt8Array "u8 list"
  | Int8Array "u8 list"

fun array_length :: "query_array \<Rightarrow> nat" where
  "array_length (Float32Array xs) = length xs"
| "array_length (Float16Array xs) = length xs"
| "array_length (Float64Array xs) = length xs"
| "array_length (UInt8Array xs) = length xs"
| "array_length (Int8Array xs) = length xs"

fun array_type :: "query_array \<Rightarrow> prim_type" where
  "array_type (Float32Array _) = Float32"
| "array_type (Float16Array _) = Float16"
| "array_type (Float64Array _) = Float64"
| "array_type (UInt8Array _) = UInt8"
| "array_type (Int8Array _) = Int8"

text \<open>The finiteness test of a batch query (bytes are always finite) and of a multi-vector query
  (bytes are refused). The arrays hold no nulls.\<close>

fun batch_finite :: "query_array \<Rightarrow> bool" where
  "batch_finite (Float32Array xs) = list_all f32_finite xs"
| "batch_finite (Float16Array xs) = list_all f16_finite xs"
| "batch_finite (Float64Array xs) = list_all f64_finite xs"
| "batch_finite (UInt8Array _) = True"
| "batch_finite (Int8Array _) = True"

fun multivector_valid :: "query_array \<Rightarrow> bool" where
  "multivector_valid (Float16Array xs) = list_all f16_finite xs"
| "multivector_valid (Float32Array xs) = list_all f32_finite xs"
| "multivector_valid (Float64Array xs) = list_all f64_finite xs"
| "multivector_valid _ = False"

text \<open>The refusal is a DataFusion execution error; \<open>df\<close> is its conversion to Lance's error type.\<close>

definition validate_query :: "(string \<Rightarrow> lance_error) \<Rightarrow> query_array \<Rightarrow> unit outcome" where
  "validate_query df values =
     (if multivector_valid values then Ok ()
      else Err (df ''multi-vector query must contain only finite, non-null elements''))"

subsection \<open>Size limits\<close>

definition max_batch_queries :: nat where "max_batch_queries = 128"
definition max_batch_query_bytes :: nat where "max_batch_query_bytes = 64 * 1024 * 1024"
definition max_batch_candidates :: nat where "max_batch_candidates = 100000"

text \<open>\<open>batch_query_value_count\<close>, polymorphic in the pointer width.\<close>

definition batch_query_value_count :: "'w::len word \<Rightarrow> 'w word \<Rightarrow> 'w word \<Rightarrow> 'w word outcome" where
  "batch_query_value_count dimension num_queries width =
     (let shape = ''dimension='' @ show_u dimension @ '', num_queries='' @ show_u num_queries @
                  '', element_width='' @ show_u width;
          overflow = invalid_input (''batch query byte size overflows usize: '' @ shape)
      in obind (ok_or (checked_mul dimension num_queries) overflow) (\<lambda>count.
         obind (ok_or (checked_mul count width) overflow) (\<lambda>bytes.
         reject_if (max_batch_query_bytes < unat bytes)
           (invalid_input (''batch query byte size '' @ show_u bytes @ '' exceeds limit '' @
              show_nat max_batch_query_bytes @ '': '' @ shape))
           (Ok count))))"

text \<open>The product is taken with checked multiplications in \<open>usize\<close>.\<close>

definition validate_batch_candidates :: "'w::len word \<Rightarrow> u32 \<Rightarrow> u32 option \<Rightarrow> unit outcome" where
  "validate_batch_candidates num_queries k refine_factor =
     (let refine = (case refine_factor of Some r \<Rightarrow> r | None \<Rightarrow> 1) in
      reject_if
        (refine = 0 \<or>
         (case checked_mul num_queries (ucast k) of
            None \<Rightarrow> True
          | Some n \<Rightarrow> (case checked_mul n (ucast refine) of None \<Rightarrow> True | Some m \<Rightarrow> max_batch_candidates < unat m)))
        (invalid_input (''batch num_queries ('' @ show_u num_queries @ '') * k ('' @ show_u k @
           '') * refine_factor ('' @ show_u refine @ '') must be in 1..='' @ show_nat max_batch_candidates))
        (Ok ()))"

subsection \<open>Decoding a raw buffer\<close>

text \<open>A raw query pointer: its address and the bytes behind it. The targets are little-endian.\<close>

record raw_buffer =
  rb_addr :: usize
  rb_bytes :: "u8 list"

fun le_word :: "u8 list \<Rightarrow> 'w::len word" where
  "le_word [] = 0"
| "le_word (b # bs) = or (ucast b) (push_bit 8 (le_word bs))"

definition le_words :: "nat \<Rightarrow> u8 list \<Rightarrow> nat \<Rightarrow> 'w::len word list" where
  "le_words width bytes n = map (\<lambda>i. le_word (take width (drop (width * i) bytes))) [0..<n]"

definition decode_query_values :: "raw_buffer \<Rightarrow> usize \<Rightarrow> i32 \<Rightarrow> query_array outcome" where
  "decode_query_values query_data query_len element_type =
     obind (ok_or (prim_of_code element_type)
       (invalid_input (''invalid element_type: '' @ show_i element_type))) (\<lambda>dtype.
     let alignment = prim_width dtype; n = unat query_len; bytes = rb_bytes query_data in
     reject_if (unat (rb_addr query_data) mod alignment \<noteq> 0)
       (invalid_input (''query_data must be aligned to '' @ show_nat alignment @ '' bytes for element_type='' @
          show_i element_type)) (
     Ok (case dtype of
           Float32 \<Rightarrow> Float32Array (le_words 4 bytes n)
         | Float64 \<Rightarrow> Float64Array (le_words 8 bytes n)
         | UInt8 \<Rightarrow> UInt8Array (take n bytes)
         | Int8 \<Rightarrow> Int8Array (take n bytes)
         | Float16 \<Rightarrow> Float16Array (le_words 2 bytes n))))"

subsection \<open>Lemmas\<close>

lemma unat_ucast_u32 [simp]: "unat (ucast (k :: u32) :: usize) = unat k"
proof -
  have "unat k < 2 ^ 64" using unsigned_less [of k, where ?'a = nat] by simp
  then show ?thesis by (simp add: unsigned_ucast_eq unsigned_take_bit_eq take_bit_nat_eq_self)
qed

lemma length_le_words [simp]: "length (le_words w bs n) = n"
  by (simp add: le_words_def)

lemma decode_query_values_eq_Ok:
  assumes "decode_query_values q n e = Ok a"
  shows "prim_of_code e = Some (array_type a) \<and> unat (rb_addr q) mod prim_width (array_type a) = 0"
proof -
  from assms obtain dtype where "prim_of_code e = Some dtype"
    by (auto simp: decode_query_values_def outcome_ok)
  with assms show ?thesis
    by (cases dtype) (auto simp: decode_query_values_def outcome_ok Let_def simp del: prim_of_code.simps)
qed

lemma decode_query_values_length:
  assumes "decode_query_values q n e = Ok a" "unat n \<le> length (rb_bytes q)"
  shows "array_length a = unat n"
proof -
  from assms(1) obtain dtype where "prim_of_code e = Some dtype"
    by (auto simp: decode_query_values_def outcome_ok)
  with assms show ?thesis
    by (cases dtype) (auto simp: decode_query_values_def outcome_ok Let_def simp del: prim_of_code.simps)
qed

lemma unat_mult: "unat a * unat b < 2 ^ LENGTH('w) \<Longrightarrow> unat (a * b) = unat a * unat b"
  for a b :: "'w::len word"
  by (simp add: unat_mult_lem)

lemma batch_query_value_count_eq_Ok:
  "batch_query_value_count d n w = Ok c \<longleftrightarrow>
     unat d * unat n < 2 ^ LENGTH('w) \<and> unat d * unat n * unat w < 2 ^ LENGTH('w) \<and>
     unat d * unat n * unat w \<le> max_batch_query_bytes \<and> unat c = unat d * unat n"
  for d n w c :: "'w::len word"
proof (cases "unat d * unat n < 2 ^ LENGTH('w)")
  case True
  note u = unat_mult [OF True]
  show ?thesis
  proof (cases "unat d * unat n * unat w < 2 ^ LENGTH('w)")
    case w: True
    then have "unat (d * n) * unat w < 2 ^ LENGTH('w)" by (simp add: u)
    with True u show ?thesis
      by (auto simp: batch_query_value_count_def checked_mul_def unat_mult reject_if_def word_unat_eq_iff)
  qed (use True u in \<open>simp add: batch_query_value_count_def checked_mul_def\<close>)
qed (simp add: batch_query_value_count_def checked_mul_def)

lemma validate_batch_candidates_eq_Ok:
  "validate_batch_candidates (n :: usize) k rf = Ok u \<longleftrightarrow>
     (let refine = (case rf of Some r \<Rightarrow> unat r | None \<Rightarrow> 1)
      in 0 < refine \<and> unat n * unat k * refine \<le> max_batch_candidates \<and> unat n * unat k < 2 ^ 64)"
proof -
  define r where "r = (case rf of Some r \<Rightarrow> r | None \<Rightarrow> 1)"
  have r: "(case rf of Some r \<Rightarrow> unat r | None \<Rightarrow> 1) = unat r"
    by (simp add: r_def split: option.splits)
  have m: "max_batch_candidates < 2 ^ 64" by (simp add: max_batch_candidates_def)
  show ?thesis
  proof (cases "unat n * unat k < 2 ^ 64")
    case True
    then have u: "unat (n * ucast k) = unat n * unat k"
      by (subst unat_mult) simp_all
    show ?thesis
    proof (cases "unat n * unat k * unat r < 2 ^ 64")
      case w: True
      then have "unat (n * ucast k * ucast r) = unat n * unat k * unat r"
        by (subst unat_mult) (simp_all add: u)
      with True u w show ?thesis
        by (auto simp: validate_batch_candidates_def r r_def [symmetric] Let_def checked_mul_def
            reject_if_def unat_gt_0 word_neq_0_conv)
    next
      case False
      with True u m show ?thesis
        by (auto simp: validate_batch_candidates_def r r_def [symmetric] Let_def checked_mul_def reject_if_def)
    qed
  next
    case False
    then show ?thesis
      by (simp add: validate_batch_candidates_def r Let_def checked_mul_def)
  qed
qed

end
