(* ===== verification/Floats.thy ===== *)
theory Floats
  imports Query_Arrays
begin

text \<open>
  The IEEE 754 arithmetic that the multi-vector scorer of \<open>src/multivector.rs\<close> uses, on bit patterns:
  \<open>f64\<close> addition, the casts between \<open>f32\<close> and \<open>f64\<close>, and the \<open>f32\<close> comparisons behind \<open>min\<close>,
  \<open>max\<close> and \<open>total_cmp\<close>. Finite values are integers in units of 2^-1074, so that sums are exact and
  only the final rounding (to nearest, ties to even) is left to define.
\<close>

subsection \<open>Magnitudes\<close>

text \<open>The magnitude that the bits below the sign stand for, with \<open>p\<close> bits of mantissa, in units of the
  smallest subnormal number.\<close>

definition magnitude_of :: "nat \<Rightarrow> nat \<Rightarrow> nat" where
  "magnitude_of p w = (if w div 2 ^ p = 0 then w else (2 ^ p + w mod 2 ^ p) * 2 ^ (w div 2 ^ p - 1))"

fun bit_count :: "nat \<Rightarrow> nat" where
  "bit_count n = (if n = 0 then 0 else Suc (bit_count (n div 2)))"

declare bit_count.simps [simp del]

definition round_half_even :: "nat \<Rightarrow> nat \<Rightarrow> nat" where
  "round_half_even n s =
     (let q = n div 2 ^ s; r = n mod 2 ^ s in
      if 2 * r < 2 ^ s then q else if 2 ^ s < 2 * r then q + 1 else q + q mod 2)"

text \<open>The bits of the nearest number whose unit is \<open>2 ^ u\<close> units of the argument, saturating at
  infinity: a mantissa that rounds up to a power of two carries into the exponent field.\<close>

definition bits_of_magnitude :: "nat \<Rightarrow> nat \<Rightarrow> nat \<Rightarrow> nat \<Rightarrow> nat" where
  "bits_of_magnitude p u infinity n =
     (let s = max u (bit_count n - (p + 1)) in min infinity ((s - u) * 2 ^ p + round_half_even n s))"

subsection \<open>The two formats\<close>

definition f64_infinity :: nat where "f64_infinity = 2047 * 2 ^ 52"
definition f32_infinity :: nat where "f32_infinity = 255 * 2 ^ 23"

definition f64_bits :: "bool \<Rightarrow> nat \<Rightarrow> u64" where
  "f64_bits negative m = word_of_nat (m + (if negative then 2 ^ 63 else 0))"

definition f32_bits :: "bool \<Rightarrow> nat \<Rightarrow> u32" where
  "f32_bits negative m = word_of_nat (m + (if negative then 2 ^ 31 else 0))"

definition f64_mag :: "u64 \<Rightarrow> nat" where "f64_mag w = unat w mod 2 ^ 63"
definition f32_mag :: "u32 \<Rightarrow> nat" where "f32_mag w = unat w mod 2 ^ 31"
definition f64_negative :: "u64 \<Rightarrow> bool" where "f64_negative w \<longleftrightarrow> 2 ^ 63 \<le> unat w"
definition f32_negative :: "u32 \<Rightarrow> bool" where "f32_negative w \<longleftrightarrow> 2 ^ 31 \<le> unat w"

definition f64_is_nan :: "u64 \<Rightarrow> bool" where "f64_is_nan w \<longleftrightarrow> f64_infinity < f64_mag w"
definition f32_is_nan :: "u32 \<Rightarrow> bool" where "f32_is_nan w \<longleftrightarrow> f32_infinity < f32_mag w"

definition f64_nan :: u64 where "f64_nan = word_of_nat (f64_infinity + 2 ^ 51)"
definition f32_nan :: u32 where "f32_nan = word_of_nat (f32_infinity + 2 ^ 22)"

text \<open>The signed value of a finite \<open>f64\<close>, in units of 2^-1074.\<close>

definition f64_value :: "u64 \<Rightarrow> int" where
  "f64_value w = (if f64_negative w then - 1 else 1) * int (magnitude_of 52 (f64_mag w))"

definition f32_value :: "u32 \<Rightarrow> int" where
  "f32_value w = (if f32_negative w then - 1 else 1) * int (magnitude_of 23 (f32_mag w) * 2 ^ 925)"

subsection \<open>Operations\<close>

text \<open>\<open>f64\<close> addition; a NaN result is the default one (Rust leaves its payload open).\<close>

definition f64_add :: "u64 \<Rightarrow> u64 \<Rightarrow> u64" where
  "f64_add a b =
     (if f64_is_nan a \<or> f64_is_nan b then f64_nan
      else if f64_mag a = f64_infinity \<and> f64_mag b = f64_infinity
      then (if f64_negative a = f64_negative b then f64_bits (f64_negative a) f64_infinity else f64_nan)
      else if f64_mag a = f64_infinity then a
      else if f64_mag b = f64_infinity then b
      else let v = f64_value a + f64_value b in
           if v = 0 then f64_bits (f64_negative a \<and> f64_negative b) 0
           else f64_bits (v < 0) (bits_of_magnitude 52 0 f64_infinity (nat \<bar>v\<bar>)))"

definition f64_of_f32 :: "u32 \<Rightarrow> u64" where
  "f64_of_f32 w =
     (if f32_is_nan w then f64_nan
      else if f32_mag w = f32_infinity then f64_bits (f32_negative w) f64_infinity
      else f64_bits (f32_negative w)
             (bits_of_magnitude 52 0 f64_infinity (magnitude_of 23 (f32_mag w) * 2 ^ 925)))"

definition f32_of_f64 :: "u64 \<Rightarrow> u32" where
  "f32_of_f64 w =
     (if f64_is_nan w then f32_nan
      else if f64_mag w = f64_infinity then f32_bits (f64_negative w) f32_infinity
      else f32_bits (f64_negative w) (bits_of_magnitude 23 925 f32_infinity (magnitude_of 52 (f64_mag w))))"

text \<open>\<open>f32::total_cmp\<close> orders by this key; \<open>min_by\<close> keeps the first of equal elements.\<close>

definition f32_total_key :: "u32 \<Rightarrow> int" where
  "f32_total_key w = (if f32_negative w then - int (f32_mag w) - 1 else int (f32_mag w))"

definition f32_total_min :: "u32 \<Rightarrow> u32 \<Rightarrow> u32" where
  "f32_total_min a b = (if f32_total_key b < f32_total_key a then b else a)"

text \<open>\<open>f32::min\<close> and \<open>f32::max\<close>, for finite arguments; which of two zeros comes back is left open by
  Rust, and the first one here.\<close>

definition f32_min :: "u32 \<Rightarrow> u32 \<Rightarrow> u32" where
  "f32_min a b = (if f32_ge b a then a else b)"

definition f32_max :: "u32 \<Rightarrow> u32 \<Rightarrow> u32" where
  "f32_max a b = (if f32_ge a b then a else b)"

definition f32_one :: u32 where "f32_one = f32_bits False (127 * 2 ^ 23)"

subsection \<open>Lemmas\<close>

lemma f64_add_comm: "f64_add a b = f64_add b a"
  by (simp add: f64_add_def Let_def add.commute conj_commute disj_commute)

lemma bit_count_bounds: "0 < n \<Longrightarrow> 2 ^ (bit_count n - 1) \<le> n \<and> n < 2 ^ bit_count n"
proof (induction n rule: bit_count.induct)
  case (1 n)
  show ?case
  proof (cases "n div 2 = 0")
    case True
    with 1(2) have "n = 1" by simp
    then show ?thesis by (simp add: bit_count.simps)
  next
    case False
    with 1 have ih: "2 ^ (bit_count (n div 2) - 1) \<le> n div 2" "n div 2 < 2 ^ bit_count (n div 2)"
      by auto
    have b: "bit_count n = Suc (bit_count (n div 2))" using 1(2) by (simp add: bit_count.simps)
    have p: "bit_count (n div 2) = Suc (bit_count (n div 2) - 1)"
      using False by (subst (1 2) bit_count.simps) simp
    from ih have "2 * 2 ^ (bit_count (n div 2) - 1) \<le> n" "n < 2 * 2 ^ bit_count (n div 2)" by simp_all
    with b p show ?thesis by (metis diff_Suc_1 power_Suc)
  qed
qed

lemma bit_count_eq: "2 ^ k \<le> n \<Longrightarrow> n < 2 ^ Suc k \<Longrightarrow> bit_count n = Suc k"
proof -
  assume a: "2 ^ k \<le> n" "n < 2 ^ Suc k"
  then have n: "0 < n" by (cases n) simp_all
  note b = bit_count_bounds [OF this]
  from n have p: "bit_count n = Suc (bit_count n - 1)" by (simp add: bit_count.simps)
  from a b have "(2 :: nat) ^ k < 2 ^ bit_count n" "(2 :: nat) ^ (bit_count n - 1) < 2 ^ Suc k"
    by linarith+
  then have "k < bit_count n" "bit_count n - 1 < Suc k"
    by (simp_all only: power_strict_increasing_iff one_less_numeral_iff semiring_norm)
  then show ?thesis by linarith
qed

lemma bit_count_le: "n < 2 ^ k \<Longrightarrow> bit_count n \<le> k"
proof (cases "n = 0")
  case False
  assume "n < 2 ^ k"
  moreover from False have "2 ^ (bit_count n - 1) \<le> n" using bit_count_bounds by blast
  ultimately have "(2 :: nat) ^ (bit_count n - 1) < 2 ^ k" by linarith
  then have "bit_count n - 1 < k" by simp
  then show ?thesis by linarith
qed (simp add: bit_count.simps)

lemma round_half_even_exact [simp]: "round_half_even (k * 2 ^ s) s = k"
  by (simp add: round_half_even_def)

text \<open>Encoding is exact on the numbers of the format: the bits of a magnitude are the bits it came from.\<close>

lemma bits_of_magnitude_of:
  assumes "w < infinity"
  shows "bits_of_magnitude p u infinity (magnitude_of p w * 2 ^ u) = w"
proof (cases "w div 2 ^ p = 0")
  case True
  then have "w * 2 ^ u < 2 ^ (p + u)" by (simp add: div_eq_0_iff power_add)
  then have "max u (bit_count (w * 2 ^ u) - (p + 1)) = u"
    using bit_count_le [of "w * 2 ^ u" "p + u"] by linarith
  with True assms show ?thesis by (simp add: bits_of_magnitude_def magnitude_of_def Let_def)
next
  case False
  define e m where "e = w div 2 ^ p" and "m = w mod 2 ^ p"
  have m: "m < 2 ^ p" by (simp add: m_def)
  have w: "w = e * 2 ^ p + m" unfolding e_def m_def by (rule div_mult_mod_eq [symmetric])
  from False have e: "0 < e" by (simp add: e_def)
  define s where "s = e - 1 + u"
  have n: "magnitude_of p w * 2 ^ u = (2 ^ p + m) * 2 ^ s"
  proof -
    have "magnitude_of p w = (2 ^ p + m) * 2 ^ (e - 1)"
      using False by (simp add: magnitude_of_def e_def m_def)
    moreover have "(2 :: nat) ^ (e - 1) * 2 ^ u = 2 ^ s" unfolding s_def by (rule power_add [symmetric])
    ultimately show ?thesis by (metis mult.assoc)
  qed
  have "2 ^ (p + s) \<le> (2 ^ p + m) * 2 ^ s" "(2 ^ p + m) * 2 ^ s < 2 ^ Suc (p + s)"
    using m by (simp_all add: power_add)
  then have "bit_count ((2 ^ p + m) * 2 ^ s) = Suc (p + s)" by (rule bit_count_eq)
  then have "max u (bit_count ((2 ^ p + m) * 2 ^ s) - (p + 1)) = s" by (simp add: s_def)
  moreover have "(s - u) * 2 ^ p + (2 ^ p + m) = w"
    using e by (cases e) (simp_all add: s_def w)
  ultimately show ?thesis using assms by (simp add: n bits_of_magnitude_def)
qed

lemma magnitude_of_bits:
  assumes "n = q * 2 ^ t" "q < 2 ^ (p + 1)" "u \<le> t" "bits_of_magnitude p u infinity n < infinity"
  shows "magnitude_of p (bits_of_magnitude p u infinity n) * 2 ^ u = n"
proof -
  define s where "s = max u (bit_count n - (p + 1))"
  have "n < 2 ^ (p + 1 + t)" using assms(1,2) by (simp add: power_add)
  then have "bit_count n \<le> p + 1 + t" by (rule bit_count_le)
  with assms(3) have "s \<le> t" by (simp add: s_def)
  then obtain k where k: "n = k * 2 ^ s"
    using assms(1) by (metis dvd_def dvd_mult le_imp_power_dvd mult.commute)
  have b: "bits_of_magnitude p u infinity n = (s - u) * 2 ^ p + k"
  proof -
    have "bits_of_magnitude p u infinity n = min infinity ((s - u) * 2 ^ p + round_half_even n s)"
      unfolding bits_of_magnitude_def s_def Let_def ..
    moreover have "round_half_even n s = k" by (simp add: k)
    ultimately show ?thesis using assms(4) by simp
  qed
  show ?thesis
  proof (cases "n = 0")
    case True
    with k have "k = 0" by simp
    moreover have "s = u" using True by (simp add: s_def bit_count.simps)
    ultimately have "bits_of_magnitude p u infinity n = 0" using b by simp
    then show ?thesis by (simp add: True magnitude_of_def)
  next
    case False
    note bc = bit_count_bounds [of n]
    have kb: "k < 2 ^ (p + 1)"
    proof -
      have "bit_count n \<le> p + 1 + s" by (simp add: s_def)
      then have "n < 2 ^ (p + 1 + s)" using bc False
        by (meson less_le_trans one_le_numeral power_increasing neq0_conv)
      then show ?thesis by (simp add: k power_add)
    qed
    show ?thesis
    proof (cases "s = u")
      case True
      then have b': "bits_of_magnitude p u infinity n = k" by (simp add: b)
      have "k div 2 ^ p < 2" using kb by (simp add: less_mult_imp_div_less)
      then have "k div 2 ^ p = 0 \<or> k div 2 ^ p = 1" by linarith
      moreover have "2 ^ p + k mod 2 ^ p = k" if "k div 2 ^ p = 1" using that div_mult_mod_eq [of k "2 ^ p"] by simp
      ultimately show ?thesis unfolding b' using True by (auto simp: k magnitude_of_def)
    next
      case False
      then have s: "s = bit_count n - (p + 1)" "u < s" by (simp_all add: s_def max_def split: if_splits)
      then have "bit_count n - 1 = p + s" by simp
      with bc \<open>n \<noteq> 0\<close> have "2 ^ (p + s) \<le> k * 2 ^ s" by (simp add: k)
      then have kl: "2 ^ p \<le> k" by (simp add: power_add)
      have kd: "k div 2 ^ p = 1" by (rule div_nat_eqI) (use kl kb in simp_all)
      have d: "((s - u) * 2 ^ p + k) div 2 ^ p = Suc (s - u)" "((s - u) * 2 ^ p + k) mod 2 ^ p = k - 2 ^ p"
        using kl kb kd by (simp_all add: le_mod_geq)
      have "(2 :: nat) ^ s = 2 ^ (s - u) * 2 ^ u" using s(2) by (simp flip: power_add)
      moreover have "magnitude_of p ((s - u) * 2 ^ p + k) = k * 2 ^ (s - u)" using kl by (simp only: magnitude_of_def d) simp
      ultimately show ?thesis unfolding b by (simp add: k)
    qed
  qed
qed

text \<open>Words and their fields.\<close>

lemma f64_fields:
  assumes "m < 2 ^ 63"
  shows "f64_mag (f64_bits neg m) = m" "f64_negative (f64_bits neg m) = neg"
proof -
  have "unat (f64_bits neg m) = m + (if neg then 2 ^ 63 else 0)"
    unfolding f64_bits_def by (subst unat_of_nat) (use assms in simp)
  then show "f64_mag (f64_bits neg m) = m" "f64_negative (f64_bits neg m) = neg"
    using assms by (auto simp: f64_mag_def f64_negative_def)
qed

lemma f32_fields:
  assumes "m < 2 ^ 31"
  shows "f32_mag (f32_bits neg m) = m" "f32_negative (f32_bits neg m) = neg"
proof -
  have "unat (f32_bits neg m) = m + (if neg then 2 ^ 31 else 0)"
    unfolding f32_bits_def by (subst unat_of_nat) (use assms in simp)
  then show "f32_mag (f32_bits neg m) = m" "f32_negative (f32_bits neg m) = neg"
    using assms by (auto simp: f32_mag_def f32_negative_def)
qed

lemma f32_bits_fields: "f32_bits (f32_negative w) (f32_mag w) = w"
proof -
  have "unat w < 2 ^ 32" using unsigned_less [of w, where ?'a = nat] by simp
  then have "f32_mag w + (if f32_negative w then 2 ^ 31 else 0) = unat w"
    by (auto simp: f32_mag_def f32_negative_def le_mod_geq)
  then have "f32_bits (f32_negative w) (f32_mag w) = word_of_nat (unat w)" unfolding f32_bits_def by (rule arg_cong)
  also have "\<dots> = w" by simp
  finally show ?thesis .
qed

lemma f32_finite_mag: "f32_finite w \<longleftrightarrow> f32_mag w < f32_infinity"
proof -
  have "unat (take_bit 8 (drop_bit 23 w)) = (unat w div 2 ^ 23) mod 2 ^ 8"
    by (simp add: take_bit_eq_mod drop_bit_eq_div unat_div unat_mod)
  also have "\<dots> = f32_mag w div 2 ^ 23"
    using mod_mult2_eq [of "unat w" "2 ^ 23" "2 ^ 8"] by (simp add: f32_mag_def)
  finally have "take_bit 8 (drop_bit 23 w) = 255 \<longleftrightarrow> f32_mag w div 2 ^ 23 = 255"
    using word_unat_eq_iff [of "take_bit 8 (drop_bit 23 w)" 255] by simp
  moreover have "f32_mag w < 2 ^ 31" by (simp add: f32_mag_def)
  ultimately show ?thesis by (auto simp: f32_finite_def f32_infinity_def)
qed

lemma magnitude_of_split:
  assumes "w < 2 ^ (p + b)" "0 < p"
  shows "\<exists>q t. magnitude_of p w = q * 2 ^ t \<and> q < 2 ^ (p + 1) \<and> t < 2 ^ b"
proof (cases "w div 2 ^ p = 0")
  case True
  then have "w < 2 ^ (p + 1)" by (simp add: div_eq_0_iff)
  with True show ?thesis by (intro exI [of _ w] exI [of _ 0]) (simp add: magnitude_of_def)
next
  case False
  have "w div 2 ^ p < 2 ^ b" using assms by (simp add: power_add less_mult_imp_div_less mult.commute)
  with False show ?thesis
    by (intro exI [of _ "2 ^ p + w mod 2 ^ p"] exI [of _ "w div 2 ^ p - 1"]) (simp add: magnitude_of_def)
qed

lemma magnitude_of_f32:
  assumes "m < f32_infinity"
  obtains q t where "magnitude_of 23 m * 2 ^ 925 = q * 2 ^ t" "q < 2 ^ 24" "925 \<le> t" "t < 1181"
proof -
  have "m < 2 ^ (23 + 8)" using assms by (simp add: f32_infinity_def)
  then obtain q t where "magnitude_of 23 m = q * 2 ^ t" "q < 2 ^ (23 + 1)" "t < 2 ^ 8"
    using magnitude_of_split [of m 23 8] by auto
  then have "magnitude_of 23 m * 2 ^ 925 = q * 2 ^ (t + 925)" "q < 2 ^ 24" "925 \<le> t + 925" "t + 925 < 1181"
    unfolding power_add by (simp_all only: mult.assoc) simp_all
  then show thesis by (rule that)
qed

lemma f32_bits_to_f64:
  assumes "m < f32_infinity"
  defines "b \<equiv> bits_of_magnitude 52 0 f64_infinity (magnitude_of 23 m * 2 ^ 925)"
  shows "b < f64_infinity" "magnitude_of 52 b = magnitude_of 23 m * 2 ^ 925"
proof -
  obtain q t where qt: "magnitude_of 23 m * 2 ^ 925 = q * 2 ^ t" "q < 2 ^ 24" "925 \<le> t" "t < 1181"
    using magnitude_of_f32 [OF assms(1)] .
  define n where "n = magnitude_of 23 m * 2 ^ 925"
  define s where "s = bit_count n - 53"
  have "n < 2 ^ (24 + t)" unfolding n_def qt(1) power_add using qt(2) by (simp only: mult_less_cancel2) simp
  then have bc: "bit_count n \<le> 24 + t" by (rule bit_count_le)
  have "s \<le> t" using bc by (simp add: s_def)
  then obtain k where k: "n = k * 2 ^ s"
    unfolding n_def qt(1) by (metis dvd_def dvd_mult le_imp_power_dvd mult.commute)
  have "n < 2 ^ (53 + s)"
  proof (cases "n = 0")
    case False
    then have "n < 2 ^ bit_count n" using bit_count_bounds by blast
    also have "\<dots> \<le> 2 ^ (53 + s)" by (rule power_increasing) (simp_all add: s_def)
    finally show ?thesis .
  qed simp
  then have "k < 2 ^ 53" unfolding k power_add by (simp only: mult_less_cancel2)
  moreover have "s \<le> 1152" using bc qt(4) by (simp add: s_def)
  ultimately have "s * 2 ^ 52 + k < f64_infinity" by (simp add: f64_infinity_def)
  moreover have "b = min f64_infinity (s * 2 ^ 52 + k)"
  proof -
    have "round_half_even n s = k" by (simp add: k)
    moreover have "max 0 (bit_count n - (52 + 1)) = s" by (simp add: s_def)
    ultimately show ?thesis unfolding b_def n_def [symmetric] bits_of_magnitude_def Let_def by simp
  qed
  ultimately show lt: "b < f64_infinity" by simp
  show "magnitude_of 52 b = magnitude_of 23 m * 2 ^ 925"
    using magnitude_of_bits [OF qt(1) _ _ lt [unfolded b_def]] qt(2) by (simp add: b_def)
qed

lemma f64_of_f32_finite:
  assumes "f32_finite w"
  shows "\<exists>b. f64_of_f32 w = f64_bits (f32_negative w) b \<and> b < f64_infinity \<and>
    magnitude_of 52 b = magnitude_of 23 (f32_mag w) * 2 ^ 925"
  using assms f32_bits_to_f64 [of "f32_mag w"]
  by (simp add: f32_finite_mag f64_of_f32_def f32_is_nan_def) auto

text \<open>Widening is exact: casting a finite \<open>f32\<close> to \<open>f64\<close> and back is the identity.\<close>

lemma f32_of_f64_of_f32:
  assumes "f32_finite w"
  shows "f32_of_f64 (f64_of_f32 w) = w"
proof -
  from f64_of_f32_finite [OF assms] obtain b where b: "f64_of_f32 w = f64_bits (f32_negative w) b"
    "b < f64_infinity" "magnitude_of 52 b = magnitude_of 23 (f32_mag w) * 2 ^ 925" by blast
  from b(2) have "b < 2 ^ 63" by (simp add: f64_infinity_def)
  with b assms bits_of_magnitude_of [of "f32_mag w" f32_infinity 23 925] show ?thesis
    by (simp add: f32_of_f64_def f64_fields f64_is_nan_def f32_finite_mag f32_bits_fields)
qed

text \<open>A sum that starts at zero starts with its first term; only a negative zero loses its sign.\<close>

lemma f64_add_zero:
  assumes "f32_finite w" "w \<noteq> f32_bits True 0"
  shows "f64_add (f64_bits False 0) (f64_of_f32 w) = f64_of_f32 w"
proof -
  from f64_of_f32_finite [OF assms(1)] obtain b where b: "f64_of_f32 w = f64_bits (f32_negative w) b"
    "b < f64_infinity" "magnitude_of 52 b = magnitude_of 23 (f32_mag w) * 2 ^ 925" by blast
  from b(2) have lt: "b < 2 ^ 63" by (simp add: f64_infinity_def)
  have zero: "magnitude_of 52 b = 0 \<longleftrightarrow> b = 0" "0 < magnitude_of 52 b \<longleftrightarrow> 0 < b" for b
    by (auto simp: magnitude_of_def)
  have neg: "\<not> f32_negative w" if "b = 0"
  proof
    assume n: "f32_negative w"
    from that b(3) have "magnitude_of 23 (f32_mag w) = 0" by (simp add: magnitude_of_def)
    then have "f32_mag w = 0" by (auto simp: magnitude_of_def split: if_splits)
    with n f32_bits_fields [of w] assms(2) show False by simp
  qed
  have rt: "bits_of_magnitude 52 0 f64_infinity (magnitude_of 52 b) = b"
    using bits_of_magnitude_of [OF b(2), of 52 0] by simp
  from lt b(1,2) neg show ?thesis
    by (cases "b = 0") (auto simp: f64_add_def f64_is_nan_def f64_fields f64_value_def zero rt magnitude_of_def [of _ 0] Let_def)
qed

end
