(* ===== verification/Multivector.thy ===== *)
theory Multivector
  imports Floats "HOL-Library.AList"
begin

text \<open>
  Model of \<open>src/multivector.rs\<close>: the late-interaction scoring of multi-vector queries. The scorer
  replaces the planner's nodes (\<open>rewrite\<close>), scores rows exactly (\<open>row_distance\<close>, \<open>exact_batch\<close>) or
  from the candidates of one index search a query vector (\<open>indexed_batch\<close>), and the result window is
  applied after the final sort (\<open>apply_result_window\<close>). Distance kernels, path parsing and DataFusion's
  node and batch constructors are the fields of \<open>mv_api\<close>.
\<close>

subsection \<open>Arrow data\<close>

text \<open>One row of a vector column: the stored subvectors, flattened.\<close>

record stored_vectors =
  sv_length :: nat
  sv_dimension :: nat
  sv_null_count :: nat
  sv_values :: query_array
  sv_value_null_count :: nat

datatype list_item = FixedSizeListItem stored_vectors | OtherItem

datatype 'x column =
    UInt64Column "u64 option list"
  | Float32Column "u32 option list"
  | ListColumn "list_item option list"
  | StructColumn "bool list" "(string \<times> 'x column) list"
  | OtherColumn "'x option list"

record 'x row_batch =
  mb_num_rows :: nat
  mb_columns :: "(string \<times> 'x column) list"

record ('m, 'k, 'x) mv_api =
  ma_distance :: "'m \<Rightarrow> query_array \<Rightarrow> query_array \<Rightarrow> u32"
  ma_execution_error :: "string \<Rightarrow> lance_error"
  ma_join_error :: "payload \<Rightarrow> lance_error"
  ma_parse_field_path :: "string \<Rightarrow> string + string list"
  ma_check_batch :: "string list \<Rightarrow> 'x column list \<Rightarrow> unit outcome"
  ma_with_new_children :: "'k \<Rightarrow> 'k list \<Rightarrow> unit outcome"
  ma_distance_column :: "'k \<Rightarrow> unit outcome"

fun column_is_null :: "'x column \<Rightarrow> nat \<Rightarrow> bool" where
  "column_is_null (UInt64Column vs) i \<longleftrightarrow> vs ! i = None"
| "column_is_null (Float32Column vs) i \<longleftrightarrow> vs ! i = None"
| "column_is_null (ListColumn vs) i \<longleftrightarrow> vs ! i = None"
| "column_is_null (StructColumn valid _) i \<longleftrightarrow> \<not> valid ! i"
| "column_is_null (OtherColumn vs) i \<longleftrightarrow> vs ! i = None"

text \<open>\<open>filter_record_batch\<close> of Arrow, on the lists.\<close>

definition select_marked :: "bool list \<Rightarrow> 'a list \<Rightarrow> 'a list" where
  "select_marked marks xs = map snd (filter fst (zip marks xs))"

fun filter_column :: "bool list \<Rightarrow> 'x column \<Rightarrow> 'x column" where
  "filter_column marks (UInt64Column vs) = UInt64Column (select_marked marks vs)"
| "filter_column marks (Float32Column vs) = Float32Column (select_marked marks vs)"
| "filter_column marks (ListColumn vs) = ListColumn (select_marked marks vs)"
| "filter_column marks (StructColumn valid children) =
     StructColumn (select_marked marks valid) (map (\<lambda>(n, c). (n, filter_column marks c)) children)"
| "filter_column marks (OtherColumn vs) = OtherColumn (select_marked marks vs)"

text \<open>\<open>chunks_exact\<close>: the full chunks; what is left over is dropped.\<close>

function chunks_exact :: "nat \<Rightarrow> 'a list \<Rightarrow> 'a list list" where
  "chunks_exact n xs = (if n = 0 \<or> length xs < n then [] else take n xs # chunks_exact n (drop n xs))"
  by auto
termination by (relation "measure (\<lambda>(n, xs). length xs)") auto

declare chunks_exact.simps [simp del]

fun array_chunks :: "nat \<Rightarrow> query_array \<Rightarrow> query_array list" where
  "array_chunks n (Float32Array xs) = map Float32Array (chunks_exact n xs)"
| "array_chunks n (Float16Array xs) = map Float16Array (chunks_exact n xs)"
| "array_chunks n (Float64Array xs) = map Float64Array (chunks_exact n xs)"
| "array_chunks n (UInt8Array xs) = map UInt8Array (chunks_exact n xs)"
| "array_chunks n (Int8Array xs) = map Int8Array (chunks_exact n xs)"

subsection \<open>Exact scoring\<close>

text \<open>The least defined distance from one query vector to the stored ones, by \<open>total_cmp\<close>.\<close>

definition best_distance :: "u32 list \<Rightarrow> u32 option" where
  "best_distance ds =
     (case filter (\<lambda>d. \<not> f32_is_nan d) ds of [] \<Rightarrow> None | d # rest \<Rightarrow> Some (foldl f32_total_min d rest))"

fun sum_minima :: "(query_array \<Rightarrow> query_array \<Rightarrow> u32) \<Rightarrow> query_array list \<Rightarrow> query_array list \<Rightarrow> u64 \<Rightarrow> u64 option" where
  "sum_minima dist [] vectors score = Some score"
| "sum_minima dist (q # qs) vectors score =
     (case best_distance (map (dist q) vectors) of
        None \<Rightarrow> None
      | Some best \<Rightarrow> sum_minima dist qs vectors (f64_add score (f64_of_f32 best)))"

definition row_distance ::
  "('m, 'k, 'x) mv_api \<Rightarrow> prim_type \<Rightarrow> query_array \<Rightarrow> stored_vectors \<Rightarrow> 'm \<Rightarrow> u32 option outcome" where
  "row_distance api element_type query vectors metric =
     (let invalid = ma_execution_error api; dimension = sv_dimension vectors in
      reject_if (array_type query \<noteq> element_type) (invalid ''multi-vector query element type mismatch'') (
      reject_if (array_type (sv_values vectors) \<noteq> element_type) (invalid ''multi-vector stored element type mismatch'') (
      reject_if (sv_null_count vectors \<noteq> 0 \<or> sv_value_null_count vectors \<noteq> 0 \<or> \<not> multivector_valid (sv_values vectors))
        (invalid ''multi-vector stored subvectors must contain only finite, non-null elements'') (
      if dimension = 0 then Panic (StrPayload ''chunk size must be non-zero'')
      else case sum_minima (ma_distance api metric) (array_chunks dimension query)
                  (array_chunks dimension (sv_values vectors)) (f64_bits False 0) of
             None \<Rightarrow> Ok None
           | Some score \<Rightarrow>
               reject_if (\<not> f32_finite (f32_of_f64 score)) (invalid ''multi-vector distance is not finite'')
                 (Ok (Some (f32_of_f64 score)))))))"

fun walk_fields :: "(string \<Rightarrow> lance_error) \<Rightarrow> string list \<Rightarrow> string \<Rightarrow> 'x column \<Rightarrow> 'x column outcome" where
  "walk_fields invalid [] column c = Ok c"
| "walk_fields invalid (part # parts) column c =
     obind (ok_or (case c of StructColumn _ children \<Rightarrow> map_of children part | _ \<Rightarrow> None)
       (invalid (''missing struct field '' @ quoted part @ '' in vector column '' @ quoted column)))
       (walk_fields invalid parts column)"

definition vector_column :: "('m, 'k, 'x) mv_api \<Rightarrow> 'x row_batch \<Rightarrow> string \<Rightarrow> 'x column outcome" where
  "vector_column api batch column =
     (let invalid = ma_execution_error api in
      case map_of (mb_columns batch) column of
        Some c \<Rightarrow> Ok c
      | None \<Rightarrow> (case ma_parse_field_path api column of
            Inl e \<Rightarrow> Err (invalid (''invalid vector column path '' @ quoted column @ '': '' @ e))
          | Inr [] \<Rightarrow> Err (invalid ''empty vector column path'')
          | Inr (root # parts) \<Rightarrow>
              obind (ok_or (map_of (mb_columns batch) root) (invalid (''missing vector column '' @ quoted column)))
                (walk_fields invalid parts column)))"

definition score_row ::
  "('m, 'k, 'x) mv_api \<Rightarrow> query_array \<Rightarrow> 'm \<Rightarrow> bool \<Rightarrow> list_item option \<Rightarrow> u32 option outcome" where
  "score_row api query metric id_is_null vector =
     (if id_is_null then Ok None
      else case vector of
        None \<Rightarrow> Ok None
      | Some OtherItem \<Rightarrow> Err (ma_execution_error api ''multi-vector row must be a FixedSizeList'')
      | Some (FixedSizeListItem v) \<Rightarrow>
          if sv_length v = 0 then Ok None
          else if array_type query \<in> {Float16, Float32, Float64}
               then row_distance api (array_type query) query v metric
               else Err (ma_execution_error api ''unsupported multi-vector element type''))"

definition row_id_is_null :: "'x column option \<Rightarrow> nat \<Rightarrow> bool" where
  "row_id_is_null ids i \<longleftrightarrow> (case ids of Some c \<Rightarrow> column_is_null c i | None \<Rightarrow> False)"

fun score_rows ::
  "('m, 'k, 'x) mv_api \<Rightarrow> query_array \<Rightarrow> 'm \<Rightarrow> 'x column option \<Rightarrow> nat \<Rightarrow> list_item option list \<Rightarrow> u32 option list outcome" where
  "score_rows api query metric ids i [] = Ok []"
| "score_rows api query metric ids i (v # vs) =
     obind (score_row api query metric (row_id_is_null ids i) v) (\<lambda>s.
     obind (score_rows api query metric ids (Suc i) vs) (\<lambda>rest. Ok (s # rest)))"

definition output_column ::
  "('m, 'k, 'x) mv_api \<Rightarrow> 'x row_batch \<Rightarrow> u32 option list \<Rightarrow> string \<Rightarrow> 'x column outcome" where
  "output_column api batch scores field =
     (if field = ''_distance'' then Ok (Float32Column scores)
      else ok_or (map_of (mb_columns batch) field)
             (ma_execution_error api (''missing score output column '' @ field)))"

text \<open>The schema is the list of its fields, each with the empty column of its type.\<close>

definition exact_batch ::
  "('m, 'k, 'x) mv_api \<Rightarrow> 'x row_batch \<Rightarrow> query_array \<Rightarrow> string \<Rightarrow> 'm \<Rightarrow> (string \<times> 'x column) list \<Rightarrow>
     (string \<times> 'x column) list outcome" where
  "exact_batch api batch query column metric schema =
     (if mb_num_rows batch = 0 then Ok schema
      else obind (vector_column api batch column) (\<lambda>array.
        case array of
          ListColumn vectors \<Rightarrow>
            obind (score_rows api query metric (map_of (mb_columns batch) ''_rowid'') 0 vectors) (\<lambda>scores.
            obind (otraverse (output_column api batch scores) (map fst schema)) (\<lambda>columns.
            obind (ma_check_batch api (map fst schema) columns) (\<lambda>_.
            Ok (zip (map fst schema) (map (filter_column (map (\<lambda>s. s \<noteq> None) scores)) columns)))))
        | _ \<Rightarrow> Err (ma_execution_error api ''multi-vector scoring requires a List column'')))"

subsection \<open>Scoring from index candidates\<close>

text \<open>A hash map is an association list; the order of its entries means nothing.\<close>

fun reduce_rows ::
  "(string \<Rightarrow> lance_error) \<Rightarrow> (u64 option \<times> u32 option) list \<Rightarrow> (u64 \<times> u32) list \<times> u32 option \<Rightarrow>
     ((u64 \<times> u32) list \<times> u32 option) outcome" where
  "reduce_rows invalid [] acc = Ok acc"
| "reduce_rows invalid ((rid, distance) # others) (rows, maximum) =
     (case (rid, distance) of
        (Some i, Some d) \<Rightarrow>
          if \<not> f32_finite d then Err (invalid ''indexed multi-vector candidate has invalid row ID or distance'')
          else reduce_rows invalid others
                 (AList.update i (case map_of rows i of Some old \<Rightarrow> f32_min old d | None \<Rightarrow> d) rows,
                  Some (case maximum of Some old \<Rightarrow> f32_max old d | None \<Rightarrow> d))
      | _ \<Rightarrow> Err (invalid ''indexed multi-vector candidate has invalid row ID or distance''))"

definition candidate_rows :: "(string \<Rightarrow> lance_error) \<Rightarrow> 'x row_batch \<Rightarrow> (u64 option \<times> u32 option) list outcome" where
  "candidate_rows invalid batch =
     obind (case map_of (mb_columns batch) ''_rowid'' of
         Some (UInt64Column ids) \<Rightarrow> Ok ids
       | _ \<Rightarrow> Err (invalid ''indexed multi-vector scorer requires row IDs'')) (\<lambda>ids.
     obind (case map_of (mb_columns batch) ''_distance'' of
         Some (Float32Column distances) \<Rightarrow> Ok distances
       | _ \<Rightarrow> Err (invalid ''indexed multi-vector scorer requires distances'')) (\<lambda>distances.
     Ok (zip ids distances)))"

text \<open>One query vector's whole stream, which may be several batches.\<close>

fun reduce_stream ::
  "(string \<Rightarrow> lance_error) \<Rightarrow> 'x row_batch outcome list \<Rightarrow> (u64 \<times> u32) list \<times> u32 option \<Rightarrow>
     ((u64 \<times> u32) list \<times> u32 option) outcome" where
  "reduce_stream invalid [] acc = Ok acc"
| "reduce_stream invalid (item # items) acc =
     obind item (\<lambda>batch. obind (candidate_rows invalid batch) (\<lambda>rows.
     obind (reduce_rows invalid rows acc) (reduce_stream invalid items)))"

definition reduce_query ::
  "(string \<Rightarrow> lance_error) \<Rightarrow> 'x row_batch outcome list \<Rightarrow> ((u64 \<times> u32) list \<times> u32) outcome" where
  "reduce_query invalid items =
     obind (reduce_stream invalid items ([], None)) (\<lambda>(rows, maximum).
     Ok (rows, case maximum of Some m \<Rightarrow> m | None \<Rightarrow> f32_one))"

text \<open>Rows of earlier queries take this query's distance, or its maximum where it missed them; a row
  that appears for the first time takes the maxima of the queries that missed it before.\<close>

fun merge_queries ::
  "((u64 \<times> u32) list \<times> u32) list \<Rightarrow> (u64 \<times> u64) list \<Rightarrow> u64 \<Rightarrow> (u64 \<times> u64) list" where
  "merge_queries [] results missed = results"
| "merge_queries ((rows, maximum) # queries) results missed =
     (let known = map (\<lambda>(id, score). (id, f64_add score (f64_of_f32 (case map_of rows id of Some d \<Rightarrow> d | None \<Rightarrow> maximum)))) results;
          fresh = map (\<lambda>(id, d). (id, f64_add (f64_of_f32 d) missed)) (filter (\<lambda>(id, d). id \<notin> fst ` set known) rows)
      in merge_queries queries (known @ fresh) (f64_add missed (f64_of_f32 maximum)))"

text \<open>The children's streams are read concurrently; the model takes the failure of the first in order.\<close>

definition indexed_batch ::
  "('m, 'k, 'x) mv_api \<Rightarrow> 'x row_batch outcome list list \<Rightarrow> string list \<Rightarrow> (string \<times> 'x column) list outcome" where
  "indexed_batch api inputs schema =
     obind (otraverse (reduce_query (ma_execution_error api)) inputs) (\<lambda>queries.
     let results = merge_queries queries [] (f64_bits False 0);
         columns = [Float32Column (map (\<lambda>r. Some (f32_of_f64 (snd r))) results),
                    UInt64Column (map (\<lambda>r. Some (fst r)) results)]
     in obind (ma_check_batch api schema columns) (\<lambda>_. Ok (zip schema columns)))"

subsection \<open>The plan\<close>

datatype 'm scoring = Exact query_array string 'm | Indexed

text \<open>The plan nodes the rewriting tells apart. A scoring node keeps the node that it replaces, whose
  children it presents as its own.\<close>

datatype 'm mv_kind =
    KnnVectorDistance bool query_array string 'm
  | MultivectorScoring
  | MultiVectorScore "'m scoring" "'m mv_kind"
  | StrictBatchSize usize
  | SortByDistance
  | CoalescePartitions
  | GlobalLimit usize "usize option"
  | OtherNode string

datatype 'm mv_plan = MvPlan (mv_kind: "'m mv_kind") (mv_children: "'m mv_plan list")

text \<open>\<open>execute\<close> of the scoring node: exact scoring maps the child's stream, in order, on worker threads (a
  panic there surfaces as the join error); indexed scoring yields one batch from all the children.\<close>

definition execute_scoring ::
  "('m, 'k, 'x) mv_api \<Rightarrow> 'm scoring \<Rightarrow> (string \<times> 'x column) list \<Rightarrow> 'x row_batch outcome list list \<Rightarrow>
     (string \<times> 'x column) list outcome list" where
  "execute_scoring api mode schema inputs =
     (case mode of
        Exact query column metric \<Rightarrow>
          map (\<lambda>item. obind item (\<lambda>batch.
            case exact_batch api batch query column metric schema of
              Panic p \<Rightarrow> Err (ma_join_error api p)
            | result \<Rightarrow> result)) (inputs ! 0)
      | Indexed \<Rightarrow> [indexed_batch api inputs (map fst schema)])"

definition score_node :: "(string \<Rightarrow> lance_error) \<Rightarrow> 'm mv_kind \<Rightarrow> 'm mv_kind outcome" where
  "score_node invalid kind =
     (case kind of
        KnnVectorDistance is_batch query column metric \<Rightarrow>
          reject_if is_batch (invalid ''expected one logical multi-vector query, not batch queries'')
            (Ok (MultiVectorScore (Exact query column metric) kind))
      | MultivectorScoring \<Rightarrow> Ok (MultiVectorScore Indexed kind)
      | _ \<Rightarrow> Ok kind)"

fun rewrite_plan :: "('m, 'm mv_plan, 'x) mv_api \<Rightarrow> 'm mv_plan \<Rightarrow> 'm mv_plan outcome" where
  "rewrite_plan api (MvPlan kind children) =
     obind (otraverse (rewrite_plan api) children) (\<lambda>new_children.
     obind (if new_children = [] then Ok () else ma_with_new_children api (MvPlan kind children) new_children) (\<lambda>_.
     obind (score_node (ma_execution_error api) kind) (\<lambda>k. Ok (MvPlan k new_children))))"

definition sorted_window :: "('m, 'm mv_plan, 'x) mv_api \<Rightarrow> usize \<Rightarrow> usize option \<Rightarrow> 'm mv_plan \<Rightarrow> 'm mv_plan outcome" where
  "sorted_window api offset limit plan =
     obind (ma_distance_column api plan) (\<lambda>_.
     Ok (MvPlan (GlobalLimit offset limit) [MvPlan SortByDistance [MvPlan CoalescePartitions [plan]]]))"

fun apply_result_window ::
  "('m, 'm mv_plan, 'x) mv_api \<Rightarrow> usize \<Rightarrow> usize option \<Rightarrow> 'm mv_plan \<Rightarrow> 'm mv_plan outcome" where
  "apply_result_window api offset limit (MvPlan kind children) =
     (case (kind, children) of
        (StrictBatchSize n, child # _) \<Rightarrow>
          obind (apply_result_window api offset limit child) (\<lambda>input.
          obind (ma_with_new_children api (MvPlan kind children) [input]) (\<lambda>_. Ok (MvPlan kind [input])))
      | (StrictBatchSize n, []) \<Rightarrow> Panic (StringPayload ''index out of bounds: the len is 0 but the index is 0'')
      | _ \<Rightarrow> sorted_window api offset limit (MvPlan kind children))"

subsection \<open>Lemmas\<close>

text \<open>What a query vector's stream holds, and the distance it gives to a row: the least of the row's
  candidates, the greatest of all when the row is missing, 1.0 when there are none.\<close>

definition candidates_of :: "'x row_batch outcome list \<Rightarrow> (u64 \<times> u32) list" where
  "candidates_of items = concat (map (\<lambda>item.
     case item of
       Ok batch \<Rightarrow> (case (map_of (mb_columns batch) ''_rowid'', map_of (mb_columns batch) ''_distance'') of
           (Some (UInt64Column ids), Some (Float32Column ds)) \<Rightarrow>
             map (\<lambda>(i, d). (the i, the d)) (zip ids ds)
         | _ \<Rightarrow> [])
     | _ \<Rightarrow> []) items)"

definition distances_to :: "(u64 \<times> u32) list \<Rightarrow> u64 \<Rightarrow> u32 list" where
  "distances_to cands i = map snd (filter (\<lambda>c. fst c = i) cands)"

definition fold_with :: "(u32 \<Rightarrow> u32 \<Rightarrow> u32) \<Rightarrow> u32 list \<Rightarrow> u32 option \<Rightarrow> u32 option" where
  "fold_with f ds start = foldl (\<lambda>acc d. Some (case acc of Some old \<Rightarrow> f old d | None \<Rightarrow> d)) start ds"

lemma fold_with_simps [simp]:
  "fold_with f [] start = start"
  "fold_with f (d # ds) start = fold_with f ds (Some (case start of Some old \<Rightarrow> f old d | None \<Rightarrow> d))"
  by (simp_all add: fold_with_def)

lemma fold_with_append [simp]: "fold_with f (xs @ ys) start = fold_with f ys (fold_with f xs start)"
  by (simp add: fold_with_def)

lemma fold_with_Some: "fold_with f ds (Some x) \<noteq> None"
  by (induction ds arbitrary: x) simp_all

lemma fold_with_None: "fold_with f ds None = None \<longleftrightarrow> ds = []"
  by (cases ds) (simp_all add: fold_with_Some)

definition query_distance :: "(u64 \<times> u32) list \<Rightarrow> u64 \<Rightarrow> u32" where
  "query_distance cands i =
     (case fold_with f32_min (distances_to cands i) None of
        Some d \<Rightarrow> d
      | None \<Rightarrow> (case fold_with f32_max (map snd cands) None of Some d \<Rightarrow> d | None \<Rightarrow> f32_one))"

lemma fold_with_min:
  "fold_with f32_min ds (Some x) = Some m \<Longrightarrow> m \<in> set (x # ds) \<and> list_all (\<lambda>d. f32_key m \<le> f32_key d) (x # ds)"
proof (induction ds arbitrary: x)
  case (Cons d ds)
  then have "m \<in> set (f32_min x d # ds)" "list_all (\<lambda>d. f32_key m \<le> f32_key d) (f32_min x d # ds)"
    using Cons.IH [of "f32_min x d"] by simp_all
  then show ?case by (auto simp: f32_min_def f32_ge_def split: if_splits)
qed simp

lemma fold_with_max:
  "fold_with f32_max ds (Some x) = Some m \<Longrightarrow> m \<in> set (x # ds) \<and> list_all (\<lambda>d. f32_key d \<le> f32_key m) (x # ds)"
proof (induction ds arbitrary: x)
  case (Cons d ds)
  then have "m \<in> set (f32_max x d # ds)" "list_all (\<lambda>d. f32_key d \<le> f32_key m) (f32_max x d # ds)"
    using Cons.IH [of "f32_max x d"] by simp_all
  then show ?case by (auto simp: f32_max_def f32_ge_def split: if_splits)
qed simp

lemma distances_to_eq_Nil: "distances_to cands i = [] \<longleftrightarrow> i \<notin> fst ` set cands"
  by (force simp: distances_to_def filter_empty_conv)

text \<open>The spec function is what its name says.\<close>

lemma query_distance_found:
  assumes "i \<in> fst ` set cands"
  shows "(i, query_distance cands i) \<in> set cands \<and>
    list_all (\<lambda>d. f32_key (query_distance cands i) \<le> f32_key d) (distances_to cands i)"
proof -
  from assms have "distances_to cands i \<noteq> []" by (simp add: distances_to_eq_Nil)
  then obtain d ds where d: "distances_to cands i = d # ds" by (cases "distances_to cands i") simp_all
  then obtain m where m: "fold_with f32_min ds (Some d) = Some m" using fold_with_Some by fastforce
  with d have q: "query_distance cands i = m" by (simp add: query_distance_def)
  from fold_with_min [OF m] d have "m \<in> set (distances_to cands i)"
    "list_all (\<lambda>d. f32_key m \<le> f32_key d) (distances_to cands i)" by simp_all
  then show ?thesis by (auto simp: q distances_to_def)
qed

lemma query_distance_missed:
  assumes "i \<notin> fst ` set cands" "cands \<noteq> []"
  shows "query_distance cands i \<in> snd ` set cands \<and>
    list_all (\<lambda>c. f32_key (snd c) \<le> f32_key (query_distance cands i)) cands"
proof -
  from assms obtain c cs where c: "cands = c # cs" by (cases cands) simp_all
  then obtain m where m: "fold_with f32_max (map snd cs) (Some (snd c)) = Some m" using fold_with_Some by fastforce
  with c assms have "query_distance cands i = m"
    by (simp add: query_distance_def distances_to_eq_Nil [THEN iffD2])
  with fold_with_max [OF m] c show ?thesis by (auto simp: list_all_iff)
qed

lemma reduce_rows_Ok:
  assumes "reduce_rows invalid cs (rows, mx) = Ok (rows', mx')" "distinct (map fst rows)"
  shows "(let ps = map (\<lambda>(i, d). (the i, the d)) cs in
    list_all (\<lambda>(i, d). i \<noteq> None \<and> d \<noteq> None) cs \<and> distinct (map fst rows') \<and>
    (\<forall>i. map_of rows' i = fold_with f32_min (distances_to ps i) (map_of rows i)) \<and>
    mx' = fold_with f32_max (map snd ps) mx)"
  using assms
proof (induction invalid cs "(rows, mx)" arbitrary: rows mx rule: reduce_rows.induct)
  case (2 invalid rid distance others rows mx)
  from "2.prems"(1) obtain i d where s: "rid = Some i" "distance = Some d" "f32_finite d"
    by (auto split: option.splits if_splits)
  let ?rows = "AList.update i (case map_of rows i of Some old \<Rightarrow> f32_min old d | None \<Rightarrow> d) rows"
  have "distinct (map fst ?rows)" using "2.prems"(2) by (simp add: distinct_update)
  with "2.prems"(1) "2.hyps" [of rid distance i d] s show ?case
    by (auto simp: Let_def distances_to_def update_conv')
qed (simp add: distances_to_def)

lemma map_of_map_key: "map_of (map (\<lambda>(k, v). (k, f k v)) xs) j = map_option (f j) (map_of xs j)"
  by (induction xs) auto

lemma map_of_filter_key: "map_of (filter (\<lambda>(k, v). P k) xs) j = (if P j then map_of xs j else None)"
  by (induction xs) auto

lemma map_fst_map_key [simp]: "map fst (map (\<lambda>(k, v). (k, f k v)) xs) = map fst xs"
  by (induction xs) auto

lemma distinct_filter_key: "distinct (map fst xs) \<Longrightarrow> distinct (map fst (filter P xs))"
  by (induction xs) auto

lemma disjoint_filter_key: "set (map fst (filter (\<lambda>(k, v). k \<notin> A) xs)) \<inter> A = {}"
  by auto

definition query_step :: "u64 \<Rightarrow> u64 \<Rightarrow> (u64 \<times> u32) list \<times> u32 \<Rightarrow> u64" where
  "query_step i acc q = f64_add acc (f64_of_f32 (case map_of (fst q) i of Some d \<Rightarrow> d | None \<Rightarrow> snd q))"

lemma query_step_pair:
  "query_step i acc (rows, mx) = f64_add acc (f64_of_f32 (case map_of rows i of Some d \<Rightarrow> d | None \<Rightarrow> mx))"
  by (simp add: query_step_def split: option.split)

lemma merge_queries_spec:
  assumes "distinct (map fst results)" "list_all (\<lambda>q. distinct (map fst (fst q))) queries"
  shows "distinct (map fst (merge_queries queries results missed)) \<and>
    map_of (merge_queries queries results missed) i =
      (case map_of results i of
         Some s \<Rightarrow> Some (foldl (query_step i) s queries)
       | None \<Rightarrow> if list_ex (\<lambda>q. i \<in> fst ` set (fst q)) queries
                then Some (foldl (query_step i) missed queries) else None)"
  using assms
proof (induction queries results missed rule: merge_queries.induct)
  case (2 rows maximum queries results missed)
  define known where "known = map (\<lambda>(id, score). (id, f64_add score (f64_of_f32 (case map_of rows id of Some d \<Rightarrow> d | None \<Rightarrow> maximum)))) results"
  define fresh where "fresh = map (\<lambda>(id, d). (id, f64_add (f64_of_f32 d) missed)) (filter (\<lambda>(id, d). id \<notin> fst ` set known) rows)"
  have step: "merge_queries ((rows, maximum) # queries) results missed =
      merge_queries queries (known @ fresh) (f64_add missed (f64_of_f32 maximum))"
    by (simp add: known_def fresh_def Let_def)
  have keys: "map fst known = map fst results" by (simp add: known_def split_def)
  have k: "map_of known i = map_option (\<lambda>s. query_step i s (rows, maximum)) (map_of results i)"
    by (simp add: known_def map_of_map_key [of "\<lambda>id s. f64_add s (f64_of_f32 (case map_of rows id of Some d \<Rightarrow> d | None \<Rightarrow> maximum))"] query_step_pair)
  have "map_of fresh i = (if i \<in> fst ` set known then None else map_option (\<lambda>d. f64_add (f64_of_f32 d) missed) (map_of rows i))"
    by (simp add: fresh_def map_of_map_key [of "\<lambda>id d. f64_add (f64_of_f32 d) missed"] map_of_filter_key [of "\<lambda>id. id \<notin> fst ` set known"])
  moreover have "i \<in> fst ` set known \<longleftrightarrow> map_of results i \<noteq> None"
    using keys by (metis list.set_map map_of_eq_None_iff)
  ultimately have f: "map_of fresh i = (if map_of results i \<noteq> None then None else map_option (\<lambda>d. query_step i missed (rows, maximum)) (map_of rows i))"
    by (simp add: query_step_pair f64_add_comm split: option.split)
  have d: "distinct (map fst (known @ fresh))"
  proof -
    have f1: "map fst fresh = map fst (filter (\<lambda>(id, d). id \<notin> fst ` set known) rows)"
      unfolding fresh_def by (rule map_fst_map_key)
    have "set (map fst fresh) \<inter> fst ` set known = {}" unfolding f1 by (rule disjoint_filter_key)
    then have "fst ` set fresh \<inter> fst ` set known = {}" by (simp only: list.set_map)
    moreover have "distinct (map fst fresh)" unfolding f1 using 2(3) by (intro distinct_filter_key) simp
    moreover have "distinct (map fst known)" using keys 2(2) by simp
    ultimately show ?thesis by (simp add: inf_commute)
  qed
  have q: "list_all (\<lambda>q. distinct (map fst (fst q))) queries" using 2(3) by simp
  note ih = "2.IH" [OF refl refl, folded known_def, folded fresh_def, OF d q]
  have r: "i \<in> fst ` set rows \<longleftrightarrow> map_of rows i \<noteq> None" by (simp add: map_of_eq_None_iff)
  show ?case
    unfolding step using ih
    by (auto simp: map_add_def k f r query_step_pair split: option.splits if_splits)
qed (auto split: option.split)

lemma candidates_of_Cons:
  assumes "candidate_rows invalid batch = Ok cs"
  shows "candidates_of (Ok batch # items) = map (\<lambda>(i, d). (the i, the d)) cs @ candidates_of items"
  using assms by (auto simp: candidate_rows_def candidates_of_def obind_eq_Ok split: option.splits column.splits)

lemma distances_to_append [simp]: "distances_to (xs @ ys) i = distances_to xs i @ distances_to ys i"
  by (simp add: distances_to_def)

lemma reduce_stream_Ok:
  assumes "reduce_stream invalid items (rows, mx) = Ok (rows', mx')" "distinct (map fst rows)"
  shows "distinct (map fst rows') \<and>
    (\<forall>i. map_of rows' i = fold_with f32_min (distances_to (candidates_of items) i) (map_of rows i)) \<and>
    mx' = fold_with f32_max (map snd (candidates_of items)) mx"
  using assms
proof (induction items arbitrary: rows mx)
  case Nil
  then show ?case by (simp add: candidates_of_def distances_to_def)
next
  case (Cons item items)
  from Cons.prems(1) obtain batch cs rows1 mx1 where s: "item = Ok batch" "candidate_rows invalid batch = Ok cs"
    "reduce_rows invalid cs (rows, mx) = Ok (rows1, mx1)" "reduce_stream invalid items (rows1, mx1) = Ok (rows', mx')"
    by (auto simp: obind_eq_Ok)
  note r = reduce_rows_Ok [OF s(3) Cons.prems(2), unfolded Let_def]
  from Cons.IH [OF s(4)] r candidates_of_Cons [OF s(2)] show ?case by (simp add: s(1))
qed

lemma reduce_query_Ok:
  assumes "reduce_query invalid items = Ok q"
  shows "distinct (map fst (fst q)) \<and> fst ` set (fst q) = fst ` set (candidates_of items) \<and>
    query_step i acc q = f64_add acc (f64_of_f32 (query_distance (candidates_of items) i))"
proof -
  from assms obtain rows mx where s: "reduce_stream invalid items ([], None) = Ok (rows, mx)"
    "q = (rows, case mx of Some m \<Rightarrow> m | None \<Rightarrow> f32_one)"
    by (auto simp: reduce_query_def obind_eq_Ok)
  from reduce_stream_Ok [OF s(1)] have r: "distinct (map fst rows)"
    "\<And>i. map_of rows i = fold_with f32_min (distances_to (candidates_of items) i) None"
    "mx = fold_with f32_max (map snd (candidates_of items)) None" by simp_all
  have "j \<in> fst ` set rows \<longleftrightarrow> j \<in> fst ` set (candidates_of items)" for j
    using r(2) [of j] by (metis map_of_eq_None_iff fold_with_None distances_to_eq_Nil)
  then show ?thesis
    by (auto simp: s(2) r query_step_pair query_distance_def split: option.split)
qed

lemma foldl_list_all2_cong:
  "list_all2 (\<lambda>x y. \<forall>acc. f acc y = g acc x) xs ys \<Longrightarrow> foldl f acc ys = foldl g acc xs"
  by (induction xs ys arbitrary: acc rule: list_all2_induct) simp_all

definition total_distance :: "'x row_batch outcome list list \<Rightarrow> u64 \<Rightarrow> u64" where
  "total_distance inputs i =
     foldl (\<lambda>acc items. f64_add acc (f64_of_f32 (query_distance (candidates_of items) i))) (f64_bits False 0) inputs"

lemma merged_queries:
  assumes "otraverse (reduce_query invalid) inputs = Ok queries"
  shows "let results = merge_queries queries [] (f64_bits False 0) in
    distinct (map fst results) \<and>
    map_of results = (\<lambda>i. if \<exists>items \<in> set inputs. i \<in> fst ` set (candidates_of items)
                         then Some (total_distance inputs i) else None)"
proof -
  have q: "list_all2 (\<lambda>items q. reduce_query invalid items = Ok q) inputs queries"
    using assms by (simp add: otraverse_eq_Ok)
  then have d: "list_all (\<lambda>q. distinct (map fst (fst q))) queries"
    by (induction inputs queries rule: list_all2_induct) (use reduce_query_Ok [THEN conjunct1] in fastforce)+
  have e: "list_ex (\<lambda>q. i \<in> fst ` set (fst q)) queries \<longleftrightarrow> (\<exists>items \<in> set inputs. i \<in> fst ` set (candidates_of items))" for i
    using q by (induction inputs queries rule: list_all2_induct) (simp_all add: reduce_query_Ok [THEN conjunct2, THEN conjunct1])
  have "list_all2 (\<lambda>items q. \<forall>acc. query_step i acc q = f64_add acc (f64_of_f32 (query_distance (candidates_of items) i))) inputs queries" for i
    using q by (rule list_all2_mono) (intro allI, rule reduce_query_Ok [THEN conjunct2, THEN conjunct2])
  then have f: "foldl (query_step i) (f64_bits False 0) queries = total_distance inputs i" for i
    unfolding total_distance_def by (rule foldl_list_all2_cong)
  show ?thesis
    using merge_queries_spec [of "[]" queries "f64_bits False 0"] d by (simp add: e f fun_eq_iff)
qed

subsection \<open>Properties\<close>

text \<open>C25. A multi-vector search over index candidates returns exactly the rows that some query vector's search
  returned, each once, and each with the sum over the query vectors, in their order and in \<open>f64\<close>, of
  its least distance in that vector's whole stream, however that was split into batches, or, where the
  stream missed it, of the greatest distance there (1.0 for an empty stream), rounded once to \<open>f32\<close>.\<close>

theorem indexed_batch_scores:
  assumes "indexed_batch api inputs schema = Ok out"
  shows "\<exists>results. distinct (map fst results) \<and>
    map_of results = (\<lambda>i. if \<exists>items \<in> set inputs. i \<in> fst ` set (candidates_of items)
                         then Some (total_distance inputs i) else None) \<and>
    out = zip schema [Float32Column (map (\<lambda>r. Some (f32_of_f64 (snd r))) results),
                      UInt64Column (map (\<lambda>r. Some (fst r)) results)]"
proof -
  from assms obtain queries where q: "otraverse (reduce_query (ma_execution_error api)) inputs = Ok queries"
    by (auto simp: indexed_batch_def obind_eq_Ok Let_def)
  with assms merged_queries [OF q] show ?thesis
    by (auto simp: indexed_batch_def obind_eq_Ok Let_def)
qed


definition demo_mv_api :: "(unit, nat, nat) mv_api" where
  "demo_mv_api =
     \<lparr>ma_distance = (\<lambda>_ _ _. 0), ma_execution_error = internal_error, ma_join_error = (\<lambda>_. internal_error ''task panicked''), ma_parse_field_path = (\<lambda>p. Inr [p]),
      ma_check_batch = (\<lambda>_ _. Ok ()), ma_with_new_children = (\<lambda>_ _. Ok ()), ma_distance_column = (\<lambda>_. Ok ())\<rparr>"

definition demo_candidates :: "(u64 \<times> u32) list \<Rightarrow> nat row_batch outcome" where
  "demo_candidates cs = Ok \<lparr>mb_num_rows = length cs,
     mb_columns = [(''_rowid'', UInt64Column (map (\<lambda>c. Some (fst c)) cs)),
                   (''_distance'', Float32Column (map (\<lambda>c. Some (snd c)) cs))]\<rparr>"

lemma demo_indexed:
  "indexed_batch demo_mv_api [[demo_candidates [(7, 0x3F000000)], demo_candidates [(7, 0x3E800000)]]] [''_distance'', ''_rowid''] =
     Ok [(''_distance'', Float32Column [Some 0x3E800000]), (''_rowid'', UInt64Column [Some 7])]"
proof -
  have fin: "f32_finite 0x3E800000" and nz: "(0x3E800000 :: u32) \<noteq> f32_bits True 0"
    by (simp_all add: f32_finite_def f32_bits_def take_bit_eq_mod drop_bit_eq_div)
  have "f32_of_f64 (f64_add (f64_of_f32 0x3E800000) (f64_bits False 0)) = 0x3E800000"
    by (simp only: f64_add_comm [of _ "f64_bits False 0"] f64_add_zero [OF fin nz] f32_of_f64_of_f32 [OF fin])
  moreover have "f32_finite 0x3F000000" "f32_min 0x3F000000 0x3E800000 = 0x3E800000"
    by (simp_all add: f32_finite_def f32_min_def f32_ge_def f32_key_def take_bit_eq_mod drop_bit_eq_div bit_iff_odd)
  ultimately show ?thesis
    using fin
    by (simp add: indexed_batch_def demo_candidates_def demo_mv_api_def reduce_query_def candidate_rows_def Let_def)
qed

theorem indexed_batch_scores_witness:
  "\<exists>results. distinct (map fst results) \<and> map_of results 8 = None \<and>
     map_of results 7 = Some (total_distance [[demo_candidates [(7, 0x3F000000)], demo_candidates [(7, 0x3E800000)]]] 7) \<and>
     [Float32Column [Some 0x3E800000], UInt64Column [Some 7]] =
       [Float32Column (map (\<lambda>r. Some (f32_of_f64 (snd r))) results), UInt64Column (map (\<lambda>r. Some (fst r)) results) :: nat column]"
  using indexed_batch_scores [OF demo_indexed]
  by (auto simp: candidates_of_def demo_candidates_def)

lemma foldl_total_min:
  "foldl f32_total_min d ds \<in> set (d # ds) \<and>
   list_all (\<lambda>x. f32_total_key (foldl f32_total_min d ds) \<le> f32_total_key x) (d # ds)"
proof (induction ds arbitrary: d)
  case (Cons x ds)
  from Cons.IH [of "f32_total_min d x"] show ?case
    by (auto simp: f32_total_min_def split: if_splits)
qed simp

text \<open>The least defined distance from a query vector to the stored ones, as a specification.\<close>

definition least_distance :: "u32 list \<Rightarrow> u32 \<Rightarrow> bool" where
  "least_distance ds m \<longleftrightarrow> m \<in> set ds \<and> \<not> f32_is_nan m \<and>
     list_all (\<lambda>d. f32_is_nan d \<or> f32_total_key m \<le> f32_total_key d) ds"

lemma best_distance_Some: "best_distance ds = Some m \<Longrightarrow> least_distance ds m"
proof -
  assume b: "best_distance ds = Some m"
  then obtain d rest where f: "filter (\<lambda>d. \<not> f32_is_nan d) ds = d # rest" and m: "m = foldl f32_total_min d rest"
    by (auto simp: best_distance_def split: list.splits)
  from f have "set (d # rest) = {x \<in> set ds. \<not> f32_is_nan x}" by (metis set_filter)
  with foldl_total_min [of d rest] show ?thesis
    unfolding m [symmetric] least_distance_def list_all_iff by blast
qed

lemma best_distance_None: "best_distance ds = None \<longleftrightarrow> list_all f32_is_nan ds"
  by (auto simp: best_distance_def list_all_iff filter_empty_conv split: list.splits) (metis filter_empty_conv list.distinct(1))

lemma sum_minima_Some:
  "sum_minima dist qs vs acc = Some t \<Longrightarrow>
   \<exists>mins. list_all2 (\<lambda>q. least_distance (map (dist q) vs)) qs mins \<and>
     t = foldl (\<lambda>a m. f64_add a (f64_of_f32 m)) acc mins"
proof (induction qs arbitrary: acc)
  case (Cons q qs)
  from Cons.prems obtain m where m: "best_distance (map (dist q) vs) = Some m"
    and r: "sum_minima dist qs vs (f64_add acc (f64_of_f32 m)) = Some t" by (auto split: option.splits)
  from Cons.IH [OF r] obtain mins where "list_all2 (\<lambda>q. least_distance (map (dist q) vs)) qs mins"
    "t = foldl (\<lambda>a m. f64_add a (f64_of_f32 m)) (f64_add acc (f64_of_f32 m)) mins" by blast
  with best_distance_Some [OF m] show ?case by (intro exI [of _ "m # mins"]) simp
qed simp

lemma sum_minima_None:
  "sum_minima dist qs vs acc = None \<Longrightarrow> list_ex (\<lambda>q. list_all f32_is_nan (map (dist q) vs)) qs"
  by (induction qs arbitrary: acc) (auto simp: best_distance_None [symmetric] split: option.splits)

definition row_scored ::
  "('m, 'k, 'x) mv_api \<Rightarrow> query_array \<Rightarrow> 'm \<Rightarrow> bool \<Rightarrow> list_item option \<Rightarrow> u32 option \<Rightarrow> bool" where
  "row_scored api query metric id_is_null vector score \<longleftrightarrow>
     (case vector of
        Some (FixedSizeListItem v) \<Rightarrow>
          (let stored = array_chunks (sv_dimension v) (sv_values v);
               queries = array_chunks (sv_dimension v) query in
           case score of
             Some d \<Rightarrow> \<not> id_is_null \<and> sv_length v \<noteq> 0 \<and> f32_finite d \<and>
               (\<exists>mins. list_all2 (\<lambda>q. least_distance (map (ma_distance api metric q) stored)) queries mins \<and>
                  d = f32_of_f64 (foldl (\<lambda>a m. f64_add a (f64_of_f32 m)) (f64_bits False 0) mins))
           | None \<Rightarrow> id_is_null \<or> sv_length v = 0 \<or>
               list_ex (\<lambda>q. list_all f32_is_nan (map (ma_distance api metric q) stored)) queries)
      | Some OtherItem \<Rightarrow> id_is_null \<and> score = None
      | None \<Rightarrow> score = None)"

lemma row_distance_Ok:
  assumes "row_distance api t query v metric = Ok s"
  shows "case s of
      Some d \<Rightarrow> f32_finite d \<and> (\<exists>mins.
        list_all2 (\<lambda>q. least_distance (map (ma_distance api metric q) (array_chunks (sv_dimension v) (sv_values v))))
          (array_chunks (sv_dimension v) query) mins \<and>
        d = f32_of_f64 (foldl (\<lambda>a m. f64_add a (f64_of_f32 m)) (f64_bits False 0) mins))
    | None \<Rightarrow> list_ex (\<lambda>q. list_all f32_is_nan (map (ma_distance api metric q) (array_chunks (sv_dimension v) (sv_values v))))
        (array_chunks (sv_dimension v) query)"
  using assms sum_minima_Some sum_minima_None
  by (fastforce simp: row_distance_def Let_def reject_if_eq_Ok split: if_splits option.splits)

lemma score_row_Ok:
  "score_row api query metric id_null v = Ok s \<Longrightarrow> row_scored api query metric id_null v s"
  using row_distance_Ok
  by (fastforce simp: score_row_def row_scored_def Let_def split: if_splits option.splits list_item.splits)

lemma score_rows_Ok:
  "score_rows api query metric ids k vs = Ok ss \<Longrightarrow> length ss = length vs \<and>
   (\<forall>j < length vs. row_scored api query metric (row_id_is_null ids (k + j)) (vs ! j) (ss ! j))"
proof (induction vs arbitrary: k ss)
  case (Cons v vs)
  from Cons.prems obtain s rest where s: "score_row api query metric (row_id_is_null ids k) v = Ok s"
    "score_rows api query metric ids (Suc k) vs = Ok rest" "ss = s # rest" by (auto simp: obind_eq_Ok)
  from Cons.IH [OF s(2)] score_row_Ok [OF s(1)] show ?case
    by (auto simp: s(3) nth_Cons split: nat.split)
qed simp

text \<open>C26. Exact multi-vector scoring keeps exactly the rows with a row id that is not null, a nonempty vector
  list, and for each query vector some stored vector at a defined distance, in their order and with
  their other columns; a kept row's distance is finite and is the \<open>f64\<close> sum, rounded once to \<open>f32\<close>, of
  the least defined distance of each query vector.\<close>

theorem exact_batch_scores:
  assumes "exact_batch api batch query column metric schema = Ok out" and "mb_num_rows batch \<noteq> 0"
  shows "\<exists>vectors scores. vector_column api batch column = Ok (ListColumn vectors) \<and> length scores = length vectors \<and>
    (\<forall>i < length vectors. row_scored api query metric
       (row_id_is_null (map_of (mb_columns batch) ''_rowid'') i)
       (vectors ! i) (scores ! i)) \<and>
    list_all2 (\<lambda>(name, _) o'. o' = (name, filter_column (map (\<lambda>s. s \<noteq> None) scores)
       (if name = ''_distance'' then Float32Column scores else the (map_of (mb_columns batch) name)))) schema out"
proof -
  from assms obtain vectors scores columns where v: "vector_column api batch column = Ok (ListColumn vectors)"
    and s: "score_rows api query metric (map_of (mb_columns batch) ''_rowid'') 0 vectors = Ok scores"
    and c: "otraverse (output_column api batch scores) (map fst schema) = Ok columns"
    and o: "out = zip (map fst schema) (map (filter_column (map (\<lambda>s. s \<noteq> None) scores)) columns)"
  proof -
    from assms obtain array where a: "vector_column api batch column = Ok array"
      by (auto simp: exact_batch_def obind_eq_Ok)
    then show thesis using assms that by (cases array) (auto simp: exact_batch_def obind_eq_Ok)
  qed
  have "list_all2 (\<lambda>f col. col = (if f = ''_distance'' then Float32Column scores else the (map_of (mb_columns batch) f)))
      (map fst schema) columns"
    using c [unfolded otraverse_eq_Ok]
    by (rule list_all2_mono) (auto simp: output_column_def ok_or_eq_Ok split: if_splits)
  then have "list_all2 (\<lambda>(name, _) o'. o' = (name, filter_column (map (\<lambda>s. s \<noteq> None) scores)
       (if name = ''_distance'' then Float32Column scores else the (map_of (mb_columns batch) name)))) schema out"
    unfolding o by (auto simp: list_all2_conv_all_nth split_def)
  with v score_rows_Ok [OF s] show ?thesis by fastforce
qed

text \<open>One row of two stored vectors, searched with two query vectors; the kernel compares first bits.\<close>

definition demo_exact_api :: "(unit, nat, nat) mv_api" where
  "demo_exact_api = demo_mv_api\<lparr>ma_distance := (\<lambda>_ q v. if q = v then 0x3F000000 else 0x3F800000)\<rparr>"

definition demo_row :: stored_vectors where
  "demo_row = \<lparr>sv_length = 1, sv_dimension = 1, sv_null_count = 0, sv_values = Float32Array [5], sv_value_null_count = 0\<rparr>"

definition demo_exact :: "nat row_batch" where
  "demo_exact = \<lparr>mb_num_rows = 2, mb_columns = [(''vec'', ListColumn [Some (FixedSizeListItem demo_row), None]),
     (''_rowid'', UInt64Column [Some 4, Some 5])]\<rparr>"

lemma demo_exact_scored:
  "exact_batch demo_exact_api demo_exact (Float32Array [5]) ''vec'' () [(''_distance'', Float32Column []), (''_rowid'', UInt64Column [])] =
     Ok [(''_distance'', Float32Column [Some 0x3F000000]), (''_rowid'', UInt64Column [Some 4])]"
proof -
  have fin: "f32_finite 0x3F000000" and nz: "(0x3F000000 :: u32) \<noteq> f32_bits True 0"
    and nan: "\<not> f32_is_nan 0x3F000000"
    by (simp_all add: f32_finite_def f32_bits_def f32_is_nan_def f32_infinity_def f32_mag_def take_bit_eq_mod drop_bit_eq_div)
  have c: "chunks_exact 1 [x] = [[x]]" for x :: u32
    by (simp add: chunks_exact.simps)
  have "f32_finite 5" by (simp add: f32_finite_def take_bit_eq_mod drop_bit_eq_div)
  with fin nan have "row_distance demo_exact_api Float32 (Float32Array [5]) demo_row () = Ok (Some 0x3F000000)"
    by (simp add: demo_exact_api_def demo_mv_api_def demo_row_def row_distance_def best_distance_def
        c [unfolded One_nat_def] f64_add_zero [OF fin nz] f32_of_f64_of_f32 [OF fin] Let_def)
  then have "score_row demo_exact_api (Float32Array [5]) () False (Some (FixedSizeListItem demo_row)) = Ok (Some 0x3F000000)"
    by (simp add: score_row_def demo_row_def)
  then show ?thesis
    by (simp add: exact_batch_def demo_exact_def demo_exact_api_def demo_mv_api_def vector_column_def
        row_id_is_null_def output_column_def select_marked_def score_row_def [of _ _ _ _ None])
qed

theorem exact_batch_scores_witness:
  "\<exists>scores. length scores = 2 \<and>
     row_scored demo_exact_api (Float32Array [5]) () False (Some (FixedSizeListItem demo_row)) (scores ! 0) \<and>
     [(''_distance'', Float32Column [Some 0x3F000000]), (''_rowid'', UInt64Column [Some 4 :: u64 option])] =
     [(''_distance'', filter_column (map (\<lambda>s. s \<noteq> None) scores) (Float32Column scores)),
      (''_rowid'', filter_column (map (\<lambda>s. s \<noteq> None) scores) (UInt64Column [Some 4, Some 5] :: nat column))]"
proof -
  have n: "mb_num_rows demo_exact \<noteq> 0" by (simp add: demo_exact_def)
  have v: "vector_column demo_exact_api demo_exact ''vec'' = Ok (ListColumn [Some (FixedSizeListItem demo_row), None])"
    by (simp add: vector_column_def demo_exact_def)
  have i: "\<not> row_id_is_null (map_of (mb_columns demo_exact) ''_rowid'') 0"
    and c: "map_of (mb_columns demo_exact) ''_rowid'' = Some (UInt64Column [Some 4, Some 5])"
    by (simp_all add: row_id_is_null_def demo_exact_def)
  from exact_batch_scores [OF demo_exact_scored n] v obtain scores where
    l: "length scores = 2" and
    r: "\<forall>i < 2. row_scored demo_exact_api (Float32Array [5]) () (row_id_is_null (map_of (mb_columns demo_exact) ''_rowid'') i)
       ([Some (FixedSizeListItem demo_row), None] ! i) (scores ! i)" and
    o: "list_all2 (\<lambda>(name, _) o'. o' = (name, filter_column (map (\<lambda>s. s \<noteq> None) scores)
       (if name = ''_distance'' then Float32Column scores else the (map_of (mb_columns demo_exact) name))))
       [(''_distance'', Float32Column []), (''_rowid'', UInt64Column [])]
       [(''_distance'', Float32Column [Some 0x3F000000]), (''_rowid'', UInt64Column [Some 4])]"
    by (elim exE conjE) (simp add: numeral_2_eq_2)
  from r [rule_format, of 0] i have "row_scored demo_exact_api (Float32Array [5]) () False (Some (FixedSizeListItem demo_row)) (scores ! 0)"
    by simp
  with l o c show ?thesis by (intro exI [of _ scores]) simp
qed

text \<open>The rewriting as a map over the nodes.\<close>

fun wrap_kind :: "'m mv_kind \<Rightarrow> 'm mv_kind" where
  "wrap_kind (KnnVectorDistance b query column metric) =
     MultiVectorScore (Exact query column metric) (KnnVectorDistance b query column metric)"
| "wrap_kind MultivectorScoring = MultiVectorScore Indexed MultivectorScoring"
| "wrap_kind k = k"

fun map_plan :: "('m mv_kind \<Rightarrow> 'm mv_kind) \<Rightarrow> 'm mv_plan \<Rightarrow> 'm mv_plan" where
  "map_plan f (MvPlan kind children) = MvPlan (f kind) (map (map_plan f) children)"

fun all_kinds :: "'m mv_plan \<Rightarrow> 'm mv_kind list" where
  "all_kinds (MvPlan kind children) = kind # concat (map all_kinds children)"

fun is_batch_knn :: "'m mv_kind \<Rightarrow> bool" where
  "is_batch_knn (KnnVectorDistance b _ _ _) = b"
| "is_batch_knn _ = False"

lemma score_node_Ok: "score_node invalid kind = Ok k \<longleftrightarrow> k = wrap_kind kind \<and> \<not> is_batch_knn kind"
  by (cases kind) (simp_all add: score_node_def reject_if_eq_Ok, blast+)

lemma rewrite_plan_Ok:
  "rewrite_plan api p = Ok p' \<Longrightarrow> p' = map_plan wrap_kind p \<and> list_all (\<lambda>k. \<not> is_batch_knn k) (all_kinds p)"
proof (induction p arbitrary: p')
  case (MvPlan kind children)
  from MvPlan.prems have "\<exists>cs. list_all2 (\<lambda>c c'. rewrite_plan api c = Ok c') children cs \<and>
      \<not> is_batch_knn kind \<and> p' = MvPlan (wrap_kind kind) cs"
  proof -
    from MvPlan.prems obtain cs k where "otraverse (rewrite_plan api) children = Ok cs"
      "score_node (ma_execution_error api) kind = Ok k" "p' = MvPlan k cs"
      unfolding rewrite_plan.simps obind_eq_Ok by (elim exE conjE) simp
    then show ?thesis by (simp add: otraverse_eq_Ok score_node_Ok)
  qed
  then obtain cs where cs: "list_all2 (\<lambda>c c'. rewrite_plan api c = Ok c') children cs"
    and k: "\<not> is_batch_knn kind" "p' = MvPlan (wrap_kind kind) cs" by blast
  have "cs = map (map_plan wrap_kind) children \<and> list_all (\<lambda>k. \<not> is_batch_knn k) (concat (map all_kinds children))"
    using cs MvPlan.IH
  proof (induction children cs rule: list_all2_induct)
    case (Cons c cs c' cs')
    have "c' = map_plan wrap_kind c \<and> list_all (\<lambda>k. \<not> is_batch_knn k) (all_kinds c)"
      by (rule Cons.prems) (simp_all add: Cons.hyps)
    moreover have "cs' = map (map_plan wrap_kind) cs \<and> list_all (\<lambda>k. \<not> is_batch_knn k) (concat (map all_kinds cs))"
      by (rule Cons.IH) (rule Cons.prems, simp_all)
    ultimately show ?case by simp
  qed simp
  with k show ?case by simp
qed

fun strict_sizes :: "'m mv_plan \<Rightarrow> usize list" where
  "strict_sizes (MvPlan (StrictBatchSize n) (child # _)) = n # strict_sizes child"
| "strict_sizes _ = []"

fun below_strict :: "'m mv_plan \<Rightarrow> 'm mv_plan" where
  "below_strict (MvPlan (StrictBatchSize n) (child # _)) = below_strict child"
| "below_strict p = p"

lemma apply_result_window_Ok:
  "apply_result_window api offset limit p = Ok p' \<Longrightarrow>
   p' = foldr (\<lambda>n c. MvPlan (StrictBatchSize n) [c]) (strict_sizes p)
     (MvPlan (GlobalLimit offset limit) [MvPlan SortByDistance [MvPlan CoalescePartitions [below_strict p]]])"
proof (induction p arbitrary: p' rule: strict_sizes.induct)
  case (1 n child cs)
  then show ?case by (auto simp: obind_eq_Ok)
qed (auto simp: sorted_window_def obind_eq_Ok split: mv_kind.splits)

text \<open>C24. The plan of a multi-vector search is the planner's own with every scoring node, and nothing else,
  wrapped by the corrected scorer, so before any Top-K above it; no batch scoring node gets through;
  and the result window is put over the final sort by distance, below the strict rechunking nodes,
  which keep their sizes.\<close>

theorem multivector_plan_shape:
  assumes "rewrite_plan api p = Ok q" "apply_result_window api offset limit q = Ok r"
  shows "q = map_plan wrap_kind p \<and> list_all (\<lambda>k. \<not> is_batch_knn k) (all_kinds p) \<and>
    r = foldr (\<lambda>n c. MvPlan (StrictBatchSize n) [c]) (strict_sizes q)
      (MvPlan (GlobalLimit offset limit) [MvPlan SortByDistance [MvPlan CoalescePartitions [below_strict q]]])"
  using rewrite_plan_Ok [OF assms(1)] apply_result_window_Ok [OF assms(2)] by simp

definition demo_plan_mv_api :: "(unit, unit mv_plan, nat) mv_api" where
  "demo_plan_mv_api =
     \<lparr>ma_distance = (\<lambda>_ _ _. 0), ma_execution_error = internal_error, ma_join_error = (\<lambda>_. internal_error ''task panicked''), ma_parse_field_path = (\<lambda>p. Inr [p]),
      ma_check_batch = (\<lambda>_ _. Ok ()), ma_with_new_children = (\<lambda>_ _. Ok ()), ma_distance_column = (\<lambda>_. Ok ())\<rparr>"

theorem multivector_plan_shape_witness:
  "apply_result_window demo_plan_mv_api 2 (Some 5)
     (MvPlan (StrictBatchSize 8) [MvPlan (OtherNode ''TopK'') [MvPlan (MultiVectorScore Indexed MultivectorScoring) []]]) =
   Ok (MvPlan (StrictBatchSize 8) [MvPlan (GlobalLimit 2 (Some 5)) [MvPlan SortByDistance [MvPlan CoalescePartitions
     [MvPlan (OtherNode ''TopK'') [MvPlan (MultiVectorScore Indexed MultivectorScoring) []]]]]])"
proof -
  let ?p = "MvPlan (StrictBatchSize 8) [MvPlan (OtherNode ''TopK'') [MvPlan MultivectorScoring []]] :: unit mv_plan"
  have w: "rewrite_plan demo_plan_mv_api ?p =
      Ok (MvPlan (StrictBatchSize 8) [MvPlan (OtherNode ''TopK'') [MvPlan (MultiVectorScore Indexed MultivectorScoring) []]])"
    by (simp add: demo_plan_mv_api_def score_node_def)
  obtain r where r: "apply_result_window demo_plan_mv_api 2 (Some 5)
      (MvPlan (StrictBatchSize 8) [MvPlan (OtherNode ''TopK'') [MvPlan (MultiVectorScore Indexed MultivectorScoring) []]]) = Ok r"
    by (simp add: demo_plan_mv_api_def sorted_window_def)
  from multivector_plan_shape [OF w r] r show ?thesis by simp
qed

end
