(* ===== verification/Errors.thy ===== *)
theory Errors
  imports Prelude
begin

text \<open>
  Model of \<open>src/error.rs\<close>: the error codes, the thread-local last error, the panic
  firewall \<open>ffi_guard_with\<close> behind the \<open>ffi_try!\<close> macro, and the C functions that read the
  last error. The thread-local slot is a value of type \<open>tls\<close>, passed in and returned.
\<close>

subsection \<open>Error codes and the thread-local slot\<close>

datatype error_code =
    COk | CInvalidArgument | CIoError | CNotFound | CDatasetAlreadyExists | CIndexError
  | CInternal | CNotSupported | CCommitConflict | CPanic

fun code_value :: "error_code \<Rightarrow> nat" where
  "code_value COk = 0"
| "code_value CInvalidArgument = 1"
| "code_value CIoError = 2"
| "code_value CNotFound = 3"
| "code_value CDatasetAlreadyExists = 4"
| "code_value CIndexError = 5"
| "code_value CInternal = 6"
| "code_value CNotSupported = 7"
| "code_value CCommitConflict = 8"
| "code_value CPanic = 9"

record last_error =
  le_code :: error_code
  le_message :: string

type_synonym tls = "last_error option"

definition clear_last_error :: "tls \<Rightarrow> tls" where
  "clear_last_error e = None"

text \<open>\<open>str::replace('\0', "\\0")\<close>: every NUL byte becomes a backslash and a zero digit.\<close>

fun replace_nul :: "string \<Rightarrow> string" where
  "replace_nul [] = []"
| "replace_nul (c # cs) = (if c = CHR 0x00 then CHR 0x5C # CHR 0x30 # replace_nul cs else c # replace_nul cs)"

text \<open>\<open>CString::new\<close> fails exactly on an interior NUL.\<close>

definition cstring_new :: "string \<Rightarrow> string option" where
  "cstring_new s = (if CHR 0x00 \<in> set s then None else Some s)"

definition set_last_error :: "error_code \<Rightarrow> string \<Rightarrow> tls \<Rightarrow> tls" where
  "set_last_error code message e =
     (let m = (case cstring_new message of
                 Some v \<Rightarrow> v
               | None \<Rightarrow> (case cstring_new (replace_nul message) of
                           Some v \<Rightarrow> v
                         | None \<Rightarrow> ''invalid error message''))
      in Some \<lparr>le_code = code, le_message = m\<rparr>)"

fun error_code_from_kind :: "error_kind \<Rightarrow> error_code" where
  "error_code_from_kind InvalidInput = CInvalidArgument"
| "error_code_from_kind DatasetAlreadyExists = CDatasetAlreadyExists"
| "error_code_from_kind CommitConflict = CCommitConflict"
| "error_code_from_kind DatasetNotFound = CNotFound"
| "error_code_from_kind NotFound = CNotFound"
| "error_code_from_kind IndexNotFound = CNotFound"
| "error_code_from_kind IO = CIoError"
| "error_code_from_kind Index = CIndexError"
| "error_code_from_kind NotSupported = CNotSupported"
| "error_code_from_kind OtherKind = CInternal"

definition error_code_from_lance :: "lance_error \<Rightarrow> error_code" where
  "error_code_from_lance e = error_code_from_kind (err_kind e)"

text \<open>\<open>set_lance_error\<close> formats the error first, so a panicking \<open>Display\<close> unwinds out of it and
  leaves the slot as it was.\<close>

definition set_lance_error :: "lance_error \<Rightarrow> tls \<Rightarrow> tls unwind" where
  "set_lance_error e t =
     (case err_display e of
        Returned m \<Rightarrow> Returned (set_last_error (error_code_from_lance e) m t)
      | Unwound p \<Rightarrow> Unwound p)"

fun panic_payload_message :: "payload \<Rightarrow> string" where
  "panic_payload_message (StrPayload s) = replace_nul s"
| "panic_payload_message (StringPayload s) = replace_nul s"
| "panic_payload_message OtherPayload = replace_nul ''unknown panic payload''"

subsection \<open>The panic firewall\<close>

datatype ffi_failure = FailLance | FailPanic

text \<open>
  \<open>on_failure\<close> is an \<open>FnMut\<close>: it may carry state from one call to the next and may itself
  panic. \<open>recover_from_ffi_panic\<close> records the panic and asks for the error value once more;
  a second panic is resumed and leaves the guard.
\<close>

definition recover_from_ffi_panic ::
  "('st \<Rightarrow> ffi_failure \<Rightarrow> 'a unwind \<times> 'st) \<Rightarrow> payload \<Rightarrow> tls \<Rightarrow> 'st \<Rightarrow> 'a unwind \<times> tls \<times> 'st" where
  "recover_from_ffi_panic recover p t st =
     (let t' = set_last_error CPanic (''panic in FFI call: '' @ panic_payload_message p) t;
          (r, st') = recover st FailPanic
      in (r, t', st'))"

definition ffi_guard_with ::
  "'a outcome \<Rightarrow> ('st \<Rightarrow> ffi_failure \<Rightarrow> 'a unwind \<times> 'st) \<Rightarrow> tls \<Rightarrow> 'st \<Rightarrow> 'a unwind \<times> tls \<times> 'st" where
  "ffi_guard_with body on_failure t st =
     (case body of
        Ok v \<Rightarrow> (Returned v, clear_last_error t, st)
      | Err e \<Rightarrow>
          (case set_lance_error e t of
             Unwound p \<Rightarrow> recover_from_ffi_panic on_failure p t st
           | Returned t1 \<Rightarrow>
               (case on_failure st FailLance of
                  (Returned v, st1) \<Rightarrow> (Returned v, t1, st1)
                | (Unwound p, st1) \<Rightarrow> recover_from_ffi_panic on_failure p t1 st1))
      | Panic p \<Rightarrow> recover_from_ffi_panic on_failure p t st)"

text \<open>The \<open>ffi_try!\<close> shapes: the error value is a plain constant, which cannot panic. The \<open>null\<close>,
  \<open>neg\<close> and \<open>void\<close> arms are this at \<open>NULL\<close>, \<open>-1\<close> and \<open>()\<close>.\<close>

definition ffi_try :: "'a outcome \<Rightarrow> 'a \<Rightarrow> tls \<Rightarrow> 'a \<times> tls" where
  "ffi_try body errval t =
     (case ffi_guard_with body (\<lambda>u _. (Returned errval, u)) t () of
        (Returned v, t', _) \<Rightarrow> (v, t')
      | (Unwound p, t', _) \<Rightarrow> (errval, t'))"

text \<open>\<open>swallow_unwind\<close>: a void cleanup runs, a panic in it is logged and dropped, and the slot
  is left alone. The boolean says whether the cleanup completed.\<close>

definition swallow_unwind :: "unit unwind \<Rightarrow> tls \<Rightarrow> bool \<times> tls" where
  "swallow_unwind f t = (case f of Returned _ \<Rightarrow> (True, t) | Unwound _ \<Rightarrow> (False, t))"

subsection \<open>The public C functions\<close>

definition lance_last_error_code :: "tls \<Rightarrow> error_code" where
  "lance_last_error_code t = (case t of Some e \<Rightarrow> le_code e | None \<Rightarrow> COk)"

text \<open>\<open>take()\<close>: reading the message hands it over and empties the slot.\<close>

definition lance_last_error_message :: "tls \<Rightarrow> string ptr \<times> tls" where
  "lance_last_error_message t = (case t of Some e \<Rightarrow> (Some (le_message e), None) | None \<Rightarrow> (None, None))"

definition lance_free_string :: "string ptr \<Rightarrow> (string \<Rightarrow> unit unwind) \<Rightarrow> tls \<Rightarrow> bool \<times> tls" where
  "lance_free_string s drop_fn t = (case s of None \<Rightarrow> (True, t) | Some v \<Rightarrow> swallow_unwind (drop_fn v) t)"

subsection \<open>Lemmas\<close>

lemma replace_nul_no_nul [simp]: "CHR 0x00 \<notin> set (replace_nul s)"
  by (induction s) auto

lemma replace_nul_id: "CHR 0x00 \<notin> set s \<Longrightarrow> replace_nul s = s"
  by (induction s) auto

lemma panic_payload_message_no_nul [simp]: "CHR 0x00 \<notin> set (panic_payload_message p)"
  by (cases p) (simp_all del: replace_nul.simps)

lemma set_last_error_eq:
  "set_last_error c m t = Some \<lparr>le_code = c, le_message = replace_nul m\<rparr>"
  by (simp add: set_last_error_def cstring_new_def replace_nul_id)

lemma panic_text: "replace_nul (panic_payload_message p) = panic_payload_message p"
  by (rule replace_nul_id) simp

lemma set_lance_error_text [simp]:
  "err_display e = Returned m \<Longrightarrow>
     set_lance_error e t = Returned (set_last_error (error_code_from_lance e) m t)"
  by (simp add: set_lance_error_def)

lemma error_code_simps [simp]:
  "error_code_from_lance (invalid_input m) = CInvalidArgument"
  "error_code_from_lance (internal_error m) = CInternal"
  by (simp_all add: error_code_from_lance_def)

lemma error_code_from_kind_neq [simp]:
  "error_code_from_kind k \<noteq> COk" "error_code_from_kind k \<noteq> CPanic"
  by (cases k; simp)+

lemma error_code_neq_Ok [simp]:
  "error_code_from_lance e \<noteq> COk" "error_code_from_lance e \<noteq> CPanic"
  by (simp_all add: error_code_from_lance_def)

lemma last_error_code_simps [simp]:
  "lance_last_error_code (clear_last_error t) = COk"
  "lance_last_error_code (set_last_error c m t) = c"
  "lance_last_error_code None = COk"
  by (simp_all add: lance_last_error_code_def clear_last_error_def set_last_error_eq)

lemma ffi_try_Ok [simp]: "ffi_try (Ok v) errval t = (v, clear_last_error t)"
  by (simp add: ffi_try_def ffi_guard_with_def)

lemma ffi_try_Err:
  "ffi_try (Err e) errval t =
     (errval, case err_display e of
                Returned m \<Rightarrow> set_last_error (error_code_from_lance e) m t
              | Unwound p \<Rightarrow> set_last_error CPanic (''panic in FFI call: '' @ panic_payload_message p) t)"
  by (simp add: ffi_try_def ffi_guard_with_def recover_from_ffi_panic_def set_lance_error_def
      split: unwind.splits)

lemma ffi_try_Panic:
  "ffi_try (Panic p) errval t =
     (errval, set_last_error CPanic (''panic in FFI call: '' @ panic_payload_message p) t)"
  by (simp add: ffi_try_def ffi_guard_with_def recover_from_ffi_panic_def)

lemma ffi_try_invalid_input [simp]:
  "ffi_try (Err (invalid_input m)) errval t = (errval, set_last_error CInvalidArgument m t)"
  by (simp add: ffi_try_Err)

text \<open>
  The contract every entry point offers its C caller: the error value is returned exactly when
  the slot holds an error afterwards.
\<close>

lemma ffi_try_code:
  "lance_last_error_code (snd (ffi_try body errval t)) = COk \<longleftrightarrow> (\<exists>v. body = Ok v)"
  by (cases body) (auto simp: ffi_try_Err ffi_try_Panic split: unwind.splits)

lemma ffi_try_fst:
  "fst (ffi_try body errval t) = (case body of Ok v \<Rightarrow> v | _ \<Rightarrow> errval)"
  by (cases body) (auto simp: ffi_try_Err ffi_try_Panic)

subsection \<open>Properties\<close>

text \<open>The first panic under the guard, with the state of \<open>on_failure\<close> at that point: of the body, of formatting its
  error, or of producing the error value.\<close>

definition first_panic :: "'a outcome \<Rightarrow> ('st \<Rightarrow> ffi_failure \<Rightarrow> 'a unwind \<times> 'st) \<Rightarrow> 'st \<Rightarrow> (payload \<times> 'st) option" where
  "first_panic body on_failure st =
     (case body of
        Ok _ \<Rightarrow> None
      | Panic p \<Rightarrow> Some (p, st)
      | Err e \<Rightarrow>
          (case err_display e of
             Unwound p \<Rightarrow> Some (p, st)
           | Returned _ \<Rightarrow> (case on_failure st FailLance of (Unwound p, st1) \<Rightarrow> Some (p, st1) | _ \<Rightarrow> None)))"

text \<open>C1. The panic firewall. Without a panic the guard returns the value of the body, with the last error cleared, or,
  for an error, the error value that is produced for it, with the code and the text of that error in the slot. After a
  panic, whether of the body, of formatting its error or of producing the error value, it asks for the error value once
  more and the slot holds \<open>LANCE_ERR_PANIC\<close> with the text of that panic; the guard unwinds exactly when this second
  attempt panics too. With a constant error value, as in every \<open>ffi_try!\<close>, it always returns: the value of the body or
  that constant, and an error in the slot exactly when it is the constant for a failure.\<close>

theorem ffi_guard_contains_panics:
  "(case first_panic body on_failure st of
      None \<Rightarrow>
        (\<exists>v. body = Ok v \<and> ffi_guard_with body on_failure t st = (Returned v, None, st)) \<or>
        (\<exists>e m v st1. body = Err e \<and> err_display e = Returned m \<and> on_failure st FailLance = (Returned v, st1) \<and>
           ffi_guard_with body on_failure t st =
             (Returned v, Some \<lparr>le_code = error_code_from_lance e, le_message = replace_nul m\<rparr>, st1))
    | Some (p, st0) \<Rightarrow>
        ffi_guard_with body on_failure t st =
          (fst (on_failure st0 FailPanic),
           Some \<lparr>le_code = CPanic, le_message = ''panic in FFI call: '' @ panic_payload_message p\<rparr>,
           snd (on_failure st0 FailPanic))) \<and>
   (fst (ffi_guard_with body on_failure t st) = Unwound q \<longleftrightarrow>
      (\<exists>p st0. first_panic body on_failure st = Some (p, st0) \<and> fst (on_failure st0 FailPanic) = Unwound q)) \<and>
   fst (ffi_try body errval t) = (case body of Ok v \<Rightarrow> v | _ \<Rightarrow> errval) \<and>
   (lance_last_error_code (snd (ffi_try body errval t)) = COk \<longleftrightarrow> (\<exists>v. body = Ok v))"
proof (intro conjI)
  note defs = ffi_guard_with_def first_panic_def set_lance_error_def recover_from_ffi_panic_def clear_last_error_def
    set_last_error_eq panic_text
  show "case first_panic body on_failure st of
      None \<Rightarrow>
        (\<exists>v. body = Ok v \<and> ffi_guard_with body on_failure t st = (Returned v, None, st)) \<or>
        (\<exists>e m v st1. body = Err e \<and> err_display e = Returned m \<and> on_failure st FailLance = (Returned v, st1) \<and>
           ffi_guard_with body on_failure t st =
             (Returned v, Some \<lparr>le_code = error_code_from_lance e, le_message = replace_nul m\<rparr>, st1))
    | Some (p, st0) \<Rightarrow>
        ffi_guard_with body on_failure t st =
          (fst (on_failure st0 FailPanic),
           Some \<lparr>le_code = CPanic, le_message = ''panic in FFI call: '' @ panic_payload_message p\<rparr>,
           snd (on_failure st0 FailPanic))"
    by (auto simp: defs split: outcome.splits unwind.splits prod.splits)
  show "fst (ffi_guard_with body on_failure t st) = Unwound q \<longleftrightarrow>
      (\<exists>p st0. first_panic body on_failure st = Some (p, st0) \<and> fst (on_failure st0 FailPanic) = Unwound q)"
    by (auto simp: defs split: outcome.splits unwind.splits prod.splits)
qed (simp_all add: ffi_try_fst ffi_try_code)

text \<open>An error that panics when it is formatted, and an error value that panics twice.\<close>

theorem ffi_guard_contains_panics_witness:
  "ffi_guard_with (Err (LanceError IO (Unwound (StrPayload ''boom''))) :: int outcome)
      (\<lambda>n _. (Returned (- 1), Suc n)) None (0::nat) =
      (Returned (- 1), Some \<lparr>le_code = CPanic, le_message = ''panic in FFI call: boom''\<rparr>, 1) \<and>
   fst (ffi_guard_with (Panic (StrPayload ''a'') :: int outcome) (\<lambda>n _. (Unwound (StrPayload ''b''), n)) None ()) =
      Unwound (StrPayload ''b'')"
proof
  show "ffi_guard_with (Err (LanceError IO (Unwound (StrPayload ''boom''))) :: int outcome)
      (\<lambda>n _. (Returned (- 1), Suc n)) None (0::nat) =
      (Returned (- 1), Some \<lparr>le_code = CPanic, le_message = ''panic in FFI call: boom''\<rparr>, 1)"
    using ffi_guard_contains_panics [where body = "Err (LanceError IO (Unwound (StrPayload ''boom''))) :: int outcome"
        and on_failure = "\<lambda>n _. (Returned (- 1), Suc n)" and t = None and st = "0::nat"]
    by (simp add: first_panic_def)
  show "fst (ffi_guard_with (Panic (StrPayload ''a'') :: int outcome) (\<lambda>n _. (Unwound (StrPayload ''b''), n)) None ()) =
      Unwound (StrPayload ''b'')"
    using ffi_guard_contains_panics [where body = "Panic (StrPayload ''a'') :: int outcome"
        and on_failure = "\<lambda>n _. (Unwound (StrPayload ''b''), n)" and t = None and st = "()"]
    by (simp add: first_panic_def)
qed

text \<open>C31. A message stored in the last-error slot never holds a NUL byte (so converting it for C
  cannot fail), a message without NUL bytes is stored unchanged, and reading the message returns
  it exactly once: a second read gives NULL and code \<open>LANCE_OK\<close>.\<close>

theorem last_error_message_roundtrip:
  "lance_last_error_message (set_last_error c m t) = (Some (replace_nul m), None) \<and>
   CHR 0x00 \<notin> set (replace_nul m) \<and>
   (CHR 0x00 \<in> set m \<or> replace_nul m = m) \<and>
   lance_last_error_message (snd (lance_last_error_message (set_last_error c m t))) = (None, None) \<and>
   lance_last_error_code (snd (lance_last_error_message (set_last_error c m t))) = COk"
  using replace_nul_id [of m]
  by (simp add: lance_last_error_message_def set_last_error_eq) blast

end
