(* ===== verification/C_Strings.thy ===== *)
theory C_Strings
  imports Errors "HOL-Library.AList"
begin

text \<open>
  Model of \<open>src/helpers.rs\<close>: reading the C strings and NULL-terminated arrays that callers pass.
  A C string is the byte sequence before its terminator; a NULL-terminated array is the list of
  the entries before its sentinel; an array of \<open>n\<close> entries passed with its length is a list of
  nullable pointers, of which the first \<open>n\<close> are read.
\<close>

subsection \<open>UTF-8 validation, as \<open>CStr::to_str\<close> does it\<close>

definition utf8_cont :: "nat \<Rightarrow> bool" where
  "utf8_cont b \<longleftrightarrow> 0x80 \<le> b \<and> b \<le> 0xBF"

text \<open>The admissible second byte of a multi-byte sequence, given the first.\<close>

definition utf8_second :: "nat \<Rightarrow> nat \<Rightarrow> bool" where
  "utf8_second b c \<longleftrightarrow>
     (if b = 0xE0 then 0xA0 \<le> c \<and> c \<le> 0xBF
      else if b = 0xED then 0x80 \<le> c \<and> c \<le> 0x9F
      else if b = 0xF0 then 0x90 \<le> c \<and> c \<le> 0xBF
      else if b = 0xF4 then 0x80 \<le> c \<and> c \<le> 0x8F
      else utf8_cont c)"

fun utf8_valid :: "nat list \<Rightarrow> bool" where
  "utf8_valid [] = True"
| "utf8_valid (b # bs) =
     (if b < 0x80 then utf8_valid bs
      else if 0xC2 \<le> b \<and> b \<le> 0xDF then
        (case bs of c1 # r \<Rightarrow> utf8_cont c1 \<and> utf8_valid r | [] \<Rightarrow> False)
      else if 0xE0 \<le> b \<and> b \<le> 0xEF then
        (case bs of c1 # c2 # r \<Rightarrow> utf8_second b c1 \<and> utf8_cont c2 \<and> utf8_valid r | _ \<Rightarrow> False)
      else if 0xF0 \<le> b \<and> b \<le> 0xF4 then
        (case bs of c1 # c2 # c3 # r \<Rightarrow> utf8_second b c1 \<and> utf8_cont c2 \<and> utf8_cont c3 \<and> utf8_valid r
         | _ \<Rightarrow> False)
      else False)"

definition to_str_ok :: "string \<Rightarrow> bool" where
  "to_str_ok s = utf8_valid (map of_char s)"

subsection \<open>Single strings\<close>

definition parse_c_string :: "string ptr \<Rightarrow> string option outcome" where
  "parse_c_string p =
     (case p of
        None \<Rightarrow> Ok None
      | Some s \<Rightarrow> (if to_str_ok s then Ok (Some s) else Err (invalid_input ''invalid utf-8 sequence'')))"

subsection \<open>NULL-terminated arrays\<close>

fun parse_entries :: "string list \<Rightarrow> string list outcome" where
  "parse_entries [] = Ok []"
| "parse_entries (e # es) =
     obind (parse_c_string (Some e)) (\<lambda>s.
       case s of
         Some v \<Rightarrow> obind (parse_entries es) (\<lambda>r. Ok (v # r))
       | None \<Rightarrow> Ok [])"

definition parse_c_string_array :: "string list ptr \<Rightarrow> string list option outcome" where
  "parse_c_string_array p =
     (case p of None \<Rightarrow> Ok None | Some es \<Rightarrow> obind (parse_entries es) (\<lambda>r. Ok (Some r)))"

text \<open>The key-value loop; the map is an association list updated by key, so a repeated key keeps
  its last value, as \<open>HashMap::insert\<close> does.\<close>

fun parse_options_loop :: "string list \<Rightarrow> (string \<times> string) list \<Rightarrow> (string \<times> string) list outcome" where
  "parse_options_loop [] m = Ok m"
| "parse_options_loop [k] m =
     Err (invalid_input ''storage options must be key-value pairs; odd number of entries'')"
| "parse_options_loop (k # v # es) m =
     obind (parse_c_string (Some k)) (\<lambda>k'.
     obind (parse_c_string (Some v)) (\<lambda>v'.
       case (k', v') of
         (Some ks, Some vs) \<Rightarrow> parse_options_loop es (AList.update ks vs m)
       | _ \<Rightarrow> Panic (StrPayload ''called `Option::unwrap()` on a `None` value'')))"

definition parse_storage_options :: "string list ptr \<Rightarrow> (string \<times> string) list outcome" where
  "parse_storage_options p = (case p of None \<Rightarrow> Ok [] | Some es \<Rightarrow> parse_options_loop es [])"

subsection \<open>Required strings\<close>

text \<open>The idiom \<open>parse_c_string(p)?.filter(|s| !s.is_empty()).ok_or_else(|| e)?\<close>.\<close>

definition required_string :: "string ptr \<Rightarrow> lance_error \<Rightarrow> string outcome" where
  "required_string p e =
     obind (parse_c_string p) (\<lambda>s. ok_or (Option.bind s (\<lambda>v. if v = [] then None else Some v)) e)"

text \<open>The validation loop over an array passed with its length: \<open>name[i] must not be NULL or empty\<close>.\<close>

definition entry_error :: "string \<Rightarrow> nat \<Rightarrow> lance_error" where
  "entry_error name i = invalid_input (name @ ''['' @ show_nat i @ ''] must not be NULL or empty'')"

fun required_entries :: "string \<Rightarrow> nat \<Rightarrow> string ptr list \<Rightarrow> string list outcome" where
  "required_entries name i [] = Ok []"
| "required_entries name i (p # ps) =
     obind (required_string p (entry_error name i)) (\<lambda>s.
     obind (required_entries name (Suc i) ps) (\<lambda>r. Ok (s # r)))"

subsection \<open>Lemmas\<close>

lemma parse_c_string_simps [simp]:
  "parse_c_string None = Ok None"
  "to_str_ok s \<Longrightarrow> parse_c_string (Some s) = Ok (Some s)"
  "\<not> to_str_ok s \<Longrightarrow> parse_c_string (Some s) = Err (invalid_input ''invalid utf-8 sequence'')"
  by (simp_all add: parse_c_string_def)

lemma parse_c_string_not_Panic [simp]: "parse_c_string p \<noteq> Panic q"
  by (simp add: parse_c_string_def split: option.splits)

lemma parse_c_string_eq_Ok:
  "parse_c_string p = Ok s \<longleftrightarrow> s = p \<and> (case p of None \<Rightarrow> True | Some v \<Rightarrow> to_str_ok v)"
  by (auto simp: parse_c_string_def split: option.splits)

lemma parse_c_string_kind: "parse_c_string p = Err e \<Longrightarrow> err_kind e = InvalidInput"
  by (auto simp: parse_c_string_def split: option.splits if_splits)

lemma utf8_valid_ascii: "(\<forall>b \<in> set bs. b < 0x80) \<Longrightarrow> utf8_valid bs"
  by (induction bs) auto

lemma parse_entries_eq_Ok: "parse_entries es = Ok r \<longleftrightarrow> r = es \<and> list_all to_str_ok es"
  by (induction es arbitrary: r) (auto simp: parse_c_string_eq_Ok obind_eq_Ok split: option.splits)

lemma parse_entries_not_Panic [simp]: "parse_entries es \<noteq> Panic q"
  by (induction es) (auto simp: obind_eq_Panic split: option.splits)

lemma parse_c_string_array_eq_Ok:
  "parse_c_string_array p = Ok r \<longleftrightarrow> r = p \<and> (case p of None \<Rightarrow> True | Some es \<Rightarrow> list_all to_str_ok es)"
  by (auto simp: parse_c_string_array_def obind_eq_Ok parse_entries_eq_Ok split: option.splits)

lemma parse_c_string_array_not_Panic [simp]: "parse_c_string_array p \<noteq> Panic q"
  by (auto simp: parse_c_string_array_def obind_eq_Panic split: option.splits)

lemma required_string_eq_Ok:
  "required_string p e = Ok s \<longleftrightarrow> p = Some s \<and> s \<noteq> [] \<and> to_str_ok s"
  by (cases p) (auto simp: required_string_def obind_eq_Ok parse_c_string_eq_Ok ok_or_eq_Ok
      split: if_splits)

lemma required_string_not_Panic [simp]: "required_string p e \<noteq> Panic q"
  by (simp add: required_string_def obind_eq_Panic)

lemma required_string_kind:
  "required_string p e = Err e' \<Longrightarrow> err_kind e = InvalidInput \<Longrightarrow> err_kind e' = InvalidInput"
  by (auto simp: required_string_def obind_eq_Err ok_or_eq_Err dest: parse_c_string_kind)

lemma required_entries_eq_Ok:
  "required_entries name i ps = Ok ss \<longleftrightarrow>
     ps = map Some ss \<and> list_all (\<lambda>s. s \<noteq> [] \<and> to_str_ok s) ss"
  by (induction ps arbitrary: i ss) (auto simp: obind_eq_Ok required_string_eq_Ok)

lemma required_entries_not_Panic [simp]: "required_entries name i ps \<noteq> Panic q"
  by (induction ps arbitrary: i) (simp_all add: obind_eq_Panic)

lemma required_entries_kind: "required_entries name i ps = Err e \<Longrightarrow> err_kind e = InvalidInput"
  by (induction ps arbitrary: i)
    (auto simp: obind_eq_Err entry_error_def dest!: required_string_kind)

text \<open>Pairing up an even-length list.\<close>

fun pairs :: "'a list \<Rightarrow> ('a \<times> 'a) list" where
  "pairs (a # b # r) = (a, b) # pairs r"
| "pairs _ = []"

lemma parse_options_loop_even:
  "even (length es) \<Longrightarrow> list_all to_str_ok es \<Longrightarrow>
     \<exists>m'. parse_options_loop es m = Ok m' \<and> map_of m' = map_of m ++ map_of (rev (pairs es))"
proof (induction es m rule: parse_options_loop.induct)
  case (3 k v es m)
  then have "\<exists>m'. parse_options_loop es (AList.update k v m) = Ok m' \<and>
      map_of m' = map_of (AList.update k v m) ++ map_of (rev (pairs es))"
    by auto
  then obtain m' where m': "parse_options_loop es (AList.update k v m) = Ok m'"
      "map_of m' = map_of (AList.update k v m) ++ map_of (rev (pairs es))" by blast
  have "map_of (AList.update k v m) ++ map_of (rev (pairs es)) =
      map_of m ++ map_of (rev ((k, v) # pairs es))"
    by (auto simp: update_conv' map_add_def fun_eq_iff split: option.splits)
  with m' 3 show ?case by auto
qed auto

lemma parse_options_loop_odd: "odd (length es) \<Longrightarrow> \<exists>e. parse_options_loop es m = Err e \<and> err_kind e = InvalidInput"
proof (induction es m rule: parse_options_loop.induct)
  case (3 k v es m)
  then show ?case
    by (cases "to_str_ok k"; cases "to_str_ok v") auto
qed auto

subsection \<open>Properties\<close>

text \<open>Storage options: a NULL array gives no options; an array of valid UTF-8 strings parses exactly
  when it holds an even number of entries, and then looks every key up to the value of its last
  occurrence; an odd number of entries is an invalid-argument error whatever the strings are.\<close>

theorem parse_storage_options_correct:
  "parse_storage_options None = Ok [] \<and>
   (even (length es) \<and> list_all to_str_ok es \<longrightarrow>
      (\<exists>m. parse_storage_options (Some es) = Ok m \<and> map_of m = map_of (rev (pairs es)))) \<and>
   (odd (length es) \<longrightarrow>
      (\<exists>e. parse_storage_options (Some es) = Err e \<and> error_code_from_lance e = CInvalidArgument))"
  using parse_options_loop_even [of es "[]"] parse_options_loop_odd [of es "[]"]
  by (auto simp: parse_storage_options_def error_code_from_lance_def)

theorem parse_storage_options_correct_witness:
  "\<exists>m. parse_storage_options (Some [''a'', ''1'', ''b'', ''2'', ''a'', ''3'']) = Ok m \<and>
     map_of m ''a'' = Some ''3'' \<and> map_of m ''b'' = Some ''2''"
  using parse_storage_options_correct [of "[''a'', ''1'', ''b'', ''2'', ''a'', ''3'']"]
  by (auto simp: to_str_ok_def)

end
