(* ===== verification/Stream_Guard.thy ===== *)
theory Stream_Guard
  imports Errors
begin

text \<open>
  Model of \<open>src/stream_guard.rs\<close>: the readers that stand between an exported Arrow C stream and
  the Lance stream or in-memory reader behind it. The inner stream is a parameter: a function
  that, run from the stream's state under \<open>block_on\<close>, gives what the poll produced and the next
  state. A panic of \<open>block_on\<close> itself and a panic of the poll are both \<open>PollPanic\<close>.
\<close>

subsection \<open>What the inner stream does\<close>

datatype 'b poll = PollBatch 'b | PollErr lance_error | PollEnd | PollPanic payload

text \<open>What the consumer of the guarded reader gets: a batch, or an owned, NUL-free error text.\<close>

datatype 'b item = BatchItem 'b | ErrItem string

definition ffi_safe_stream_error :: "string \<Rightarrow> 'b item" where
  "ffi_safe_stream_error m = ErrItem (replace_nul m)"

text \<open>The closure that runs under \<open>catch_unwind\<close>: it polls, and formats an error while still inside
  the guard. \<open>Inr\<close> is the value it returns, \<open>Inl\<close> the payload it unwinds with.\<close>

fun poll_guarded :: "'b poll \<Rightarrow> payload + 'b item option" where
  "poll_guarded (PollBatch b) = Inr (Some (BatchItem b))"
| "poll_guarded (PollErr e) =
     (case err_display e of
        Returned m \<Rightarrow> Inr (Some (ffi_safe_stream_error m))
      | Unwound p \<Rightarrow> Inl p)"
| "poll_guarded PollEnd = Inr None"
| "poll_guarded (PollPanic p) = Inl p"

subsection \<open>Schema preflight\<close>

definition schema_panic_text :: "payload \<Rightarrow> string" where
  "schema_panic_text p = replace_nul (''panic exporting Arrow schema: '' @ panic_payload_message p)"

definition preflight_schema :: "('sc \<Rightarrow> unit outcome) \<Rightarrow> 'sc \<Rightarrow> string + unit" where
  "preflight_schema conv sc =
     (case conv sc of
        Ok _ \<Rightarrow> Inr ()
      | Err e \<Rightarrow> (case err_display e of
                    Returned m \<Rightarrow> Inl (replace_nul m)
                  | Unwound p \<Rightarrow> Inl (schema_panic_text p))
      | Panic p \<Rightarrow> Inl (schema_panic_text p))"

subsection \<open>The reader over an asynchronous stream\<close>

record ('st, 'sc) guarded_reader =
  gr_inner :: "'st option"
  gr_schema :: 'sc
  gr_poisoned :: bool

definition guarded_reader_new :: "('sc \<Rightarrow> unit outcome) \<Rightarrow> 'st \<Rightarrow> 'sc \<Rightarrow> ('st, 'sc) guarded_reader outcome" where
  "guarded_reader_new conv inner sc =
     (case preflight_schema conv sc of
        Inl m \<Rightarrow> Panic (StringPayload (''Arrow schema cannot be exported: '' @ m))
      | Inr _ \<Rightarrow> Ok \<lparr>gr_inner = Some inner, gr_schema = sc, gr_poisoned = False\<rparr>)"

text \<open>\<open>next\<close> takes and returns the scanner's shared poison flag beside the reader.\<close>

definition guarded_next ::
  "('st \<Rightarrow> 'b poll \<times> 'st) \<Rightarrow> ('st, 'sc) guarded_reader \<times> bool \<Rightarrow> 'b item option \<times> ('st, 'sc) guarded_reader \<times> bool" where
  "guarded_next step = (\<lambda>(r, flag).
     if gr_poisoned r then (None, r, flag)
     else (case gr_inner r of
        None \<Rightarrow> (None, r, flag)
      | Some st \<Rightarrow>
          (let (ev, st') = step st; r' = r\<lparr>gr_inner := Some st'\<rparr>
           in case poll_guarded ev of
                Inr it \<Rightarrow> (it, r', flag)
              | Inl p \<Rightarrow>
                  (Some (ffi_safe_stream_error (''panic in stream: '' @ panic_payload_message p)),
                   r'\<lparr>gr_poisoned := True\<rparr>, True))))"

definition guarded_schema :: "('st, 'sc) guarded_reader \<Rightarrow> 'sc" where
  "guarded_schema r = gr_schema r"

text \<open>\<open>Drop\<close> detaches the inner stream and drops it under \<open>swallow_unwind\<close>; the boolean says whether
  the inner drop completed. It never touches the poison flag.\<close>

definition guarded_drop :: "('st \<Rightarrow> unit unwind) \<Rightarrow> ('st, 'sc) guarded_reader \<Rightarrow> tls \<Rightarrow>
    bool \<times> tls \<times> ('st, 'sc) guarded_reader" where
  "guarded_drop drop_inner r t =
     (case gr_inner r of
        None \<Rightarrow> (True, t, r)
      | Some st \<Rightarrow> (let (b, t') = swallow_unwind (drop_inner st) t in (b, t', r\<lparr>gr_inner := None\<rparr>)))"

subsection \<open>The reader over an already materialized reader\<close>

record ('st, 'sc) guarded_batch_reader =
  br_inner :: "'st option"
  br_schema :: 'sc
  br_poisoned :: bool

definition guarded_batch_next ::
  "('st \<Rightarrow> 'b poll \<times> 'st) \<Rightarrow> ('st, 'sc) guarded_batch_reader \<Rightarrow> 'b item option \<times> ('st, 'sc) guarded_batch_reader" where
  "guarded_batch_next step r =
     (if br_poisoned r then (None, r)
      else (case br_inner r of
        None \<Rightarrow> (None, r)
      | Some st \<Rightarrow>
          (let (ev, st') = step st; r' = r\<lparr>br_inner := Some st'\<rparr>
           in case poll_guarded ev of
                Inr it \<Rightarrow> (it, r')
              | Inl p \<Rightarrow>
                  (Some (ffi_safe_stream_error (''panic in record batch reader: '' @ panic_payload_message p)),
                   r'\<lparr>br_poisoned := True\<rparr>))))"

definition guarded_batch_drop :: "('st \<Rightarrow> unit unwind) \<Rightarrow> ('st, 'sc) guarded_batch_reader \<Rightarrow> tls \<Rightarrow>
    bool \<times> tls \<times> ('st, 'sc) guarded_batch_reader" where
  "guarded_batch_drop drop_inner r t =
     (case br_inner r of
        None \<Rightarrow> (True, t, r)
      | Some st \<Rightarrow> (let (b, t') = swallow_unwind (drop_inner st) t in (b, t', r\<lparr>br_inner := None\<rparr>)))"

text \<open>\<open>guarded_ffi_stream_from_reader\<close>: the schema is converted once before the reader is exposed.\<close>

definition guarded_ffi_stream_from_reader ::
  "('sc \<Rightarrow> unit outcome) \<Rightarrow> ('st \<Rightarrow> 'sc) \<Rightarrow> 'st \<Rightarrow> string + ('st, 'sc) guarded_batch_reader" where
  "guarded_ffi_stream_from_reader conv schema_of reader =
     (let sc = schema_of reader
      in case preflight_schema conv sc of
           Inl m \<Rightarrow> Inl m
         | Inr _ \<Rightarrow> Inr \<lparr>br_inner = Some reader, br_schema = sc, br_poisoned = False\<rparr>)"

subsection \<open>The interface both readers offer\<close>

text \<open>
  An iterator that fuses after a contained panic: a predicate says that it is fused, a fused
  iterator is at its end and stays as it is, and every error text it hands out is free of NUL.
\<close>

locale fused_reader =
  fixes nxt :: "'r \<Rightarrow> 'b item option \<times> 'r" and fused :: "'r \<Rightarrow> bool"
  assumes fused_next: "fused r \<Longrightarrow> nxt r = (None, r)"
    and next_nul_free: "nxt r = (Some (ErrItem m), r') \<Longrightarrow> CHR 0x00 \<notin> set m"
begin

fun collect :: "nat \<Rightarrow> 'r \<Rightarrow> 'b item option list \<times> 'r" where
  "collect 0 r = ([], r)"
| "collect (Suc n) r = (let (it, r') = nxt r; (its, r'') = collect n r' in (it # its, r''))"

lemma collect_fused: "fused r \<Longrightarrow> collect n r = (replicate n None, r)"
  by (induction n) (simp_all add: fused_next)

lemma collect_length: "length (fst (collect n r)) = n"
  by (induction n arbitrary: r) (auto simp: split_beta Let_def)

lemma collect_nul_free: "Some (ErrItem m) \<in> set (fst (collect n r)) \<Longrightarrow> CHR 0x00 \<notin> set m"
proof (induction n arbitrary: r)
  case (Suc n)
  then show ?case
    by (cases "nxt r") (auto simp: split_beta Let_def dest: next_nul_free)
qed simp

lemma collect_add: "collect (m + n) r =
    (let (a, r1) = collect m r; (b, r2) = collect n r1 in (a @ b, r2))"
  by (induction m arbitrary: r) (auto simp: split_beta Let_def)

end

lemma poll_guarded_nul_free: "poll_guarded ev = Inr (Some (ErrItem m)) \<Longrightarrow> CHR 0x00 \<notin> set m"
  by (cases ev) (auto simp: ffi_safe_stream_error_def split: unwind.splits)

interpretation async: fused_reader "guarded_next step" "\<lambda>(r, flag). gr_poisoned r" for step
proof unfold_locales
  fix x :: "('a, 'c) guarded_reader \<times> bool"
  assume "(\<lambda>(r, flag). gr_poisoned r) x"
  then show "guarded_next step x = (None, x)"
    by (auto simp: guarded_next_def split_beta)
next
  fix x x' :: "('a, 'c) guarded_reader \<times> bool" and m
  assume "guarded_next step x = (Some (ErrItem m), x')"
  then show "CHR 0x00 \<notin> set m"
    by (auto simp: guarded_next_def split_beta Let_def ffi_safe_stream_error_def
        split: if_splits option.splits sum.splits dest: poll_guarded_nul_free)
qed

interpretation batch: fused_reader "guarded_batch_next step" br_poisoned for step
proof unfold_locales
  fix r :: "('a, 'c) guarded_batch_reader"
  assume "br_poisoned r"
  then show "guarded_batch_next step r = (None, r)"
    by (simp add: guarded_batch_next_def)
next
  fix r r' :: "('a, 'c) guarded_batch_reader" and m
  assume "guarded_batch_next step r = (Some (ErrItem m), r')"
  then show "CHR 0x00 \<notin> set m"
    by (auto simp: guarded_batch_next_def split_beta Let_def ffi_safe_stream_error_def
        split: if_splits option.splits sum.splits dest: poll_guarded_nul_free)
qed

subsection \<open>Specification: the guarded stream as a function of the inner stream's polls\<close>

fun inner_polls :: "('st \<Rightarrow> 'b poll \<times> 'st) \<Rightarrow> nat \<Rightarrow> 'st \<Rightarrow> 'b poll list" where
  "inner_polls step 0 st = []"
| "inner_polls step (Suc n) st = (let (ev, st') = step st in ev # inner_polls step n st')"

fun spec_items :: "string \<Rightarrow> 'b poll list \<Rightarrow> 'b item option list" where
  "spec_items what [] = []"
| "spec_items what (ev # evs) =
     (case poll_guarded ev of
        Inr it \<Rightarrow> it # spec_items what evs
      | Inl p \<Rightarrow> Some (ffi_safe_stream_error (what @ panic_payload_message p))
                 # replicate (length evs) None)"

definition poll_panics :: "'b poll \<Rightarrow> bool" where
  "poll_panics ev \<longleftrightarrow> (case poll_guarded ev of Inl _ \<Rightarrow> True | Inr _ \<Rightarrow> False)"

lemma length_inner_polls [simp]: "length (inner_polls step n st) = n"
  by (induction n arbitrary: st) (auto simp: split_beta Let_def)

text \<open>A run of the reader as a plain function, so that it can be named outside the interface.\<close>

fun guarded_run :: "('st \<Rightarrow> 'b poll \<times> 'st) \<Rightarrow> nat \<Rightarrow> ('st, 'sc) guarded_reader \<times> bool \<Rightarrow>
    'b item option list \<times> ('st, 'sc) guarded_reader \<times> bool" where
  "guarded_run step 0 x = ([], x)"
| "guarded_run step (Suc n) x =
     (let (it, x') = guarded_next step x; (its, x'') = guarded_run step n x' in (it # its, x''))"

fun guarded_batch_run :: "('st \<Rightarrow> 'b poll \<times> 'st) \<Rightarrow> nat \<Rightarrow> ('st, 'sc) guarded_batch_reader \<Rightarrow>
    'b item option list \<times> ('st, 'sc) guarded_batch_reader" where
  "guarded_batch_run step 0 x = ([], x)"
| "guarded_batch_run step (Suc n) x =
     (let (it, x') = guarded_batch_next step x; (its, x'') = guarded_batch_run step n x' in (it # its, x''))"

lemma guarded_run_collect: "guarded_run step n x = async.collect step n x"
  by (induction n arbitrary: x) (simp_all add: Let_def split_beta)

lemma guarded_batch_run_collect: "guarded_batch_run step n x = batch.collect step n x"
  by (induction n arbitrary: x) (simp_all add: Let_def split_beta)

lemma guarded_run_spec:
  assumes "gr_inner r = Some st" and "\<not> gr_poisoned r"
  shows "fst (guarded_run step n (r, flag)) = spec_items ''panic in stream: '' (inner_polls step n st) \<and>
     snd (snd (guarded_run step n (r, flag))) = (flag \<or> list_ex poll_panics (inner_polls step n st))"
  using assms
proof (induction n arbitrary: r st flag)
  case (Suc n)
  obtain ev st' where st: "step st = (ev, st')" by fastforce
  show ?case
  proof (cases "poll_guarded ev")
    case (Inr it)
    with Suc.prems st have "guarded_next step (r, flag) = (it, r\<lparr>gr_inner := Some st'\<rparr>, flag)"
      by (simp add: guarded_next_def)
    then show ?thesis
      using Suc.IH [of "r\<lparr>gr_inner := Some st'\<rparr>" st' flag] Suc.prems st Inr
      by (simp add: split_beta Let_def poll_panics_def)
  next
    case (Inl p)
    let ?r = "r\<lparr>gr_inner := Some st', gr_poisoned := True\<rparr>"
    from Inl Suc.prems st have nx: "guarded_next step (r, flag) =
        (Some (ffi_safe_stream_error (''panic in stream: '' @ panic_payload_message p)), ?r, True)"
      by (simp add: guarded_next_def)
    have "guarded_run step n (?r, True) = (replicate n None, ?r, True)"
      by (simp add: guarded_run_collect async.collect_fused)
    with nx st Inl show ?thesis by (simp add: poll_panics_def)
  qed
qed simp

lemma guarded_batch_run_spec:
  assumes "br_inner r = Some st" and "\<not> br_poisoned r"
  shows "fst (guarded_batch_run step n r) =
      spec_items ''panic in record batch reader: '' (inner_polls step n st) \<and>
    br_poisoned (snd (guarded_batch_run step n r)) = list_ex poll_panics (inner_polls step n st)"
  using assms
proof (induction n arbitrary: r st)
  case (Suc n)
  obtain ev st' where st: "step st = (ev, st')" by fastforce
  show ?case
  proof (cases "poll_guarded ev")
    case (Inr it)
    with Suc.prems st have "guarded_batch_next step r = (it, r\<lparr>br_inner := Some st'\<rparr>)"
      by (simp add: guarded_batch_next_def)
    then show ?thesis
      using Suc.IH [of "r\<lparr>br_inner := Some st'\<rparr>" st'] Suc.prems st Inr
      by (simp add: split_beta Let_def poll_panics_def)
  next
    case (Inl p)
    let ?r = "r\<lparr>br_inner := Some st', br_poisoned := True\<rparr>"
    from Inl Suc.prems st have nx: "guarded_batch_next step r =
        (Some (ffi_safe_stream_error (''panic in record batch reader: '' @ panic_payload_message p)), ?r)"
      by (simp add: guarded_batch_next_def)
    have "guarded_batch_run step n ?r = (replicate n None, ?r)"
      by (simp add: guarded_batch_run_collect batch.collect_fused)
    with nx st Inl show ?thesis by (simp add: poll_panics_def)
  qed
qed simp

subsection \<open>Properties\<close>

text \<open>C5. Both guarded readers refine the stream behind them. A fresh reader, over a Lance stream or over an already
  materialized reader, yields exactly the inner items, regular errors included, up to the first panic (of the poll, of
  \<open>block_on\<close> or of formatting an error); there it yields one error, with the text of the panic, and then end-of-stream
  for ever. It is poisoned exactly when such a panic happened, and with it, for a Lance stream, the scanner.\<close>

theorem guarded_stream_refines_inner:
  assumes "guarded_reader_new conv st sc = Ok r" and "guarded_ffi_stream_from_reader conv' schema_of st' = Inr br"
  shows "fst (guarded_run step n (r, False)) = spec_items ''panic in stream: '' (inner_polls step n st) \<and>
     snd (snd (guarded_run step n (r, False))) = list_ex poll_panics (inner_polls step n st) \<and>
     fst (guarded_batch_run step' n br) = spec_items ''panic in record batch reader: '' (inner_polls step' n st') \<and>
     br_poisoned (snd (guarded_batch_run step' n br)) = list_ex poll_panics (inner_polls step' n st')"
proof -
  from assms(1) have a: "gr_inner r = Some st" "\<not> gr_poisoned r"
    by (auto simp: guarded_reader_new_def split: sum.splits)
  from assms(2) have b: "br_inner br = Some st'" "\<not> br_poisoned br"
    by (auto simp: guarded_ffi_stream_from_reader_def Let_def split: sum.splits)
  from guarded_run_spec [OF a, of step n False] guarded_batch_run_spec [OF b, of step' n] show ?thesis by simp
qed

definition demo_step :: "nat \<Rightarrow> nat poll \<times> nat" where
  "demo_step k = ((if k = 2 then PollPanic (StrPayload ''boom'') else PollBatch k), Suc k)"

theorem guarded_stream_refines_inner_witness:
  "fst (guarded_run demo_step 5 (\<lparr>gr_inner = Some 0, gr_schema = (), gr_poisoned = False\<rparr>, False)) =
     [Some (BatchItem 0), Some (BatchItem 1), Some (ErrItem ''panic in stream: boom''), None, None] \<and>
   snd (snd (guarded_run demo_step 5 (\<lparr>gr_inner = Some 0, gr_schema = (), gr_poisoned = False\<rparr>, False))) \<and>
   fst (guarded_batch_run demo_step 5 \<lparr>br_inner = Some 1, br_schema = (), br_poisoned = False\<rparr>) =
     [Some (BatchItem 1), Some (ErrItem ''panic in record batch reader: boom''), None, None, None]"
proof -
  have new: "guarded_reader_new (\<lambda>_. Ok ()) 0 () =
      Ok \<lparr>gr_inner = Some (0::nat), gr_schema = (), gr_poisoned = False\<rparr>"
    by (simp add: guarded_reader_new_def preflight_schema_def)
  have batch_new: "guarded_ffi_stream_from_reader (\<lambda>_. Ok ()) (\<lambda>_. ()) 1 =
      Inr \<lparr>br_inner = Some (1::nat), br_schema = (), br_poisoned = False\<rparr>"
    by (simp add: guarded_ffi_stream_from_reader_def preflight_schema_def)
  show ?thesis
    using guarded_stream_refines_inner [OF new batch_new, of demo_step 5 demo_step]
    by (simp add: demo_step_def numeral_eq_Suc poll_panics_def ffi_safe_stream_error_def)
qed

text \<open>No error text handed to the C consumer contains a NUL byte (arrow-rs would panic converting it),
  from either reader, whatever the inner stream does.\<close>

theorem stream_errors_nul_free:
  "(Some (ErrItem m) \<in> set (fst (guarded_run step n x)) \<longrightarrow> CHR 0x00 \<notin> set m) \<and>
   (Some (ErrItem m) \<in> set (fst (guarded_batch_run step' n' y)) \<longrightarrow> CHR 0x00 \<notin> set m)"
  by (auto simp: guarded_run_collect guarded_batch_run_collect
      dest: async.collect_nul_free batch.collect_nul_free)

theorem stream_errors_nul_free_witness:
  "CHR 0x00 \<notin> set ''panic in stream: boom''"
proof -
  have "Some (ErrItem ''panic in stream: boom'') \<in> set (fst (guarded_run demo_step 3
      (\<lparr>gr_inner = Some 0, gr_schema = (), gr_poisoned = False\<rparr>, False)))"
    by (simp add: demo_step_def numeral_eq_Suc guarded_next_def ffi_safe_stream_error_def)
  then show ?thesis using stream_errors_nul_free by blast
qed

end
