(* ===== verification/Dataset.thy ===== *)
theory Dataset
  imports C_Strings Stream_Guard
begin

text \<open>
  Model of \<open>src/dataset.rs\<close> and of the handle part of \<open>src/session.rs\<close>: the
  \<open>RwLock<Arc<Dataset>>\<close> behind a \<open>LanceDataset\<close>, its snapshot and clone-execute-swap mutation,
  opening, metadata, schema export, \<open>take\<close> and fragment enumeration. Lance's own \<open>Dataset\<close> is a
  parameter: a type variable and the record \<open>dataset_api\<close> of the operations the code calls.
\<close>

subsection \<open>Shared pointers and the handle\<close>

text \<open>An \<open>Arc\<close>: the address of its allocation (what \<open>Arc::ptr_eq\<close> compares) and its contents.\<close>

datatype 'a arc = Arc (arc_addr: nat) (arc_val: 'a)

definition arc_ptr_eq :: "'a arc \<Rightarrow> 'a arc \<Rightarrow> bool" where
  "arc_ptr_eq a b \<longleftrightarrow> arc_addr a = arc_addr b"

record 'ds lance_dataset =
  ds_inner :: "'ds arc"
  ds_lock_poisoned :: bool

text \<open>\<open>read().unwrap_or_else(|e| e.into_inner()).clone()\<close>: a poisoned lock still gives its contents.\<close>

definition snapshot :: "'ds lance_dataset \<Rightarrow> 'ds arc" where
  "snapshot h = ds_inner h"

text \<open>
  \<open>with_mut\<close>: the closure gets a clone of the dataset and returns its result with the clone as it
  left it. If it returns (a value or an error), the clone is stored in a new \<open>Arc\<close>, whose address
  \<open>a\<close> the allocator chooses; if it panics, the lock is poisoned by the resumed unwind and nothing is
  stored.
\<close>

definition with_mut :: "nat \<Rightarrow> ('ds \<Rightarrow> 'r outcome \<times> 'ds) \<Rightarrow> 'ds lance_dataset \<Rightarrow> 'r outcome \<times> 'ds lance_dataset" where
  "with_mut a f h =
     (let (ret, working) = f (arc_val (ds_inner h))
      in case ret of
           Panic p \<Rightarrow> (Panic p, h\<lparr>ds_lock_poisoned := True\<rparr>)
         | Ok v \<Rightarrow> (Ok v, h\<lparr>ds_inner := Arc a working\<rparr>)
         | Err e \<Rightarrow> (Err e, h\<lparr>ds_inner := Arc a working\<rparr>))"

subsection \<open>The operations of Lance's dataset that the code calls\<close>

record 'sess open_request =
  rq_uri :: string
  rq_storage_options :: "(string \<times> string) list option"
  rq_version :: "u64 option"
  rq_session :: "'sess option"

record ('ds, 'proj, 'batch, 'schema, 'ffi, 'sess) dataset_api =
  api_load :: "'sess open_request \<Rightarrow> 'ds outcome"
  api_version :: "'ds \<Rightarrow> u64"
  api_count_rows :: "'ds \<Rightarrow> usize outcome"
  api_latest_version_id :: "'ds \<Rightarrow> u64 outcome"
  api_export_schema :: "'ds \<Rightarrow> 'ffi outcome"
  api_project :: "'ds \<Rightarrow> string list \<Rightarrow> 'proj outcome"
  api_full_projection :: "'ds \<Rightarrow> 'proj"
  api_take :: "'ds \<Rightarrow> u64 list \<Rightarrow> 'proj \<Rightarrow> 'batch outcome"
  api_take_rows :: "'ds \<Rightarrow> u64 list \<Rightarrow> 'proj \<Rightarrow> 'batch outcome"
  api_batch_schema :: "'batch \<Rightarrow> 'schema"
  api_schema_to_ffi :: "'schema \<Rightarrow> unit outcome"
  api_arrow_error :: "string \<Rightarrow> lance_error"
  api_fragment_ids :: "'ds \<Rightarrow> usize list"

text \<open>\<open>map_err\<close> with a \<open>format!\<close> of the error: formatting may itself panic.\<close>

definition map_err_text :: "(string \<Rightarrow> string) \<Rightarrow> 'a outcome \<Rightarrow> 'a outcome" where
  "map_err_text f m =
     (case m of
        Err e \<Rightarrow> (case err_display e of Returned t \<Rightarrow> Err (invalid_input (f t)) | Unwound p \<Rightarrow> Panic p)
      | _ \<Rightarrow> m)"

lemma map_err_text_eq_Ok: "map_err_text f r = Ok x \<longleftrightarrow> r = Ok x"
  by (cases r) (auto simp: map_err_text_def split: unwind.split)

definition projection_from_columns ::
  "('ds, 'proj, 'batch, 'schema, 'ffi, 'sess) dataset_api \<Rightarrow> 'ds \<Rightarrow> string list option \<Rightarrow> 'proj outcome" where
  "projection_from_columns api d columns =
     (case columns of
        Some cs \<Rightarrow> map_err_text (\<lambda>t. ''invalid columns '' @ debug_list cs @ '': '' @ t) (api_project api d cs)
      | None \<Rightarrow> Ok (api_full_projection api d))"

subsection \<open>Lifecycle\<close>

definition open_dataset_inner ::
  "('ds, 'proj, 'batch, 'schema, 'ffi, 'sess) dataset_api \<Rightarrow> nat \<Rightarrow> string ptr \<Rightarrow> string list ptr \<Rightarrow> u64 \<Rightarrow>
     'sess option \<Rightarrow> 'ds lance_dataset outcome" where
  "open_dataset_inner api a uri storage_options version session =
     obind (parse_c_string uri) (\<lambda>u.
     obind (ok_or u (invalid_input ''uri must not be NULL'')) (\<lambda>uri_str.
     obind (parse_storage_options storage_options) (\<lambda>opts.
     obind (api_load api
              \<lparr>rq_uri = uri_str,
               rq_storage_options = (if opts = [] then None else Some opts),
               rq_version = (if version \<noteq> 0 then Some version else None),
               rq_session = session\<rparr>) (\<lambda>d.
     Ok \<lparr>ds_inner = Arc a d, ds_lock_poisoned = False\<rparr>))))"

definition lance_dataset_open ::
  "('ds, 'proj, 'batch, 'schema, 'ffi, 'sess) dataset_api \<Rightarrow> nat \<Rightarrow> string ptr \<Rightarrow> string list ptr \<Rightarrow> u64 \<Rightarrow>
     tls \<Rightarrow> 'ds lance_dataset ptr \<times> tls" where
  "lance_dataset_open api a uri opts version t =
     ffi_try (obind (open_dataset_inner api a uri opts version None) (\<lambda>h. Ok (Some h))) None t"

definition open_dataset_with_session_inner ::
  "('ds, 'proj, 'batch, 'schema, 'ffi, 'sess) dataset_api \<Rightarrow> nat \<Rightarrow> string ptr \<Rightarrow> string list ptr \<Rightarrow> u64 \<Rightarrow>
     'sess ptr \<Rightarrow> 'ds lance_dataset outcome" where
  "open_dataset_with_session_inner api a uri opts version session =
     (case session of
        None \<Rightarrow> Err (invalid_input ''session must not be NULL'')
      | Some s \<Rightarrow> open_dataset_inner api a uri opts version (Some s))"

definition lance_dataset_open_with_session ::
  "('ds, 'proj, 'batch, 'schema, 'ffi, 'sess) dataset_api \<Rightarrow> nat \<Rightarrow> string ptr \<Rightarrow> string list ptr \<Rightarrow> u64 \<Rightarrow>
     'sess ptr \<Rightarrow> tls \<Rightarrow> 'ds lance_dataset ptr \<times> tls" where
  "lance_dataset_open_with_session api a uri opts version session t =
     ffi_try (obind (open_dataset_with_session_inner api a uri opts version session) (\<lambda>h. Ok (Some h))) None t"

definition lance_dataset_close ::
  "('ds lance_dataset \<Rightarrow> unit unwind) \<Rightarrow> 'ds lance_dataset ptr \<Rightarrow> tls \<Rightarrow> bool \<times> tls" where
  "lance_dataset_close drop_fn dataset t =
     (case dataset of None \<Rightarrow> (True, t) | Some h \<Rightarrow> swallow_unwind (drop_fn h) t)"

subsection \<open>Metadata\<close>

definition dataset_version_inner ::
  "('ds, 'proj, 'batch, 'schema, 'ffi, 'sess) dataset_api \<Rightarrow> 'ds lance_dataset ptr \<Rightarrow> u64 outcome" where
  "dataset_version_inner api dataset =
     (case dataset of
        None \<Rightarrow> Err (invalid_input ''dataset is NULL'')
      | Some ds \<Rightarrow> Ok (api_version api (arc_val (snapshot ds))))"

definition lance_dataset_version where
  "lance_dataset_version api dataset t = ffi_try (dataset_version_inner api dataset) 0 t"

definition dataset_count_rows_inner ::
  "('ds, 'proj, 'batch, 'schema, 'ffi, 'sess) dataset_api \<Rightarrow> 'ds lance_dataset ptr \<Rightarrow> u64 outcome" where
  "dataset_count_rows_inner api dataset =
     (case dataset of
        None \<Rightarrow> Err (invalid_input ''dataset is NULL'')
      | Some ds \<Rightarrow> obind (api_count_rows api (arc_val (snapshot ds))) (\<lambda>n. Ok (ucast n)))"

definition lance_dataset_count_rows where
  "lance_dataset_count_rows api dataset t = ffi_try (dataset_count_rows_inner api dataset) 0 t"

definition dataset_latest_version_inner ::
  "('ds, 'proj, 'batch, 'schema, 'ffi, 'sess) dataset_api \<Rightarrow> 'ds lance_dataset ptr \<Rightarrow> u64 outcome" where
  "dataset_latest_version_inner api dataset =
     (case dataset of
        None \<Rightarrow> Err (invalid_input ''dataset is NULL'')
      | Some ds \<Rightarrow> api_latest_version_id api (arc_val (snapshot ds)))"

definition lance_dataset_latest_version where
  "lance_dataset_latest_version api dataset t = ffi_try (dataset_latest_version_inner api dataset) 0 t"

subsection \<open>Out parameters\<close>

text \<open>
  An out pointer is NULL or names a slot of the caller with its present contents. A body that
  writes its result on success only is an outcome of the value to store; \<open>store_out\<close> is the C
  function around it: the slot changes exactly when the body returns.
\<close>

definition store_out :: "'v outcome \<Rightarrow> 'v ptr \<Rightarrow> tls \<Rightarrow> int \<times> tls \<times> 'v ptr" where
  "store_out body out t =
     (let (rc, t') = ffi_try (obind body (\<lambda>_. Ok 0)) (- 1) t
      in (rc, t', (case body of Ok v \<Rightarrow> Some v | _ \<Rightarrow> out)))"

subsection \<open>Schema\<close>

definition dataset_schema_inner ::
  "('ds, 'proj, 'batch, 'schema, 'ffi, 'sess) dataset_api \<Rightarrow> 'ds lance_dataset ptr \<Rightarrow> 'ffi ptr \<Rightarrow> 'ffi outcome" where
  "dataset_schema_inner api dataset out =
     (case (dataset, out) of
        (Some ds, Some _) \<Rightarrow> api_export_schema api (arc_val (snapshot ds))
      | _ \<Rightarrow> Err (invalid_input ''dataset and out must not be NULL''))"

definition lance_dataset_schema where
  "lance_dataset_schema api dataset out t = store_out (dataset_schema_inner api dataset out) out t"

subsection \<open>Take\<close>

text \<open>Export one materialized batch: a one-element reader behind the schema preflight.\<close>

definition export_batch ::
  "('ds, 'proj, 'batch, 'schema, 'ffi, 'sess) dataset_api \<Rightarrow> 'batch \<Rightarrow>
     ('batch list, 'schema) guarded_batch_reader outcome" where
  "export_batch api b =
     (case guarded_ffi_stream_from_reader (api_schema_to_ffi api) (\<lambda>_. api_batch_schema api b) [b] of
        Inl m \<Rightarrow> Err (api_arrow_error api m)
      | Inr r \<Rightarrow> Ok r)"

definition dataset_take_inner ::
  "('ds, 'proj, 'batch, 'schema, 'ffi, 'sess) dataset_api \<Rightarrow> 'ds lance_dataset ptr \<Rightarrow> u64 list ptr \<Rightarrow> usize \<Rightarrow>
     string list ptr \<Rightarrow> ('batch list, 'schema) guarded_batch_reader ptr \<Rightarrow>
     ('batch list, 'schema) guarded_batch_reader outcome" where
  "dataset_take_inner api dataset indices num_indices columns out =
     (case (dataset, indices, out) of
        (Some ds, Some idx, Some _) \<Rightarrow>
          (let idx_slice = take (unat num_indices) idx
           in obind (parse_c_string_array columns) (\<lambda>col_names.
              let snap = arc_val (snapshot ds)
              in obind (projection_from_columns api snap col_names) (\<lambda>proj.
                 obind (api_take api snap idx_slice proj) (\<lambda>batch.
                 export_batch api batch))))
      | _ \<Rightarrow> Err (invalid_input ''dataset, indices, and out must not be NULL''))"

definition lance_dataset_take where
  "lance_dataset_take api dataset indices num_indices columns out t =
     store_out (dataset_take_inner api dataset indices num_indices columns out) out t"

definition dataset_take_rows_inner ::
  "('ds, 'proj, 'batch, 'schema, 'ffi, 'sess) dataset_api \<Rightarrow> 'ds lance_dataset ptr \<Rightarrow> u64 list ptr \<Rightarrow> usize \<Rightarrow>
     string list ptr \<Rightarrow> ('batch list, 'schema) guarded_batch_reader ptr \<Rightarrow>
     ('batch list, 'schema) guarded_batch_reader outcome" where
  "dataset_take_rows_inner api dataset row_ids num_row_ids columns out =
     (case dataset of
        None \<Rightarrow> Err (invalid_input ''dataset must not be NULL'')
      | Some ds \<Rightarrow>
        reject_if (is_null out) (invalid_input ''out must not be NULL'') (
        reject_if (0 < num_row_ids \<and> is_null row_ids)
          (invalid_input (''row_ids must not be NULL when num_row_ids = '' @ show_u num_row_ids)) (
        let slice = (if num_row_ids = 0 then [] else take (unat num_row_ids) (case row_ids of Some r \<Rightarrow> r | None \<Rightarrow> []))
        in obind (parse_c_string_array columns) (\<lambda>col_names.
           let snap = arc_val (snapshot ds)
           in obind (projection_from_columns api snap col_names) (\<lambda>proj.
              obind (api_take_rows api snap slice proj) (\<lambda>batch.
              export_batch api batch))))))"

definition lance_dataset_take_rows where
  "lance_dataset_take_rows api dataset row_ids num_row_ids columns out t =
     store_out (dataset_take_rows_inner api dataset row_ids num_row_ids columns out) out t"

subsection \<open>Fragment enumeration\<close>

definition dataset_fragment_count_inner ::
  "('ds, 'proj, 'batch, 'schema, 'ffi, 'sess) dataset_api \<Rightarrow> 'ds lance_dataset ptr \<Rightarrow> u64 outcome" where
  "dataset_fragment_count_inner api dataset =
     (case dataset of
        None \<Rightarrow> Err (invalid_input ''dataset is NULL'')
      | Some ds \<Rightarrow> Ok (of_nat (length (api_fragment_ids api (arc_val (snapshot ds))))))"

definition lance_dataset_fragment_count where
  "lance_dataset_fragment_count api dataset t = ffi_try (dataset_fragment_count_inner api dataset) 0 t"

text \<open>The loop writes \<open>out_ids[i]\<close> for every fragment; the caller's buffer keeps what lies beyond.\<close>

definition dataset_fragment_ids_inner ::
  "('ds, 'proj, 'batch, 'schema, 'ffi, 'sess) dataset_api \<Rightarrow> 'ds lance_dataset ptr \<Rightarrow> u64 list ptr \<Rightarrow> u64 list outcome" where
  "dataset_fragment_ids_inner api dataset out_ids =
     (case (dataset, out_ids) of
        (Some ds, Some buf) \<Rightarrow>
          (let ids = map ucast (api_fragment_ids api (arc_val (snapshot ds)))
           in Ok (ids @ drop (length ids) buf))
      | _ \<Rightarrow> Err (invalid_input ''dataset and out_ids must not be NULL''))"

definition lance_dataset_fragment_ids where
  "lance_dataset_fragment_ids api dataset out_ids t =
     store_out (dataset_fragment_ids_inner api dataset out_ids) out_ids t"

subsection \<open>The mutation contract\<close>

text \<open>
  What the mutation entry points rely on: a handle whose mutation hands the current dataset to a
  closure, returns the closure's result, keeps what the closure left behind when it returned, and
  keeps the old dataset when it panicked. \<open>transact\<close> is the abstract operation on the dataset.
\<close>

fun transact :: "('ds \<Rightarrow> 'r outcome \<times> 'ds) \<Rightarrow> 'ds \<Rightarrow> 'r outcome \<times> 'ds" where
  "transact f d = (case f d of (Panic p, _) \<Rightarrow> (Panic p, d) | (r, w) \<Rightarrow> (r, w))"

fun run_transactions :: "('ds \<Rightarrow> 'r outcome \<times> 'ds) list \<Rightarrow> 'ds \<Rightarrow> 'r outcome list \<times> 'ds" where
  "run_transactions [] d = ([], d)"
| "run_transactions (f # fs) d =
     (let (r, d') = transact f d; (rs, d'') = run_transactions fs d' in (r # rs, d''))"

locale atomic_handle =
  fixes snap :: "'h \<Rightarrow> 'ds"
    and mut :: "nat \<Rightarrow> ('ds \<Rightarrow> 'r outcome \<times> 'ds) \<Rightarrow> 'h \<Rightarrow> 'r outcome \<times> 'h"
  assumes mut_transacts: "fst (mut a f h) = fst (transact f (snap h))"
    and mut_snap: "snap (snd (mut a f h)) = snd (transact f (snap h))"
begin

fun run_mut :: "(nat \<times> ('ds \<Rightarrow> 'r outcome \<times> 'ds)) list \<Rightarrow> 'h \<Rightarrow> 'r outcome list \<times> 'h" where
  "run_mut [] h = ([], h)"
| "run_mut (op # ops) h =
     (let (r, h') = mut (fst op) (snd op) h; (rs, h'') = run_mut ops h' in (r # rs, h''))"

lemma run_mut_refines:
  "fst (run_mut ops h) = fst (run_transactions (map snd ops) (snap h)) \<and>
   snap (snd (run_mut ops h)) = snd (run_transactions (map snd ops) (snap h))"
proof (induction ops arbitrary: h)
  case (Cons op ops)
  show ?case
    using Cons.IH [of "snd (mut (fst op) (snd op) h)"] mut_snap [of "fst op" "snd op" h]
    by (simp add: mut_transacts split_beta Let_def del: transact.simps)
qed simp

end

interpretation handle: atomic_handle "\<lambda>h. arc_val (snapshot h)" with_mut
  by unfold_locales (simp_all add: with_mut_def snapshot_def split_beta Let_def split: outcome.splits)

text \<open>A run of mutations on one handle, each with the address of the \<open>Arc\<close> it would allocate.\<close>

fun with_mut_run :: "(nat \<times> ('ds \<Rightarrow> 'r outcome \<times> 'ds)) list \<Rightarrow> 'ds lance_dataset \<Rightarrow>
    'r outcome list \<times> 'ds lance_dataset" where
  "with_mut_run [] h = ([], h)"
| "with_mut_run (op # ops) h =
     (let (r, h') = with_mut (fst op) (snd op) h; (rs, h'') = with_mut_run ops h' in (r # rs, h''))"

lemma with_mut_run_eq: "with_mut_run ops h = handle.run_mut ops h"
  by (induction ops arbitrary: h) simp_all

lemma with_mut_ret: "fst (with_mut a f h) = fst (f (arc_val (snapshot h)))"
  by (simp add: with_mut_def snapshot_def split_beta Let_def split: outcome.splits)

lemma store_out_contract:
  assumes "store_out body out t = (rc, t', out')"
  shows "(rc = 0 \<or> rc = - 1) \<and> (rc = 0 \<longleftrightarrow> (\<exists>v. body = Ok v)) \<and>
     (rc = 0 \<longleftrightarrow> lance_last_error_code t' = COk) \<and> (rc \<noteq> 0 \<longrightarrow> out' = out) \<and>
     (\<forall>v. body = Ok v \<longrightarrow> out' = Some v)"
  using assms
  by (cases body) (auto simp: store_out_def ffi_try_Err ffi_try_Panic split: unwind.splits)

lemma store_out_untouched:
  "case store_out body out t of (rc, t', o') \<Rightarrow>
     (rc = 0 \<and> lance_last_error_code t' = COk) \<or>
     (rc = - 1 \<and> o' = out \<and> lance_last_error_code t' \<noteq> COk)"
  using store_out_contract [of body out t]
  by (cases "store_out body out t") fastforce

text \<open>The reader that \<open>RecordBatchIterator::new(vec![Ok(batch)], schema)\<close> is.\<close>

fun vec_step :: "'b list \<Rightarrow> 'b poll \<times> 'b list" where
  "vec_step [] = (PollEnd, [])"
| "vec_step (b # bs) = (PollBatch b, bs)"

lemma spec_items_vec_nil: "spec_items what (inner_polls vec_step k []) = replicate k None"
  by (induction k) simp_all

lemma export_batch_items:
  "export_batch api b = Ok r \<Longrightarrow>
     fst (guarded_batch_run vec_step (Suc k) r) = Some (BatchItem b) # replicate k None"
  using guarded_batch_run_spec [of r "[b]" vec_step "Suc k"]
  by (auto simp: export_batch_def guarded_ffi_stream_from_reader_def Let_def spec_items_vec_nil
      simp del: guarded_batch_run.simps split: sum.splits)

subsection \<open>Properties\<close>

text \<open>Mutations through a handle are transactions: over any sequence of mutations, panicking ones
  included, each call returns what its closure returned on the dataset current at that point, and
  the handle ends with the dataset that applying the closures in turn gives, a panicking one
  leaving it as it was. A poisoned lock changes none of this.\<close>

theorem with_mut_is_transactional:
  "fst (with_mut_run ops h) = fst (run_transactions (map snd ops) (arc_val (snapshot h))) \<and>
   arc_val (snapshot (snd (with_mut_run ops h))) =
     snd (run_transactions (map snd ops) (arc_val (snapshot h)))"
  unfolding with_mut_run_eq by (rule handle.run_mut_refines)

text \<open>A successful \<open>lance_dataset_take\<close> exports exactly what was taken: the first \<open>num_indices\<close> indices
  are taken from the handle's snapshot under the requested projection, the stream written to the
  out slot yields that one batch and then end-of-stream, and no error is pending.\<close>

theorem take_exports_taken_batch:
  assumes "lance_dataset_take api (Some ds) (Some idx) n columns (Some o1) t = (0, t', out')"
  shows "\<exists>proj b r. projection_from_columns api (arc_val (snapshot ds)) columns = Ok proj \<and>
     api_take api (arc_val (snapshot ds)) (take (unat n) idx) proj = Ok b \<and> out' = Some r \<and>
     fst (guarded_batch_run vec_step (Suc k) r) = Some (BatchItem b) # replicate k None \<and>
     lance_last_error_code t' = COk"
proof -
  let ?body = "dataset_take_inner api (Some ds) (Some idx) n columns (Some o1)"
  from assms have c: "store_out ?body (Some o1) t = (0, t', out')"
    by (simp add: lance_dataset_take_def)
  from store_out_contract [OF c] obtain r where r: "?body = Ok r" and o: "out' = Some r"
    and t: "lance_last_error_code t' = COk" by auto
  from r obtain proj b where p: "projection_from_columns api (arc_val (snapshot ds)) columns = Ok proj"
    and b: "api_take api (arc_val (snapshot ds)) (take (unat n) idx) proj = Ok b"
    and e: "export_batch api b = Ok r"
    by (auto simp: dataset_take_inner_def Let_def obind_eq_Ok parse_c_string_array_eq_Ok)
  show ?thesis
    by (intro exI conjI) (rule p b o t export_batch_items [OF e])+
qed

definition demo_api :: "(nat list, unit, nat list, unit, unit, unit) dataset_api" where
  "demo_api = \<lparr>api_load = (\<lambda>r. Ok (map of_char (rq_uri r))), api_version = (\<lambda>d. of_nat (length d)),
     api_count_rows = (\<lambda>d. Ok (of_nat (length d))), api_latest_version_id = (\<lambda>d. Ok 1),
     api_export_schema = (\<lambda>d. Ok ()), api_project = (\<lambda>d cs. Err (invalid_input ''no such column'')),
     api_full_projection = (\<lambda>d. ()),
     api_take = (\<lambda>d is p. if list_all (\<lambda>i. unat i < length d) is then Ok (map (\<lambda>i. d ! unat i) is)
                          else Err (invalid_input ''out of range'')),
     api_take_rows = (\<lambda>d is p. Ok []), api_batch_schema = (\<lambda>b. ()), api_schema_to_ffi = (\<lambda>s. Ok ()),
     api_arrow_error = internal_error, api_fragment_ids = (\<lambda>d. [0])\<rparr>"

theorem take_exports_taken_batch_witness:
  "lance_dataset_take demo_api (Some \<lparr>ds_inner = Arc 7 [10, 20, 30], ds_lock_poisoned = True\<rparr>)
      (Some [2, 0]) 2 None (Some \<lparr>br_inner = None, br_schema = (), br_poisoned = False\<rparr>) None =
     (0, None, Some \<lparr>br_inner = Some [[30, 10]], br_schema = (), br_poisoned = False\<rparr>) \<and>
   fst (guarded_batch_run vec_step (Suc (Suc 0)) \<lparr>br_inner = Some [[30, 10::nat]], br_schema = (), br_poisoned = False\<rparr>) =
     Some (BatchItem [30, 10]) # [None]"
proof -
  have c: "lance_dataset_take demo_api (Some \<lparr>ds_inner = Arc 7 [10, 20, 30], ds_lock_poisoned = True\<rparr>)
      (Some [2, 0]) 2 None (Some \<lparr>br_inner = None, br_schema = (), br_poisoned = False\<rparr>) None =
     (0, None, Some \<lparr>br_inner = Some [[30, 10]], br_schema = (), br_poisoned = False\<rparr>)"
    by (simp add: lance_dataset_take_def dataset_take_inner_def demo_api_def store_out_def Let_def
        parse_c_string_array_def projection_from_columns_def snapshot_def export_batch_def
        guarded_ffi_stream_from_reader_def preflight_schema_def clear_last_error_def)
  then show ?thesis
    using take_exports_taken_batch [OF c, of "Suc 0"]
    by (auto simp: demo_api_def snapshot_def simp del: guarded_batch_run.simps)
qed

text \<open>The out slot of schema export, both takes and fragment enumeration is written on success only:
  a call that does not return 0 returns -1, leaves the slot exactly as it was and leaves an error
  pending, and a call that returns 0 leaves none.\<close>

theorem dataset_out_untouched_on_error:
  "(case lance_dataset_schema api dataset out1 t of (rc, t', o') \<Rightarrow>
      (rc = 0 \<and> lance_last_error_code t' = COk) \<or>
      (rc = - 1 \<and> o' = out1 \<and> lance_last_error_code t' \<noteq> COk)) \<and>
   (case lance_dataset_take api dataset idx n cols out2 t of (rc, t', o') \<Rightarrow>
      (rc = 0 \<and> lance_last_error_code t' = COk) \<or>
      (rc = - 1 \<and> o' = out2 \<and> lance_last_error_code t' \<noteq> COk)) \<and>
   (case lance_dataset_take_rows api dataset idx n cols out2 t of (rc, t', o') \<Rightarrow>
      (rc = 0 \<and> lance_last_error_code t' = COk) \<or>
      (rc = - 1 \<and> o' = out2 \<and> lance_last_error_code t' \<noteq> COk)) \<and>
   (case lance_dataset_fragment_ids api dataset out3 t of (rc, t', o') \<Rightarrow>
      (rc = 0 \<and> lance_last_error_code t' = COk) \<or>
      (rc = - 1 \<and> o' = out3 \<and> lance_last_error_code t' \<noteq> COk))"
  unfolding lance_dataset_schema_def lance_dataset_take_def lance_dataset_take_rows_def
    lance_dataset_fragment_ids_def
  by (intro conjI store_out_untouched)

end
