(* ===== verification/Fts_Query.thy ===== *)
theory Fts_Query
  imports Dataset
begin

text \<open>
  Model of \<open>src/fts_query.rs\<close>: the immutable query context that segment-scoped full-text scans share.
  A context is prepared for one dataset snapshot: the committed segments of the column's index are
  loaded and checked (same fields, known fragment coverage, full coverage in STRICT mode, same index
  parameters), and one scorer is built over all of them. Lance's index catalogue and scorer are the
  record \<open>fts_api\<close>. A \<open>HashSet\<close> of ids is a list of which only the membership is used.
\<close>

subsection \<open>Enumerations of the C interface\<close>

datatype fts_coverage_mode = Strict | IndexOnly

definition coverage_mode_try_from :: "i32 \<Rightarrow> fts_coverage_mode outcome" where
  "coverage_mode_try_from v =
     (if v = 0 then Ok Strict else if v = 1 then Ok IndexOnly
      else Err (invalid_input (''invalid coverage_mode '' @ show_i v @ ''; expected 0 (STRICT) or 1 (INDEX_ONLY)'')))"

datatype fts_match_operator = OpOr | OpAnd

definition match_operator_try_from :: "i32 \<Rightarrow> fts_match_operator outcome" where
  "match_operator_try_from v =
     (if v = 0 then Ok OpOr else if v = 1 then Ok OpAnd
      else Err (invalid_input (''invalid match_operator '' @ show_i v @ ''; expected 0 (OR) or 1 (AND)'')))"

subsection \<open>Queries, segments and contexts\<close>

text \<open>A UUID is its sixteen bytes, displayed in the hyphenated form.\<close>

type_synonym uuid = "u8 list"

definition hex_digit :: "nat \<Rightarrow> char" where
  "hex_digit n = char_of (if n < 10 then 48 + n else 87 + n)"

fun show_uuid_from :: "nat \<Rightarrow> uuid \<Rightarrow> string" where
  "show_uuid_from i [] = []"
| "show_uuid_from i (b # bs) =
     (if i \<in> {4, 6, 8, 10} then ''-'' else []) @
     [hex_digit (unat b div 16), hex_digit (unat b mod 16)] @ show_uuid_from (Suc i) bs"

definition show_uuid :: "uuid \<Rightarrow> string" where
  "show_uuid u = show_uuid_from 0 u"

fun join_comma :: "string list \<Rightarrow> string" where
  "join_comma [] = []"
| "join_comma [s] = s"
| "join_comma (s # ss) = s @ '', '' @ join_comma ss"

definition debug_words :: "('w::len word \<Rightarrow> string) \<Rightarrow> 'w word list \<Rightarrow> string" where
  "debug_words f ws = ''['' @ join_comma (map f ws) @ '']''"

text \<open>A \<open>FullTextSearchQuery\<close> is how it was built: with the plain or fuzzy constructor and an optional
  column list, or from a single-column Match or Phrase query.\<close>

datatype full_text_query =
    FtsNew string
  | FtsNewFuzzy string "u32 option"
  | FtsWithColumns full_text_query "string list"
  | FtsMatch (fq_terms: string) (fq_column: "string option") fts_match_operator "u32 option"
  | FtsPhrase (fq_terms: string) (fq_column: "string option") u32

record index_metadata =
  im_uuid :: uuid
  im_fields :: "i32 list"
  im_fragment_bitmap :: "u32 list option"
  im_name :: string
  im_files :: "(string \<times> u64) list option"

datatype 'sc prepared_fts_query = PreparedMatch 'sc | PreparedPhrase 'sc

record ('ds, 'sc) fts_query_context =
  fc_dataset :: "'ds arc"
  fc_query :: full_text_query
  fc_segments :: "index_metadata list"
  fc_prepared :: "'sc prepared_fts_query"

record ('ds, 'ix, 'par, 'sc) fts_api =
  fa_load_scalar_index :: "'ds \<Rightarrow> string \<Rightarrow> string option outcome"
  fa_load_indices_by_name :: "'ds \<Rightarrow> string \<Rightarrow> index_metadata list outcome"
  fa_fragment_ids :: "'ds \<Rightarrow> u64 list"
  fa_open_inverted :: "'ds \<Rightarrow> string \<Rightarrow> uuid \<Rightarrow> 'ix option outcome"
  fa_params :: "'ix \<Rightarrow> 'par"
  fa_has_positions :: "'par \<Rightarrow> bool"
  fa_query_tokens :: "'ix \<Rightarrow> string \<Rightarrow> string list"
  fa_build_scorer :: "'ix list \<Rightarrow> string list \<Rightarrow> full_text_query \<Rightarrow> 'sc outcome"
  fa_uri :: "'ds \<Rightarrow> string"
  fa_version_id :: "'ds \<Rightarrow> u64"

definition validate_dataset_identity ::
  "('ds, 'ix, 'par, 'sc) fts_api \<Rightarrow> ('ds, 'sc) fts_query_context \<Rightarrow> 'ds arc \<Rightarrow> unit outcome" where
  "validate_dataset_identity api ctx d =
     reject_if (\<not> arc_ptr_eq (fc_dataset ctx) d)
       (invalid_input
         (''FTS query context and scanner must originate from the same process-local dataset snapshot; context has uri '' @
          quoted (fa_uri api (arc_val (fc_dataset ctx))) @ '' version '' @ show_u (fa_version_id api (arc_val (fc_dataset ctx))) @
          '', scanner has uri '' @ quoted (fa_uri api (arc_val d)) @ '' version '' @ show_u (fa_version_id api (arc_val d))))
       (Ok ())"

subsection \<open>Preparing a context\<close>

text \<open>\<open>u32::try_from\<close> of a fragment id.\<close>

definition u32_try_from :: "u64 \<Rightarrow> u32 option" where
  "u32_try_from v = (if unat v < 2 ^ 32 then Some (ucast v) else None)"

definition current_fragments :: "('ds, 'ix, 'par, 'sc) fts_api \<Rightarrow> 'ds \<Rightarrow> u32 list outcome" where
  "current_fragments api d =
     otraverse (\<lambda>f. ok_or (u32_try_from f)
       (invalid_input (''fragment id '' @ show_u f @ '' exceeds the u32 index metadata range''))) (fa_fragment_ids api d)"

text \<open>The fragments of the current snapshot that some segment covers.\<close>

fun indexed_fragments :: "string \<Rightarrow> u32 list \<Rightarrow> index_metadata list \<Rightarrow> u32 list outcome" where
  "indexed_fragments column current [] = Ok []"
| "indexed_fragments column current (seg # segs) =
     obind (ok_or (im_fragment_bitmap seg)
       (invalid_input (''FTS segment '' @ show_uuid (im_uuid seg) @ '' for column '' @ quoted column @
          '' has unknown fragment coverage''))) (\<lambda>bitmap.
     obind (indexed_fragments column current segs) (\<lambda>rest.
     Ok (filter (\<lambda>f. f \<in> set current) bitmap @ rest)))"

definition unindexed_fragments :: "u32 list \<Rightarrow> u32 list \<Rightarrow> u32 list" where
  "unindexed_fragments current indexed = sort (filter (\<lambda>f. f \<notin> set indexed) (remdups current))"

definition prepare_scorer ::
  "('ds, 'ix, 'par, 'sc) fts_api \<Rightarrow> string \<Rightarrow> string \<Rightarrow> full_text_query \<Rightarrow> 'ix list \<Rightarrow> 'sc prepared_fts_query outcome" where
  "prepare_scorer api name column query indices =
     (let ix0 = hd indices in
      case query of
        FtsMatch terms c op fz \<Rightarrow>
          obind (fa_build_scorer api indices (fa_query_tokens api ix0 terms) query) (\<lambda>s. Ok (PreparedMatch s))
      | FtsPhrase terms c slop \<Rightarrow>
          reject_if (\<not> fa_has_positions api (fa_params api ix0))
            (invalid_input (''FTS index '' @ quoted name @ '' for column '' @ quoted column @
               '' does not store token positions required by Phrase queries; recreate the index with positions enabled''))
            (obind (fa_build_scorer api indices (fa_query_tokens api ix0 terms) query) (\<lambda>s. Ok (PreparedPhrase s)))
      | _ \<Rightarrow> Err (internal_error ''prepared FTS query must be a single-column Match or Phrase query''))"

text \<open>The segments are opened concurrently; the model takes the failure of the first in order.\<close>

definition open_segments ::
  "('ds, 'ix, 'par, 'sc) fts_api \<Rightarrow> 'ds \<Rightarrow> string \<Rightarrow> index_metadata list \<Rightarrow> 'ix list outcome" where
  "open_segments api d column segments =
     otraverse (\<lambda>seg. obind (fa_open_inverted api d column (im_uuid seg)) (\<lambda>ix.
       ok_or ix (invalid_input (''index segment '' @ show_uuid (im_uuid seg) @ '' for column '' @ quoted column @
         '' is not an inverted index'')))) segments"

definition check_uniform_fields :: "string \<Rightarrow> index_metadata list \<Rightarrow> unit outcome" where
  "check_uniform_fields name segments =
     (let expected = im_fields (hd segments) in
      case find (\<lambda>seg. im_fields seg \<noteq> expected) segments of
        Some seg \<Rightarrow> Err (invalid_input (''FTS index '' @ quoted name @ '' has inconsistent fields across segments; segment '' @
            show_uuid (im_uuid seg) @ '' has fields '' @ debug_words show_i (im_fields seg) @ '', expected '' @
            debug_words show_i expected))
      | None \<Rightarrow> Ok ())"

definition check_uniform_params ::
  "('ds, 'ix, 'par, 'sc) fts_api \<Rightarrow> string \<Rightarrow> index_metadata list \<Rightarrow> 'ix list \<Rightarrow> unit outcome" where
  "check_uniform_params api name segments indices =
     (case find (\<lambda>p. fa_params api (snd p) \<noteq> fa_params api (hd indices)) (zip segments indices) of
        Some p \<Rightarrow> Err (invalid_input (''FTS index '' @ quoted name @
            '' has inconsistent inverted index parameters; segment '' @ show_uuid (im_uuid (fst p)) @
            '' differs from segment '' @ show_uuid (im_uuid (hd segments))))
      | None \<Rightarrow> Ok ())"

definition prepare_fts_query_context ::
  "('ds, 'ix, 'par, 'sc) fts_api \<Rightarrow> 'ds arc \<Rightarrow> string \<Rightarrow> full_text_query \<Rightarrow> fts_coverage_mode \<Rightarrow>
     ('ds, 'sc) fts_query_context outcome" where
  "prepare_fts_query_context api dataset column query mode =
     (let d = arc_val dataset; version = show_u (fa_version_id api d) in
      obind (fa_load_scalar_index api d column) (\<lambda>found.
      obind (ok_or found (invalid_input (''no committed FTS index exists for column '' @ quoted column @
         '' in dataset version '' @ version))) (\<lambda>name.
      obind (fa_load_indices_by_name api d name) (\<lambda>segments.
      reject_if (segments = []) (invalid_input (''FTS index for column '' @ quoted column @
         '' has no committed segments in dataset version '' @ version)) (
      obind (check_uniform_fields name segments) (\<lambda>_.
      obind (current_fragments api d) (\<lambda>current.
      obind (indexed_fragments column current segments) (\<lambda>indexed.
      let unindexed = unindexed_fragments current indexed in
      reject_if (mode = Strict \<and> unindexed \<noteq> []) (invalid_input
         (''coverage_mode=STRICT requires every fragment in dataset version '' @ version @ '' to be indexed; column '' @
          quoted column @ '' has '' @ show_nat (length unindexed) @ '' unindexed fragments: '' @ debug_words show_u unindexed)) (
      obind (open_segments api d column segments) (\<lambda>indices.
      obind (check_uniform_params api name segments indices) (\<lambda>_.
      obind (prepare_scorer api name column query indices) (\<lambda>prepared.
      Ok \<lparr>fc_dataset = dataset, fc_query = query, fc_segments = segments, fc_prepared = prepared\<rparr>))))))))))))"

subsection \<open>The C entry points\<close>

definition non_empty_string :: "string ptr \<Rightarrow> string \<Rightarrow> string outcome" where
  "non_empty_string p msg =
     obind (parse_c_string p) (\<lambda>s.
     ok_or (case s of Some v \<Rightarrow> if v = [] then None else Some v | None \<Rightarrow> None) (invalid_input msg))"

definition parse_query_inputs ::
  "'ds lance_dataset ptr \<Rightarrow> string ptr \<Rightarrow> string ptr \<Rightarrow> i32 \<Rightarrow>
     ('ds arc \<times> string \<times> string \<times> fts_coverage_mode) outcome" where
  "parse_query_inputs dataset column query coverage_mode =
     reject_if (is_null dataset \<or> is_null column \<or> is_null query)
       (invalid_input ''dataset, column, and query must not be NULL'') (
     obind (non_empty_string column ''column must not be empty'') (\<lambda>c.
     obind (non_empty_string query ''query must not be empty'') (\<lambda>q.
     obind (coverage_mode_try_from coverage_mode) (\<lambda>m.
     Ok (snapshot (the dataset), c, q, m)))))"

definition prepare_fts_match_query_inner ::
  "('ds, 'ix, 'par, 'sc) fts_api \<Rightarrow> nat \<Rightarrow> 'ds lance_dataset ptr \<Rightarrow> string ptr \<Rightarrow> string ptr \<Rightarrow> i32 \<Rightarrow> u32 \<Rightarrow> i32 \<Rightarrow>
     ('ds, 'sc) fts_query_context arc outcome" where
  "prepare_fts_match_query_inner api a dataset column query match_operator max_fuzzy coverage_mode =
     obind (parse_query_inputs dataset column query coverage_mode) (\<lambda>(snap, c, q, m).
     obind (match_operator_try_from match_operator) (\<lambda>op.
     reject_if (max_fuzzy \<noteq> 0) (invalid_input
       (''max_fuzzy_distance must be 0 for prepared FTS with the pinned Lance revision, got '' @ show_u max_fuzzy @
        ''; the parameter is reserved until canonical fuzzy vocabulary injection is available'')) (
     obind (prepare_fts_query_context api snap c (FtsMatch q (Some c) op (Some 0)) m) (\<lambda>ctx.
     Ok (Arc a ctx)))))"

definition lance_dataset_prepare_fts_query where
  "lance_dataset_prepare_fts_query api a dataset column query max_fuzzy coverage_mode t =
     ffi_try (obind (prepare_fts_match_query_inner api a dataset column query 0 max_fuzzy coverage_mode)
       (\<lambda>c. Ok (Some c))) None t"

definition lance_dataset_prepare_fts_match_query where
  "lance_dataset_prepare_fts_match_query api a dataset column query match_operator max_fuzzy coverage_mode t =
     ffi_try (obind (prepare_fts_match_query_inner api a dataset column query match_operator max_fuzzy coverage_mode)
       (\<lambda>c. Ok (Some c))) None t"

definition prepare_fts_phrase_query_inner ::
  "('ds, 'ix, 'par, 'sc) fts_api \<Rightarrow> nat \<Rightarrow> 'ds lance_dataset ptr \<Rightarrow> string ptr \<Rightarrow> string ptr \<Rightarrow> i32 \<Rightarrow> i32 \<Rightarrow>
     ('ds, 'sc) fts_query_context arc outcome" where
  "prepare_fts_phrase_query_inner api a dataset column query slop coverage_mode =
     reject_if (sint slop < 0) (invalid_input (''slop must be non-negative, got '' @ show_i slop)) (
     obind (parse_query_inputs dataset column query coverage_mode) (\<lambda>(snap, c, q, m).
     obind (prepare_fts_query_context api snap c (FtsPhrase q (Some c) slop) m) (\<lambda>ctx.
     Ok (Arc a ctx))))"

definition lance_dataset_prepare_fts_phrase_query where
  "lance_dataset_prepare_fts_phrase_query api a dataset column query slop coverage_mode t =
     ffi_try (obind (prepare_fts_phrase_query_inner api a dataset column query slop coverage_mode)
       (\<lambda>c. Ok (Some c))) None t"

definition lance_fts_query_context_close ::
  "('c \<Rightarrow> unit unwind) \<Rightarrow> 'c ptr \<Rightarrow> tls \<Rightarrow> bool \<times> tls" where
  "lance_fts_query_context_close drop_fn context t =
     (case context of None \<Rightarrow> (True, t) | Some c \<Rightarrow> swallow_unwind (drop_fn c) t)"

definition clone_context :: "('ds, 'sc) fts_query_context arc ptr \<Rightarrow> ('ds, 'sc) fts_query_context arc outcome" where
  "clone_context context = ok_or context (invalid_input ''context must not be NULL'')"

subsection \<open>Segment UUID arrays\<close>

text \<open>\<open>isize::MAX\<close> on the 64-bit targets.\<close>

abbreviation isize_max :: nat where "isize_max \<equiv> 2 ^ 63 - 1"

definition uuid_at :: "u8 list \<Rightarrow> nat \<Rightarrow> uuid" where
  "uuid_at bytes position = take 16 (drop (16 * position) bytes)"

definition read_uuids :: "u8 list \<Rightarrow> nat \<Rightarrow> uuid list" where
  "read_uuids bytes len = map (uuid_at bytes) [0..<len]"

definition parse_segment_uuids :: "u8 list ptr \<Rightarrow> usize \<Rightarrow> uuid list outcome" where
  "parse_segment_uuids segment_uuids len =
     reject_if (is_null segment_uuids \<and> 0 < len) (invalid_input ''segment_uuids is NULL but len is greater than 0'') (
     reject_if (isize_max div 16 < unat len) (invalid_input (''segment UUID count '' @ show_u len @
        '' exceeds the maximum addressable byte slice length'')) (
     let uuids = (case segment_uuids of Some bytes \<Rightarrow> read_uuids bytes (unat len) | None \<Rightarrow> []);
         unique = remdups uuids
     in reject_if (length unique \<noteq> length uuids) (invalid_input (''segment_uuids contains duplicate UUIDs; len='' @
          show_nat (length uuids) @ '', unique='' @ show_nat (length unique)))
        (Ok uuids)))"

subsection \<open>Lemmas\<close>

lemma current_fragments_eq_Ok:
  "current_fragments api d = Ok current \<longleftrightarrow>
     (\<forall>f \<in> set (fa_fragment_ids api d). unat f < 2 ^ 32) \<and> current = map ucast (fa_fragment_ids api d)"
proof -
  have "otraverse (\<lambda>f. ok_or (u32_try_from f) (e f)) fs = Ok ys \<longleftrightarrow>
      (\<forall>f \<in> set fs. unat f < 2 ^ 32) \<and> ys = map ucast fs" for e fs and ys :: "u32 list"
    by (induction fs arbitrary: ys) (auto simp: outcome_ok u32_try_from_def split: if_splits)
  then show ?thesis by (simp add: current_fragments_def)
qed

text \<open>What the segments cover, as a set; unknown coverage contributes nothing.\<close>

definition segments_coverage :: "index_metadata list \<Rightarrow> u32 set" where
  "segments_coverage segs = (\<Union>seg \<in> set segs. case im_fragment_bitmap seg of Some b \<Rightarrow> set b | None \<Rightarrow> {})"

lemma indexed_fragments_eq_Ok:
  "indexed_fragments column current segs = Ok idx \<Longrightarrow>
     (\<forall>seg \<in> set segs. im_fragment_bitmap seg \<noteq> None) \<and>
     set idx = segments_coverage segs \<inter> set current"
  by (induction segs arbitrary: idx) (auto simp: outcome_ok segments_coverage_def)

lemma set_unindexed_fragments: "set (unindexed_fragments current idx) = set current - set idx"
  by (auto simp: unindexed_fragments_def)

lemma unindexed_empty:
  "unindexed_fragments current idx = [] \<longleftrightarrow> set current \<subseteq> set idx"
  by (metis set_unindexed_fragments Diff_eq_empty_iff set_empty)

lemma find_guard_eq_Ok:
  "(case find P xs of Some x \<Rightarrow> Err (e x) | None \<Rightarrow> Ok v) = Ok u \<longleftrightarrow> list_all (\<lambda>x. \<not> P x) xs \<and> v = u"
  by (induction xs) simp_all

lemma check_uniform_fields_eq_Ok:
  "check_uniform_fields name segs = Ok u \<longleftrightarrow> list_all (\<lambda>seg. im_fields seg = im_fields (hd segs)) segs"
  by (simp add: check_uniform_fields_def Let_def find_guard_eq_Ok)

lemma open_segments_eq_Ok:
  "open_segments api d column segs = Ok ixs \<longleftrightarrow>
     list_all2 (\<lambda>seg ix. fa_open_inverted api d column (im_uuid seg) = Ok (Some ix)) segs ixs"
  by (simp add: open_segments_def otraverse_eq_Ok outcome_ok)

lemma check_uniform_params_eq_Ok:
  assumes "length segs = length ixs"
  shows "check_uniform_params api name segs ixs = Ok u \<longleftrightarrow>
    list_all (\<lambda>ix. fa_params api ix = fa_params api (hd ixs)) ixs"
proof -
  have "list_all (\<lambda>p. \<not> P (snd p)) (zip segs ixs) \<longleftrightarrow> list_all (\<lambda>ix. \<not> P ix) ixs" for P
    using assms by (induction segs ixs rule: list_induct2) simp_all
  from this [of "\<lambda>ix. fa_params api ix \<noteq> fa_params api (hd ixs)"] show ?thesis
    by (simp add: check_uniform_params_def find_guard_eq_Ok)
qed

definition segments_ok ::
  "('ds, 'ix, 'par, 'sc) fts_api \<Rightarrow> 'ds \<Rightarrow> string \<Rightarrow> index_metadata list \<Rightarrow> 'ix list \<Rightarrow> bool" where
  "segments_ok api d column segs ixs \<longleftrightarrow>
     segs \<noteq> [] \<and> list_all (\<lambda>seg. im_fields seg = im_fields (hd segs)) segs \<and>
     list_all (\<lambda>seg. im_fragment_bitmap seg \<noteq> None) segs \<and>
     list_all2 (\<lambda>seg ix. fa_open_inverted api d column (im_uuid seg) = Ok (Some ix)) segs ixs \<and>
     list_all (\<lambda>ix. fa_params api ix = fa_params api (hd ixs)) ixs"

lemma indexed_fragments_Ok:
  "(\<forall>seg \<in> set segs. im_fragment_bitmap seg \<noteq> None) \<Longrightarrow> \<exists>idx. indexed_fragments column current segs = Ok idx"
  by (induction segs) (auto simp: ok_or_def)

text \<open>The scorer is built over all the open segments.\<close>

lemma prepare_scorer_eq_Ok:
  "prepare_scorer api name column query ixs = Ok prepared \<longleftrightarrow>
     (\<exists>scorer. fa_build_scorer api ixs (fa_query_tokens api (hd ixs) (fq_terms query)) query = Ok scorer \<and>
        ((\<exists>terms c op fz. query = FtsMatch terms c op fz) \<and> prepared = PreparedMatch scorer \<or>
         (\<exists>terms c slop. query = FtsPhrase terms c slop) \<and> fa_has_positions api (fa_params api (hd ixs)) \<and>
           prepared = PreparedPhrase scorer))"
  by (cases query) (auto simp: prepare_scorer_def Let_def outcome_ok)

lemma list_all_conj: "list_all (\<lambda>x. P x \<and> Q x) xs \<longleftrightarrow> list_all P xs \<and> list_all Q xs"
  by (induction xs) auto

lemma prepare_fts_query_context_steps:
  assumes "prepare_fts_query_context api dataset column query mode = Ok ctx"
  obtains name segs current idx ixs prepared where
    "fa_load_scalar_index api (arc_val dataset) column = Ok (Some name)"
    "fa_load_indices_by_name api (arc_val dataset) name = Ok segs" "segs \<noteq> []"
    "check_uniform_fields name segs = Ok ()"
    "current_fragments api (arc_val dataset) = Ok current"
    "indexed_fragments column current segs = Ok idx"
    "mode = Strict \<longrightarrow> unindexed_fragments current idx = []"
    "open_segments api (arc_val dataset) column segs = Ok ixs"
    "check_uniform_params api name segs ixs = Ok ()"
    "prepare_scorer api name column query ixs = Ok prepared"
    "ctx = \<lparr>fc_dataset = dataset, fc_query = query, fc_segments = segs, fc_prepared = prepared\<rparr>"
  using assms unfolding prepare_fts_query_context_def Let_def outcome_ok
  by (elim exE conjE) (rule that; (assumption | (simp; fail) | (simp, erule sym)))

lemma prepare_fts_query_context_eq_Ok:
  "prepare_fts_query_context api dataset column query mode = Ok ctx \<longleftrightarrow>
    (\<exists>name segs ixs prepared. fa_load_scalar_index api (arc_val dataset) column = Ok (Some name) \<and>
       fa_load_indices_by_name api (arc_val dataset) name = Ok segs \<and> segments_ok api (arc_val dataset) column segs ixs \<and>
       list_all (\<lambda>f. unat f < 2 ^ 32) (fa_fragment_ids api (arc_val dataset)) \<and>
       prepare_scorer api name column query ixs = Ok prepared \<and>
       (mode = Strict \<longrightarrow> ucast ` set (fa_fragment_ids api (arc_val dataset)) \<subseteq> segments_coverage segs) \<and>
       ctx = \<lparr>fc_dataset = dataset, fc_query = query, fc_segments = segs, fc_prepared = prepared\<rparr>)"
    (is "_ \<longleftrightarrow> ?spec")
proof
  let ?d = "arc_val dataset"
  assume "prepare_fts_query_context api dataset column query mode = Ok ctx"
  then obtain name segs current idx ixs prepared where
    l: "fa_load_scalar_index api ?d column = Ok (Some name)"
    and s: "fa_load_indices_by_name api ?d name = Ok segs" "segs \<noteq> []"
    and f: "check_uniform_fields name segs = Ok ()"
    and c: "current_fragments api ?d = Ok current"
    and i: "indexed_fragments column current segs = Ok idx"
    and u: "mode = Strict \<longrightarrow> unindexed_fragments current idx = []"
    and o1: "open_segments api ?d column segs = Ok ixs"
    and p: "check_uniform_params api name segs ixs = Ok ()"
    and q: "prepare_scorer api name column query ixs = Ok prepared"
    and r: "ctx = \<lparr>fc_dataset = dataset, fc_query = query, fc_segments = segs, fc_prepared = prepared\<rparr>"
    by (rule prepare_fts_query_context_steps)
  from o1 have len: "length segs = length ixs"
    by (simp add: open_segments_eq_Ok list_all2_lengthD)
  have ok: "segments_ok api ?d column segs ixs"
    unfolding segments_ok_def
    using s(2) f [unfolded check_uniform_fields_eq_Ok] o1 [unfolded open_segments_eq_Ok]
      p [unfolded check_uniform_params_eq_Ok [OF len]] indexed_fragments_eq_Ok [OF i, folded list_all_iff]
    by (intro conjI) blast+
  have cov: "mode = Strict \<longrightarrow> ucast ` set (fa_fragment_ids api ?d) \<subseteq> segments_coverage segs"
    using u c indexed_fragments_eq_Ok [OF i] by (auto simp: unindexed_empty current_fragments_eq_Ok)
  have ids: "list_all (\<lambda>f. unat f < 2 ^ 32) (fa_fragment_ids api ?d)"
    using c by (simp add: current_fragments_eq_Ok list_all_iff)
  from l s(1) ok ids q cov r show ?spec by blast
next
  assume ?spec
  then obtain name segs ixs prepared where l: "fa_load_scalar_index api (arc_val dataset) column = Ok (Some name)"
    "fa_load_indices_by_name api (arc_val dataset) name = Ok segs"
    and ok: "segments_ok api (arc_val dataset) column segs ixs"
    and f: "list_all (\<lambda>f. unat f < 2 ^ 32) (fa_fragment_ids api (arc_val dataset))"
    and q: "prepare_scorer api name column query ixs = Ok prepared"
    and m: "mode = Strict \<longrightarrow> ucast ` set (fa_fragment_ids api (arc_val dataset)) \<subseteq> segments_coverage segs"
    and c: "ctx = \<lparr>fc_dataset = dataset, fc_query = query, fc_segments = segs, fc_prepared = prepared\<rparr>" by blast
  let ?current = "map ucast (fa_fragment_ids api (arc_val dataset)) :: u32 list"
  have "current_fragments api (arc_val dataset) = Ok ?current" using f by (simp add: current_fragments_eq_Ok list_all_iff)
  moreover obtain idx where i: "indexed_fragments column ?current segs = Ok idx"
    using ok indexed_fragments_Ok [of segs column ?current] by (auto simp: segments_ok_def list_all_iff)
  moreover have "mode = Strict \<longrightarrow> unindexed_fragments ?current idx = []"
    using m indexed_fragments_eq_Ok [OF i] by (auto simp: unindexed_empty)
  moreover have "segs \<noteq> []" "check_uniform_fields name segs = Ok ()" "open_segments api (arc_val dataset) column segs = Ok ixs"
    "check_uniform_params api name segs ixs = Ok ()"
    using ok by (auto simp: segments_ok_def check_uniform_fields_eq_Ok open_segments_eq_Ok check_uniform_params_eq_Ok list_all2_lengthD)
  ultimately show "prepare_fts_query_context api dataset column query mode = Ok ctx"
    using l q c by (simp add: prepare_fts_query_context_def Let_def reject_if_def)
qed

lemma prepare_fts_query_context_OkD:
  assumes "prepare_fts_query_context api dataset column query mode = Ok ctx"
  obtains name segs ixs prepared where
    "fa_load_scalar_index api (arc_val dataset) column = Ok (Some name)"
    "fa_load_indices_by_name api (arc_val dataset) name = Ok segs"
    "segments_ok api (arc_val dataset) column segs ixs"
    "prepare_scorer api name column query ixs = Ok prepared"
    "mode = Strict \<Longrightarrow> ucast ` set (fa_fragment_ids api (arc_val dataset)) \<subseteq> segments_coverage segs"
    "ctx = \<lparr>fc_dataset = dataset, fc_query = query, fc_segments = segs, fc_prepared = prepared\<rparr>"
  using assms unfolding prepare_fts_query_context_eq_Ok by blast

lemma length_read_uuids [simp]: "length (read_uuids bytes n) = n"
  by (simp add: read_uuids_def)

lemma uuid_at_concat:
  "list_all (\<lambda>u. length u = 16) us \<Longrightarrow> i < length us \<Longrightarrow> uuid_at (concat us) i = us ! i"
proof (induction us arbitrary: i)
  case (Cons u us)
  then show ?case by (cases i) (simp_all add: uuid_at_def)
qed simp

lemma read_uuids_concat:
  "list_all (\<lambda>u. length u = 16) us \<Longrightarrow> read_uuids (concat us) (length us) = us"
  by (rule nth_equalityI) (simp_all add: read_uuids_def uuid_at_concat)

lemma length_remdups_distinct: "length (remdups xs) = length xs \<longleftrightarrow> distinct xs"
  by (metis length_remdups_card_conv card_distinct distinct_card)

lemma parse_segment_uuids_eq_Ok:
  "parse_segment_uuids p len = Ok us \<longleftrightarrow>
     unat len \<le> isize_max div 16 \<and> (p \<noteq> None \<or> len = 0) \<and> distinct us \<and>
     us = (case p of Some bytes \<Rightarrow> read_uuids bytes (unat len) | None \<Rightarrow> [])"
  by (auto simp: parse_segment_uuids_def outcome_ok Let_def length_remdups_distinct is_null_def
      word_gt_0 simp del: distinct_remdups split: option.splits)

text \<open>A small dataset with one segment that covers its only fragment; the scorer counts the tokens.\<close>

definition demo_segment :: index_metadata where
  "demo_segment = \<lparr>im_uuid = replicate 16 9, im_fields = [3], im_fragment_bitmap = Some [0, 7], im_name = ''ix'', im_files = None\<rparr>"

definition demo_fts_api :: "(nat, unit, nat, nat) fts_api" where
  "demo_fts_api =
     \<lparr>fa_load_scalar_index = (\<lambda>_ c. Ok (if c = ''body'' then Some ''ix'' else None)),
      fa_load_indices_by_name = (\<lambda>_ n. Ok (if n = ''ix'' then [demo_segment] else [])),
      fa_fragment_ids = (\<lambda>_. [0]), fa_open_inverted = (\<lambda>_ _ _. Ok (Some ())), fa_params = (\<lambda>_. 0),
      fa_has_positions = (\<lambda>_. False), fa_query_tokens = (\<lambda>_ s. [s]), fa_build_scorer = (\<lambda>_ ts _. Ok (length ts)),
      fa_uri = (\<lambda>_. ''memory''), fa_version_id = (\<lambda>_. 1)\<rparr>"

lemma demo_prepared:
  "prepare_fts_query_context demo_fts_api (Arc 1 5) ''body'' (FtsMatch ''fox'' (Some ''body'') OpOr None) Strict =
     Ok \<lparr>fc_dataset = Arc 1 5, fc_query = FtsMatch ''fox'' (Some ''body'') OpOr None, fc_segments = [demo_segment],
        fc_prepared = PreparedMatch (Suc 0)\<rparr>"
  by (simp add: prepare_fts_query_context_def demo_fts_api_def demo_segment_def check_uniform_fields_def
      current_fragments_def u32_try_from_def unindexed_fragments_def open_segments_def check_uniform_params_def
      prepare_scorer_def reject_if_def Let_def)

subsection \<open>Properties\<close>

text \<open>C27. When a context is prepared, and with what. Preparation succeeds exactly when the column has a full-text
  index with committed segments in this snapshot, all of the same fields and of known coverage, every fragment id fits
  the index metadata, STRICT coverage (if asked for) holds, every segment opens as an inverted index with the same
  parameters, the query is a Match or a Phrase query, the latter on an index with positions, and the scorer can be built;
  the context then pins the snapshot, the query and all the segments, and its one scorer was built over the
  indexes of all of them, in order, from the tokens of the query's own terms.\<close>

theorem prepared_context_consistent:
  "prepare_fts_query_context api dataset column query mode = Ok ctx \<longleftrightarrow>
    fc_dataset ctx = dataset \<and> fc_query ctx = query \<and>
    (\<exists>name ixs scorer. fa_load_scalar_index api (arc_val dataset) column = Ok (Some name) \<and>
       fa_load_indices_by_name api (arc_val dataset) name = Ok (fc_segments ctx) \<and> fc_segments ctx \<noteq> [] \<and>
       list_all (\<lambda>seg. im_fields seg = im_fields (hd (fc_segments ctx)) \<and> im_fragment_bitmap seg \<noteq> None) (fc_segments ctx) \<and>
       list_all (\<lambda>f. unat f < 2 ^ 32) (fa_fragment_ids api (arc_val dataset)) \<and>
       (mode = Strict \<longrightarrow> ucast ` set (fa_fragment_ids api (arc_val dataset)) \<subseteq> segments_coverage (fc_segments ctx)) \<and>
       list_all2 (\<lambda>seg ix. fa_open_inverted api (arc_val dataset) column (im_uuid seg) = Ok (Some ix)) (fc_segments ctx) ixs \<and>
       list_all (\<lambda>ix. fa_params api ix = fa_params api (hd ixs)) ixs \<and>
       fa_build_scorer api ixs (fa_query_tokens api (hd ixs) (fq_terms query)) query = Ok scorer \<and>
       ((\<exists>terms c op fz. query = FtsMatch terms c op fz) \<and> fc_prepared ctx = PreparedMatch scorer \<or>
        (\<exists>terms c slop. query = FtsPhrase terms c slop) \<and> fa_has_positions api (fa_params api (hd ixs)) \<and>
          fc_prepared ctx = PreparedPhrase scorer))"
    (is "_ \<longleftrightarrow> ?spec")
proof
  assume "prepare_fts_query_context api dataset column query mode = Ok ctx"
  then show ?spec
    unfolding prepare_fts_query_context_eq_Ok segments_ok_def list_all_conj prepare_scorer_eq_Ok by fastforce
next
  assume ?spec
  then show "prepare_fts_query_context api dataset column query mode = Ok ctx"
    unfolding prepare_fts_query_context_eq_Ok segments_ok_def list_all_conj prepare_scorer_eq_Ok by (cases ctx) fastforce
qed

theorem prepared_context_consistent_witness:
  "\<exists>ixs. list_all2 (\<lambda>seg ix. fa_open_inverted demo_fts_api 5 ''body'' (im_uuid seg) = Ok (Some ix)) [demo_segment] ixs \<and>
     fa_build_scorer demo_fts_api ixs [''fox''] (FtsMatch ''fox'' (Some ''body'') OpOr None) = Ok (Suc 0)"
  using demo_prepared [unfolded prepared_context_consistent] by (auto simp: demo_fts_api_def)

text \<open>STRICT coverage is exactly INDEX_ONLY plus the demand that every current fragment be covered by
  some segment: preparing with STRICT yields a context if and only if preparing with INDEX_ONLY
  yields the same one and the current fragments are within the segments' coverage.\<close>

theorem strict_iff_index_only_and_covered:
  "prepare_fts_query_context api dataset column query Strict = Ok ctx \<longleftrightarrow>
     prepare_fts_query_context api dataset column query IndexOnly = Ok ctx \<and>
     ucast ` set (fa_fragment_ids api (arc_val dataset)) \<subseteq> segments_coverage (fc_segments ctx)"
  unfolding prepare_fts_query_context_eq_Ok by auto

text \<open>Segment UUID arrays round-trip: the concatenated bytes of distinct 16-byte UUIDs parse back to
  exactly those UUIDs, and with a repeated UUID the array is rejected.\<close>

theorem segment_uuids_roundtrip:
  assumes "list_all (\<lambda>u. length u = 16) us" "length us \<le> isize_max div 16"
  shows "parse_segment_uuids (Some (concat us @ rest)) (of_nat (length us)) = Ok us \<longleftrightarrow> distinct us"
proof -
  have n: "unat (of_nat (length us) :: usize) = length us"
    using assms(2) by (simp add: unat_of_nat)
  have "uuid_at (concat us @ rest) i = us ! i" if "i < length us" for i
  proof -
    have "length (concat us) = 16 * length us"
      using assms(1) by (induction us) simp_all
    with that have "uuid_at (concat us @ rest) i = uuid_at (concat us) i"
      by (simp add: uuid_at_def)
    with that assms(1) show ?thesis by (simp add: uuid_at_concat)
  qed
  then have "read_uuids (concat us @ rest) (length us) = us"
    by (intro nth_equalityI) (simp_all add: read_uuids_def)
  with assms(2) n show ?thesis by (auto simp: parse_segment_uuids_eq_Ok)
qed

theorem segment_uuids_roundtrip_witness:
  "parse_segment_uuids (Some (concat [replicate 16 1, replicate 16 2] @ [7])) (of_nat 2) =
     Ok [replicate 16 1, replicate 16 2]"
  using segment_uuids_roundtrip [of "[replicate 16 1, replicate 16 2]" "[7]"] by simp

end
