(* ===== verification/Scanner.thy ===== *)
theory Scanner
  imports Fts_Query Query_Arrays
begin

text \<open>
  Model of the scanner builder of \<open>src/scanner.rs\<close>: the handle \<open>LanceScanner\<close> with all its settings,
  the poison check and firewall that every \<open>lance_scanner_*\<close> entry point shares, and the setters.
  A setter body is an outcome of the new handle: \<open>Ok\<close> is the handle it leaves behind when it
  returns 0, \<open>Err\<close> and \<open>Panic\<close> leave the handle as it was. Lance's schema lookup and the
  constructors the setters call are the record \<open>scanner_api\<close>.
\<close>

subsection \<open>Types\<close>

datatype approx_mode = Fast | Normal | Accurate

definition approx_mode_from_i32 :: "i32 \<Rightarrow> approx_mode outcome" where
  "approx_mode_from_i32 v =
     (if v = 0 then Ok Fast else if v = 1 then Ok Normal else if v = 2 then Ok Accurate
      else Err (invalid_input (''approx_mode must be 0 (FAST), 1 (NORMAL), or 2 (ACCURATE), got '' @ show_i v)))"

datatype metric_type = L2 | Cosine | Dot | Hamming

datatype blob_handling = BlobsDescriptions | AllBinary | AllDescriptions

datatype nearest_mode = Single | MultiVector | Batch usize

text \<open>The query is the plain array of a single vector, or the \<open>FixedSizeList\<close> matrix of the other modes.\<close>

datatype query_value = QVector query_array | QMatrix usize query_array

record nearest_query =
  nq_mode :: nearest_mode
  nq_column :: string
  nq_query :: query_value
  nq_k :: u32
  nq_lower_bound :: "u32 option"
  nq_upper_bound :: "u32 option"

record nprobes_range =
  np_minimum :: "u32 option"
  np_maximum :: "u32 option"

definition nprobes_exact :: "u32 \<Rightarrow> nprobes_range outcome" where
  "nprobes_exact n =
     reject_if (n = 0) (invalid_input ''nprobes must be greater than 0, got 0'')
       (Ok \<lparr>np_minimum = Some n, np_maximum = Some n\<rparr>)"

definition nprobes_with_minimum :: "nprobes_range \<Rightarrow> u32 \<Rightarrow> nprobes_range outcome" where
  "nprobes_with_minimum r n =
     reject_if (n = 0) (invalid_input ''minimum_nprobes must be greater than 0, got 0'') (
     reject_if (case np_maximum r of Some m \<Rightarrow> m < n | None \<Rightarrow> False)
       (invalid_input (''minimum_nprobes ('' @ show_u n @ '') must not exceed maximum_nprobes ('' @
          show_u (the (np_maximum r)) @ '')''))
       (Ok (r\<lparr>np_minimum := Some n\<rparr>)))"

definition nprobes_with_maximum :: "nprobes_range \<Rightarrow> u32 \<Rightarrow> nprobes_range outcome" where
  "nprobes_with_maximum r n =
     reject_if (n = 0) (invalid_input ''maximum_nprobes must be greater than 0, got 0'') (
     reject_if (case np_minimum r of Some m \<Rightarrow> n < m | None \<Rightarrow> False)
       (invalid_input (''maximum_nprobes ('' @ show_u n @ '') must not be less than minimum_nprobes ('' @
          show_u (the (np_minimum r)) @ '')''))
       (Ok (r\<lparr>np_maximum := Some n\<rparr>)))"

text \<open>The Arrow data types that the query checks tell apart.\<close>

datatype data_type =
    PrimT prim_type
  | FixedSizeListT data_type i32
  | ListT bool data_type
  | OtherT string

record ('ds, 'ix, 'par, 'sc) scanner_api =
  sp_fts :: "('ds, 'ix, 'par, 'sc) fts_api"
  sp_field :: "'ds \<Rightarrow> string \<Rightarrow> data_type option"
  sp_show_type :: "data_type \<Rightarrow> string"
  sp_show_f32 :: "u32 \<Rightarrow> string"
  sp_fixed_size_list :: "usize \<Rightarrow> query_array \<Rightarrow> unit outcome"
  sp_execution_error :: "string \<Rightarrow> lance_error"
  sp_fts_with_columns :: "full_text_query \<Rightarrow> string list \<Rightarrow> unit outcome"

subsection \<open>The handle\<close>

text \<open>The registry of poll wakers has its own theory; the allow and block lists are the sets of row
  addresses that \<open>RowAddrTreeMap\<close> holds.\<close>

record ('ds, 'sc, 'cb, 'st) lance_scanner =
  sc_dataset :: "'ds arc"
  sc_columns :: "string list option"
  sc_filter :: "string option"
  sc_substrait_filter :: "u8 list option"
  sc_additional_sql_filters :: "string list"
  sc_blob_handling :: "blob_handling option"
  sc_limit :: "i64 option"
  sc_offset :: "i64 option"
  sc_batch_size :: "usize option"
  sc_batch_size_bytes :: "u64 option"
  sc_strict_batch_size :: "bool option"
  sc_io_buffer_size :: "u64 option"
  sc_batch_readahead :: "usize option"
  sc_fragment_readahead :: "usize option"
  sc_target_parallelism :: "usize option"
  sc_scan_in_order :: "bool option"
  sc_use_scalar_index :: "bool option"
  sc_use_stats :: "bool option"
  sc_with_row_id :: bool
  sc_with_row_address :: bool
  sc_include_deleted_rows :: bool
  sc_fragment_ids :: "u64 list option"
  sc_row_addr_allowlist :: "u64 set option"
  sc_row_addr_blocklist :: "u64 set option"
  sc_index_segments :: "uuid list option"
  sc_scalar_index_segment :: "uuid option"
  sc_scalar_index_auto_selection :: bool
  sc_nearest :: "nearest_query option"
  sc_nprobes :: nprobes_range
  sc_approx_mode :: "approx_mode option"
  sc_query_parallelism :: "i32 option"
  sc_refine_factor :: "u32 option"
  sc_ef :: "u32 option"
  sc_metric_override :: "metric_type option"
  sc_use_index :: "bool option"
  sc_prefilter :: bool
  sc_fts_query :: "full_text_query option"
  sc_fts_context :: "('ds, 'sc) fts_query_context arc option"
  sc_fts_index_segments :: "uuid list option"
  sc_poisoned :: bool
  sc_scan_statistics_callback :: "'cb option"
  sc_scan_started :: bool
  sc_stream :: "'st option"

definition lance_scanner_init :: "'ds arc \<Rightarrow> ('ds, 'sc, 'cb, 'st) lance_scanner" where
  "lance_scanner_init dataset =
     \<lparr>sc_dataset = dataset, sc_columns = None, sc_filter = None, sc_substrait_filter = None,
      sc_additional_sql_filters = [], sc_blob_handling = None, sc_limit = None, sc_offset = None,
      sc_batch_size = None, sc_batch_size_bytes = None, sc_strict_batch_size = None,
      sc_io_buffer_size = None, sc_batch_readahead = None, sc_fragment_readahead = None,
      sc_target_parallelism = None, sc_scan_in_order = None, sc_use_scalar_index = None,
      sc_use_stats = None, sc_with_row_id = False, sc_with_row_address = False,
      sc_include_deleted_rows = False, sc_fragment_ids = None, sc_row_addr_allowlist = None,
      sc_row_addr_blocklist = None, sc_index_segments = None, sc_scalar_index_segment = None,
      sc_scalar_index_auto_selection = False, sc_nearest = None,
      sc_nprobes = \<lparr>np_minimum = None, np_maximum = None\<rparr>, sc_approx_mode = None,
      sc_query_parallelism = None, sc_refine_factor = None, sc_ef = None, sc_metric_override = None,
      sc_use_index = None, sc_prefilter = False, sc_fts_query = None, sc_fts_context = None,
      sc_fts_index_segments = None, sc_poisoned = False, sc_scan_statistics_callback = None,
      sc_scan_started = False, sc_stream = None\<rparr>"

lemma lance_scanner_init_fields [simp]:
  "sc_dataset (lance_scanner_init d) = d"
  "sc_columns (lance_scanner_init d) = None"
  "sc_filter (lance_scanner_init d) = None"
  "sc_substrait_filter (lance_scanner_init d) = None"
  "sc_additional_sql_filters (lance_scanner_init d) = []"
  "sc_blob_handling (lance_scanner_init d) = None"
  "sc_limit (lance_scanner_init d) = None"
  "sc_offset (lance_scanner_init d) = None"
  "sc_batch_size (lance_scanner_init d) = None"
  "sc_batch_size_bytes (lance_scanner_init d) = None"
  "sc_strict_batch_size (lance_scanner_init d) = None"
  "sc_io_buffer_size (lance_scanner_init d) = None"
  "sc_batch_readahead (lance_scanner_init d) = None"
  "sc_fragment_readahead (lance_scanner_init d) = None"
  "sc_target_parallelism (lance_scanner_init d) = None"
  "sc_scan_in_order (lance_scanner_init d) = None"
  "sc_use_scalar_index (lance_scanner_init d) = None"
  "sc_use_stats (lance_scanner_init d) = None"
  "sc_with_row_id (lance_scanner_init d) = False"
  "sc_with_row_address (lance_scanner_init d) = False"
  "sc_include_deleted_rows (lance_scanner_init d) = False"
  "sc_fragment_ids (lance_scanner_init d) = None"
  "sc_row_addr_allowlist (lance_scanner_init d) = None"
  "sc_row_addr_blocklist (lance_scanner_init d) = None"
  "sc_index_segments (lance_scanner_init d) = None"
  "sc_scalar_index_segment (lance_scanner_init d) = None"
  "sc_scalar_index_auto_selection (lance_scanner_init d) = False"
  "sc_nearest (lance_scanner_init d) = None"
  "sc_nprobes (lance_scanner_init d) = \<lparr>np_minimum = None, np_maximum = None\<rparr>"
  "sc_approx_mode (lance_scanner_init d) = None"
  "sc_query_parallelism (lance_scanner_init d) = None"
  "sc_refine_factor (lance_scanner_init d) = None"
  "sc_ef (lance_scanner_init d) = None"
  "sc_metric_override (lance_scanner_init d) = None"
  "sc_use_index (lance_scanner_init d) = None"
  "sc_prefilter (lance_scanner_init d) = False"
  "sc_fts_query (lance_scanner_init d) = None"
  "sc_fts_context (lance_scanner_init d) = None"
  "sc_fts_index_segments (lance_scanner_init d) = None"
  "sc_poisoned (lance_scanner_init d) = False"
  "sc_scan_statistics_callback (lance_scanner_init d) = None"
  "sc_scan_started (lance_scanner_init d) = False"
  "sc_stream (lance_scanner_init d) = None"
  by (simp_all add: lance_scanner_init_def)

definition scanner_new_inner ::
  "'ds lance_dataset ptr \<Rightarrow> string list ptr \<Rightarrow> string ptr \<Rightarrow> ('ds, 'sc, 'cb, 'st) lance_scanner outcome" where
  "scanner_new_inner dataset columns filter_ptr =
     (case dataset of
        None \<Rightarrow> Err (invalid_input ''dataset must not be NULL'')
      | Some ds \<Rightarrow>
          obind (parse_c_string_array columns) (\<lambda>col_names.
          obind (parse_c_string filter_ptr) (\<lambda>filter_str.
          Ok ((lance_scanner_init (snapshot ds))\<lparr>sc_columns := col_names, sc_filter := filter_str\<rparr>))))"

definition lance_scanner_new ::
  "'ds lance_dataset ptr \<Rightarrow> string list ptr \<Rightarrow> string ptr \<Rightarrow> tls \<Rightarrow> ('ds, 'sc, 'cb, 'st) lance_scanner ptr \<times> tls" where
  "lance_scanner_new dataset columns filter_ptr t =
     ffi_try (obind (scanner_new_inner dataset columns filter_ptr) (\<lambda>s. Ok (Some s))) None t"

subsection \<open>Poison check and firewall of the entry points\<close>

definition poison :: "('ds, 'sc, 'cb, 'st) lance_scanner \<Rightarrow> ('ds, 'sc, 'cb, 'st) lance_scanner" where
  "poison s = s\<lparr>sc_poisoned := True\<rparr>"

text \<open>\<open>scanner_ffi_try!\<close>: the failure handler poisons the handle when the guard caught a panic.\<close>

definition scanner_ffi_try ::
  "('ds, 'sc, 'cb, 'st) lance_scanner ptr \<Rightarrow> ('ds, 'sc, 'cb, 'st) lance_scanner outcome \<Rightarrow> tls \<Rightarrow>
     int \<times> tls \<times> ('ds, 'sc, 'cb, 'st) lance_scanner ptr" where
  "scanner_ffi_try scanner body t =
     (let after = (case body of Ok s' \<Rightarrow> Some s' | _ \<Rightarrow> scanner);
          on_failure = (\<lambda>sp failure. (Returned (- 1), if failure = FailPanic then map_option poison sp else sp))
      in case ffi_guard_with (obind body (\<lambda>_. Ok 0)) on_failure t after of
           (Returned rc, t', s') \<Rightarrow> (rc, t', s')
         | (Unwound p, t', s') \<Rightarrow> (- 1, t', s'))"

text \<open>\<open>scanner_poison_check!\<close> followed by the firewall: what every setter's C function is.\<close>

definition scanner_entry ::
  "(('ds, 'sc, 'cb, 'st) lance_scanner ptr \<Rightarrow> ('ds, 'sc, 'cb, 'st) lance_scanner outcome) \<Rightarrow>
     ('ds, 'sc, 'cb, 'st) lance_scanner ptr \<Rightarrow> tls \<Rightarrow> int \<times> tls \<times> ('ds, 'sc, 'cb, 'st) lance_scanner ptr" where
  "scanner_entry inner scanner t =
     (if (case scanner of Some s \<Rightarrow> sc_poisoned s | None \<Rightarrow> False)
      then (- 1, set_last_error CPanic ''scanner is poisoned by an earlier panic'' t, scanner)
      else scanner_ffi_try scanner (inner scanner) t)"

definition with_scanner ::
  "('ds, 'sc, 'cb, 'st) lance_scanner ptr \<Rightarrow> (('ds, 'sc, 'cb, 'st) lance_scanner \<Rightarrow> 'a outcome) \<Rightarrow> 'a outcome" where
  "with_scanner scanner k =
     (case scanner of None \<Rightarrow> Err (invalid_input ''scanner is NULL'') | Some s \<Rightarrow> k s)"

definition ensure_scan_not_started :: "('ds, 'sc, 'cb, 'st) lance_scanner \<Rightarrow> string \<Rightarrow> 'a outcome \<Rightarrow> 'a outcome" where
  "ensure_scan_not_started s setting_name k =
     reject_if (sc_scan_started s) (invalid_input (setting_name @ '' must be set before the scan starts'')) k"

text \<open>A pointer and a length read as a slice; \<open>len = 0\<close> never reads the pointer.\<close>

definition slice_of :: "'a list ptr \<Rightarrow> usize \<Rightarrow> 'a list" where
  "slice_of p len = (if 0 < len then take (unat len) (case p of Some xs \<Rightarrow> xs | None \<Rightarrow> []) else [])"

end
