(* ===== verification/Scoped_Expression.thy ===== *)
theory Scoped_Expression
  imports Prelude
begin

text \<open>
  Model of \<open>scoped_expression\<close> of \<open>src/scalar_segment.rs\<close>: the part of a scalar index expression
  that one index can answer. Lance's \<open>ScalarIndexExpr\<close> is a tree of index searches under AND, OR
  and NOT; a search's query is either one of the range queries or something else.
\<close>

subsection \<open>Index expressions\<close>

datatype 'v bound = Included 'v | Excluded 'v | Unbounded

datatype 'v sargable_query =
    SqEquals 'v
  | SqIsNull
  | SqIsIn "'v list"
  | SqRange "'v bound" "'v bound"
  | SqOther

record 'v index_search =
  is_index_name :: string
  is_column :: string
  is_index_type :: string
  is_query :: "'v sargable_query option"

datatype 'v index_expr =
    EQuery "'v index_search"
  | EAnd "'v index_expr" "'v index_expr"
  | EOr "'v index_expr" "'v index_expr"
  | ENot "'v index_expr"

definition max_expression_nodes :: nat where "max_expression_nodes = 128"
definition max_expression_depth :: nat where "max_expression_depth = 32"

text \<open>The result is the scoped expression with the remaining node budget, or the fallback reason.\<close>

datatype 'a scoped = Scoped 'a nat | Unscoped string

fun sbind :: "'a scoped \<Rightarrow> ('a \<Rightarrow> nat \<Rightarrow> 'b scoped) \<Rightarrow> 'b scoped" where
  "sbind (Scoped x r) f = f x r"
| "sbind (Unscoped e) f = Unscoped e"

fun scoped_expression ::
  "'v index_expr \<Rightarrow> string \<Rightarrow> string \<Rightarrow> bool \<Rightarrow> nat \<Rightarrow> nat \<Rightarrow> 'v index_expr option scoped" where
  "scoped_expression expr index_name column require_complete depth remaining =
     (if max_expression_depth < depth \<or> remaining = 0 then Unscoped ''expression_budget''
      else (let remaining = remaining - 1 in
        case expr of
          EQuery search \<Rightarrow>
            if is_index_name search \<noteq> index_name then Scoped None remaining
            else if is_column search \<noteq> column then Unscoped ''field_path''
            else Scoped (Some expr) remaining
        | EAnd lhs rhs \<Rightarrow>
            sbind (scoped_expression lhs index_name column require_complete (depth + 1) remaining) (\<lambda>l r1.
            sbind (scoped_expression rhs index_name column require_complete (depth + 1) r1) (\<lambda>r r2.
            Scoped (case (l, r) of
                      (Some a, Some b) \<Rightarrow> Some (EAnd a b)
                    | _ \<Rightarrow> if \<not> require_complete then (case l of Some a \<Rightarrow> Some a | None \<Rightarrow> r) else None) r2))
        | EOr lhs rhs \<Rightarrow>
            sbind (scoped_expression lhs index_name column require_complete (depth + 1) remaining) (\<lambda>l r1.
            sbind (scoped_expression rhs index_name column require_complete (depth + 1) r1) (\<lambda>r r2.
            Scoped (case (l, r) of (Some a, Some b) \<Rightarrow> Some (EOr a b) | _ \<Rightarrow> None) r2))
        | ENot inner \<Rightarrow>
            sbind (scoped_expression inner index_name column True (depth + 1) remaining) (\<lambda>i r1.
            Scoped (map_option ENot i) r1)))"

declare scoped_expression.simps [simp del]

subsection \<open>Measures and meaning\<close>

fun expr_nodes :: "'v index_expr \<Rightarrow> nat" where
  "expr_nodes (EQuery s) = 1"
| "expr_nodes (EAnd a b) = 1 + expr_nodes a + expr_nodes b"
| "expr_nodes (EOr a b) = 1 + expr_nodes a + expr_nodes b"
| "expr_nodes (ENot a) = 1 + expr_nodes a"

fun expr_height :: "'v index_expr \<Rightarrow> nat" where
  "expr_height (EQuery s) = 0"
| "expr_height (EAnd a b) = Suc (max (expr_height a) (expr_height b))"
| "expr_height (EOr a b) = Suc (max (expr_height a) (expr_height b))"
| "expr_height (ENot a) = Suc (expr_height a)"

fun expr_leaves :: "'v index_expr \<Rightarrow> 'v index_search list" where
  "expr_leaves (EQuery s) = [s]"
| "expr_leaves (EAnd a b) = expr_leaves a @ expr_leaves b"
| "expr_leaves (EOr a b) = expr_leaves a @ expr_leaves b"
| "expr_leaves (ENot a) = expr_leaves a"

text \<open>SQL's three-valued logic: a predicate on a row is true, false or NULL (\<open>None\<close>).\<close>

type_synonym tri = "bool option"

fun tri_and :: "tri \<Rightarrow> tri \<Rightarrow> tri" where
  "tri_and (Some False) b = Some False"
| "tri_and a (Some False) = Some False"
| "tri_and (Some True) (Some True) = Some True"
| "tri_and a b = None"

definition tri_not :: "tri \<Rightarrow> tri" where
  "tri_not a = map_option Not a"

definition tri_or :: "tri \<Rightarrow> tri \<Rightarrow> tri" where
  "tri_or a b = tri_not (tri_and (tri_not a) (tri_not b))"

fun expr_eval :: "('v index_search \<Rightarrow> tri) \<Rightarrow> 'v index_expr \<Rightarrow> tri" where
  "expr_eval leaf (EQuery s) = leaf s"
| "expr_eval leaf (EAnd a b) = tri_and (expr_eval leaf a) (expr_eval leaf b)"
| "expr_eval leaf (EOr a b) = tri_or (expr_eval leaf a) (expr_eval leaf b)"
| "expr_eval leaf (ENot a) = tri_not (expr_eval leaf a)"

lemma tri_and_True [simp]: "tri_and a b = Some True \<longleftrightarrow> a = Some True \<and> b = Some True"
  by (cases "(a, b)" rule: tri_and.cases) auto

lemma tri_not_simps [simp]:
  "tri_not a = Some True \<longleftrightarrow> a = Some False" "tri_not a = Some False \<longleftrightarrow> a = Some True"
  by (cases a; simp add: tri_not_def)+

lemma tri_and_False: "tri_and a b = Some False \<longleftrightarrow> a = Some False \<or> b = Some False"
  by (cases "(a, b)" rule: tri_and.cases) auto

lemma tri_or_True [simp]: "tri_or a b = Some True \<longleftrightarrow> a = Some True \<or> b = Some True"
  by (simp add: tri_or_def tri_and_False)

subsection \<open>Lemmas\<close>

lemma sbind_eq_Scoped: "sbind m f = Scoped y r \<longleftrightarrow> (\<exists>x r1. m = Scoped x r1 \<and> f x r1 = Scoped y r)"
  by (cases m) auto

lemma scoped_expression_simps:
  assumes "\<not> (max_expression_depth < depth \<or> remaining = 0)"
  shows "scoped_expression (EQuery s) n c rc depth remaining =
      (if is_index_name s \<noteq> n then Scoped None (remaining - 1)
       else if is_column s \<noteq> c then Unscoped ''field_path'' else Scoped (Some (EQuery s)) (remaining - 1))"
    "scoped_expression (EAnd a b) n c rc depth remaining =
      sbind (scoped_expression a n c rc (depth + 1) (remaining - 1)) (\<lambda>l r1.
      sbind (scoped_expression b n c rc (depth + 1) r1) (\<lambda>r r2.
      Scoped (case (l, r) of
          (Some a, Some b) \<Rightarrow> Some (EAnd a b)
        | _ \<Rightarrow> if \<not> rc then (case l of Some a \<Rightarrow> Some a | None \<Rightarrow> r) else None) r2))"
    "scoped_expression (EOr a b) n c rc depth remaining =
      sbind (scoped_expression a n c rc (depth + 1) (remaining - 1)) (\<lambda>l r1.
      sbind (scoped_expression b n c rc (depth + 1) r1) (\<lambda>r r2.
      Scoped (case (l, r) of (Some a, Some b) \<Rightarrow> Some (EOr a b) | _ \<Rightarrow> None) r2))"
    "scoped_expression (ENot a) n c rc depth remaining =
      sbind (scoped_expression a n c True (depth + 1) (remaining - 1)) (\<lambda>i r1. Scoped (map_option ENot i) r1)"
  using assms by (simp_all add: scoped_expression.simps [of _ n c rc depth remaining] Let_def)

lemma scoped_expression_over_budget:
  "max_expression_depth < depth \<or> remaining = 0 \<Longrightarrow>
     scoped_expression e n c rc depth remaining = Unscoped ''expression_budget''"
  by (simp add: scoped_expression.simps [of e n c rc depth remaining])

lemma scoped_expression_within:
  "scoped_expression e n c rc depth remaining = Scoped x r \<Longrightarrow> \<not> (max_expression_depth < depth \<or> remaining = 0)"
  using scoped_expression_over_budget [of depth remaining e n c rc] by auto

text \<open>What holds of every successful call, by induction on the expression.\<close>

lemma scoped_expression_sound:
  assumes "scoped_expression e n c rc depth remaining = Scoped (Some e') r"
  shows "(\<forall>s \<in> set (expr_leaves e'). is_index_name s = n \<and> is_column s = c) \<and>
    expr_nodes e' \<le> expr_nodes e \<and> expr_height e' \<le> expr_height e \<and>
    (\<forall>leaf. (rc \<longrightarrow> expr_eval leaf e' = expr_eval leaf e) \<and>
            (expr_eval leaf e = Some True \<longrightarrow> expr_eval leaf e' = Some True))"
  using assms
proof (induction e arbitrary: rc depth remaining e' r)
  case (EQuery s)
  then show ?case
    by (cases "max_expression_depth < depth \<or> remaining = 0")
      (auto simp: scoped_expression_over_budget scoped_expression_simps split: if_splits)
next
  case (EAnd a b)
  from scoped_expression_within [OF EAnd.prems] have ok: "\<not> (max_expression_depth < depth \<or> remaining = 0)" .
  from EAnd.prems obtain l r1 rr where l: "scoped_expression a n c rc (depth + 1) (remaining - 1) = Scoped l r1"
    and rr: "scoped_expression b n c rc (depth + 1) r1 = Scoped rr r"
    and e': "Some e' = (case (l, rr) of (Some a, Some b) \<Rightarrow> Some (EAnd a b)
        | _ \<Rightarrow> if \<not> rc then (case l of Some a \<Rightarrow> Some a | None \<Rightarrow> rr) else None)"
    by (auto simp: scoped_expression_simps [OF ok] sbind_eq_Scoped)
  show ?case
  proof (cases l)
    case None
    with e' have "rr = Some e'" "\<not> rc" by (auto split: if_splits)
    with EAnd.IH(2) rr show ?thesis by fastforce
  next
    case (Some a')
    note la = EAnd.IH(1) [OF l [unfolded Some]]
    show ?thesis
    proof (cases rr)
      case None
      with e' Some have "e' = a'" "\<not> rc" by (auto split: if_splits)
      with la show ?thesis by auto
    next
      case (Some b')
      with e' \<open>l = Some a'\<close> have "e' = EAnd a' b'" by simp
      with la EAnd.IH(2) [OF rr [unfolded Some]] show ?thesis by auto
    qed
  qed
next
  case (EOr a b)
  from scoped_expression_within [OF EOr.prems] have ok: "\<not> (max_expression_depth < depth \<or> remaining = 0)" .
  from EOr.prems obtain a' b' r1 where l: "scoped_expression a n c rc (depth + 1) (remaining - 1) = Scoped (Some a') r1"
    and rr: "scoped_expression b n c rc (depth + 1) r1 = Scoped (Some b') r" and e': "e' = EOr a' b'"
    by (auto simp: scoped_expression_simps [OF ok] sbind_eq_Scoped split: option.splits)
  from EOr.IH(1) [OF l] EOr.IH(2) [OF rr] show ?case by (auto simp: e')
next
  case (ENot a)
  from scoped_expression_within [OF ENot.prems] have ok: "\<not> (max_expression_depth < depth \<or> remaining = 0)" .
  from ENot.prems obtain a' where l: "scoped_expression a n c True (depth + 1) (remaining - 1) = Scoped (Some a') r"
    and e': "e' = ENot a'"
    by (auto simp: scoped_expression_simps [OF ok] sbind_eq_Scoped)
  from ENot.IH [OF l] show ?case by (auto simp: e')
qed

text \<open>The search names an index by two names; an expression with a search that has the right index
  name but another column is refused.\<close>

definition field_paths_ok :: "string \<Rightarrow> string \<Rightarrow> 'v index_expr \<Rightarrow> bool" where
  "field_paths_ok n c e \<longleftrightarrow> list_all (\<lambda>s. is_index_name s = n \<longrightarrow> is_column s = c) (expr_leaves e)"

lemma field_paths_ok_simps [simp]:
  "field_paths_ok n c (EQuery s) \<longleftrightarrow> (is_index_name s = n \<longrightarrow> is_column s = c)"
  "field_paths_ok n c (EAnd a b) \<longleftrightarrow> field_paths_ok n c a \<and> field_paths_ok n c b"
  "field_paths_ok n c (EOr a b) \<longleftrightarrow> field_paths_ok n c a \<and> field_paths_ok n c b"
  "field_paths_ok n c (ENot a) \<longleftrightarrow> field_paths_ok n c a"
  by (auto simp: field_paths_ok_def)

lemma expr_nodes_pos [simp]: "0 < expr_nodes e"
  by (cases e) simp_all

text \<open>The whole tree is always visited: success costs exactly its nodes.\<close>

lemma scoped_expression_cases:
  "if expr_nodes e \<le> remaining \<and> depth + expr_height e \<le> max_expression_depth \<and> field_paths_ok n c e
   then \<exists>x. scoped_expression e n c rc depth remaining = Scoped x (remaining - expr_nodes e)
   else \<exists>m. scoped_expression e n c rc depth remaining = Unscoped m"
proof (induction e arbitrary: rc depth remaining)
  case (EQuery s)
  then show ?case
    by (cases "max_expression_depth < depth \<or> remaining = 0")
      (auto simp: scoped_expression_over_budget scoped_expression_simps)
next
  case (EAnd a b)
  show ?case
  proof (cases "max_expression_depth < depth \<or> remaining = 0")
    case False
    show ?thesis
      using EAnd.IH(1) [of "remaining - 1" "depth + 1" rc]
        EAnd.IH(2) [of "remaining - 1 - expr_nodes a" "depth + 1" rc] False expr_nodes_pos [of a] expr_nodes_pos [of b]
      by (auto simp: scoped_expression_simps [OF False] split: if_split_asm)
  qed (auto simp: scoped_expression_over_budget)
next
  case (EOr a b)
  show ?case
  proof (cases "max_expression_depth < depth \<or> remaining = 0")
    case False
    show ?thesis
      using EOr.IH(1) [of "remaining - 1" "depth + 1" rc]
        EOr.IH(2) [of "remaining - 1 - expr_nodes a" "depth + 1" rc] False expr_nodes_pos [of a] expr_nodes_pos [of b]
      by (auto simp: scoped_expression_simps [OF False] split: if_split_asm)
  qed (auto simp: scoped_expression_over_budget)
next
  case (ENot a)
  show ?case
  proof (cases "max_expression_depth < depth \<or> remaining = 0")
    case False
    show ?thesis
      using ENot.IH [of "remaining - 1" "depth + 1" True] False expr_nodes_pos [of a]
      by (auto simp: scoped_expression_simps [OF False] split: if_split_asm)
  qed (auto simp: scoped_expression_over_budget)
qed

subsection \<open>Properties\<close>

text \<open>C7. Scoping an index expression to one index is sound in SQL's three-valued logic, whatever the
  searches mean: every row for which the full expression is true satisfies the scoped one (so it can
  serve as a superset filter), in a context that demands completeness (under NOT) the two agree on
  every row, NULL included, and the scoped expression searches only the given index and column.\<close>

theorem scoped_expression_superset:
  assumes "scoped_expression e n c require_complete depth remaining = Scoped (Some e') r"
  shows "(expr_eval leaf e = Some True \<longrightarrow> expr_eval leaf e' = Some True) \<and>
    (require_complete \<longrightarrow> expr_eval leaf e' = expr_eval leaf e) \<and>
    list_all (\<lambda>s. is_index_name s = n \<and> is_column s = c) (expr_leaves e')"
  using scoped_expression_sound [OF assms] by (auto simp: list_all_iff)

definition demo_search :: "string \<Rightarrow> nat index_search" where
  "demo_search n = \<lparr>is_index_name = n, is_column = ''c'', is_index_type = ''btree'', is_query = Some (SqEquals 7)\<rparr>"

theorem scoped_expression_superset_witness:
  "scoped_expression (EAnd (EQuery (demo_search ''i'')) (ENot (EQuery (demo_search ''j'')))) ''i'' ''c'' False 0 128
     = Scoped (Some (EQuery (demo_search ''i''))) 124 \<and>
   expr_eval (\<lambda>s. Some (is_index_name s = ''i'')) (EQuery (demo_search ''i'')) = Some True"
proof -
  have e: "scoped_expression (EAnd (EQuery (demo_search ''i'')) (ENot (EQuery (demo_search ''j'')))) ''i'' ''c'' False 0 128
     = Scoped (Some (EQuery (demo_search ''i''))) 124"
    by (simp add: scoped_expression_simps max_expression_depth_def demo_search_def)
  from scoped_expression_superset [OF e, of "\<lambda>s. Some (is_index_name s = ''i'')"] e
  show ?thesis by (simp add: tri_not_def demo_search_def)
qed


end
