(* ===== verification/Index_Selection.thy ===== *)
theory Index_Selection
  imports Fts_Query Scoped_Expression "HOL-Library.Char_ord" "HOL-Library.List_Lexorder"
    "HOL-Library.Product_Lexorder"
begin

text \<open>
  Model of \<open>src/scalar_index_selection.rs\<close>: the bounded cost estimate of a BTree segment from the
  per-page statistics of its lookup file, and the choice between the segment asked for, another
  segment that covers the same fragments, and a full scan. Lance's scalar values, index files and
  metadata cache are the record \<open>cost_api\<close>.
\<close>

subsection \<open>Execution counters\<close>

record exec_counts =
  ec_iops :: usize
  ec_requests :: usize
  ec_bytes_read :: usize
  ec_indices_loaded :: usize
  ec_parts_loaded :: usize
  ec_index_comparisons :: usize
  ec_all_counts :: "string \<rightharpoonup> usize"
  ec_all_times :: "string \<rightharpoonup> usize"

definition exec_counts_default :: exec_counts where
  "exec_counts_default =
     \<lparr>ec_iops = 0, ec_requests = 0, ec_bytes_read = 0, ec_indices_loaded = 0, ec_parts_loaded = 0,
      ec_index_comparisons = 0, ec_all_counts = Map.empty, ec_all_times = Map.empty\<rparr>"

definition insert_count :: "string \<Rightarrow> usize \<Rightarrow> exec_counts \<Rightarrow> exec_counts" where
  "insert_count name v st = st\<lparr>ec_all_counts := (ec_all_counts st)(name \<mapsto> v)\<rparr>"

subsection \<open>Limits and parameters\<close>

definition max_candidates :: nat where "max_candidates = 8"
definition max_lookup_bytes :: u64 where "max_lookup_bytes = 8 * 1024 * 1024"
definition max_decoded_lookup_bytes :: usize where "max_decoded_lookup_bytes = 8 * 1024 * 1024"
definition max_lookup_pages :: nat where "max_lookup_pages = 65536"
definition max_in_values :: nat where "max_in_values = 256"
definition max_estimate_comparisons :: nat where "max_estimate_comparisons = 1000000"

datatype ordering = Less | Equal | Greater

datatype lookup_type = TNull | TBoolean | TFixedSizeBinary i32 | TOther string

record schema_field =
  fd_id :: i32
  fd_name :: string
  fd_type :: lookup_type

text \<open>A lookup batch: its minimum and maximum columns (a value that cannot be read is \<open>None\<close>) and its
  null counts, when the third column is the integer column it should be.\<close>

record 'v lookup_batch =
  lb_num_columns :: nat
  lb_min :: "'v option list"
  lb_max :: "'v option list"
  lb_nulls :: "u32 list option"

record 'v lookup =
  lk_batch :: "'v lookup_batch"
  lk_rows_per_page :: u64
  lk_decoded_bytes :: usize

text \<open>An opened lookup file.\<close>

record 'v index_reader =
  ir_num_rows :: usize
  ir_fields :: "lookup_type list"
  ir_batch_size :: "string option"
  ir_read :: "'v lookup_batch option"

record ('ds, 'v) cost_api =
  ca_is_null :: "'v \<Rightarrow> bool"
  ca_partial_cmp :: "'v \<Rightarrow> 'v \<Rightarrow> ordering option"
  ca_primitive_width :: "lookup_type \<Rightarrow> usize option"
  ca_keyed_field :: "index_metadata \<Rightarrow> i32 option"
  ca_field_by_id :: "'ds \<Rightarrow> i32 \<Rightarrow> schema_field option"
  ca_top_fields :: "'ds \<Rightarrow> schema_field list"
  ca_dataset_uri :: "'ds \<Rightarrow> string"
  ca_cached :: "'ds \<Rightarrow> string \<Rightarrow> 'v lookup option"
  ca_btree_lookup_name :: string
  ca_default_btree_batch_size :: u64
  ca_open_lookup :: "'ds \<Rightarrow> index_metadata \<Rightarrow> 'v index_reader option"

record probe_budget =
  pb_serialized_bytes :: u64
  pb_decoded_bytes :: usize

definition probe_budget_default :: probe_budget where
  "probe_budget_default = \<lparr>pb_serialized_bytes = max_lookup_bytes, pb_decoded_bytes = max_decoded_lookup_bytes\<rparr>"

subsection \<open>Sizes\<close>

definition fixed_width :: "('ds, 'v) cost_api \<Rightarrow> lookup_type \<Rightarrow> usize option" where
  "fixed_width api t =
     (case t of
        TNull \<Rightarrow> Some 0
      | TBoolean \<Rightarrow> Some 1
      | TFixedSizeBinary width \<Rightarrow> if sint width < 0 then None else Some (ucast width)
      | _ \<Rightarrow> ca_primitive_width api t)"

definition div_ceil8 :: "usize \<Rightarrow> usize" where
  "div_ceil8 n = (if n mod 8 = 0 then n div 8 else n div 8 + 1)"

fun decoded_fields_bytes :: "('ds, 'v) cost_api \<Rightarrow> usize \<Rightarrow> usize \<Rightarrow> lookup_type list \<Rightarrow> usize option" where
  "decoded_fields_bytes api rows bytes [] = Some bytes"
| "decoded_fields_bytes api rows bytes (t # ts) =
     Option.bind (fixed_width api t) (\<lambda>w.
     Option.bind (checked_mul rows w) (\<lambda>vals.
     Option.bind (checked_add bytes vals) (\<lambda>b1.
     Option.bind (checked_add b1 (div_ceil8 rows)) (\<lambda>b2.
     Option.bind (checked_add b2 1024) (\<lambda>b3. decoded_fields_bytes api rows b3 ts)))))"

definition decoded_lookup_bytes :: "('ds, 'v) cost_api \<Rightarrow> lookup_type list \<Rightarrow> usize \<Rightarrow> usize option" where
  "decoded_lookup_bytes api schema rows = decoded_fields_bytes api rows 0 schema"

subsection \<open>Pages\<close>

definition ascii_lower :: "char \<Rightarrow> char" where
  "ascii_lower c = (if 65 \<le> (of_char c :: nat) \<and> (of_char c :: nat) \<le> 90 then char_of ((of_char c :: nat) + 32) else c)"

fun is_btree_expression :: "'v index_expr \<Rightarrow> bool" where
  "is_btree_expression (EQuery search) = (map ascii_lower (is_index_type search) = ''btree'')"
| "is_btree_expression (EAnd a b) = (is_btree_expression a \<and> is_btree_expression b)"
| "is_btree_expression (EOr a b) = (is_btree_expression a \<and> is_btree_expression b)"
| "is_btree_expression (ENot _) = False"

definition page_contains :: "('ds, 'v) cost_api \<Rightarrow> 'v \<Rightarrow> 'v \<Rightarrow> u32 \<Rightarrow> 'v \<Rightarrow> bool option" where
  "page_contains api mn mx nulls v =
     (if ca_is_null api v then Some (nulls \<noteq> 0)
      else if ca_is_null api mn \<or> ca_is_null api mx then Some False
      else Option.bind (ca_partial_cmp api mn v) (\<lambda>lo.
           if lo = Greater then Some False
           else Option.bind (ca_partial_cmp api mx v) (\<lambda>hi. Some (hi \<noteq> Less))))"

fun page_contains_any :: "('ds, 'v) cost_api \<Rightarrow> 'v \<Rightarrow> 'v \<Rightarrow> u32 \<Rightarrow> 'v list \<Rightarrow> bool option" where
  "page_contains_any api mn mx nulls [] = Some False"
| "page_contains_any api mn mx nulls (v # vs) =
     Option.bind (page_contains api mn mx nulls v) (\<lambda>b. if b then Some True else page_contains_any api mn mx nulls vs)"

definition above_lower :: "('ds, 'v) cost_api \<Rightarrow> 'v \<Rightarrow> 'v bound \<Rightarrow> bool option" where
  "above_lower api mx start =
     (case start of
        Included v \<Rightarrow> if ca_is_null api v then None else map_option (\<lambda>c. c \<noteq> Less) (ca_partial_cmp api mx v)
      | Excluded v \<Rightarrow> if ca_is_null api v then None else map_option (\<lambda>c. c = Greater) (ca_partial_cmp api mx v)
      | Unbounded \<Rightarrow> Some True)"

definition below_upper :: "('ds, 'v) cost_api \<Rightarrow> 'v \<Rightarrow> 'v bound \<Rightarrow> bool option" where
  "below_upper api mn end =
     (case end of
        Included v \<Rightarrow> if ca_is_null api v then None else map_option (\<lambda>c. c \<noteq> Greater) (ca_partial_cmp api mn v)
      | Excluded v \<Rightarrow> if ca_is_null api v then None else map_option (\<lambda>c. c = Less) (ca_partial_cmp api mn v)
      | Unbounded \<Rightarrow> Some True)"

definition overlaps :: "('ds, 'v) cost_api \<Rightarrow> 'v \<Rightarrow> 'v \<Rightarrow> 'v sargable_query \<Rightarrow> u32 \<Rightarrow> bool option" where
  "overlaps api mn mx query nulls =
     (case query of
        SqEquals v \<Rightarrow> page_contains api mn mx nulls v
      | SqIsNull \<Rightarrow> Some (nulls \<noteq> 0)
      | SqIsIn vs \<Rightarrow> if length vs \<le> max_in_values then page_contains_any api mn mx nulls vs else None
      | SqRange start end \<Rightarrow>
          if ca_is_null api mn \<or> ca_is_null api mx then Some False
          else Option.bind (above_lower api mx start) (\<lambda>a.
               Option.bind (below_upper api mn end) (\<lambda>b. Some (a \<and> b)))
      | SqOther \<Rightarrow> None)"

text \<open>The right operand is not evaluated when the left one decides.\<close>

fun matches_page :: "('ds, 'v) cost_api \<Rightarrow> 'v index_expr \<Rightarrow> 'v \<Rightarrow> 'v \<Rightarrow> u32 \<Rightarrow> bool option" where
  "matches_page api (EQuery search) mn mx nulls =
     Option.bind (is_query search) (\<lambda>q. overlaps api mn mx q nulls)"
| "matches_page api (EAnd a b) mn mx nulls =
     Option.bind (matches_page api a mn mx nulls) (\<lambda>x. if x then matches_page api b mn mx nulls else Some False)"
| "matches_page api (EOr a b) mn mx nulls =
     Option.bind (matches_page api a mn mx nulls) (\<lambda>x. if x then Some True else matches_page api b mn mx nulls)"
| "matches_page api (ENot _) mn mx nulls = None"

fun comparisons_per_page :: "'v index_expr \<Rightarrow> usize option" where
  "comparisons_per_page (EQuery search) =
     Option.bind (is_query search) (\<lambda>q.
       case q of
         SqIsIn vs \<Rightarrow> if length vs \<le> max_in_values then Some (of_nat (max (length vs) 1)) else None
       | SqEquals _ \<Rightarrow> Some 1
       | SqRange _ _ \<Rightarrow> Some 1
       | SqIsNull \<Rightarrow> Some 1
       | SqOther \<Rightarrow> None)"
| "comparisons_per_page (EAnd a b) =
     Option.bind (comparisons_per_page a) (\<lambda>x. Option.bind (comparisons_per_page b) (\<lambda>y. checked_add x y))"
| "comparisons_per_page (EOr a b) =
     Option.bind (comparisons_per_page a) (\<lambda>x. Option.bind (comparisons_per_page b) (\<lambda>y. checked_add x y))"
| "comparisons_per_page (ENot _) = None"

definition lookup_rows :: "'v lookup_batch \<Rightarrow> nat" where
  "lookup_rows batch = length (lb_min batch)"

text \<open>The loop over the pages, with the count so far.\<close>

fun count_pages :: "('ds, 'v) cost_api \<Rightarrow> 'v index_expr \<Rightarrow> ('v option \<times> 'v option \<times> u32) list \<Rightarrow> nat \<Rightarrow> nat option" where
  "count_pages api expr [] pages = Some pages"
| "count_pages api expr ((mn, mx, nulls) # rows) pages =
     Option.bind mn (\<lambda>mn. Option.bind mx (\<lambda>mx.
     Option.bind (matches_page api expr mn mx nulls) (\<lambda>m.
     count_pages api expr rows (pages + (if m then 1 else 0)))))"

definition estimate_pages :: "('ds, 'v) cost_api \<Rightarrow> 'v lookup_batch \<Rightarrow> 'v index_expr \<Rightarrow> nat option" where
  "estimate_pages api batch expr =
     (if lb_num_columns batch < 3 \<or> max_lookup_pages < lookup_rows batch then None
      else Option.bind (comparisons_per_page expr) (\<lambda>c.
           Option.bind (checked_mul (of_nat (lookup_rows batch) :: usize) c) (\<lambda>total.
           if max_estimate_comparisons < unat total then None
           else Option.bind (lb_nulls batch) (\<lambda>nulls.
                count_pages api expr (zip (lb_min batch) (zip (lb_max batch) nulls)) 0))))"

subsection \<open>Cost of one segment\<close>

text \<open>\<open>str::parse::<u64>\<close>: an optional plus sign, at least one digit, no overflow.\<close>

definition is_digit :: "char \<Rightarrow> bool" where
  "is_digit c \<longleftrightarrow> 48 \<le> (of_char c :: nat) \<and> (of_char c :: nat) \<le> 57"

definition digits_value :: "string \<Rightarrow> nat" where
  "digits_value ds = foldl (\<lambda>n c. n * 10 + ((of_char c :: nat) - 48)) 0 ds"

definition parse_u64 :: "string \<Rightarrow> u64 option" where
  "parse_u64 s =
     (let ds = (case s of c # cs \<Rightarrow> if c = CHR 0x2B then cs else s | [] \<Rightarrow> s)
      in if ds \<noteq> [] \<and> list_all is_digit ds \<and> digits_value ds < 2 ^ 64 then Some (of_nat (digits_value ds)) else None)"

text \<open>The loader behind the cache: every check comes before the batch is read.\<close>

definition load_lookup ::
  "('ds, 'v) cost_api \<Rightarrow> 'ds \<Rightarrow> index_metadata \<Rightarrow> usize \<Rightarrow> 'v lookup option" where
  "load_lookup api d index available_decoded_bytes =
     Option.bind (ca_open_lookup api d index) (\<lambda>reader.
     if max_lookup_pages < unat (ir_num_rows reader) then None
     else Option.bind (decoded_lookup_bytes api (ir_fields reader) (ir_num_rows reader)) (\<lambda>decoded_bytes.
     if available_decoded_bytes < decoded_bytes then None
     else Option.bind (case ir_batch_size reader of
                         Some s \<Rightarrow> parse_u64 s
                       | None \<Rightarrow> Some (ca_default_btree_batch_size api)) (\<lambda>rows_per_page.
     if rows_per_page = 0 then None
     else Option.bind (ir_read reader) (\<lambda>batch.
     Some \<lparr>lk_batch = batch, lk_rows_per_page = rows_per_page, lk_decoded_bytes = decoded_bytes\<rparr>))))"

text \<open>The budget is threaded through, also when no estimate results.\<close>

definition estimate_cost ::
  "('ds, 'v) cost_api \<Rightarrow> 'ds \<Rightarrow> index_metadata \<Rightarrow> 'v index_expr \<Rightarrow> probe_budget \<Rightarrow> (u64 \<times> nat) option \<times> probe_budget" where
  "estimate_cost api d index expr budget =
     (if \<not> is_btree_expression expr then (None, budget)
      else case Option.bind (ca_keyed_field api index) (\<lambda>f.
                Option.bind (ca_field_by_id api d f) (\<lambda>field.
                Option.bind (fixed_width api (fd_type field)) (\<lambda>_.
                Option.bind (im_files index) (\<lambda>files. map_of files (ca_btree_lookup_name api))))) of
        None \<Rightarrow> (None, budget)
      | Some bytes \<Rightarrow>
          if pb_serialized_bytes budget < bytes then (None, budget)
          else (let budget1 = budget\<lparr>pb_serialized_bytes := pb_serialized_bytes budget - bytes\<rparr>;
                    key = ca_dataset_uri api d @ ''/'' @ show_uuid (im_uuid index)
                in case (case ca_cached api d key of
                           Some l \<Rightarrow> Some l
                         | None \<Rightarrow> load_lookup api d index (pb_decoded_bytes budget1)) of
                     None \<Rightarrow> (None, budget1)
                   | Some lookup \<Rightarrow>
                       (case checked_sub (pb_decoded_bytes budget1) (lk_decoded_bytes lookup) of
                          None \<Rightarrow> (None, budget1)
                        | Some left \<Rightarrow>
                            (map_option (\<lambda>pages. (saturating_mul (lk_rows_per_page lookup) (of_nat pages), pages))
                               (estimate_pages api (lk_batch lookup) expr),
                             budget1\<lparr>pb_decoded_bytes := left\<rparr>))))"

subsection \<open>The choice\<close>

record read_domain =
  rd_fragment_ids :: "u64 list"
  rd_physical_rows :: u64

definition covers :: "u32 list \<Rightarrow> u64 list \<Rightarrow> bool" where
  "covers coverage ids \<longleftrightarrow> list_all (\<lambda>i. case u32_try_from i of Some f \<Rightarrow> f \<in> set coverage | None \<Rightarrow> False) ids"

text \<open>The guards of the loop: the scoped expression of a candidate that passes them all.\<close>

definition candidate_expression ::
  "('ds, 'v) cost_api \<Rightarrow> 'ds \<Rightarrow> u64 list \<Rightarrow> 'v index_expr \<Rightarrow> index_metadata \<Rightarrow> 'v index_expr option" where
  "candidate_expression api d fragment_ids index_query candidate =
     Option.bind (ca_keyed_field api candidate) (\<lambda>field_id.
     Option.bind (find (\<lambda>f. fd_id f = field_id) (ca_top_fields api d)) (\<lambda>field.
     Option.bind (im_fragment_bitmap candidate) (\<lambda>coverage.
     if \<not> covers coverage fragment_ids then None
     else case scoped_expression index_query (im_name candidate) (fd_name field) False 0 128 of
            Scoped (Some expr) _ \<Rightarrow> if is_btree_expression expr then Some expr else None
          | _ \<Rightarrow> None)))"

record 'v choice =
  ch_selected :: "uuid \<times> 'v index_expr"
  ch_cost :: u64
  ch_pages :: nat
  ch_candidates :: nat
  ch_budget :: probe_budget

fun choose_loop ::
  "('ds, 'v) cost_api \<Rightarrow> 'ds \<Rightarrow> u64 list \<Rightarrow> 'v index_expr \<Rightarrow> index_metadata list \<Rightarrow> 'v choice \<Rightarrow> 'v choice" where
  "choose_loop api d fragment_ids index_query [] ch = ch"
| "choose_loop api d fragment_ids index_query (candidate # rest) ch =
     (if max_candidates \<le> ch_candidates ch then ch
      else case candidate_expression api d fragment_ids index_query candidate of
        None \<Rightarrow> choose_loop api d fragment_ids index_query rest ch
      | Some expr \<Rightarrow>
          (let (est, budget) = estimate_cost api d candidate expr (ch_budget ch);
               ch1 = ch\<lparr>ch_candidates := ch_candidates ch + 1, ch_budget := budget\<rparr>
           in choose_loop api d fragment_ids index_query rest
                (case est of
                   Some (cost, pages) \<Rightarrow>
                     if cost < ch_cost ch
                     then ch1\<lparr>ch_selected := (im_uuid candidate, expr), ch_cost := cost, ch_pages := pages\<rparr>
                     else ch1
                 | None \<Rightarrow> ch1)))"

definition sorted_alternatives :: "index_metadata list \<Rightarrow> uuid \<Rightarrow> index_metadata list" where
  "sorted_alternatives indices grouping_uuid =
     sort_key (\<lambda>i. (im_name i, im_uuid i)) (filter (\<lambda>i. im_uuid i \<noteq> grouping_uuid) indices)"

text \<open>\<open>None\<close> selects a scoped full scan.\<close>

definition choose_segment ::
  "('ds, 'v) cost_api \<Rightarrow> 'ds \<Rightarrow> index_metadata list \<Rightarrow> index_metadata \<Rightarrow> 'v index_expr \<Rightarrow> 'v index_expr \<Rightarrow>
     read_domain \<Rightarrow> exec_counts \<Rightarrow> (uuid \<times> 'v index_expr) option \<times> exec_counts" where
  "choose_segment api d indices grouping grouping_expr index_query domain stats =
     (if \<not> is_btree_expression grouping_expr then (Some (im_uuid grouping, grouping_expr), stats)
      else (let stats1 = insert_count ''scalar_index_auto_candidates'' 1 stats;
                (est, budget) = estimate_cost api d grouping grouping_expr probe_budget_default
            in case est of
                 None \<Rightarrow> (Some (im_uuid grouping, grouping_expr), stats1)
               | Some (cost, pages) \<Rightarrow>
                   (let ch = choose_loop api d (rd_fragment_ids domain) index_query
                               (sorted_alternatives indices (im_uuid grouping))
                               \<lparr>ch_selected = (im_uuid grouping, grouping_expr), ch_cost = cost, ch_pages = pages,
                                ch_candidates = 1, ch_budget = budget\<rparr>;
                        stats2 = insert_count ''scalar_index_auto_estimated_rows'' (ch_cost ch)
                          (insert_count ''scalar_index_auto_estimated_pages'' (of_nat (ch_pages ch))
                          (insert_count ''scalar_index_auto_candidates'' (of_nat (ch_candidates ch)) stats1))
                    in if rd_physical_rows domain \<le> ch_cost ch
                       then (None, insert_count ''scalar_index_auto_full_scans'' 1 stats2)
                       else (Some (ch_selected ch),
                             insert_count ''scalar_index_auto_changed''
                               (if fst (ch_selected ch) \<noteq> im_uuid grouping then 1 else 0) stats2))))"

subsection \<open>Lemmas\<close>

text \<open>The documented behaviour of comparing scalars: when defined, it follows a linear order.\<close>

definition cmp_follows :: "('ds, 'v) cost_api \<Rightarrow> ('v \<Rightarrow> 'k::linorder) \<Rightarrow> bool" where
  "cmp_follows api key \<longleftrightarrow> (\<forall>a b. ca_partial_cmp api a b \<in>
     {None, Some (if key a < key b then Less else if key a = key b then Equal else Greater)})"

text \<open>What a page's statistics say of a value stored in it.\<close>

definition in_page :: "('ds, 'v) cost_api \<Rightarrow> ('v \<Rightarrow> 'k::linorder) \<Rightarrow> 'v \<Rightarrow> 'v \<Rightarrow> u32 \<Rightarrow> 'v \<Rightarrow> bool" where
  "in_page api key mn mx nulls v \<longleftrightarrow>
     (if ca_is_null api v then nulls \<noteq> 0
      else \<not> ca_is_null api mn \<and> \<not> ca_is_null api mx \<and> key mn \<le> key v \<and> key v \<le> key mx)"

text \<open>When a stored value satisfies a search.\<close>

fun in_bounds :: "('v \<Rightarrow> 'k::linorder) \<Rightarrow> 'v bound \<Rightarrow> 'v bound \<Rightarrow> 'v \<Rightarrow> bool" where
  "in_bounds key start end v \<longleftrightarrow>
     (case start of Included a \<Rightarrow> key a \<le> key v | Excluded a \<Rightarrow> key a < key v | Unbounded \<Rightarrow> True) \<and>
     (case end of Included b \<Rightarrow> key v \<le> key b | Excluded b \<Rightarrow> key v < key b | Unbounded \<Rightarrow> True)"

fun satisfies :: "('ds, 'v) cost_api \<Rightarrow> ('v \<Rightarrow> 'k::linorder) \<Rightarrow> 'v \<Rightarrow> 'v sargable_query \<Rightarrow> bool" where
  "satisfies api key v (SqEquals w) \<longleftrightarrow> ca_is_null api v = ca_is_null api w \<and> (ca_is_null api w \<or> key v = key w)"
| "satisfies api key v SqIsNull \<longleftrightarrow> ca_is_null api v"
| "satisfies api key v (SqIsIn ws) \<longleftrightarrow> (\<exists>w \<in> set ws. ca_is_null api v = ca_is_null api w \<and> (ca_is_null api w \<or> key v = key w))"
| "satisfies api key v (SqRange start end) \<longleftrightarrow> \<not> ca_is_null api v \<and> in_bounds key start end v"
| "satisfies api key v SqOther \<longleftrightarrow> True"

text \<open>A row of one indexed column satisfies an expression without NOT.\<close>

fun row_satisfies :: "('ds, 'v) cost_api \<Rightarrow> ('v \<Rightarrow> 'k::linorder) \<Rightarrow> 'v \<Rightarrow> 'v index_expr \<Rightarrow> bool" where
  "row_satisfies api key v (EQuery s) \<longleftrightarrow> (case is_query s of Some q \<Rightarrow> satisfies api key v q | None \<Rightarrow> True)"
| "row_satisfies api key v (EAnd a b) \<longleftrightarrow> row_satisfies api key v a \<and> row_satisfies api key v b"
| "row_satisfies api key v (EOr a b) \<longleftrightarrow> row_satisfies api key v a \<or> row_satisfies api key v b"
| "row_satisfies api key v (ENot a) \<longleftrightarrow> \<not> row_satisfies api key v a"

lemma cmp_cases:
  assumes "cmp_follows api key" "ca_partial_cmp api a b = Some c"
  shows "c = (if key a < key b then Less else if key a = key b then Equal else Greater)"
  using assms(1) [unfolded cmp_follows_def, rule_format, of a b] assms(2) by auto

lemma bind_Some_iff: "Option.bind m f = Some y \<longleftrightarrow> (\<exists>x. m = Some x \<and> f x = Some y)"
  by (cases m) auto

lemma page_contains_complete:
  assumes "cmp_follows api key" "in_page api key mn mx nulls v"
    and "ca_is_null api v = ca_is_null api w" "ca_is_null api w \<or> key v = key w"
    and "page_contains api mn mx nulls w = Some b"
  shows b
  using assms(2-5)
  by (auto simp: page_contains_def in_page_def bind_Some_iff dest!: cmp_cases [OF assms(1)] split: if_splits)

lemma page_contains_any_complete:
  assumes "cmp_follows api key" "in_page api key mn mx nulls v"
    and "w \<in> set ws" "ca_is_null api v = ca_is_null api w" "ca_is_null api w \<or> key v = key w"
    and "page_contains_any api mn mx nulls ws = Some b"
  shows b
  using assms(3,6)
proof (induction ws)
  case (Cons u us)
  then obtain x where x: "page_contains api mn mx nulls u = Some x"
    and r: "(if x then Some True else page_contains_any api mn mx nulls us) = Some b"
    by (auto simp: bind_Some_iff)
  show ?case
  proof (cases "u = w")
    case True
    with page_contains_complete [OF assms(1,2,4,5)] x have x by blast
    with r show ?thesis by simp
  next
    case False
    with Cons r show ?thesis by (auto split: if_splits)
  qed
qed simp

lemma overlaps_complete:
  assumes "cmp_follows api key" "in_page api key mn mx nulls v" "satisfies api key v q"
    and "overlaps api mn mx q nulls = Some b"
  shows b
proof (cases q)
  case (SqEquals w)
  with assms(3,4) have "ca_is_null api v = ca_is_null api w" "ca_is_null api w \<or> key v = key w"
    "page_contains api mn mx nulls w = Some b" by (simp_all add: overlaps_def)
  from page_contains_complete [OF assms(1,2) this] show ?thesis .
next
  case SqIsNull
  with assms show ?thesis by (auto simp: overlaps_def in_page_def)
next
  case (SqIsIn ws)
  with assms(3,4) page_contains_any_complete [OF assms(1,2)] show ?thesis
    by (auto simp: overlaps_def split: if_splits)
next
  case (SqRange s e)
  with assms(3) have nn: "\<not> ca_is_null api v" and ib: "in_bounds key s e v" by auto
  with assms(2) have pg: "\<not> ca_is_null api mn" "\<not> ca_is_null api mx" "key mn \<le> key v" "key v \<le> key mx"
    by (auto simp: in_page_def)
  from assms(4) SqRange pg obtain x y where "above_lower api mx s = Some x" "below_upper api mn e = Some y" "b = (x \<and> y)"
    by (auto simp: overlaps_def bind_Some_iff)
  with ib pg show ?thesis
    by (auto simp: above_lower_def below_upper_def dest!: cmp_cases [OF assms(1)] split: bound.splits if_splits)
next
  case SqOther
  with assms show ?thesis by (simp add: overlaps_def)
qed

lemma matches_page_complete:
  assumes "cmp_follows api key" "in_page api key mn mx nulls v" "row_satisfies api key v e"
    and "matches_page api e mn mx nulls = Some b"
  shows b
  using assms(3,4)
proof (induction e arbitrary: b)
  case (EQuery s)
  then show ?case using overlaps_complete [OF assms(1,2)] by (auto simp: bind_Some_iff split: option.splits)
qed (auto simp: bind_Some_iff split: if_splits)

lemma count_pages_bound: "count_pages api e rows n = Some p \<Longrightarrow> n \<le> p \<and> p \<le> n + length rows"
proof (induction rows arbitrary: n)
  case (Cons row rows)
  obtain mn mx nulls where "row = (mn, mx, nulls)" by (cases row)
  with Cons.prems obtain m where "count_pages api e rows (n + (if m then 1 else 0)) = Some p"
    by (auto simp: bind_Some_iff)
  from Cons.IH [OF this] show ?case by (auto split: if_splits)
qed simp

lemma count_pages_counts:
  "count_pages api e rows n = Some p \<Longrightarrow>
     p = n + length (filter (\<lambda>(mn, mx, nulls). matches_page api e (the mn) (the mx) nulls = Some True) rows) \<and>
     list_all (\<lambda>(mn, mx, nulls). mn \<noteq> None \<and> mx \<noteq> None \<and> matches_page api e (the mn) (the mx) nulls \<noteq> None) rows"
proof (induction rows arbitrary: n)
  case (Cons row rows)
  obtain mn mx nulls where row: "row = (mn, mx, nulls)" by (cases row)
  with Cons.prems obtain a b m where "mn = Some a" "mx = Some b" "matches_page api e a b nulls = Some m"
    and "count_pages api e rows (n + (if m then 1 else 0)) = Some p"
    by (auto simp: bind_Some_iff)
  with Cons.IH row show ?case by (fastforce split: if_splits)
qed simp

text \<open>What a selected segment is, apart from the one asked for.\<close>

definition valid_candidate ::
  "('ds, 'v) cost_api \<Rightarrow> 'ds \<Rightarrow> u64 list \<Rightarrow> 'v index_expr \<Rightarrow> index_metadata \<Rightarrow> 'v index_expr \<Rightarrow> bool" where
  "valid_candidate api d frags iq cand e \<longleftrightarrow>
     is_btree_expression e \<and>
     (\<exists>coverage. im_fragment_bitmap cand = Some coverage \<and> covers coverage frags) \<and>
     (\<exists>field r. field \<in> set (ca_top_fields api d) \<and> ca_keyed_field api cand = Some (fd_id field) \<and>
        scoped_expression iq (im_name cand) (fd_name field) False 0 128 = Scoped (Some e) r)"

lemma candidate_expression_valid:
  "candidate_expression api d frags iq cand = Some e \<Longrightarrow> valid_candidate api d frags iq cand e"
  by (auto simp: candidate_expression_def valid_candidate_def bind_Some_iff find_Some_iff
      split: if_splits scoped.splits option.splits intro: nth_mem)

definition choice_from ::
  "('ds, 'v) cost_api \<Rightarrow> 'ds \<Rightarrow> u64 list \<Rightarrow> 'v index_expr \<Rightarrow> index_metadata set \<Rightarrow> uuid \<times> 'v index_expr \<Rightarrow> uuid \<times> 'v index_expr \<Rightarrow> bool" where
  "choice_from api d frags iq cands start sel \<longleftrightarrow>
     sel = start \<or> (\<exists>cand \<in> cands. fst sel = im_uuid cand \<and> valid_candidate api d frags iq cand (snd sel))"

lemma choose_loop_sound:
  assumes "ch_candidates ch \<le> max_candidates" "choice_from api d frags iq cands start (ch_selected ch)"
    and "set alts \<subseteq> cands" "ch' = choose_loop api d frags iq alts ch"
  shows "ch_candidates ch' \<le> max_candidates \<and> choice_from api d frags iq cands start (ch_selected ch') \<and> ch_cost ch' \<le> ch_cost ch"
  using assms
proof (induction alts arbitrary: ch)
  case (Cons cand alts)
  show ?case
  proof (cases "max_candidates \<le> ch_candidates ch \<or> candidate_expression api d frags iq cand = None")
    case True
    with Cons show ?thesis by (auto split: option.splits if_splits)
  next
    case False
    then obtain e where e: "candidate_expression api d frags iq cand = Some e" and lt: "ch_candidates ch < max_candidates"
      by auto
    obtain est budget where est: "estimate_cost api d cand e (ch_budget ch) = (est, budget)"
      by (cases "estimate_cost api d cand e (ch_budget ch)")
    define ch1 where "ch1 = ch\<lparr>ch_candidates := Suc (ch_candidates ch), ch_budget := budget\<rparr>"
    define ch2 where "ch2 = (case est of
        Some (cost, pages) \<Rightarrow> if cost < ch_cost ch then ch1\<lparr>ch_selected := (im_uuid cand, e), ch_cost := cost, ch_pages := pages\<rparr> else ch1
      | None \<Rightarrow> ch1)"
    have ch': "ch' = choose_loop api d frags iq alts ch2"
      unfolding ch2_def ch1_def using Cons.prems(4) e lt est by (simp add: Let_def)
    have "ch_candidates ch2 \<le> max_candidates" "ch_cost ch2 \<le> ch_cost ch"
      using lt by (auto simp: ch1_def ch2_def split: option.splits prod.splits)
    moreover have "choice_from api d frags iq cands start (ch_selected ch2)"
      using Cons.prems(2,3) candidate_expression_valid [OF e]
      by (auto simp: ch1_def ch2_def choice_from_def split: option.splits prod.splits)
    ultimately show ?thesis
      using Cons.IH [of ch2] Cons.prems(3) ch' by fastforce
  qed
qed simp

lemma choose_segment_cases:
  assumes "choose_segment api d indices g ge iq rdom st = (r, st')"
  shows "case r of
      Some sel \<Rightarrow> choice_from api d (rd_fragment_ids rdom) iq (set indices) (im_uuid g, ge) sel
    | None \<Rightarrow> is_btree_expression ge \<and>
        (\<exists>cost pages. fst (estimate_cost api d g ge probe_budget_default) = Some (cost, pages) \<and> rd_physical_rows rdom \<le> cost)"
proof (cases "is_btree_expression ge")
  case False
  with assms show ?thesis by (auto simp: choose_segment_def choice_from_def)
next
  case True
  obtain est budget where est: "estimate_cost api d g ge probe_budget_default = (est, budget)"
    by (cases "estimate_cost api d g ge probe_budget_default")
  show ?thesis
  proof (cases est)
    case None
    with True est assms show ?thesis by (auto simp: choose_segment_def choice_from_def Let_def)
  next
    case (Some cp)
    obtain cost pages where cp: "cp = (cost, pages)" by (cases cp)
    define ch where "ch = \<lparr>ch_selected = (im_uuid g, ge), ch_cost = cost, ch_pages = pages,
        ch_candidates = 1, ch_budget = budget\<rparr>"
    define ch' where "ch' = choose_loop api d (rd_fragment_ids rdom) iq (sorted_alternatives indices (im_uuid g)) ch"
    have "ch_candidates ch' \<le> max_candidates \<and>
        choice_from api d (rd_fragment_ids rdom) iq (set indices) (im_uuid g, ge) (ch_selected ch') \<and> ch_cost ch' \<le> ch_cost ch"
      by (rule choose_loop_sound [OF _ _ _ ch'_def])
        (auto simp: ch_def max_candidates_def choice_from_def sorted_alternatives_def)
    moreover have "r = (if rd_physical_rows rdom \<le> ch_cost ch' then None else Some (ch_selected ch'))"
      using assms True est Some cp by (simp add: choose_segment_def Let_def ch'_def ch_def split: if_splits)
    ultimately show ?thesis
      using True est Some cp by (auto simp: ch_def split: if_splits)
  qed
qed

subsection \<open>Properties\<close>

text \<open>C23. Page statistics never hide a match: when comparisons follow a linear order, a page whose
  minimum, maximum and null count are right for a stored value that satisfies the searched
  expression is not excluded, whatever mix of equalities, ranges, IN lists and null tests.\<close>

theorem matching_page_not_excluded:
  assumes "cmp_follows api key" "in_page api key mn mx nulls v" "row_satisfies api key v e"
  shows "matches_page api e mn mx nulls \<noteq> Some False"
  using matches_page_complete [OF assms] by blast

definition demo_cost_api :: "(unit, int option) cost_api" where
  "demo_cost_api = \<lparr>ca_is_null = (\<lambda>v. v = None),
     ca_partial_cmp = (\<lambda>a b. case (a, b) of (Some x, Some y) \<Rightarrow> Some (if x < y then Less else if x = y then Equal else Greater)
                                            | _ \<Rightarrow> None),
     ca_primitive_width = (\<lambda>_. Some 8), ca_keyed_field = (\<lambda>_. Some 0),
     ca_field_by_id = (\<lambda>_ _. Some \<lparr>fd_id = 0, fd_name = ''c'', fd_type = TOther ''int64''\<rparr>),
     ca_top_fields = (\<lambda>_. [\<lparr>fd_id = 0, fd_name = ''c'', fd_type = TOther ''int64''\<rparr>]),
     ca_dataset_uri = (\<lambda>_. ''memory''), ca_cached = (\<lambda>_ _. None), ca_btree_lookup_name = ''lookup'',
     ca_default_btree_batch_size = 4096, ca_open_lookup = (\<lambda>_ _. None)\<rparr>"

theorem matching_page_not_excluded_witness:
  "matches_page demo_cost_api (EQuery \<lparr>is_index_name = ''i'', is_column = ''c'', is_index_type = ''BTree'',
      is_query = Some (SqRange (Included (Some 3)) (Excluded (Some 9)))\<rparr>) (Some 1) (Some 5) 0 \<noteq> Some False"
proof (rule matching_page_not_excluded [where key = "\<lambda>v. case v of Some x \<Rightarrow> x | None \<Rightarrow> (0 :: int)"])
  show "cmp_follows demo_cost_api (\<lambda>v. case v of Some x \<Rightarrow> x | None \<Rightarrow> 0)"
    by (auto simp: cmp_follows_def demo_cost_api_def split: option.splits)
  show "in_page demo_cost_api (\<lambda>v. case v of Some x \<Rightarrow> x | None \<Rightarrow> 0) (Some 1) (Some 5) 0 (Some 4)"
    by (simp add: in_page_def demo_cost_api_def)
  show "row_satisfies demo_cost_api (\<lambda>v. case v of Some x \<Rightarrow> x | None \<Rightarrow> 0) (Some 4)
      (EQuery \<lparr>is_index_name = ''i'', is_column = ''c'', is_index_type = ''BTree'',
        is_query = Some (SqRange (Included (Some 3)) (Excluded (Some 9)))\<rparr>)"
    by (simp add: demo_cost_api_def)
qed

text \<open>C22. The runtime choice is sound: a segment it selects is the one asked for with its own expression,
  or a BTree segment of the snapshot that covers every fragment of the read domain, with the part of
  the full index query scoped to it; and it falls back to a full scan only when the estimate for the
  segment asked for is at least the number of physical rows.\<close>

theorem choose_segment_sound:
  assumes "choose_segment api d indices grouping grouping_expr index_query domain stats = (r, stats')"
  shows "(case r of
      Some (u, e) \<Rightarrow> (u = im_uuid grouping \<and> e = grouping_expr) \<or>
        (\<exists>cand. cand \<in> set indices \<and> u = im_uuid cand \<and> valid_candidate api d (rd_fragment_ids domain) index_query cand e)
    | None \<Rightarrow> is_btree_expression grouping_expr \<and>
        (\<exists>cost pages. fst (estimate_cost api d grouping grouping_expr probe_budget_default) = Some (cost, pages) \<and>
           rd_physical_rows domain \<le> cost))"
  using choose_segment_cases [OF assms] by (auto simp: choice_from_def split: option.splits)

definition demo_index :: index_metadata where
  "demo_index = \<lparr>im_uuid = replicate 16 1, im_fields = [0], im_fragment_bitmap = Some [0], im_name = ''i'', im_files = None\<rparr>"

theorem choose_segment_sound_witness:
  "fst (choose_segment demo_cost_api () [demo_index] demo_index
     (ENot (EQuery \<lparr>is_index_name = ''i'', is_column = ''c'', is_index_type = ''BTree'', is_query = None\<rparr>))
     (ENot (EQuery \<lparr>is_index_name = ''i'', is_column = ''c'', is_index_type = ''BTree'', is_query = None\<rparr>))
     \<lparr>rd_fragment_ids = [0], rd_physical_rows = 10\<rparr> exec_counts_default) \<noteq> None"
proof
  let ?e = "ENot (EQuery \<lparr>is_index_name = ''i'', is_column = ''c'', is_index_type = ''BTree'', is_query = None\<rparr>) :: int option index_expr"
  obtain r st where c: "choose_segment demo_cost_api () [demo_index] demo_index ?e ?e
      \<lparr>rd_fragment_ids = [0], rd_physical_rows = 10\<rparr> exec_counts_default = (r, st)"
    by (cases "choose_segment demo_cost_api () [demo_index] demo_index ?e ?e
      \<lparr>rd_fragment_ids = [0], rd_physical_rows = 10\<rparr> exec_counts_default")
  assume "fst (choose_segment demo_cost_api () [demo_index] demo_index ?e ?e
      \<lparr>rd_fragment_ids = [0], rd_physical_rows = 10\<rparr> exec_counts_default) = None"
  with choose_segment_sound [OF c] c show False by simp
qed

end
