(* ===== verification/Scan_Calls.thy ===== *)
theory Scan_Calls
  imports Scanner Index_Selection
begin

text \<open>
  Lance's own scanner as the code uses it: a builder that is its history of calls. A call without
  \<open>?\<close> in the code always succeeds; the others, and the filter expression a history denotes, are
  the record \<open>planner_api\<close>.
\<close>

text \<open>The external row mask: rows in the allow list, if there is one, and not in the block list.\<close>

record row_addr_mask =
  rm_allow :: "u64 set option"
  rm_block :: "u64 set option"

definition mask_selects :: "row_addr_mask \<Rightarrow> u64 \<Rightarrow> bool" where
  "mask_selects m r \<longleftrightarrow>
     (case rm_allow m of Some a \<Rightarrow> r \<in> a | None \<Rightarrow> True) \<and> (case rm_block m of Some b \<Rightarrow> r \<notin> b | None \<Rightarrow> True)"

datatype 'cb stats_callback = PlainCallback 'cb | CombinedCallback 'cb exec_counts

text \<open>A fragment's metadata, as far as the code reads it.\<close>

record fragment =
  fr_id :: u64
  fr_has_overlays :: bool
  fr_physical_rows :: "usize option"

datatype ('e, 'cb) scan_call =
    CProject "string list"
  | CBlobHandling blob_handling
  | CLimit "i64 option" "i64 option"
  | CBatchSize usize
  | CBatchSizeBytes u64
  | CStrictBatchSize bool
  | CIoBufferSize u64
  | CBatchReadahead usize
  | CFragmentReadahead usize
  | CTargetParallelism usize
  | CScanInOrder bool
  | CUseScalarIndex bool
  | CUseStats bool
  | CWithRowId
  | CWithRowAddress
  | CIncludeDeletedRows
  | CWithFragments "fragment list"
  | CRowAddrPrefilter row_addr_mask
  | CPrefilter bool
  | CNearest string query_value u32
  | CDistanceRange "u32 option" "u32 option"
  | CMinimumNprobes u32
  | CMaximumNprobes u32
  | CApproxMode approx_mode
  | CQueryParallelism i32
  | CRefine u32
  | CEf u32
  | CDistanceMetric metric_type
  | CUseIndex bool
  | CIndexSegments "uuid list"
  | CFullTextSearch full_text_query
  | CFilterSubstrait "u8 list"
  | CFilter string
  | CFilterExpr 'e
  | CStatsCallback "'cb stats_callback"

type_synonym ('e, 'cb) scan_calls = "('e, 'cb) scan_call list"

record ('ds, 'e, 'cb) planner_api =
  pl_accepts :: "('e, 'cb) scan_calls \<Rightarrow> ('e, 'cb) scan_call \<Rightarrow> unit outcome"
  pl_expr_filter :: "('e, 'cb) scan_calls \<Rightarrow> 'e option outcome"
  pl_and :: "'e \<Rightarrow> 'e \<Rightarrow> 'e"
  pl_fragments :: "'ds \<Rightarrow> fragment list"

text \<open>A fallible call, and a setting that is passed on when it is set.\<close>

definition fallible_call ::
  "('ds, 'e, 'cb) planner_api \<Rightarrow> ('e, 'cb) scan_call \<Rightarrow> ('e, 'cb) scan_calls \<Rightarrow> ('e, 'cb) scan_calls outcome" where
  "fallible_call pl c sc = obind (pl_accepts pl sc c) (\<lambda>_. Ok (sc @ [c]))"

definition call_if_set :: "('a \<Rightarrow> ('e, 'cb) scan_call) \<Rightarrow> 'a option \<Rightarrow> ('e, 'cb) scan_calls" where
  "call_if_set f v = (case v of Some x \<Rightarrow> [f x] | None \<Rightarrow> [])"

definition call_if :: "bool \<Rightarrow> ('e, 'cb) scan_call \<Rightarrow> ('e, 'cb) scan_calls" where
  "call_if b c = (if b then [c] else [])"

lemma fallible_call_eq_Ok: "fallible_call pl c sc = Ok sc' \<longleftrightarrow> pl_accepts pl sc c = Ok () \<and> sc' = sc @ [c]"
  by (auto simp: fallible_call_def obind_eq_Ok)

lemma call_if_set_simps [simp]: "call_if_set f (Some x) = [f x]" "call_if_set f None = []"
  by (simp_all add: call_if_set_def)

lemma call_if_simps [simp]: "call_if True c = [c]" "call_if False c = []"
  by (simp_all add: call_if_def)

end
