(* ===== verification/Scanner_Setters.thy ===== *)
theory Scanner_Setters
  imports Scanner
begin

text \<open>
  The configuration entry points of \<open>src/scanner.rs\<close> that set scan options: one definition for the
  body (\<open>..._inner\<close>) and one for the C function, which runs it behind the poison check and the
  firewall. The checks are in the order of the code.
\<close>

subsection \<open>Scalar index options\<close>

definition scanner_set_scalar_index_auto_selection_inner ::
  "bool \<Rightarrow> ('ds, 'sc, 'cb, 'st) lance_scanner ptr \<Rightarrow> ('ds, 'sc, 'cb, 'st) lance_scanner outcome" where
  "scanner_set_scalar_index_auto_selection_inner enabled scanner =
     with_scanner scanner (\<lambda>s.
     ensure_scan_not_started s ''scalar_index_auto_selection'' (
     Ok (s\<lparr>sc_scalar_index_auto_selection := enabled\<rparr>)))"

definition lance_scanner_set_scalar_index_auto_selection ::
  "bool \<Rightarrow> ('ds, 'sc, 'cb, 'st) lance_scanner ptr \<Rightarrow> tls \<Rightarrow> int \<times> tls \<times> ('ds, 'sc, 'cb, 'st) lance_scanner ptr" where
  "lance_scanner_set_scalar_index_auto_selection enabled scanner t = scanner_entry (scanner_set_scalar_index_auto_selection_inner enabled) scanner t"

text \<open>The UUID is read from exactly sixteen bytes, so \<open>Uuid::from_slice\<close> cannot fail.\<close>

definition scanner_set_scalar_index_segment_inner ::
  "(u8 list ptr) \<Rightarrow> ('ds, 'sc, 'cb, 'st) lance_scanner ptr \<Rightarrow> ('ds, 'sc, 'cb, 'st) lance_scanner outcome" where
  "scanner_set_scalar_index_segment_inner segment_uuid scanner =
     with_scanner scanner (\<lambda>s.
     ensure_scan_not_started s ''scalar_index_segment'' (
     Ok (s\<lparr>sc_scalar_index_segment := map_option (take 16) segment_uuid\<rparr>)))"

definition lance_scanner_set_scalar_index_segment ::
  "(u8 list ptr) \<Rightarrow> ('ds, 'sc, 'cb, 'st) lance_scanner ptr \<Rightarrow> tls \<Rightarrow> int \<times> tls \<times> ('ds, 'sc, 'cb, 'st) lance_scanner ptr" where
  "lance_scanner_set_scalar_index_segment segment_uuid scanner t = scanner_entry (scanner_set_scalar_index_segment_inner segment_uuid) scanner t"

subsection \<open>Windows and batch sizes\<close>

definition is_batch_nearest :: "nearest_query option \<Rightarrow> bool" where
  "is_batch_nearest n \<longleftrightarrow> (case n of Some q \<Rightarrow> (case nq_mode q of Batch _ \<Rightarrow> True | _ \<Rightarrow> False) | None \<Rightarrow> False)"

definition scanner_set_limit_inner ::
  "i64 \<Rightarrow> ('ds, 'sc, 'cb, 'st) lance_scanner ptr \<Rightarrow> ('ds, 'sc, 'cb, 'st) lance_scanner outcome" where
  "scanner_set_limit_inner limit scanner =
     with_scanner scanner (\<lambda>s.
     reject_if (is_batch_nearest (sc_nearest s))
       (invalid_input ''global limit is unsupported for batch nearest; apply windows per query_index in the caller'')
       (Ok (s\<lparr>sc_limit := Some limit\<rparr>)))"

definition lance_scanner_set_limit ::
  "i64 \<Rightarrow> ('ds, 'sc, 'cb, 'st) lance_scanner ptr \<Rightarrow> tls \<Rightarrow> int \<times> tls \<times> ('ds, 'sc, 'cb, 'st) lance_scanner ptr" where
  "lance_scanner_set_limit limit scanner t = scanner_entry (scanner_set_limit_inner limit) scanner t"

definition scanner_set_offset_inner ::
  "i64 \<Rightarrow> ('ds, 'sc, 'cb, 'st) lance_scanner ptr \<Rightarrow> ('ds, 'sc, 'cb, 'st) lance_scanner outcome" where
  "scanner_set_offset_inner offset scanner =
     with_scanner scanner (\<lambda>s.
     reject_if (is_batch_nearest (sc_nearest s))
       (invalid_input ''global offset is unsupported for batch nearest; apply windows per query_index in the caller'')
       (Ok (s\<lparr>sc_offset := Some offset\<rparr>)))"

definition lance_scanner_set_offset ::
  "i64 \<Rightarrow> ('ds, 'sc, 'cb, 'st) lance_scanner ptr \<Rightarrow> tls \<Rightarrow> int \<times> tls \<times> ('ds, 'sc, 'cb, 'st) lance_scanner ptr" where
  "lance_scanner_set_offset offset scanner t = scanner_entry (scanner_set_offset_inner offset) scanner t"

definition scanner_set_batch_size_inner ::
  "i64 \<Rightarrow> ('ds, 'sc, 'cb, 'st) lance_scanner ptr \<Rightarrow> ('ds, 'sc, 'cb, 'st) lance_scanner outcome" where
  "scanner_set_batch_size_inner batch_size scanner =
     with_scanner scanner (\<lambda>s. Ok (s\<lparr>sc_batch_size := Some batch_size\<rparr>))"

definition lance_scanner_set_batch_size ::
  "i64 \<Rightarrow> ('ds, 'sc, 'cb, 'st) lance_scanner ptr \<Rightarrow> tls \<Rightarrow> int \<times> tls \<times> ('ds, 'sc, 'cb, 'st) lance_scanner ptr" where
  "lance_scanner_set_batch_size batch_size scanner t = scanner_entry (scanner_set_batch_size_inner batch_size) scanner t"

definition scanner_set_batch_size_bytes_inner ::
  "u64 \<Rightarrow> ('ds, 'sc, 'cb, 'st) lance_scanner ptr \<Rightarrow> ('ds, 'sc, 'cb, 'st) lance_scanner outcome" where
  "scanner_set_batch_size_bytes_inner batch_size_bytes scanner =
     with_scanner scanner (\<lambda>s.
     reject_if (batch_size_bytes = 0) (invalid_input ''batch_size_bytes must be greater than 0, got 0'') (
     ensure_scan_not_started s ''batch_size_bytes'' (
     reject_if (sc_strict_batch_size s = Some True)
       (invalid_input (''strict_batch_size=true cannot be combined with batch_size_bytes='' @ show_u batch_size_bytes))
       (Ok (s\<lparr>sc_batch_size_bytes := Some batch_size_bytes\<rparr>)))))"

definition lance_scanner_set_batch_size_bytes ::
  "u64 \<Rightarrow> ('ds, 'sc, 'cb, 'st) lance_scanner ptr \<Rightarrow> tls \<Rightarrow> int \<times> tls \<times> ('ds, 'sc, 'cb, 'st) lance_scanner ptr" where
  "lance_scanner_set_batch_size_bytes batch_size_bytes scanner t = scanner_entry (scanner_set_batch_size_bytes_inner batch_size_bytes) scanner t"

definition i64_max :: u64 where "i64_max = 2 ^ 63 - 1"

definition scanner_set_io_buffer_size_inner ::
  "u64 \<Rightarrow> ('ds, 'sc, 'cb, 'st) lance_scanner ptr \<Rightarrow> ('ds, 'sc, 'cb, 'st) lance_scanner outcome" where
  "scanner_set_io_buffer_size_inner io_buffer_size_bytes scanner =
     with_scanner scanner (\<lambda>s.
     reject_if (io_buffer_size_bytes = 0) (invalid_input ''io_buffer_size_bytes must be greater than 0, got 0'') (
     reject_if (i64_max < io_buffer_size_bytes)
       (invalid_input (''io_buffer_size_bytes must be at most '' @ show_u i64_max @ '', got '' @ show_u io_buffer_size_bytes)) (
     ensure_scan_not_started s ''io_buffer_size_bytes'' (
     Ok (s\<lparr>sc_io_buffer_size := Some io_buffer_size_bytes\<rparr>)))))"

definition lance_scanner_set_io_buffer_size ::
  "u64 \<Rightarrow> ('ds, 'sc, 'cb, 'st) lance_scanner ptr \<Rightarrow> tls \<Rightarrow> int \<times> tls \<times> ('ds, 'sc, 'cb, 'st) lance_scanner ptr" where
  "lance_scanner_set_io_buffer_size io_buffer_size_bytes scanner t = scanner_entry (scanner_set_io_buffer_size_inner io_buffer_size_bytes) scanner t"

subsection \<open>Read-ahead and parallelism\<close>

definition scanner_set_batch_readahead_inner ::
  "usize \<Rightarrow> ('ds, 'sc, 'cb, 'st) lance_scanner ptr \<Rightarrow> ('ds, 'sc, 'cb, 'st) lance_scanner outcome" where
  "scanner_set_batch_readahead_inner batch_readahead scanner =
     with_scanner scanner (\<lambda>s.
     reject_if (batch_readahead = 0) (invalid_input ''batch_readahead must be greater than 0, got 0'') (
     ensure_scan_not_started s ''batch_readahead'' (
     Ok (s\<lparr>sc_batch_readahead := Some batch_readahead\<rparr>))))"

definition lance_scanner_set_batch_readahead ::
  "usize \<Rightarrow> ('ds, 'sc, 'cb, 'st) lance_scanner ptr \<Rightarrow> tls \<Rightarrow> int \<times> tls \<times> ('ds, 'sc, 'cb, 'st) lance_scanner ptr" where
  "lance_scanner_set_batch_readahead batch_readahead scanner t = scanner_entry (scanner_set_batch_readahead_inner batch_readahead) scanner t"

definition scanner_set_fragment_readahead_inner ::
  "usize \<Rightarrow> ('ds, 'sc, 'cb, 'st) lance_scanner ptr \<Rightarrow> ('ds, 'sc, 'cb, 'st) lance_scanner outcome" where
  "scanner_set_fragment_readahead_inner fragment_readahead scanner =
     with_scanner scanner (\<lambda>s.
     reject_if (fragment_readahead = 0) (invalid_input ''fragment_readahead must be greater than 0, got 0'') (
     ensure_scan_not_started s ''fragment_readahead'' (
     Ok (s\<lparr>sc_fragment_readahead := Some fragment_readahead\<rparr>))))"

definition lance_scanner_set_fragment_readahead ::
  "usize \<Rightarrow> ('ds, 'sc, 'cb, 'st) lance_scanner ptr \<Rightarrow> tls \<Rightarrow> int \<times> tls \<times> ('ds, 'sc, 'cb, 'st) lance_scanner ptr" where
  "lance_scanner_set_fragment_readahead fragment_readahead scanner t = scanner_entry (scanner_set_fragment_readahead_inner fragment_readahead) scanner t"

definition scanner_set_target_parallelism_inner ::
  "usize \<Rightarrow> ('ds, 'sc, 'cb, 'st) lance_scanner ptr \<Rightarrow> ('ds, 'sc, 'cb, 'st) lance_scanner outcome" where
  "scanner_set_target_parallelism_inner target_parallelism scanner =
     with_scanner scanner (\<lambda>s.
     reject_if (target_parallelism = 0) (invalid_input ''target_parallelism must be greater than 0, got 0'') (
     ensure_scan_not_started s ''target_parallelism'' (
     Ok (s\<lparr>sc_target_parallelism := Some target_parallelism\<rparr>))))"

definition lance_scanner_set_target_parallelism ::
  "usize \<Rightarrow> ('ds, 'sc, 'cb, 'st) lance_scanner ptr \<Rightarrow> tls \<Rightarrow> int \<times> tls \<times> ('ds, 'sc, 'cb, 'st) lance_scanner ptr" where
  "lance_scanner_set_target_parallelism target_parallelism scanner t = scanner_entry (scanner_set_target_parallelism_inner target_parallelism) scanner t"

subsection \<open>Flags\<close>

definition scanner_set_scan_in_order_inner ::
  "bool \<Rightarrow> ('ds, 'sc, 'cb, 'st) lance_scanner ptr \<Rightarrow> ('ds, 'sc, 'cb, 'st) lance_scanner outcome" where
  "scanner_set_scan_in_order_inner scan_in_order scanner =
     with_scanner scanner (\<lambda>s.
     ensure_scan_not_started s ''scan_in_order'' (
     Ok (s\<lparr>sc_scan_in_order := Some scan_in_order\<rparr>)))"

definition lance_scanner_set_scan_in_order ::
  "bool \<Rightarrow> ('ds, 'sc, 'cb, 'st) lance_scanner ptr \<Rightarrow> tls \<Rightarrow> int \<times> tls \<times> ('ds, 'sc, 'cb, 'st) lance_scanner ptr" where
  "lance_scanner_set_scan_in_order scan_in_order scanner t = scanner_entry (scanner_set_scan_in_order_inner scan_in_order) scanner t"

definition scanner_set_use_scalar_index_inner ::
  "bool \<Rightarrow> ('ds, 'sc, 'cb, 'st) lance_scanner ptr \<Rightarrow> ('ds, 'sc, 'cb, 'st) lance_scanner outcome" where
  "scanner_set_use_scalar_index_inner use_scalar_index scanner =
     with_scanner scanner (\<lambda>s.
     ensure_scan_not_started s ''use_scalar_index'' (
     Ok (s\<lparr>sc_use_scalar_index := Some use_scalar_index\<rparr>)))"

definition lance_scanner_set_use_scalar_index ::
  "bool \<Rightarrow> ('ds, 'sc, 'cb, 'st) lance_scanner ptr \<Rightarrow> tls \<Rightarrow> int \<times> tls \<times> ('ds, 'sc, 'cb, 'st) lance_scanner ptr" where
  "lance_scanner_set_use_scalar_index use_scalar_index scanner t = scanner_entry (scanner_set_use_scalar_index_inner use_scalar_index) scanner t"

definition scanner_set_strict_batch_size_inner ::
  "bool \<Rightarrow> ('ds, 'sc, 'cb, 'st) lance_scanner ptr \<Rightarrow> ('ds, 'sc, 'cb, 'st) lance_scanner outcome" where
  "scanner_set_strict_batch_size_inner strict_batch_size scanner =
     with_scanner scanner (\<lambda>s.
     ensure_scan_not_started s ''strict_batch_size'' (
     reject_if (strict_batch_size \<and> sc_batch_size_bytes s \<noteq> None)
       (invalid_input (''strict_batch_size=true cannot be combined with batch_size_bytes='' @
          show_u (the (sc_batch_size_bytes s))))
       (Ok (s\<lparr>sc_strict_batch_size := Some strict_batch_size\<rparr>))))"

definition lance_scanner_set_strict_batch_size ::
  "bool \<Rightarrow> ('ds, 'sc, 'cb, 'st) lance_scanner ptr \<Rightarrow> tls \<Rightarrow> int \<times> tls \<times> ('ds, 'sc, 'cb, 'st) lance_scanner ptr" where
  "lance_scanner_set_strict_batch_size strict_batch_size scanner t = scanner_entry (scanner_set_strict_batch_size_inner strict_batch_size) scanner t"

definition scanner_set_use_stats_inner ::
  "bool \<Rightarrow> ('ds, 'sc, 'cb, 'st) lance_scanner ptr \<Rightarrow> ('ds, 'sc, 'cb, 'st) lance_scanner outcome" where
  "scanner_set_use_stats_inner use_stats scanner =
     with_scanner scanner (\<lambda>s.
     ensure_scan_not_started s ''use_stats'' (
     Ok (s\<lparr>sc_use_stats := Some use_stats\<rparr>)))"

definition lance_scanner_set_use_stats ::
  "bool \<Rightarrow> ('ds, 'sc, 'cb, 'st) lance_scanner ptr \<Rightarrow> tls \<Rightarrow> int \<times> tls \<times> ('ds, 'sc, 'cb, 'st) lance_scanner ptr" where
  "lance_scanner_set_use_stats use_stats scanner t = scanner_entry (scanner_set_use_stats_inner use_stats) scanner t"

definition scanner_set_blob_handling_inner ::
  "i32 \<Rightarrow> ('ds, 'sc, 'cb, 'st) lance_scanner ptr \<Rightarrow> ('ds, 'sc, 'cb, 'st) lance_scanner outcome" where
  "scanner_set_blob_handling_inner handling scanner =
     with_scanner scanner (\<lambda>s.
     ensure_scan_not_started s ''blob_handling'' (
     if handling = 0 then Ok (s\<lparr>sc_blob_handling := Some BlobsDescriptions\<rparr>)
     else if handling = 1 then Ok (s\<lparr>sc_blob_handling := Some AllBinary\<rparr>)
     else if handling = 2 then Ok (s\<lparr>sc_blob_handling := Some AllDescriptions\<rparr>)
     else Err (invalid_input (''blob_handling must be 0 (blobs as descriptions), 1 (all binary) or 2 (all descriptions); got '' @
        show_i handling))))"

definition lance_scanner_set_blob_handling ::
  "i32 \<Rightarrow> ('ds, 'sc, 'cb, 'st) lance_scanner ptr \<Rightarrow> tls \<Rightarrow> int \<times> tls \<times> ('ds, 'sc, 'cb, 'st) lance_scanner ptr" where
  "lance_scanner_set_blob_handling handling scanner t = scanner_entry (scanner_set_blob_handling_inner handling) scanner t"

definition scanner_with_row_id_inner ::
  "bool \<Rightarrow> ('ds, 'sc, 'cb, 'st) lance_scanner ptr \<Rightarrow> ('ds, 'sc, 'cb, 'st) lance_scanner outcome" where
  "scanner_with_row_id_inner enable scanner =
     with_scanner scanner (\<lambda>s. Ok (s\<lparr>sc_with_row_id := enable\<rparr>))"

definition lance_scanner_with_row_id ::
  "bool \<Rightarrow> ('ds, 'sc, 'cb, 'st) lance_scanner ptr \<Rightarrow> tls \<Rightarrow> int \<times> tls \<times> ('ds, 'sc, 'cb, 'st) lance_scanner ptr" where
  "lance_scanner_with_row_id enable scanner t = scanner_entry (scanner_with_row_id_inner enable) scanner t"

definition scanner_with_row_address_inner ::
  "bool \<Rightarrow> ('ds, 'sc, 'cb, 'st) lance_scanner ptr \<Rightarrow> ('ds, 'sc, 'cb, 'st) lance_scanner outcome" where
  "scanner_with_row_address_inner enable scanner =
     with_scanner scanner (\<lambda>s.
     ensure_scan_not_started s ''with_row_address'' (
     Ok (s\<lparr>sc_with_row_address := enable\<rparr>)))"

definition lance_scanner_with_row_address ::
  "bool \<Rightarrow> ('ds, 'sc, 'cb, 'st) lance_scanner ptr \<Rightarrow> tls \<Rightarrow> int \<times> tls \<times> ('ds, 'sc, 'cb, 'st) lance_scanner ptr" where
  "lance_scanner_with_row_address enable scanner t = scanner_entry (scanner_with_row_address_inner enable) scanner t"

definition scanner_set_include_deleted_rows_inner ::
  "bool \<Rightarrow> ('ds, 'sc, 'cb, 'st) lance_scanner ptr \<Rightarrow> ('ds, 'sc, 'cb, 'st) lance_scanner outcome" where
  "scanner_set_include_deleted_rows_inner include_deleted_rows scanner =
     with_scanner scanner (\<lambda>s.
     ensure_scan_not_started s ''include_deleted_rows'' (
     Ok (s\<lparr>sc_include_deleted_rows := include_deleted_rows\<rparr>)))"

definition lance_scanner_set_include_deleted_rows ::
  "bool \<Rightarrow> ('ds, 'sc, 'cb, 'st) lance_scanner ptr \<Rightarrow> tls \<Rightarrow> int \<times> tls \<times> ('ds, 'sc, 'cb, 'st) lance_scanner ptr" where
  "lance_scanner_set_include_deleted_rows include_deleted_rows scanner t = scanner_entry (scanner_set_include_deleted_rows_inner include_deleted_rows) scanner t"

subsection \<open>Fragments, row lists and filters\<close>

definition scanner_set_fragment_ids_inner ::
  "(u64 list ptr) \<Rightarrow> usize \<Rightarrow> ('ds, 'sc, 'cb, 'st) lance_scanner ptr \<Rightarrow> ('ds, 'sc, 'cb, 'st) lance_scanner outcome" where
  "scanner_set_fragment_ids_inner ids len scanner =
     with_scanner scanner (\<lambda>s.
     reject_if (is_null ids \<and> 0 < len) (invalid_input ''ids is NULL but len > 0'')
       (Ok (s\<lparr>sc_fragment_ids := Some (slice_of ids len)\<rparr>)))"

definition lance_scanner_set_fragment_ids ::
  "(u64 list ptr) \<Rightarrow> usize \<Rightarrow> ('ds, 'sc, 'cb, 'st) lance_scanner ptr \<Rightarrow> tls \<Rightarrow> int \<times> tls \<times> ('ds, 'sc, 'cb, 'st) lance_scanner ptr" where
  "lance_scanner_set_fragment_ids ids len scanner t = scanner_entry (scanner_set_fragment_ids_inner ids len) scanner t"

datatype row_addr_list = AllowList | BlockList

definition scanner_set_row_addr_list_inner ::
  "u64 list ptr \<Rightarrow> usize \<Rightarrow> row_addr_list \<Rightarrow> ('ds, 'sc, 'cb, 'st) lance_scanner ptr \<Rightarrow> ('ds, 'sc, 'cb, 'st) lance_scanner outcome" where
  "scanner_set_row_addr_list_inner row_ids len which scanner =
     with_scanner scanner (\<lambda>s.
     reject_if (is_null row_ids \<and> 0 < len) (invalid_input ''row_ids is NULL but len > 0'') (
     ensure_scan_not_started s (case which of AllowList \<Rightarrow> ''row_addr_allowlist'' | BlockList \<Rightarrow> ''row_addr_blocklist'') (
     let tree_map = set (slice_of row_ids len)
     in case which of
          AllowList \<Rightarrow> Ok (s\<lparr>sc_row_addr_allowlist := Some tree_map\<rparr>)
        | BlockList \<Rightarrow> Ok (s\<lparr>sc_row_addr_blocklist := Some tree_map\<rparr>))))"

definition lance_scanner_set_row_addr_allowlist ::
  "u64 list ptr \<Rightarrow> usize \<Rightarrow> ('ds, 'sc, 'cb, 'st) lance_scanner ptr \<Rightarrow> tls \<Rightarrow> int \<times> tls \<times> ('ds, 'sc, 'cb, 'st) lance_scanner ptr" where
  "lance_scanner_set_row_addr_allowlist row_ids len scanner t =
     scanner_entry (scanner_set_row_addr_list_inner row_ids len AllowList) scanner t"

definition lance_scanner_set_row_addr_blocklist ::
  "u64 list ptr \<Rightarrow> usize \<Rightarrow> ('ds, 'sc, 'cb, 'st) lance_scanner ptr \<Rightarrow> tls \<Rightarrow> int \<times> tls \<times> ('ds, 'sc, 'cb, 'st) lance_scanner ptr" where
  "lance_scanner_set_row_addr_blocklist row_ids len scanner t =
     scanner_entry (scanner_set_row_addr_list_inner row_ids len BlockList) scanner t"

definition scanner_set_substrait_filter_inner ::
  "(u8 list ptr) \<Rightarrow> usize \<Rightarrow> ('ds, 'sc, 'cb, 'st) lance_scanner ptr \<Rightarrow> ('ds, 'sc, 'cb, 'st) lance_scanner outcome" where
  "scanner_set_substrait_filter_inner bytes len scanner =
     with_scanner scanner (\<lambda>s.
     reject_if (is_null bytes) (invalid_input ''bytes is NULL'') (
     reject_if (len = 0) (invalid_input ''Substrait filter bytes must be non-empty'') (
     Ok (s\<lparr>sc_substrait_filter := Some (slice_of bytes len)\<rparr>))))"

definition lance_scanner_set_substrait_filter ::
  "(u8 list ptr) \<Rightarrow> usize \<Rightarrow> ('ds, 'sc, 'cb, 'st) lance_scanner ptr \<Rightarrow> tls \<Rightarrow> int \<times> tls \<times> ('ds, 'sc, 'cb, 'st) lance_scanner ptr" where
  "lance_scanner_set_substrait_filter bytes len scanner t = scanner_entry (scanner_set_substrait_filter_inner bytes len) scanner t"

definition scanner_additional_sql_filter_inner ::
  "(string ptr) \<Rightarrow> ('ds, 'sc, 'cb, 'st) lance_scanner ptr \<Rightarrow> ('ds, 'sc, 'cb, 'st) lance_scanner outcome" where
  "scanner_additional_sql_filter_inner filter_ptr scanner =
     with_scanner scanner (\<lambda>s.
     obind (parse_c_string filter_ptr) (\<lambda>parsed.
     obind (ok_or parsed (invalid_input ''filter must not be NULL'')) (\<lambda>sql.
     reject_if (sql = []) (invalid_input ''additional SQL filter must be non-empty'') (
     reject_if (sc_scan_started s) (invalid_input ''additional SQL filter must be set before the scan starts'') (
     Ok (s\<lparr>sc_additional_sql_filters := sc_additional_sql_filters s @ [sql]\<rparr>))))))"

definition lance_scanner_additional_sql_filter ::
  "(string ptr) \<Rightarrow> ('ds, 'sc, 'cb, 'st) lance_scanner ptr \<Rightarrow> tls \<Rightarrow> int \<times> tls \<times> ('ds, 'sc, 'cb, 'st) lance_scanner ptr" where
  "lance_scanner_additional_sql_filter filter_ptr scanner t = scanner_entry (scanner_additional_sql_filter_inner filter_ptr) scanner t"

text \<open>The callback with its context, as one value.\<close>

definition scanner_set_statistics_callback_inner ::
  "('cb ptr) \<Rightarrow> ('ds, 'sc, 'cb, 'st) lance_scanner ptr \<Rightarrow> ('ds, 'sc, 'cb, 'st) lance_scanner outcome" where
  "scanner_set_statistics_callback_inner callback scanner =
     with_scanner scanner (\<lambda>s.
     obind (ok_or callback (invalid_input ''statistics callback is NULL'')) (\<lambda>cb.
     reject_if (sc_scan_started s) (invalid_input ''statistics callback must be registered before the scan starts'') (
     Ok (s\<lparr>sc_scan_statistics_callback := Some cb\<rparr>))))"

definition lance_scanner_set_statistics_callback ::
  "('cb ptr) \<Rightarrow> ('ds, 'sc, 'cb, 'st) lance_scanner ptr \<Rightarrow> tls \<Rightarrow> int \<times> tls \<times> ('ds, 'sc, 'cb, 'st) lance_scanner ptr" where
  "lance_scanner_set_statistics_callback callback scanner t = scanner_entry (scanner_set_statistics_callback_inner callback) scanner t"

end
