(* ===== verification/Scanner_Search.thy ===== *)
theory Scanner_Search
  imports Scanner_Setters
begin

text \<open>
  The entry points of \<open>src/scanner.rs\<close> that configure vector and full-text searches: tuning knobs,
  the single, batch and multi-vector queries, full-text queries, prepared query contexts and
  segment restrictions.
\<close>

subsection \<open>Tuning knobs\<close>

text \<open>Refinement of a batch query re-checks its candidate budget.\<close>

definition scanner_set_refine_factor_inner ::
  "u32 \<Rightarrow> ('ds, 'sc, 'cb, 'st) lance_scanner ptr \<Rightarrow> ('ds, 'sc, 'cb, 'st) lance_scanner outcome" where
  "scanner_set_refine_factor_inner value scanner =
     with_scanner scanner (\<lambda>s.
     let s' = s\<lparr>sc_refine_factor := Some value\<rparr> in
     case sc_nearest s of
       Some q \<Rightarrow> (case nq_mode q of
           Batch num_queries \<Rightarrow>
             ensure_scan_not_started s ''refine_factor'' (
             obind (validate_batch_candidates num_queries (nq_k q) (Some value)) (\<lambda>_. Ok s'))
         | _ \<Rightarrow> Ok s')
     | None \<Rightarrow> Ok s')"

definition lance_scanner_set_refine_factor ::
  "u32 \<Rightarrow> ('ds, 'sc, 'cb, 'st) lance_scanner ptr \<Rightarrow> tls \<Rightarrow> int \<times> tls \<times> ('ds, 'sc, 'cb, 'st) lance_scanner ptr" where
  "lance_scanner_set_refine_factor value scanner t = scanner_entry (scanner_set_refine_factor_inner value) scanner t"

definition scanner_set_ef_inner ::
  "u32 \<Rightarrow> ('ds, 'sc, 'cb, 'st) lance_scanner ptr \<Rightarrow> ('ds, 'sc, 'cb, 'st) lance_scanner outcome" where
  "scanner_set_ef_inner value scanner =
     with_scanner scanner (\<lambda>s. Ok (s\<lparr>sc_ef := Some value\<rparr>))"

definition lance_scanner_set_ef ::
  "u32 \<Rightarrow> ('ds, 'sc, 'cb, 'st) lance_scanner ptr \<Rightarrow> tls \<Rightarrow> int \<times> tls \<times> ('ds, 'sc, 'cb, 'st) lance_scanner ptr" where
  "lance_scanner_set_ef value scanner t = scanner_entry (scanner_set_ef_inner value) scanner t"

definition check_bound :: "('ds, 'ix, 'par, 'sc) scanner_api \<Rightarrow> string \<Rightarrow> u32 option \<Rightarrow> unit outcome" where
  "check_bound api name bound =
     (case bound of
        Some v \<Rightarrow> reject_if (\<not> f32_finite v) (invalid_input (name @ '' must be finite, got '' @ sp_show_f32 api v)) (Ok ())
      | None \<Rightarrow> Ok ())"

definition scanner_set_distance_range_inner ::
  "(('ds, 'ix, 'par, 'sc) scanner_api) \<Rightarrow> (u32 ptr) \<Rightarrow> (u32 ptr) \<Rightarrow> ('ds, 'sc, 'cb, 'st) lance_scanner ptr \<Rightarrow> ('ds, 'sc, 'cb, 'st) lance_scanner outcome" where
  "scanner_set_distance_range_inner api lower_bound upper_bound scanner =
     with_scanner scanner (\<lambda>s.
     ensure_scan_not_started s ''distance_range'' (
     obind (ok_or (sc_nearest s) (invalid_input ''distance_range requires nearest() to be configured'')) (\<lambda>q.
     reject_if (nq_mode q \<noteq> Single) (invalid_input ''distance_range requires a single-vector nearest query'') (
     obind (check_bound api ''lower_bound'' lower_bound) (\<lambda>_.
     obind (check_bound api ''upper_bound'' upper_bound) (\<lambda>_.
     reject_if (case (lower_bound, upper_bound) of (Some l, Some u) \<Rightarrow> f32_ge l u | _ \<Rightarrow> False)
       (invalid_input (''lower_bound ('' @ sp_show_f32 api (the lower_bound) @ '') must be less than upper_bound ('' @
          sp_show_f32 api (the upper_bound) @ '')'')) (
     Ok (s\<lparr>sc_nearest := Some (q\<lparr>nq_lower_bound := lower_bound, nq_upper_bound := upper_bound\<rparr>)\<rparr>))))))))"

definition lance_scanner_set_distance_range ::
  "(('ds, 'ix, 'par, 'sc) scanner_api) \<Rightarrow> (u32 ptr) \<Rightarrow> (u32 ptr) \<Rightarrow> ('ds, 'sc, 'cb, 'st) lance_scanner ptr \<Rightarrow> tls \<Rightarrow> int \<times> tls \<times> ('ds, 'sc, 'cb, 'st) lance_scanner ptr" where
  "lance_scanner_set_distance_range api lower_bound upper_bound scanner t = scanner_entry (scanner_set_distance_range_inner api lower_bound upper_bound) scanner t"

definition scanner_set_nprobes_inner ::
  "u32 \<Rightarrow> ('ds, 'sc, 'cb, 'st) lance_scanner ptr \<Rightarrow> ('ds, 'sc, 'cb, 'st) lance_scanner outcome" where
  "scanner_set_nprobes_inner nprobes scanner =
     with_scanner scanner (\<lambda>s.
     ensure_scan_not_started s ''nprobes'' (
     obind (nprobes_exact nprobes) (\<lambda>next.
     Ok (s\<lparr>sc_nprobes := next\<rparr>))))"

definition lance_scanner_set_nprobes ::
  "u32 \<Rightarrow> ('ds, 'sc, 'cb, 'st) lance_scanner ptr \<Rightarrow> tls \<Rightarrow> int \<times> tls \<times> ('ds, 'sc, 'cb, 'st) lance_scanner ptr" where
  "lance_scanner_set_nprobes nprobes scanner t = scanner_entry (scanner_set_nprobes_inner nprobes) scanner t"

definition scanner_set_minimum_nprobes_inner ::
  "u32 \<Rightarrow> ('ds, 'sc, 'cb, 'st) lance_scanner ptr \<Rightarrow> ('ds, 'sc, 'cb, 'st) lance_scanner outcome" where
  "scanner_set_minimum_nprobes_inner minimum_nprobes scanner =
     with_scanner scanner (\<lambda>s.
     ensure_scan_not_started s ''minimum_nprobes'' (
     obind (nprobes_with_minimum (sc_nprobes s) minimum_nprobes) (\<lambda>next.
     Ok (s\<lparr>sc_nprobes := next\<rparr>))))"

definition lance_scanner_set_minimum_nprobes ::
  "u32 \<Rightarrow> ('ds, 'sc, 'cb, 'st) lance_scanner ptr \<Rightarrow> tls \<Rightarrow> int \<times> tls \<times> ('ds, 'sc, 'cb, 'st) lance_scanner ptr" where
  "lance_scanner_set_minimum_nprobes minimum_nprobes scanner t = scanner_entry (scanner_set_minimum_nprobes_inner minimum_nprobes) scanner t"

definition scanner_set_maximum_nprobes_inner ::
  "u32 \<Rightarrow> ('ds, 'sc, 'cb, 'st) lance_scanner ptr \<Rightarrow> ('ds, 'sc, 'cb, 'st) lance_scanner outcome" where
  "scanner_set_maximum_nprobes_inner maximum_nprobes scanner =
     with_scanner scanner (\<lambda>s.
     ensure_scan_not_started s ''maximum_nprobes'' (
     obind (nprobes_with_maximum (sc_nprobes s) maximum_nprobes) (\<lambda>next.
     Ok (s\<lparr>sc_nprobes := next\<rparr>))))"

definition lance_scanner_set_maximum_nprobes ::
  "u32 \<Rightarrow> ('ds, 'sc, 'cb, 'st) lance_scanner ptr \<Rightarrow> tls \<Rightarrow> int \<times> tls \<times> ('ds, 'sc, 'cb, 'st) lance_scanner ptr" where
  "lance_scanner_set_maximum_nprobes maximum_nprobes scanner t = scanner_entry (scanner_set_maximum_nprobes_inner maximum_nprobes) scanner t"

definition scanner_set_approx_mode_inner ::
  "i32 \<Rightarrow> ('ds, 'sc, 'cb, 'st) lance_scanner ptr \<Rightarrow> ('ds, 'sc, 'cb, 'st) lance_scanner outcome" where
  "scanner_set_approx_mode_inner mode scanner =
     with_scanner scanner (\<lambda>s.
     obind (approx_mode_from_i32 mode) (\<lambda>m.
     ensure_scan_not_started s ''approx_mode'' (
     Ok (s\<lparr>sc_approx_mode := Some m\<rparr>))))"

definition lance_scanner_set_approx_mode ::
  "i32 \<Rightarrow> ('ds, 'sc, 'cb, 'st) lance_scanner ptr \<Rightarrow> tls \<Rightarrow> int \<times> tls \<times> ('ds, 'sc, 'cb, 'st) lance_scanner ptr" where
  "lance_scanner_set_approx_mode mode scanner t = scanner_entry (scanner_set_approx_mode_inner mode) scanner t"

definition scanner_set_query_parallelism_inner ::
  "i32 \<Rightarrow> ('ds, 'sc, 'cb, 'st) lance_scanner ptr \<Rightarrow> ('ds, 'sc, 'cb, 'st) lance_scanner outcome" where
  "scanner_set_query_parallelism_inner query_parallelism scanner =
     with_scanner scanner (\<lambda>s.
     reject_if (sint query_parallelism < - 1)
       (invalid_input (''query_parallelism must be -1, 0, or greater than 0, got '' @ show_i query_parallelism)) (
     ensure_scan_not_started s ''query_parallelism'' (
     Ok (s\<lparr>sc_query_parallelism := Some query_parallelism\<rparr>))))"

definition lance_scanner_set_query_parallelism ::
  "i32 \<Rightarrow> ('ds, 'sc, 'cb, 'st) lance_scanner ptr \<Rightarrow> tls \<Rightarrow> int \<times> tls \<times> ('ds, 'sc, 'cb, 'st) lance_scanner ptr" where
  "lance_scanner_set_query_parallelism query_parallelism scanner t = scanner_entry (scanner_set_query_parallelism_inner query_parallelism) scanner t"

definition scanner_set_metric_inner ::
  "i32 \<Rightarrow> ('ds, 'sc, 'cb, 'st) lance_scanner ptr \<Rightarrow> ('ds, 'sc, 'cb, 'st) lance_scanner outcome" where
  "scanner_set_metric_inner metric scanner =
     with_scanner scanner (\<lambda>s.
     obind (if metric = 0 then Ok L2 else if metric = 1 then Ok Cosine else if metric = 2 then Ok Dot
            else if metric = 3 then Ok Hamming
            else Err (invalid_input (''invalid metric: '' @ show_i metric))) (\<lambda>m.
     Ok (s\<lparr>sc_metric_override := Some m\<rparr>)))"

definition lance_scanner_set_metric ::
  "i32 \<Rightarrow> ('ds, 'sc, 'cb, 'st) lance_scanner ptr \<Rightarrow> tls \<Rightarrow> int \<times> tls \<times> ('ds, 'sc, 'cb, 'st) lance_scanner ptr" where
  "lance_scanner_set_metric metric scanner t = scanner_entry (scanner_set_metric_inner metric) scanner t"

definition scanner_set_use_index_inner ::
  "bool \<Rightarrow> ('ds, 'sc, 'cb, 'st) lance_scanner ptr \<Rightarrow> ('ds, 'sc, 'cb, 'st) lance_scanner outcome" where
  "scanner_set_use_index_inner enable scanner =
     with_scanner scanner (\<lambda>s. Ok (s\<lparr>sc_use_index := Some enable\<rparr>))"

definition lance_scanner_set_use_index ::
  "bool \<Rightarrow> ('ds, 'sc, 'cb, 'st) lance_scanner ptr \<Rightarrow> tls \<Rightarrow> int \<times> tls \<times> ('ds, 'sc, 'cb, 'st) lance_scanner ptr" where
  "lance_scanner_set_use_index enable scanner t = scanner_entry (scanner_set_use_index_inner enable) scanner t"

definition scanner_set_prefilter_inner ::
  "bool \<Rightarrow> ('ds, 'sc, 'cb, 'st) lance_scanner ptr \<Rightarrow> ('ds, 'sc, 'cb, 'st) lance_scanner outcome" where
  "scanner_set_prefilter_inner enable scanner =
     with_scanner scanner (\<lambda>s. Ok (s\<lparr>sc_prefilter := enable\<rparr>))"

definition lance_scanner_set_prefilter ::
  "bool \<Rightarrow> ('ds, 'sc, 'cb, 'st) lance_scanner ptr \<Rightarrow> tls \<Rightarrow> int \<times> tls \<times> ('ds, 'sc, 'cb, 'st) lance_scanner ptr" where
  "lance_scanner_set_prefilter enable scanner t = scanner_entry (scanner_set_prefilter_inner enable) scanner t"

text \<open>\<open>Vec::with_capacity\<close> panics when the capacity in bytes exceeds \<open>isize::MAX\<close>.\<close>

definition scanner_set_index_segments_inner ::
  "(u8 list ptr) \<Rightarrow> usize \<Rightarrow> ('ds, 'sc, 'cb, 'st) lance_scanner ptr \<Rightarrow> ('ds, 'sc, 'cb, 'st) lance_scanner outcome" where
  "scanner_set_index_segments_inner segment_uuids len scanner =
     with_scanner scanner (\<lambda>s.
     reject_if (is_null segment_uuids \<and> 0 < len) (invalid_input ''segment_uuids is NULL but len > 0'') (
     if len = 0 then Ok (s\<lparr>sc_index_segments := None\<rparr>)
     else if isize_max < 16 * unat len then Panic (StrPayload ''capacity overflow'')
     else Ok (s\<lparr>sc_index_segments := Some (read_uuids (the segment_uuids) (unat len))\<rparr>)))"

definition lance_scanner_set_index_segments ::
  "(u8 list ptr) \<Rightarrow> usize \<Rightarrow> ('ds, 'sc, 'cb, 'st) lance_scanner ptr \<Rightarrow> tls \<Rightarrow> int \<times> tls \<times> ('ds, 'sc, 'cb, 'st) lance_scanner ptr" where
  "lance_scanner_set_index_segments segment_uuids len scanner t = scanner_entry (scanner_set_index_segments_inner segment_uuids len) scanner t"

subsection \<open>Vector queries\<close>

definition scanner_nearest_inner ::
  "(string ptr) \<Rightarrow> (raw_buffer ptr) \<Rightarrow> usize \<Rightarrow> i32 \<Rightarrow> u32 \<Rightarrow> ('ds, 'sc, 'cb, 'st) lance_scanner ptr \<Rightarrow> ('ds, 'sc, 'cb, 'st) lance_scanner outcome" where
  "scanner_nearest_inner column query_data query_len element_type k scanner =
     (case (scanner, column, query_data) of
        (Some s, Some _, Some buf) \<Rightarrow>
          reject_if (k = 0) (invalid_input ''k must be > 0'') (
          reject_if (sc_fts_query s \<noteq> None \<or> sc_fts_context s \<noteq> None)
            (invalid_input ''cannot call nearest after full_text_search or attaching an FTS query context; they are mutually exclusive'') (
          obind (parse_c_string column) (\<lambda>column_str.
          obind (decode_query_values buf query_len element_type) (\<lambda>query.
          Ok (s\<lparr>sc_nearest := Some \<lparr>nq_mode = Single, nq_column = the column_str, nq_query = QVector query,
                nq_k = k, nq_lower_bound = None, nq_upper_bound = None\<rparr>\<rparr>)))))
      | _ \<Rightarrow> Err (invalid_input ''scanner, column, and query_data must not be NULL''))"

definition lance_scanner_nearest ::
  "(string ptr) \<Rightarrow> (raw_buffer ptr) \<Rightarrow> usize \<Rightarrow> i32 \<Rightarrow> u32 \<Rightarrow> ('ds, 'sc, 'cb, 'st) lance_scanner ptr \<Rightarrow> tls \<Rightarrow> int \<times> tls \<times> ('ds, 'sc, 'cb, 'st) lance_scanner ptr" where
  "lance_scanner_nearest column query_data query_len element_type k scanner t = scanner_entry (scanner_nearest_inner column query_data query_len element_type k) scanner t"

definition i32_max :: nat where "i32_max = 2 ^ 31 - 1"

definition check_batch_column :: "('ds, 'ix, 'par, 'sc) scanner_api \<Rightarrow> 'ds \<Rightarrow> string \<Rightarrow> usize \<Rightarrow> prim_type \<Rightarrow> unit outcome" where
  "check_batch_column api d column dimension dtype =
     reject_if (sp_field api d ''query_index'' \<noteq> None)
       (invalid_input ''batch nearest reserves the dataset column name query_index'') (
     obind (ok_or (sp_field api d column)
       (invalid_input (''batch vector column '' @ debug_string column @ '' does not exist''))) (\<lambda>actual.
     reject_if (actual \<noteq> FixedSizeListT (PrimT dtype) (ucast dimension))
       (invalid_input (''batch column '' @ debug_string column @ '' must be FixedSizeList<'' @
          sp_show_type api (PrimT dtype) @ '', '' @ show_u dimension @ ''>, got '' @ sp_show_type api actual))
       (Ok ())))"

text \<open>The element widths are those of \<open>LanceDataType\<close>; the values are decoded only after every size check.\<close>

definition nearest_batch_inner ::
  "(('ds, 'ix, 'par, 'sc) scanner_api) \<Rightarrow> (string ptr) \<Rightarrow> (raw_buffer ptr) \<Rightarrow> usize \<Rightarrow> usize \<Rightarrow> i32 \<Rightarrow> u32 \<Rightarrow> ('ds, 'sc, 'cb, 'st) lance_scanner ptr \<Rightarrow> ('ds, 'sc, 'cb, 'st) lance_scanner outcome" where
  "nearest_batch_inner api column query_data dimension num_queries element_type k scanner =
     (case (scanner, column, query_data) of
        (Some s, Some _, Some buf) \<Rightarrow>
          ensure_scan_not_started s ''nearest_batch'' (
          reject_if (dimension = 0 \<or> i32_max < unat dimension \<or> k = 0)
            (invalid_input (''dimension ('' @ show_u dimension @ '') and k ('' @ show_u k @
               '') must be positive; dimension must fit int32'')) (
          reject_if (num_queries = 0 \<or> max_batch_queries < unat num_queries)
            (invalid_input (''num_queries ('' @ show_u num_queries @ '') must be in 1..='' @ show_nat max_batch_queries)) (
          reject_if (sc_fts_query s \<noteq> None \<or> sc_fts_context s \<noteq> None)
            (invalid_input ''batch nearest and full-text search are mutually exclusive'') (
          reject_if (sc_limit s \<noteq> None \<or> sc_offset s \<noteq> None)
            (invalid_input ''batch nearest does not support global limit/offset; apply windows per query_index in the caller'') (
          obind (validate_batch_candidates num_queries k (sc_refine_factor s)) (\<lambda>_.
          obind (ok_or (prim_of_code element_type) (invalid_input (''batch element_type ('' @ show_i element_type @
             '') must be float16, float32, float64, uint8, or int8''))) (\<lambda>dtype.
          obind (batch_query_value_count dimension num_queries (of_nat (prim_width dtype))) (\<lambda>count.
          obind (parse_c_string column) (\<lambda>column_str.
          obind (check_batch_column api (arc_val (sc_dataset s)) (the column_str) dimension dtype) (\<lambda>_.
          obind (decode_query_values buf count element_type) (\<lambda>values.
          reject_if (\<not> batch_finite values) (invalid_input ''batch query values must be finite and non-null'') (
          obind (sp_fixed_size_list api dimension values) (\<lambda>_.
          Ok (s\<lparr>sc_nearest := Some \<lparr>nq_mode = Batch num_queries, nq_column = the column_str,
                nq_query = QMatrix dimension values, nq_k = k, nq_lower_bound = None, nq_upper_bound = None\<rparr>\<rparr>))))))))))))))
      | _ \<Rightarrow> Err (invalid_input ''scanner, column, and query_data must not be NULL''))"

definition lance_scanner_nearest_batch ::
  "(('ds, 'ix, 'par, 'sc) scanner_api) \<Rightarrow> (string ptr) \<Rightarrow> (raw_buffer ptr) \<Rightarrow> usize \<Rightarrow> usize \<Rightarrow> i32 \<Rightarrow> u32 \<Rightarrow> ('ds, 'sc, 'cb, 'st) lance_scanner ptr \<Rightarrow> tls \<Rightarrow> int \<times> tls \<times> ('ds, 'sc, 'cb, 'st) lance_scanner ptr" where
  "lance_scanner_nearest_batch api column query_data dimension num_queries element_type k scanner t = scanner_entry (nearest_batch_inner api column query_data dimension num_queries element_type k) scanner t"

definition max_query_vectors :: nat where "max_query_vectors = 128"
definition max_query_vector_candidates :: nat where "max_query_vector_candidates = 100000"

definition check_multivector_column :: "('ds, 'ix, 'par, 'sc) scanner_api \<Rightarrow> 'ds \<Rightarrow> string \<Rightarrow> usize \<Rightarrow> prim_type \<Rightarrow> unit outcome" where
  "check_multivector_column api d column dimension dtype =
     obind (ok_or (sp_field api d column) (invalid_input ''multi-vector column does not exist'')) (\<lambda>ft.
     case ft of
       ListT False child \<Rightarrow>
         (if child = FixedSizeListT (PrimT dtype) (ucast dimension) then Ok ()
          else Err (invalid_input ''multi-vector dimension/type mismatch''))
     | _ \<Rightarrow> Err (invalid_input ''multi-vector column must be List of non-nullable FixedSizeList''))"

definition nearest_multivector_inner ::
  "(('ds, 'ix, 'par, 'sc) scanner_api) \<Rightarrow> (string ptr) \<Rightarrow> (raw_buffer ptr) \<Rightarrow> usize \<Rightarrow> usize \<Rightarrow> i32 \<Rightarrow> u32 \<Rightarrow> ('ds, 'sc, 'cb, 'st) lance_scanner ptr \<Rightarrow> ('ds, 'sc, 'cb, 'st) lance_scanner outcome" where
  "nearest_multivector_inner api column query_data dimension num_vectors element_type k scanner =
     (case (scanner, column, query_data) of
        (Some s, Some _, Some buf) \<Rightarrow>
          reject_if (dimension = 0 \<or> i32_max < unat dimension \<or> num_vectors = 0 \<or> k = 0)
            (invalid_input ''dimension, num_vectors, and k must be positive; dimension must fit int32'') (
          reject_if (max_query_vectors < unat num_vectors \<or> max_query_vector_candidates div unat k < unat num_vectors)
            (invalid_input ''multi-vector query exceeds 128 subvectors or 100000 subvector-candidates'') (
          obind (ok_or (if element_type = 0 \<or> element_type = 1 \<or> element_type = 2 then prim_of_code element_type else None)
            (invalid_input ''multi-vector queries require float16, float32, or float64'')) (\<lambda>dtype.
          obind (ok_or (case checked_mul dimension num_vectors of
                          Some c \<Rightarrow> if unat c \<le> isize_max div prim_width dtype then Some c else None
                        | None \<Rightarrow> None)
            (invalid_input ''query matrix byte size overflows'')) (\<lambda>count.
          reject_if (sc_fts_query s \<noteq> None \<or> sc_fts_context s \<noteq> None)
            (invalid_input ''nearest and full-text search are mutually exclusive'') (
          obind (parse_c_string column) (\<lambda>column_str.
          obind (check_multivector_column api (arc_val (sc_dataset s)) (the column_str) dimension dtype) (\<lambda>_.
          obind (decode_query_values buf count element_type) (\<lambda>values.
          obind (validate_query (sp_execution_error api) values) (\<lambda>_.
          obind (sp_fixed_size_list api dimension values) (\<lambda>_.
          Ok (s\<lparr>sc_nearest := Some \<lparr>nq_mode = MultiVector, nq_column = the column_str,
                nq_query = QMatrix dimension values, nq_k = k, nq_lower_bound = None, nq_upper_bound = None\<rparr>\<rparr>)))))))))))
      | _ \<Rightarrow> Err (invalid_input ''scanner, column, and query_data must not be NULL''))"

definition lance_scanner_nearest_multivector ::
  "(('ds, 'ix, 'par, 'sc) scanner_api) \<Rightarrow> (string ptr) \<Rightarrow> (raw_buffer ptr) \<Rightarrow> usize \<Rightarrow> usize \<Rightarrow> i32 \<Rightarrow> u32 \<Rightarrow> ('ds, 'sc, 'cb, 'st) lance_scanner ptr \<Rightarrow> tls \<Rightarrow> int \<times> tls \<times> ('ds, 'sc, 'cb, 'st) lance_scanner ptr" where
  "lance_scanner_nearest_multivector api column query_data dimension num_vectors element_type k scanner t = scanner_entry (nearest_multivector_inner api column query_data dimension num_vectors element_type k) scanner t"

subsection \<open>Full-text queries\<close>

definition fts_inner ::
  "(('ds, 'ix, 'par, 'sc) scanner_api) \<Rightarrow> (string ptr) \<Rightarrow> (string list ptr) \<Rightarrow> u32 \<Rightarrow> ('ds, 'sc, 'cb, 'st) lance_scanner ptr \<Rightarrow> ('ds, 'sc, 'cb, 'st) lance_scanner outcome" where
  "fts_inner api query columns max_fuzzy_distance scanner =
     (case (scanner, query) of
        (Some s, Some _) \<Rightarrow>
          reject_if (sc_nearest s \<noteq> None)
            (invalid_input ''cannot call full_text_search after nearest; they are mutually exclusive'') (
          reject_if (sc_fts_context s \<noteq> None)
            (invalid_input ''cannot call full_text_search after attaching an FTS query context; the context already owns the query'') (
          obind (parse_c_string query) (\<lambda>query_str.
          obind (parse_c_string_array columns) (\<lambda>cols.
          let fts = (if 0 < max_fuzzy_distance then FtsNewFuzzy (the query_str) (Some max_fuzzy_distance)
                     else FtsNew (the query_str)) in
          if (case cols of Some cs \<Rightarrow> cs \<noteq> [] | None \<Rightarrow> False)
          then obind (sp_fts_with_columns api fts (the cols)) (\<lambda>_.
               Ok (s\<lparr>sc_fts_query := Some (FtsWithColumns fts (the cols))\<rparr>))
          else Ok (s\<lparr>sc_fts_query := Some fts\<rparr>)))))
      | _ \<Rightarrow> Err (invalid_input ''scanner and query must not be NULL''))"

definition lance_scanner_full_text_search ::
  "(('ds, 'ix, 'par, 'sc) scanner_api) \<Rightarrow> (string ptr) \<Rightarrow> (string list ptr) \<Rightarrow> u32 \<Rightarrow> ('ds, 'sc, 'cb, 'st) lance_scanner ptr \<Rightarrow> tls \<Rightarrow> int \<times> tls \<times> ('ds, 'sc, 'cb, 'st) lance_scanner ptr" where
  "lance_scanner_full_text_search api query columns max_fuzzy_distance scanner t = scanner_entry (fts_inner api query columns max_fuzzy_distance) scanner t"

definition scanner_set_fts_query_context_inner ::
  "(('ds, 'ix, 'par, 'sc) scanner_api) \<Rightarrow> (('ds, 'sc) fts_query_context arc ptr) \<Rightarrow> ('ds, 'sc, 'cb, 'st) lance_scanner ptr \<Rightarrow> ('ds, 'sc, 'cb, 'st) lance_scanner outcome" where
  "scanner_set_fts_query_context_inner api context scanner =
     (case scanner of
        None \<Rightarrow> Err (invalid_input ''scanner must not be NULL'')
      | Some s \<Rightarrow>
          obind (clone_context context) (\<lambda>ctx.
          reject_if (sc_nearest s \<noteq> None)
            (invalid_input ''cannot attach an FTS query context after nearest; they are mutually exclusive'') (
          reject_if (sc_fts_query s \<noteq> None)
            (invalid_input ''cannot attach an FTS query context after full_text_search; the context already owns the query'') (
          obind (validate_dataset_identity (sp_fts api) (arc_val ctx) (sc_dataset s)) (\<lambda>_.
          Ok (s\<lparr>sc_fts_context := Some ctx\<rparr>))))))"

definition lance_scanner_set_fts_query_context ::
  "(('ds, 'ix, 'par, 'sc) scanner_api) \<Rightarrow> (('ds, 'sc) fts_query_context arc ptr) \<Rightarrow> ('ds, 'sc, 'cb, 'st) lance_scanner ptr \<Rightarrow> tls \<Rightarrow> int \<times> tls \<times> ('ds, 'sc, 'cb, 'st) lance_scanner ptr" where
  "lance_scanner_set_fts_query_context api context scanner t = scanner_entry (scanner_set_fts_query_context_inner api context) scanner t"

definition scanner_set_fts_index_segments_inner ::
  "(u8 list ptr) \<Rightarrow> usize \<Rightarrow> ('ds, 'sc, 'cb, 'st) lance_scanner ptr \<Rightarrow> ('ds, 'sc, 'cb, 'st) lance_scanner outcome" where
  "scanner_set_fts_index_segments_inner segment_uuids len scanner =
     (case scanner of
        None \<Rightarrow> Err (invalid_input ''scanner must not be NULL'')
      | Some s \<Rightarrow>
          obind (if len = 0 then Ok None else obind (parse_segment_uuids segment_uuids len) (\<lambda>us. Ok (Some us))) (\<lambda>segments.
          Ok (s\<lparr>sc_fts_index_segments := segments\<rparr>)))"

definition lance_scanner_set_fts_index_segments ::
  "(u8 list ptr) \<Rightarrow> usize \<Rightarrow> ('ds, 'sc, 'cb, 'st) lance_scanner ptr \<Rightarrow> tls \<Rightarrow> int \<times> tls \<times> ('ds, 'sc, 'cb, 'st) lance_scanner ptr" where
  "lance_scanner_set_fts_index_segments segment_uuids len scanner t = scanner_entry (scanner_set_fts_index_segments_inner segment_uuids len) scanner t"

end
