(* ===== verification/Scanner_Contract.thy ===== *)
theory Scanner_Contract
  imports Scanner_Search
begin

text \<open>
  What the setters promise together. The C functions are gathered into one type of calls; the
  contract of a guarded handle (poison check, firewall, rollback on failure, an invariant kept) is
  a locale, interpreted on the scanner, and the properties follow for every sequence of calls.
\<close>

subsection \<open>The calls\<close>

text \<open>The C functions that configure a scanner, grouped by the type of their argument, with the arguments
  the caller passes. \<open>scanner_op_inner\<close> is the body that runs, \<open>scanner_op_call\<close> the C function.\<close>

datatype bool_setting = SetScalarIndexAutoSelection | SetScanInOrder | SetUseScalarIndex | SetStrictBatchSize | SetUseStats | SetWithRowId | SetWithRowAddress | SetIncludeDeletedRows | SetUseIndex | SetPrefilter

datatype u32_setting = SetRefineFactor | SetEf | SetNprobes | SetMinimumNprobes | SetMaximumNprobes

datatype i32_setting = SetBlobHandling | SetApproxMode | SetQueryParallelism | SetMetric

datatype i64_setting = SetLimit | SetOffset | SetBatchSize

datatype u64_setting = SetBatchSizeBytes | SetIoBufferSize

datatype usize_setting = SetBatchReadahead | SetFragmentReadahead | SetTargetParallelism

datatype ids_setting = SetFragmentIds | SetRowAddrAllowlist | SetRowAddrBlocklist

datatype bytes_setting = SetSubstraitFilter | SetIndexSegments | SetFtsIndexSegments

datatype ('ds, 'sc, 'cb) scanner_op =
    OpBool bool_setting bool
  | OpU32 u32_setting u32
  | OpI32 i32_setting i32
  | OpI64 i64_setting i64
  | OpU64 u64_setting u64
  | OpUsize usize_setting usize
  | OpIds ids_setting "u64 list ptr" usize
  | OpBytes bytes_setting "u8 list ptr" usize
  | OpScalarIndexSegment "u8 list ptr"
  | OpAdditionalSqlFilter "string ptr"
  | OpStatisticsCallback "'cb ptr"
  | OpDistanceRange "u32 ptr" "u32 ptr"
  | OpNearest "string ptr" "raw_buffer ptr" usize i32 u32
  | OpNearestBatch "string ptr" "raw_buffer ptr" usize usize i32 u32
  | OpNearestMultivector "string ptr" "raw_buffer ptr" usize usize i32 u32
  | OpFullTextSearch "string ptr" "string list ptr" u32
  | OpFtsQueryContext "('ds, 'sc) fts_query_context arc ptr"

primrec bool_setting_inner :: "bool_setting \<Rightarrow> bool \<Rightarrow> ('ds, 'sc, 'cb, 'st) lance_scanner ptr \<Rightarrow> ('ds, 'sc, 'cb, 'st) lance_scanner outcome" where
  "bool_setting_inner SetScalarIndexAutoSelection = scanner_set_scalar_index_auto_selection_inner"
| "bool_setting_inner SetScanInOrder = scanner_set_scan_in_order_inner"
| "bool_setting_inner SetUseScalarIndex = scanner_set_use_scalar_index_inner"
| "bool_setting_inner SetStrictBatchSize = scanner_set_strict_batch_size_inner"
| "bool_setting_inner SetUseStats = scanner_set_use_stats_inner"
| "bool_setting_inner SetWithRowId = scanner_with_row_id_inner"
| "bool_setting_inner SetWithRowAddress = scanner_with_row_address_inner"
| "bool_setting_inner SetIncludeDeletedRows = scanner_set_include_deleted_rows_inner"
| "bool_setting_inner SetUseIndex = scanner_set_use_index_inner"
| "bool_setting_inner SetPrefilter = scanner_set_prefilter_inner"

primrec u32_setting_inner :: "u32_setting \<Rightarrow> u32 \<Rightarrow> ('ds, 'sc, 'cb, 'st) lance_scanner ptr \<Rightarrow> ('ds, 'sc, 'cb, 'st) lance_scanner outcome" where
  "u32_setting_inner SetRefineFactor = scanner_set_refine_factor_inner"
| "u32_setting_inner SetEf = scanner_set_ef_inner"
| "u32_setting_inner SetNprobes = scanner_set_nprobes_inner"
| "u32_setting_inner SetMinimumNprobes = scanner_set_minimum_nprobes_inner"
| "u32_setting_inner SetMaximumNprobes = scanner_set_maximum_nprobes_inner"

primrec i32_setting_inner :: "i32_setting \<Rightarrow> i32 \<Rightarrow> ('ds, 'sc, 'cb, 'st) lance_scanner ptr \<Rightarrow> ('ds, 'sc, 'cb, 'st) lance_scanner outcome" where
  "i32_setting_inner SetBlobHandling = scanner_set_blob_handling_inner"
| "i32_setting_inner SetApproxMode = scanner_set_approx_mode_inner"
| "i32_setting_inner SetQueryParallelism = scanner_set_query_parallelism_inner"
| "i32_setting_inner SetMetric = scanner_set_metric_inner"

primrec i64_setting_inner :: "i64_setting \<Rightarrow> i64 \<Rightarrow> ('ds, 'sc, 'cb, 'st) lance_scanner ptr \<Rightarrow> ('ds, 'sc, 'cb, 'st) lance_scanner outcome" where
  "i64_setting_inner SetLimit = scanner_set_limit_inner"
| "i64_setting_inner SetOffset = scanner_set_offset_inner"
| "i64_setting_inner SetBatchSize = scanner_set_batch_size_inner"

primrec u64_setting_inner :: "u64_setting \<Rightarrow> u64 \<Rightarrow> ('ds, 'sc, 'cb, 'st) lance_scanner ptr \<Rightarrow> ('ds, 'sc, 'cb, 'st) lance_scanner outcome" where
  "u64_setting_inner SetBatchSizeBytes = scanner_set_batch_size_bytes_inner"
| "u64_setting_inner SetIoBufferSize = scanner_set_io_buffer_size_inner"

primrec usize_setting_inner :: "usize_setting \<Rightarrow> usize \<Rightarrow> ('ds, 'sc, 'cb, 'st) lance_scanner ptr \<Rightarrow> ('ds, 'sc, 'cb, 'st) lance_scanner outcome" where
  "usize_setting_inner SetBatchReadahead = scanner_set_batch_readahead_inner"
| "usize_setting_inner SetFragmentReadahead = scanner_set_fragment_readahead_inner"
| "usize_setting_inner SetTargetParallelism = scanner_set_target_parallelism_inner"

primrec ids_setting_inner :: "ids_setting \<Rightarrow> (u64 list ptr) \<Rightarrow> usize \<Rightarrow> ('ds, 'sc, 'cb, 'st) lance_scanner ptr \<Rightarrow> ('ds, 'sc, 'cb, 'st) lance_scanner outcome" where
  "ids_setting_inner SetFragmentIds = scanner_set_fragment_ids_inner"
| "ids_setting_inner SetRowAddrAllowlist = (\<lambda>p len. scanner_set_row_addr_list_inner p len AllowList)"
| "ids_setting_inner SetRowAddrBlocklist = (\<lambda>p len. scanner_set_row_addr_list_inner p len BlockList)"

primrec bytes_setting_inner :: "bytes_setting \<Rightarrow> (u8 list ptr) \<Rightarrow> usize \<Rightarrow> ('ds, 'sc, 'cb, 'st) lance_scanner ptr \<Rightarrow> ('ds, 'sc, 'cb, 'st) lance_scanner outcome" where
  "bytes_setting_inner SetSubstraitFilter = scanner_set_substrait_filter_inner"
| "bytes_setting_inner SetIndexSegments = scanner_set_index_segments_inner"
| "bytes_setting_inner SetFtsIndexSegments = scanner_set_fts_index_segments_inner"

primrec scanner_op_inner ::
  "('ds, 'ix, 'par, 'sc) scanner_api \<Rightarrow> ('ds, 'sc, 'cb) scanner_op \<Rightarrow>
     ('ds, 'sc, 'cb, 'st) lance_scanner ptr \<Rightarrow> ('ds, 'sc, 'cb, 'st) lance_scanner outcome" where
  "scanner_op_inner api (OpBool f v) = bool_setting_inner f v"
| "scanner_op_inner api (OpU32 f v) = u32_setting_inner f v"
| "scanner_op_inner api (OpI32 f v) = i32_setting_inner f v"
| "scanner_op_inner api (OpI64 f v) = i64_setting_inner f v"
| "scanner_op_inner api (OpU64 f v) = u64_setting_inner f v"
| "scanner_op_inner api (OpUsize f v) = usize_setting_inner f v"
| "scanner_op_inner api (OpIds f p len) = ids_setting_inner f p len"
| "scanner_op_inner api (OpBytes f p len) = bytes_setting_inner f p len"
| "scanner_op_inner api (OpScalarIndexSegment u) = scanner_set_scalar_index_segment_inner u"
| "scanner_op_inner api (OpAdditionalSqlFilter f) = scanner_additional_sql_filter_inner f"
| "scanner_op_inner api (OpStatisticsCallback c) = scanner_set_statistics_callback_inner c"
| "scanner_op_inner api (OpDistanceRange l u) = scanner_set_distance_range_inner api l u"
| "scanner_op_inner api (OpNearest c q n e k) = scanner_nearest_inner c q n e k"
| "scanner_op_inner api (OpNearestBatch c q d n e k) = nearest_batch_inner api c q d n e k"
| "scanner_op_inner api (OpNearestMultivector c q d n e k) = nearest_multivector_inner api c q d n e k"
| "scanner_op_inner api (OpFullTextSearch q cs f) = fts_inner api q cs f"
| "scanner_op_inner api (OpFtsQueryContext c) = scanner_set_fts_query_context_inner api c"

primrec bool_setting_call :: "bool_setting \<Rightarrow> bool \<Rightarrow> ('ds, 'sc, 'cb, 'st) lance_scanner ptr \<Rightarrow> tls \<Rightarrow> int \<times> tls \<times> ('ds, 'sc, 'cb, 'st) lance_scanner ptr" where
  "bool_setting_call SetScalarIndexAutoSelection = lance_scanner_set_scalar_index_auto_selection"
| "bool_setting_call SetScanInOrder = lance_scanner_set_scan_in_order"
| "bool_setting_call SetUseScalarIndex = lance_scanner_set_use_scalar_index"
| "bool_setting_call SetStrictBatchSize = lance_scanner_set_strict_batch_size"
| "bool_setting_call SetUseStats = lance_scanner_set_use_stats"
| "bool_setting_call SetWithRowId = lance_scanner_with_row_id"
| "bool_setting_call SetWithRowAddress = lance_scanner_with_row_address"
| "bool_setting_call SetIncludeDeletedRows = lance_scanner_set_include_deleted_rows"
| "bool_setting_call SetUseIndex = lance_scanner_set_use_index"
| "bool_setting_call SetPrefilter = lance_scanner_set_prefilter"

primrec u32_setting_call :: "u32_setting \<Rightarrow> u32 \<Rightarrow> ('ds, 'sc, 'cb, 'st) lance_scanner ptr \<Rightarrow> tls \<Rightarrow> int \<times> tls \<times> ('ds, 'sc, 'cb, 'st) lance_scanner ptr" where
  "u32_setting_call SetRefineFactor = lance_scanner_set_refine_factor"
| "u32_setting_call SetEf = lance_scanner_set_ef"
| "u32_setting_call SetNprobes = lance_scanner_set_nprobes"
| "u32_setting_call SetMinimumNprobes = lance_scanner_set_minimum_nprobes"
| "u32_setting_call SetMaximumNprobes = lance_scanner_set_maximum_nprobes"

primrec i32_setting_call :: "i32_setting \<Rightarrow> i32 \<Rightarrow> ('ds, 'sc, 'cb, 'st) lance_scanner ptr \<Rightarrow> tls \<Rightarrow> int \<times> tls \<times> ('ds, 'sc, 'cb, 'st) lance_scanner ptr" where
  "i32_setting_call SetBlobHandling = lance_scanner_set_blob_handling"
| "i32_setting_call SetApproxMode = lance_scanner_set_approx_mode"
| "i32_setting_call SetQueryParallelism = lance_scanner_set_query_parallelism"
| "i32_setting_call SetMetric = lance_scanner_set_metric"

primrec i64_setting_call :: "i64_setting \<Rightarrow> i64 \<Rightarrow> ('ds, 'sc, 'cb, 'st) lance_scanner ptr \<Rightarrow> tls \<Rightarrow> int \<times> tls \<times> ('ds, 'sc, 'cb, 'st) lance_scanner ptr" where
  "i64_setting_call SetLimit = lance_scanner_set_limit"
| "i64_setting_call SetOffset = lance_scanner_set_offset"
| "i64_setting_call SetBatchSize = lance_scanner_set_batch_size"

primrec u64_setting_call :: "u64_setting \<Rightarrow> u64 \<Rightarrow> ('ds, 'sc, 'cb, 'st) lance_scanner ptr \<Rightarrow> tls \<Rightarrow> int \<times> tls \<times> ('ds, 'sc, 'cb, 'st) lance_scanner ptr" where
  "u64_setting_call SetBatchSizeBytes = lance_scanner_set_batch_size_bytes"
| "u64_setting_call SetIoBufferSize = lance_scanner_set_io_buffer_size"

primrec usize_setting_call :: "usize_setting \<Rightarrow> usize \<Rightarrow> ('ds, 'sc, 'cb, 'st) lance_scanner ptr \<Rightarrow> tls \<Rightarrow> int \<times> tls \<times> ('ds, 'sc, 'cb, 'st) lance_scanner ptr" where
  "usize_setting_call SetBatchReadahead = lance_scanner_set_batch_readahead"
| "usize_setting_call SetFragmentReadahead = lance_scanner_set_fragment_readahead"
| "usize_setting_call SetTargetParallelism = lance_scanner_set_target_parallelism"

primrec ids_setting_call :: "ids_setting \<Rightarrow> (u64 list ptr) \<Rightarrow> usize \<Rightarrow> ('ds, 'sc, 'cb, 'st) lance_scanner ptr \<Rightarrow> tls \<Rightarrow> int \<times> tls \<times> ('ds, 'sc, 'cb, 'st) lance_scanner ptr" where
  "ids_setting_call SetFragmentIds = lance_scanner_set_fragment_ids"
| "ids_setting_call SetRowAddrAllowlist = lance_scanner_set_row_addr_allowlist"
| "ids_setting_call SetRowAddrBlocklist = lance_scanner_set_row_addr_blocklist"

primrec bytes_setting_call :: "bytes_setting \<Rightarrow> (u8 list ptr) \<Rightarrow> usize \<Rightarrow> ('ds, 'sc, 'cb, 'st) lance_scanner ptr \<Rightarrow> tls \<Rightarrow> int \<times> tls \<times> ('ds, 'sc, 'cb, 'st) lance_scanner ptr" where
  "bytes_setting_call SetSubstraitFilter = lance_scanner_set_substrait_filter"
| "bytes_setting_call SetIndexSegments = lance_scanner_set_index_segments"
| "bytes_setting_call SetFtsIndexSegments = lance_scanner_set_fts_index_segments"

primrec scanner_op_call ::
  "('ds, 'ix, 'par, 'sc) scanner_api \<Rightarrow> ('ds, 'sc, 'cb) scanner_op \<Rightarrow>
     ('ds, 'sc, 'cb, 'st) lance_scanner ptr \<Rightarrow> tls \<Rightarrow> int \<times> tls \<times> ('ds, 'sc, 'cb, 'st) lance_scanner ptr" where
  "scanner_op_call api (OpBool f v) = bool_setting_call f v"
| "scanner_op_call api (OpU32 f v) = u32_setting_call f v"
| "scanner_op_call api (OpI32 f v) = i32_setting_call f v"
| "scanner_op_call api (OpI64 f v) = i64_setting_call f v"
| "scanner_op_call api (OpU64 f v) = u64_setting_call f v"
| "scanner_op_call api (OpUsize f v) = usize_setting_call f v"
| "scanner_op_call api (OpIds f p len) = ids_setting_call f p len"
| "scanner_op_call api (OpBytes f p len) = bytes_setting_call f p len"
| "scanner_op_call api (OpScalarIndexSegment u) = lance_scanner_set_scalar_index_segment u"
| "scanner_op_call api (OpAdditionalSqlFilter f) = lance_scanner_additional_sql_filter f"
| "scanner_op_call api (OpStatisticsCallback c) = lance_scanner_set_statistics_callback c"
| "scanner_op_call api (OpDistanceRange l u) = lance_scanner_set_distance_range api l u"
| "scanner_op_call api (OpNearest c q n e k) = lance_scanner_nearest c q n e k"
| "scanner_op_call api (OpNearestBatch c q d n e k) = lance_scanner_nearest_batch api c q d n e k"
| "scanner_op_call api (OpNearestMultivector c q d n e k) = lance_scanner_nearest_multivector api c q d n e k"
| "scanner_op_call api (OpFullTextSearch q cs f) = lance_scanner_full_text_search api q cs f"
| "scanner_op_call api (OpFtsQueryContext c) = lance_scanner_set_fts_query_context api c"

subsection \<open>The contract of a guarded handle\<close>

locale guarded_handle =
  fixes exec :: "'op \<Rightarrow> 'h ptr \<Rightarrow> 'h outcome"
    and call :: "'op \<Rightarrow> 'h ptr \<Rightarrow> tls \<Rightarrow> int \<times> tls \<times> 'h ptr"
    and poisoned :: "'h \<Rightarrow> bool"
    and mark :: "'h \<Rightarrow> 'h"
    and inv :: "'h \<Rightarrow> bool"
  assumes call_poisoned: "poisoned h \<Longrightarrow> call op (Some h) t =
        (- 1, set_last_error CPanic ''scanner is poisoned by an earlier panic'' t, Some h)"
    and call_Ok: "\<not> poisoned h \<Longrightarrow> exec op (Some h) = Ok h' \<Longrightarrow>
        call op (Some h) t = (0, clear_last_error t, Some h')"
    and call_not_Ok: "\<not> poisoned h \<Longrightarrow> (\<And>h'. exec op (Some h) \<noteq> Ok h') \<Longrightarrow>
        \<exists>t'. call op (Some h) t = (- 1, t', Some (if lance_last_error_code t' = CPanic then mark h else h)) \<and>
             lance_last_error_code t' \<noteq> COk"
    and poisoned_mark: "poisoned (mark h)"
    and inv_mark: "inv h \<Longrightarrow> inv (mark h)"
    and inv_exec: "inv h \<Longrightarrow> exec op (Some h) = Ok h' \<Longrightarrow> inv h'"
begin

fun calls :: "'op list \<Rightarrow> 'h ptr \<Rightarrow> tls \<Rightarrow> int list \<times> tls \<times> 'h ptr" where
  "calls [] p t = ([], t, p)"
| "calls (op # ops) p t =
     (let (rc, t', p') = call op p t; (rcs, t'', p'') = calls ops p' t' in (rc # rcs, t'', p''))"

lemma call_cases:
  obtains (rejected) "poisoned h"
      "call op (Some h) t = (- 1, set_last_error CPanic ''scanner is poisoned by an earlier panic'' t, Some h)"
  | (finished) h' where "\<not> poisoned h" "exec op (Some h) = Ok h'" "call op (Some h) t = (0, clear_last_error t, Some h')"
  | (failed) t' where "\<not> poisoned h" "call op (Some h) t = (- 1, t', Some (if lance_last_error_code t' = CPanic then mark h else h))"
      "lance_last_error_code t' \<noteq> COk"
proof (cases "poisoned h")
  case True
  then show thesis using call_poisoned by (intro rejected) auto
next
  case False
  show thesis
  proof (cases "\<exists>h'. exec op (Some h) = Ok h'")
    case True
    then obtain h' where "exec op (Some h) = Ok h'" by blast
    with False call_Ok [OF False this] show thesis by (intro finished)
  next
    case none: False
    then obtain t' where "call op (Some h) t = (- 1, t', Some (if lance_last_error_code t' = CPanic then mark h else h))"
      "lance_last_error_code t' \<noteq> COk" using call_not_Ok [OF False] by blast
    with False show thesis by (intro failed)
  qed
qed

lemma call_inv: "inv h \<Longrightarrow> call op (Some h) t = (rc, t', p) \<Longrightarrow> \<exists>h'. p = Some h' \<and> inv h'"
  by (cases rule: call_cases [of h op t]) (auto intro: inv_exec inv_mark split: if_splits)

lemma calls_inv: "inv h \<Longrightarrow> calls ops (Some h) t = (rcs, t', p) \<Longrightarrow> \<exists>h'. p = Some h' \<and> inv h'"
proof (induction ops arbitrary: h t rcs)
  case (Cons op ops)
  obtain rc t1 p1 where c: "call op (Some h) t = (rc, t1, p1)" by (cases "call op (Some h) t")
  with call_inv Cons.prems(1) obtain h1 where "p1 = Some h1" "inv h1" by blast
  with Cons c show ?case by (auto simp: Let_def split: prod.splits)
qed auto

lemma calls_poisoned:
  "poisoned h \<Longrightarrow> fst (calls ops (Some h) t) = replicate (length ops) (- 1) \<and>
     snd (snd (calls ops (Some h) t)) = Some h \<and>
     (ops = [] \<or> lance_last_error_code (fst (snd (calls ops (Some h) t))) = CPanic)"
proof (induction ops arbitrary: t)
  case (Cons op ops)
  from Cons.IH [OF Cons.prems, of "set_last_error CPanic ''scanner is poisoned by an earlier panic'' t"] Cons.prems
  show ?case by (cases ops) (auto simp: call_poisoned Let_def split: prod.splits)
qed simp

lemma call_outcome:
  assumes "call op (Some h) t = (rc, t', p)"
  shows "rc = 0 \<and> \<not> poisoned h \<and> lance_last_error_code t' = COk \<or>
    rc = - 1 \<and> lance_last_error_code t' \<noteq> COk \<and> (p = Some h \<or> lance_last_error_code t' = CPanic \<and> p = Some (mark h))"
  using assms by (cases rule: call_cases [of h op t]) (auto split: if_splits)

lemma call_changes:
  assumes "call op (Some h) t = (rc, t', p)"
  shows "p = Some h \<or> p = Some (mark h) \<or> (\<exists>h'. exec op (Some h) = Ok h' \<and> p = Some h')"
  using assms by (cases rule: call_cases [of h op t]) (auto split: if_splits)

end

subsection \<open>The scanner under the contract\<close>

definition nearest_ok :: "('ds, 'sc, 'cb, 'st) lance_scanner \<Rightarrow> nearest_query \<Rightarrow> bool" where
  "nearest_ok s q \<longleftrightarrow>
     (case nq_mode q of
        Batch n \<Rightarrow> sc_limit s = None \<and> sc_offset s = None \<and> 0 < unat n \<and> unat n \<le> max_batch_queries \<and>
                   validate_batch_candidates n (nq_k q) (sc_refine_factor s) = Ok ()
      | _ \<Rightarrow> True) \<and>
     nq_k q \<noteq> 0 \<and>
     (nq_mode q \<noteq> Single \<longrightarrow> nq_lower_bound q = None \<and> nq_upper_bound q = None) \<and>
     (case nq_lower_bound q of Some l \<Rightarrow> f32_finite l | None \<Rightarrow> True) \<and>
     (case nq_upper_bound q of Some u \<Rightarrow> f32_finite u | None \<Rightarrow> True) \<and>
     (case (nq_lower_bound q, nq_upper_bound q) of (Some l, Some u) \<Rightarrow> \<not> f32_ge l u | _ \<Rightarrow> True)"

definition nprobes_ok :: "nprobes_range \<Rightarrow> bool" where
  "nprobes_ok r \<longleftrightarrow> np_minimum r \<noteq> Some 0 \<and> np_maximum r \<noteq> Some 0 \<and>
     (case (np_minimum r, np_maximum r) of (Some a, Some b) \<Rightarrow> a \<le> b | _ \<Rightarrow> True)"

definition search_exclusive :: "('ds, 'sc, 'cb, 'st) lance_scanner \<Rightarrow> bool" where
  "search_exclusive s \<longleftrightarrow>
     (sc_nearest s \<noteq> None \<longrightarrow> sc_fts_query s = None \<and> sc_fts_context s = None) \<and>
     (sc_fts_query s \<noteq> None \<longrightarrow> sc_fts_context s = None)"

definition sizes_ok :: "('ds, 'sc, 'cb, 'st) lance_scanner \<Rightarrow> bool" where
  "sizes_ok s \<longleftrightarrow>
     \<not> (sc_strict_batch_size s = Some True \<and> sc_batch_size_bytes s \<noteq> None) \<and>
     sc_batch_size_bytes s \<noteq> Some 0 \<and> sc_io_buffer_size s \<noteq> Some 0 \<and> sc_batch_readahead s \<noteq> Some 0 \<and>
     sc_fragment_readahead s \<noteq> Some 0 \<and> sc_target_parallelism s \<noteq> Some 0 \<and>
     (case sc_io_buffer_size s of Some b \<Rightarrow> b \<le> i64_max | None \<Rightarrow> True) \<and>
     (case sc_query_parallelism s of Some p \<Rightarrow> - 1 \<le> sint p | None \<Rightarrow> True) \<and>
     [] \<notin> set (sc_additional_sql_filters s) \<and>
     (case sc_fts_index_segments s of Some us \<Rightarrow> distinct us | None \<Rightarrow> True)"

definition scanner_ok :: "('ds, 'sc, 'cb, 'st) lance_scanner \<Rightarrow> bool" where
  "scanner_ok s \<longleftrightarrow>
     (case sc_nearest s of Some q \<Rightarrow> nearest_ok s q | None \<Rightarrow> True) \<and> nprobes_ok (sc_nprobes s) \<and>
     search_exclusive s \<and> sizes_ok s \<and>
     (case sc_fts_context s of Some c \<Rightarrow> arc_ptr_eq (fc_dataset (arc_val c)) (sc_dataset s) | None \<Rightarrow> True)"

lemmas scanner_ok_defs = scanner_ok_def nearest_ok_def nprobes_ok_def search_exclusive_def sizes_ok_def

lemmas setter_defs = with_scanner_def ensure_scan_not_started_def outcome_ok Let_def


lemmas option_setter_defs =
  scanner_set_scalar_index_auto_selection_inner_def scanner_set_scalar_index_segment_inner_def
  scanner_set_limit_inner_def scanner_set_offset_inner_def scanner_set_batch_size_inner_def
  scanner_set_batch_size_bytes_inner_def scanner_set_io_buffer_size_inner_def
  scanner_set_batch_readahead_inner_def scanner_set_fragment_readahead_inner_def
  scanner_set_target_parallelism_inner_def scanner_set_scan_in_order_inner_def
  scanner_set_use_scalar_index_inner_def scanner_set_strict_batch_size_inner_def
  scanner_set_use_stats_inner_def scanner_set_blob_handling_inner_def scanner_with_row_id_inner_def
  scanner_with_row_address_inner_def scanner_set_include_deleted_rows_inner_def
  scanner_set_fragment_ids_inner_def scanner_set_row_addr_list_inner_def
  scanner_set_substrait_filter_inner_def scanner_additional_sql_filter_inner_def
  scanner_set_statistics_callback_inner_def

lemmas knob_setter_defs =
  scanner_set_refine_factor_inner_def scanner_set_ef_inner_def scanner_set_distance_range_inner_def
  scanner_set_nprobes_inner_def scanner_set_minimum_nprobes_inner_def scanner_set_maximum_nprobes_inner_def
  scanner_set_approx_mode_inner_def scanner_set_query_parallelism_inner_def scanner_set_metric_inner_def
  scanner_set_use_index_inner_def scanner_set_prefilter_inner_def scanner_set_index_segments_inner_def

lemmas query_setter_defs =
  scanner_nearest_inner_def nearest_batch_inner_def nearest_multivector_inner_def fts_inner_def
  scanner_set_fts_query_context_inner_def scanner_set_fts_index_segments_inner_def

lemmas entry_defs =
  lance_scanner_set_scalar_index_auto_selection_def lance_scanner_set_scalar_index_segment_def
  lance_scanner_set_limit_def lance_scanner_set_offset_def lance_scanner_set_batch_size_def
  lance_scanner_set_batch_size_bytes_def lance_scanner_set_io_buffer_size_def
  lance_scanner_set_batch_readahead_def lance_scanner_set_fragment_readahead_def
  lance_scanner_set_target_parallelism_def lance_scanner_set_scan_in_order_def
  lance_scanner_set_use_scalar_index_def lance_scanner_set_strict_batch_size_def
  lance_scanner_set_use_stats_def lance_scanner_set_blob_handling_def lance_scanner_with_row_id_def
  lance_scanner_with_row_address_def lance_scanner_set_include_deleted_rows_def
  lance_scanner_set_fragment_ids_def lance_scanner_set_row_addr_allowlist_def
  lance_scanner_set_row_addr_blocklist_def lance_scanner_set_substrait_filter_def
  lance_scanner_additional_sql_filter_def lance_scanner_set_statistics_callback_def
  lance_scanner_set_refine_factor_def lance_scanner_set_ef_def lance_scanner_set_distance_range_def
  lance_scanner_set_nprobes_def lance_scanner_set_minimum_nprobes_def lance_scanner_set_maximum_nprobes_def
  lance_scanner_set_approx_mode_def lance_scanner_set_query_parallelism_def lance_scanner_set_metric_def
  lance_scanner_set_use_index_def lance_scanner_set_prefilter_def lance_scanner_set_index_segments_def
  lance_scanner_nearest_def lance_scanner_nearest_batch_def lance_scanner_nearest_multivector_def
  lance_scanner_full_text_search_def lance_scanner_set_fts_query_context_def
  lance_scanner_set_fts_index_segments_def

lemma setting_call_eq:
  "bool_setting_call fb b p t = scanner_entry (bool_setting_inner fb b) p t"
  "u32_setting_call fu v p t = scanner_entry (u32_setting_inner fu v) p t"
  "i32_setting_call fi v p t = scanner_entry (i32_setting_inner fi v) p t"
  "i64_setting_call fl w p t = scanner_entry (i64_setting_inner fl w) p t"
  "u64_setting_call fw w p t = scanner_entry (u64_setting_inner fw w) p t"
  "usize_setting_call fz w p t = scanner_entry (usize_setting_inner fz w) p t"
  "ids_setting_call fd i w p t = scanner_entry (ids_setting_inner fd i w) p t"
  "bytes_setting_call fy y w p t = scanner_entry (bytes_setting_inner fy y w) p t"
proof -
  show "bool_setting_call fb b p t = scanner_entry (bool_setting_inner fb b) p t" by (cases fb) (simp_all add: entry_defs)
  show "u32_setting_call fu v p t = scanner_entry (u32_setting_inner fu v) p t" by (cases fu) (simp_all add: entry_defs)
  show "i32_setting_call fi v p t = scanner_entry (i32_setting_inner fi v) p t" by (cases fi) (simp_all add: entry_defs)
  show "i64_setting_call fl w p t = scanner_entry (i64_setting_inner fl w) p t" by (cases fl) (simp_all add: entry_defs)
  show "u64_setting_call fw w p t = scanner_entry (u64_setting_inner fw w) p t" by (cases fw) (simp_all add: entry_defs)
  show "usize_setting_call fz w p t = scanner_entry (usize_setting_inner fz w) p t" by (cases fz) (simp_all add: entry_defs)
  show "ids_setting_call fd i w p t = scanner_entry (ids_setting_inner fd i w) p t" by (cases fd) (simp_all add: entry_defs)
  show "bytes_setting_call fy y w p t = scanner_entry (bytes_setting_inner fy y w) p t" by (cases fy) (simp_all add: entry_defs)
qed

lemma scanner_op_call_eq: "scanner_op_call api op s t = scanner_entry (scanner_op_inner api op) s t"
  by (cases op) (simp_all add: setting_call_eq, simp_all add: entry_defs)

text \<open>The invariant reads only some fields; setting any other one does not matter.\<close>

lemma scanner_ok_update [simp]:
  "scanner_ok (s\<lparr>sc_columns := v_columns\<rparr>) = scanner_ok s"
  "scanner_ok (s\<lparr>sc_filter := v_filter\<rparr>) = scanner_ok s"
  "scanner_ok (s\<lparr>sc_substrait_filter := v_substrait_filter\<rparr>) = scanner_ok s"
  "scanner_ok (s\<lparr>sc_blob_handling := v_blob_handling\<rparr>) = scanner_ok s"
  "scanner_ok (s\<lparr>sc_batch_size := v_batch_size\<rparr>) = scanner_ok s"
  "scanner_ok (s\<lparr>sc_scan_in_order := v_scan_in_order\<rparr>) = scanner_ok s"
  "scanner_ok (s\<lparr>sc_use_scalar_index := v_use_scalar_index\<rparr>) = scanner_ok s"
  "scanner_ok (s\<lparr>sc_use_stats := v_use_stats\<rparr>) = scanner_ok s"
  "scanner_ok (s\<lparr>sc_with_row_id := v_with_row_id\<rparr>) = scanner_ok s"
  "scanner_ok (s\<lparr>sc_with_row_address := v_with_row_address\<rparr>) = scanner_ok s"
  "scanner_ok (s\<lparr>sc_include_deleted_rows := v_include_deleted_rows\<rparr>) = scanner_ok s"
  "scanner_ok (s\<lparr>sc_fragment_ids := v_fragment_ids\<rparr>) = scanner_ok s"
  "scanner_ok (s\<lparr>sc_row_addr_allowlist := v_row_addr_allowlist\<rparr>) = scanner_ok s"
  "scanner_ok (s\<lparr>sc_row_addr_blocklist := v_row_addr_blocklist\<rparr>) = scanner_ok s"
  "scanner_ok (s\<lparr>sc_index_segments := v_index_segments\<rparr>) = scanner_ok s"
  "scanner_ok (s\<lparr>sc_scalar_index_segment := v_scalar_index_segment\<rparr>) = scanner_ok s"
  "scanner_ok (s\<lparr>sc_scalar_index_auto_selection := v_scalar_index_auto_selection\<rparr>) = scanner_ok s"
  "scanner_ok (s\<lparr>sc_approx_mode := v_approx_mode\<rparr>) = scanner_ok s"
  "scanner_ok (s\<lparr>sc_ef := v_ef\<rparr>) = scanner_ok s"
  "scanner_ok (s\<lparr>sc_metric_override := v_metric_override\<rparr>) = scanner_ok s"
  "scanner_ok (s\<lparr>sc_use_index := v_use_index\<rparr>) = scanner_ok s"
  "scanner_ok (s\<lparr>sc_prefilter := v_prefilter\<rparr>) = scanner_ok s"
  "scanner_ok (s\<lparr>sc_poisoned := v_poisoned\<rparr>) = scanner_ok s"
  "scanner_ok (s\<lparr>sc_scan_statistics_callback := v_scan_statistics_callback\<rparr>) = scanner_ok s"
  "scanner_ok (s\<lparr>sc_scan_started := v_scan_started\<rparr>) = scanner_ok s"
  "scanner_ok (s\<lparr>sc_stream := v_stream\<rparr>) = scanner_ok s"
  by (simp_all add: scanner_ok_defs cong: option.case_cong nearest_mode.case_cong)

text \<open>Every successful setter keeps the invariant.\<close>

lemma free_setter_ok:
  assumes "scanner_ok s"
  shows "scanner_set_scalar_index_auto_selection_inner b (Some s) = Ok s' \<Longrightarrow> scanner_ok s'"
    "scanner_set_scalar_index_segment_inner u (Some s) = Ok s' \<Longrightarrow> scanner_ok s'"
    "scanner_set_batch_size_inner i (Some s) = Ok s' \<Longrightarrow> scanner_ok s'"
    "scanner_set_scan_in_order_inner b (Some s) = Ok s' \<Longrightarrow> scanner_ok s'"
    "scanner_set_use_scalar_index_inner b (Some s) = Ok s' \<Longrightarrow> scanner_ok s'"
    "scanner_set_use_stats_inner b (Some s) = Ok s' \<Longrightarrow> scanner_ok s'"
    "scanner_set_blob_handling_inner i32 (Some s) = Ok s' \<Longrightarrow> scanner_ok s'"
    "scanner_with_row_id_inner b (Some s) = Ok s' \<Longrightarrow> scanner_ok s'"
    "scanner_with_row_address_inner b (Some s) = Ok s' \<Longrightarrow> scanner_ok s'"
    "scanner_set_include_deleted_rows_inner b (Some s) = Ok s' \<Longrightarrow> scanner_ok s'"
    "scanner_set_fragment_ids_inner p len (Some s) = Ok s' \<Longrightarrow> scanner_ok s'"
    "scanner_set_row_addr_list_inner p len which (Some s) = Ok s' \<Longrightarrow> scanner_ok s'"
    "scanner_set_substrait_filter_inner q len (Some s) = Ok s' \<Longrightarrow> scanner_ok s'"
    "scanner_set_statistics_callback_inner c (Some s) = Ok s' \<Longrightarrow> scanner_ok s'"
    "scanner_set_ef_inner v (Some s) = Ok s' \<Longrightarrow> scanner_ok s'"
    "scanner_set_approx_mode_inner i32 (Some s) = Ok s' \<Longrightarrow> scanner_ok s'"
    "scanner_set_metric_inner i32 (Some s) = Ok s' \<Longrightarrow> scanner_ok s'"
    "scanner_set_use_index_inner b (Some s) = Ok s' \<Longrightarrow> scanner_ok s'"
    "scanner_set_prefilter_inner b (Some s) = Ok s' \<Longrightarrow> scanner_ok s'"
    "scanner_set_index_segments_inner q len (Some s) = Ok s' \<Longrightarrow> scanner_ok s'"
  using assms
  by (auto simp: option_setter_defs knob_setter_defs setter_defs split: if_splits row_addr_list.splits)

lemma size_setter_ok:
  assumes "scanner_ok s"
  shows "scanner_set_batch_size_bytes_inner b64 (Some s) = Ok s' \<Longrightarrow> scanner_ok s'"
    "scanner_set_io_buffer_size_inner b64 (Some s) = Ok s' \<Longrightarrow> scanner_ok s'"
    "scanner_set_batch_readahead_inner n (Some s) = Ok s' \<Longrightarrow> scanner_ok s'"
    "scanner_set_fragment_readahead_inner n (Some s) = Ok s' \<Longrightarrow> scanner_ok s'"
    "scanner_set_target_parallelism_inner n (Some s) = Ok s' \<Longrightarrow> scanner_ok s'"
    "scanner_set_strict_batch_size_inner b (Some s) = Ok s' \<Longrightarrow> scanner_ok s'"
    "scanner_set_query_parallelism_inner qp (Some s) = Ok s' \<Longrightarrow> scanner_ok s'"
    "scanner_additional_sql_filter_inner f (Some s) = Ok s' \<Longrightarrow> scanner_ok s'"
    "scanner_set_fts_index_segments_inner us len (Some s) = Ok s' \<Longrightarrow> scanner_ok s'"
proof -
  have upd:
    "scanner_ok (s\<lparr>sc_batch_size_bytes := Some b64\<rparr>) \<longleftrightarrow> sc_strict_batch_size s \<noteq> Some True \<and> b64 \<noteq> 0"
    "scanner_ok (s\<lparr>sc_io_buffer_size := Some b64\<rparr>) \<longleftrightarrow> b64 \<noteq> 0 \<and> b64 \<le> i64_max"
    "scanner_ok (s\<lparr>sc_batch_readahead := Some n\<rparr>) \<longleftrightarrow> n \<noteq> 0"
    "scanner_ok (s\<lparr>sc_fragment_readahead := Some n\<rparr>) \<longleftrightarrow> n \<noteq> 0"
    "scanner_ok (s\<lparr>sc_target_parallelism := Some n\<rparr>) \<longleftrightarrow> n \<noteq> 0"
    "scanner_ok (s\<lparr>sc_strict_batch_size := Some strict\<rparr>) \<longleftrightarrow> strict = False \<or> sc_batch_size_bytes s = None"
    "scanner_ok (s\<lparr>sc_query_parallelism := Some qp\<rparr>) \<longleftrightarrow> - 1 \<le> sint qp"
    "scanner_ok (s\<lparr>sc_additional_sql_filters := sc_additional_sql_filters s @ [sql]\<rparr>) \<longleftrightarrow> sql \<noteq> []"
    "scanner_ok (s\<lparr>sc_fts_index_segments := segs\<rparr>) \<longleftrightarrow> (case segs of Some v \<Rightarrow> distinct v | None \<Rightarrow> True)"
    for sql segs strict
    using assms by (auto simp: scanner_ok_def sizes_ok_def nearest_ok_def search_exclusive_def
        cong: option.case_cong nearest_mode.case_cong)
  show "scanner_set_batch_size_bytes_inner b64 (Some s) = Ok s' \<Longrightarrow> scanner_ok s'"
    "scanner_set_io_buffer_size_inner b64 (Some s) = Ok s' \<Longrightarrow> scanner_ok s'"
    "scanner_set_batch_readahead_inner n (Some s) = Ok s' \<Longrightarrow> scanner_ok s'"
    "scanner_set_fragment_readahead_inner n (Some s) = Ok s' \<Longrightarrow> scanner_ok s'"
    "scanner_set_target_parallelism_inner n (Some s) = Ok s' \<Longrightarrow> scanner_ok s'"
    "scanner_set_strict_batch_size_inner b (Some s) = Ok s' \<Longrightarrow> scanner_ok s'"
    "scanner_set_query_parallelism_inner qp (Some s) = Ok s' \<Longrightarrow> scanner_ok s'"
    "scanner_additional_sql_filter_inner f (Some s) = Ok s' \<Longrightarrow> scanner_ok s'"
    "scanner_set_fts_index_segments_inner us len (Some s) = Ok s' \<Longrightarrow> scanner_ok s'"
    by (auto simp: option_setter_defs knob_setter_defs query_setter_defs setter_defs upd not_less
        parse_segment_uuids_eq_Ok split: if_splits)
qed

lemma nprobes_setter_ok:
  assumes "scanner_ok s"
  shows "scanner_set_nprobes_inner v (Some s) = Ok s' \<Longrightarrow> scanner_ok s'"
    "scanner_set_minimum_nprobes_inner v (Some s) = Ok s' \<Longrightarrow> scanner_ok s'"
    "scanner_set_maximum_nprobes_inner v (Some s) = Ok s' \<Longrightarrow> scanner_ok s'"
proof -
  have upd: "scanner_ok (s\<lparr>sc_nprobes := r\<rparr>) \<longleftrightarrow> nprobes_ok r" for r
    using assms by (simp add: scanner_ok_def sizes_ok_def nearest_ok_def search_exclusive_def
        cong: option.case_cong nearest_mode.case_cong)
  have "nprobes_ok (sc_nprobes s)" using assms by (simp add: scanner_ok_def)
  then show "scanner_set_nprobes_inner v (Some s) = Ok s' \<Longrightarrow> scanner_ok s'"
    "scanner_set_minimum_nprobes_inner v (Some s) = Ok s' \<Longrightarrow> scanner_ok s'"
    "scanner_set_maximum_nprobes_inner v (Some s) = Ok s' \<Longrightarrow> scanner_ok s'"
    by (auto simp: knob_setter_defs setter_defs upd nprobes_exact_def nprobes_with_minimum_def
        nprobes_with_maximum_def nprobes_ok_def not_less split: option.splits)
qed

lemma window_setter_ok:
  assumes "scanner_ok s"
  shows "scanner_set_limit_inner w (Some s) = Ok s' \<Longrightarrow> scanner_ok s'"
    "scanner_set_offset_inner w (Some s) = Ok s' \<Longrightarrow> scanner_ok s'"
    "scanner_set_refine_factor_inner v (Some s) = Ok s' \<Longrightarrow> scanner_ok s'"
proof -
  have upd: "\<not> is_batch_nearest (sc_nearest s) \<Longrightarrow> scanner_ok (s\<lparr>sc_limit := Some w\<rparr>)"
    "\<not> is_batch_nearest (sc_nearest s) \<Longrightarrow> scanner_ok (s\<lparr>sc_offset := Some w\<rparr>)"
    "\<not> is_batch_nearest (sc_nearest s) \<Longrightarrow> scanner_ok (s\<lparr>sc_refine_factor := Some v\<rparr>)"
    "sc_nearest s = Some q \<Longrightarrow> nq_mode q = Batch n \<Longrightarrow> validate_batch_candidates n (nq_k q) (Some v) = Ok () \<Longrightarrow>
       scanner_ok (s\<lparr>sc_refine_factor := Some v\<rparr>)" for q n
    using assms by (auto simp: scanner_ok_def sizes_ok_def nearest_ok_def search_exclusive_def is_batch_nearest_def
        cong: option.case_cong nearest_mode.case_cong split: option.split_asm nearest_mode.split_asm)
  show "scanner_set_limit_inner w (Some s) = Ok s' \<Longrightarrow> scanner_ok s'"
    "scanner_set_offset_inner w (Some s) = Ok s' \<Longrightarrow> scanner_ok s'"
    by (auto simp: option_setter_defs setter_defs upd)
  show "scanner_set_refine_factor_inner v (Some s) = Ok s' \<Longrightarrow> scanner_ok s'"
    by (cases "sc_nearest s"; cases "nq_mode (the (sc_nearest s))")
      (auto simp: knob_setter_defs setter_defs upd is_batch_nearest_def)
qed

lemma distance_setter_ok:
  assumes "scanner_ok s" "scanner_set_distance_range_inner api lo hi (Some s) = Ok s'"
  shows "scanner_ok s'"
proof -
  from assms(2) obtain q where q: "sc_nearest s = Some q" "nq_mode q = Single"
    and b: "check_bound api ''lower_bound'' lo = Ok ()" "check_bound api ''upper_bound'' hi = Ok ()"
      "\<not> (case (lo, hi) of (Some l, Some u) \<Rightarrow> f32_ge l u | _ \<Rightarrow> False)"
    and s': "s' = s\<lparr>sc_nearest := Some (q\<lparr>nq_lower_bound := lo, nq_upper_bound := hi\<rparr>)\<rparr>"
    by (auto simp: knob_setter_defs setter_defs)
  have "nearest_ok s (q\<lparr>nq_lower_bound := lo, nq_upper_bound := hi\<rparr>)"
    using assms(1) q b
    by (auto simp: scanner_ok_def nearest_ok_def check_bound_def outcome_ok split: option.splits)
  with assms(1) q show ?thesis
    by (simp add: s' scanner_ok_def sizes_ok_def nearest_ok_def search_exclusive_def
        cong: option.case_cong nearest_mode.case_cong)
qed

lemma search_setter_ok:
  assumes "scanner_ok s"
  shows "scanner_nearest_inner c q n e k (Some s) = Ok s' \<Longrightarrow> scanner_ok s'"
    "nearest_batch_inner api c q d m e k (Some s) = Ok s' \<Longrightarrow> scanner_ok s'"
    "nearest_multivector_inner api c q d m e k (Some s) = Ok s' \<Longrightarrow> scanner_ok s'"
    "fts_inner api c cols fz (Some s) = Ok s' \<Longrightarrow> scanner_ok s'"
    "scanner_set_fts_query_context_inner api ctx (Some s) = Ok s' \<Longrightarrow> scanner_ok s'"
proof -
  have upd: "scanner_ok (s\<lparr>sc_nearest := Some q\<rparr>) \<longleftrightarrow>
      nearest_ok s q \<and> sc_fts_query s = None \<and> sc_fts_context s = None"
    "scanner_ok (s\<lparr>sc_fts_query := Some ft\<rparr>) \<longleftrightarrow> sc_nearest s = None \<and> sc_fts_context s = None"
    "scanner_ok (s\<lparr>sc_fts_context := Some cx\<rparr>) \<longleftrightarrow> sc_nearest s = None \<and> sc_fts_query s = None \<and>
       arc_ptr_eq (fc_dataset (arc_val cx)) (sc_dataset s)" for q ft cx
    using assms by (auto simp: scanner_ok_def sizes_ok_def nearest_ok_def search_exclusive_def
        cong: option.case_cong nearest_mode.case_cong)
  show "scanner_nearest_inner c q n e k (Some s) = Ok s' \<Longrightarrow> scanner_ok s'"
    by (auto simp: query_setter_defs setter_defs upd nearest_ok_def split: option.splits)
  show "nearest_batch_inner api c q d m e k (Some s) = Ok s' \<Longrightarrow> scanner_ok s'"
    by (auto simp: query_setter_defs setter_defs upd nearest_ok_def unat_gt_0 split: option.splits)
  show "nearest_multivector_inner api c q d m e k (Some s) = Ok s' \<Longrightarrow> scanner_ok s'"
    by (auto simp: query_setter_defs setter_defs upd nearest_ok_def split: option.splits)
  show "fts_inner api c cols fz (Some s) = Ok s' \<Longrightarrow> scanner_ok s'"
    by (auto simp: query_setter_defs setter_defs upd split: option.split_asm if_split_asm)
  show "scanner_set_fts_query_context_inner api ctx (Some s) = Ok s' \<Longrightarrow> scanner_ok s'"
    by (auto simp: query_setter_defs setter_defs upd clone_context_def validate_dataset_identity_def
        split: option.splits)
qed

lemmas setter_ok = free_setter_ok size_setter_ok nprobes_setter_ok window_setter_ok search_setter_ok

lemma setting_inner_ok:
  assumes "scanner_ok s"
  shows "bool_setting_inner fb b (Some s) = Ok s' \<Longrightarrow> scanner_ok s'"
    "u32_setting_inner fu v (Some s) = Ok s' \<Longrightarrow> scanner_ok s'"
    "i32_setting_inner fi i (Some s) = Ok s' \<Longrightarrow> scanner_ok s'"
    "i64_setting_inner fl w (Some s) = Ok s' \<Longrightarrow> scanner_ok s'"
    "u64_setting_inner fw x (Some s) = Ok s' \<Longrightarrow> scanner_ok s'"
    "usize_setting_inner fz n (Some s) = Ok s' \<Longrightarrow> scanner_ok s'"
    "ids_setting_inner fd ids n (Some s) = Ok s' \<Longrightarrow> scanner_ok s'"
    "bytes_setting_inner fy bytes n (Some s) = Ok s' \<Longrightarrow> scanner_ok s'"
proof -
  note ok = setter_ok [OF assms]
  show "bool_setting_inner fb b (Some s) = Ok s' \<Longrightarrow> scanner_ok s'" by (cases fb) (simp_all add: ok)
  show "u32_setting_inner fu v (Some s) = Ok s' \<Longrightarrow> scanner_ok s'" by (cases fu) (simp_all add: ok)
  show "i32_setting_inner fi i (Some s) = Ok s' \<Longrightarrow> scanner_ok s'" by (cases fi) (simp_all add: ok)
  show "i64_setting_inner fl w (Some s) = Ok s' \<Longrightarrow> scanner_ok s'" by (cases fl) (simp_all add: ok)
  show "u64_setting_inner fw x (Some s) = Ok s' \<Longrightarrow> scanner_ok s'" by (cases fw) (simp_all add: ok)
  show "usize_setting_inner fz n (Some s) = Ok s' \<Longrightarrow> scanner_ok s'" by (cases fz) (simp_all add: ok)
  show "ids_setting_inner fd ids n (Some s) = Ok s' \<Longrightarrow> scanner_ok s'" by (cases fd) (simp_all add: ok)
  show "bytes_setting_inner fy bytes n (Some s) = Ok s' \<Longrightarrow> scanner_ok s'" by (cases fy) (simp_all add: ok)
qed

lemma scanner_op_inner_ok: "scanner_ok s \<Longrightarrow> scanner_op_inner api op (Some s) = Ok s' \<Longrightarrow> scanner_ok s'"
  by (cases op) (auto dest: setting_inner_ok setter_ok distance_setter_ok)

lemma scanner_entry_poisoned:
  "sc_poisoned s \<Longrightarrow> scanner_entry inner (Some s) t =
     (- 1, set_last_error CPanic ''scanner is poisoned by an earlier panic'' t, Some s)"
  by (simp add: scanner_entry_def)

lemma scanner_entry_Ok:
  "\<not> sc_poisoned s \<Longrightarrow> inner (Some s) = Ok s' \<Longrightarrow> scanner_entry inner (Some s) t = (0, clear_last_error t, Some s')"
  by (simp add: scanner_entry_def scanner_ffi_try_def ffi_guard_with_def)

lemma scanner_entry_not_Ok:
  assumes "\<not> sc_poisoned s" "\<And>s'. inner (Some s) \<noteq> Ok s'"
  shows "\<exists>t'. scanner_entry inner (Some s) t =
       (- 1, t', Some (if lance_last_error_code t' = CPanic then poison s else s)) \<and> lance_last_error_code t' \<noteq> COk"
  using assms
  by (cases "inner (Some s)")
    (auto simp: scanner_entry_def scanner_ffi_try_def ffi_guard_with_def set_lance_error_def
      recover_from_ffi_panic_def error_code_from_lance_def split: unwind.splits)

lemma scanner_ok_poison [simp]: "scanner_ok (poison s) = scanner_ok s"
  by (simp add: poison_def)

interpretation scanner_calls: guarded_handle "scanner_op_inner api" "scanner_op_call api" sc_poisoned poison scanner_ok
  for api :: "('ds, 'ix, 'par, 'sc) scanner_api"
proof unfold_locales
  fix s :: "('ds, 'sc, 'cb, 'st) lance_scanner" and s' op t
  show "sc_poisoned s \<Longrightarrow> scanner_op_call api op (Some s) t =
      (- 1, set_last_error CPanic ''scanner is poisoned by an earlier panic'' t, Some s)"
    by (simp add: scanner_op_call_eq scanner_entry_poisoned)
  show "\<not> sc_poisoned s \<Longrightarrow> scanner_op_inner api op (Some s) = Ok s' \<Longrightarrow>
      scanner_op_call api op (Some s) t = (0, clear_last_error t, Some s')"
    by (simp add: scanner_op_call_eq scanner_entry_Ok)
  show "\<not> sc_poisoned s \<Longrightarrow> (\<And>s'. scanner_op_inner api op (Some s) \<noteq> Ok s') \<Longrightarrow>
      \<exists>t'. scanner_op_call api op (Some s) t =
        (- 1, t', Some (if lance_last_error_code t' = CPanic then poison s else s)) \<and> lance_last_error_code t' \<noteq> COk"
    unfolding scanner_op_call_eq by (rule scanner_entry_not_Ok)
  show "sc_poisoned (poison s)" by (simp add: poison_def)
  show "scanner_ok s \<Longrightarrow> scanner_ok (poison s)" by simp
  show "scanner_ok s \<Longrightarrow> scanner_op_inner api op (Some s) = Ok s' \<Longrightarrow> scanner_ok s'"
    by (rule scanner_op_inner_ok)
qed

text \<open>A client's sequence of configuration calls on one handle, with the return codes.\<close>

primrec scanner_run ::
  "('ds, 'ix, 'par, 'sc) scanner_api \<Rightarrow> ('ds, 'sc, 'cb) scanner_op list \<Rightarrow> ('ds, 'sc, 'cb, 'st) lance_scanner ptr \<Rightarrow>
     tls \<Rightarrow> int list \<times> tls \<times> ('ds, 'sc, 'cb, 'st) lance_scanner ptr" where
  "scanner_run api [] p t = ([], t, p)"
| "scanner_run api (op # ops) p t =
     (let (rc, t', p') = scanner_op_call api op p t; (rcs, t'', p'') = scanner_run api ops p' t' in (rc # rcs, t'', p''))"

lemma scanner_run_eq: "scanner_run api ops p t = guarded_handle.calls (scanner_op_call api) ops p t"
  by (induction ops arbitrary: p t) (simp_all add: scanner_calls.calls.simps)

lemma ffi_try_handle: "ffi_try (obind m (\<lambda>s. Ok (Some s))) None t = (Some h, t') \<Longrightarrow> m = Ok h"
  by (cases m) (auto simp: ffi_try_Err ffi_try_Panic)

lemma lance_scanner_init_simps [simp]:
  "scanner_ok (lance_scanner_init d)"
  by (simp add: scanner_ok_defs)

lemma lance_scanner_new_ok:
  "lance_scanner_new ds cols f t = (Some s, t') \<Longrightarrow> scanner_ok s \<and> \<not> sc_poisoned s \<and> \<not> sc_scan_started s"
  unfolding lance_scanner_new_def
  by (drule ffi_try_handle) (auto simp: scanner_new_inner_def obind_eq_Ok split: option.splits)

text \<open>The settings that are frozen once a scan has started.\<close>

definition frozen_settings where
  "frozen_settings s =
     ((sc_dataset s, sc_columns s, sc_filter s, sc_additional_sql_filters s, sc_blob_handling s, sc_batch_size_bytes s,
       sc_strict_batch_size s, sc_io_buffer_size s, sc_batch_readahead s, sc_fragment_readahead s),
      (sc_target_parallelism s, sc_scan_in_order s, sc_use_scalar_index s, sc_use_stats s, sc_with_row_address s,
       sc_include_deleted_rows s, sc_row_addr_allowlist s, sc_row_addr_blocklist s),
      (sc_scalar_index_segment s, sc_scalar_index_auto_selection s, sc_nprobes s, sc_approx_mode s,
       sc_query_parallelism s, sc_scan_statistics_callback s, sc_scan_started s))"

lemma started_setter_frozen:
  assumes "sc_scan_started s"
  shows "bool_setting_inner fb b (Some s) = Ok s' \<Longrightarrow> frozen_settings s' = frozen_settings s"
    "u32_setting_inner fu v (Some s) = Ok s' \<Longrightarrow> frozen_settings s' = frozen_settings s"
    "i32_setting_inner fi i (Some s) = Ok s' \<Longrightarrow> frozen_settings s' = frozen_settings s"
    "i64_setting_inner fl w (Some s) = Ok s' \<Longrightarrow> frozen_settings s' = frozen_settings s"
    "u64_setting_inner fw x (Some s) = Ok s' \<Longrightarrow> frozen_settings s' = frozen_settings s"
    "usize_setting_inner fz n (Some s) = Ok s' \<Longrightarrow> frozen_settings s' = frozen_settings s"
    "ids_setting_inner fd ids n (Some s) = Ok s' \<Longrightarrow> frozen_settings s' = frozen_settings s"
    "bytes_setting_inner fy bytes n (Some s) = Ok s' \<Longrightarrow> frozen_settings s' = frozen_settings s"
proof -
  note defs = option_setter_defs knob_setter_defs query_setter_defs setter_defs frozen_settings_def assms
  show "bool_setting_inner fb b (Some s) = Ok s' \<Longrightarrow> frozen_settings s' = frozen_settings s"
    by (cases fb) (auto simp: defs)
  show "u32_setting_inner fu v (Some s) = Ok s' \<Longrightarrow> frozen_settings s' = frozen_settings s"
    by (cases fu) (auto simp: defs split: option.splits nearest_mode.splits)
  show "i32_setting_inner fi i (Some s) = Ok s' \<Longrightarrow> frozen_settings s' = frozen_settings s"
    by (cases fi) (auto simp: defs)
  show "i64_setting_inner fl w (Some s) = Ok s' \<Longrightarrow> frozen_settings s' = frozen_settings s"
    by (cases fl) (auto simp: defs)
  show "u64_setting_inner fw x (Some s) = Ok s' \<Longrightarrow> frozen_settings s' = frozen_settings s"
    by (cases fw) (auto simp: defs)
  show "usize_setting_inner fz n (Some s) = Ok s' \<Longrightarrow> frozen_settings s' = frozen_settings s"
    by (cases fz) (auto simp: defs)
  show "ids_setting_inner fd ids n (Some s) = Ok s' \<Longrightarrow> frozen_settings s' = frozen_settings s"
    by (cases fd) (auto simp: defs)
  show "bytes_setting_inner fy bytes n (Some s) = Ok s' \<Longrightarrow> frozen_settings s' = frozen_settings s"
    by (cases fy) (auto simp: defs split: if_splits)
qed

lemma started_query_frozen:
  assumes "sc_scan_started s"
  shows "scanner_set_scalar_index_segment_inner u (Some s) = Ok s' \<Longrightarrow> frozen_settings s' = frozen_settings s"
    "scanner_additional_sql_filter_inner f (Some s) = Ok s' \<Longrightarrow> frozen_settings s' = frozen_settings s"
    "scanner_set_statistics_callback_inner cb (Some s) = Ok s' \<Longrightarrow> frozen_settings s' = frozen_settings s"
    "scanner_set_distance_range_inner api lo hi (Some s) = Ok s' \<Longrightarrow> frozen_settings s' = frozen_settings s"
    "scanner_nearest_inner c q n e k (Some s) = Ok s' \<Longrightarrow> frozen_settings s' = frozen_settings s"
    "nearest_batch_inner api c q d m e k (Some s) = Ok s' \<Longrightarrow> frozen_settings s' = frozen_settings s"
    "nearest_multivector_inner api c q d m e k (Some s) = Ok s' \<Longrightarrow> frozen_settings s' = frozen_settings s"
    "fts_inner api c cols fz (Some s) = Ok s' \<Longrightarrow> frozen_settings s' = frozen_settings s"
    "scanner_set_fts_query_context_inner api ctx (Some s) = Ok s' \<Longrightarrow> frozen_settings s' = frozen_settings s"
proof -
  note defs = option_setter_defs knob_setter_defs query_setter_defs setter_defs assms
  have upd: "frozen_settings (s\<lparr>sc_nearest := nq\<rparr>) = frozen_settings s"
    "frozen_settings (s\<lparr>sc_fts_query := ft\<rparr>) = frozen_settings s"
    "frozen_settings (s\<lparr>sc_fts_context := cx\<rparr>) = frozen_settings s" for nq ft cx
    by (simp_all add: frozen_settings_def)
  show "scanner_set_scalar_index_segment_inner u (Some s) = Ok s' \<Longrightarrow> frozen_settings s' = frozen_settings s"
    "scanner_additional_sql_filter_inner f (Some s) = Ok s' \<Longrightarrow> frozen_settings s' = frozen_settings s"
    "scanner_set_statistics_callback_inner cb (Some s) = Ok s' \<Longrightarrow> frozen_settings s' = frozen_settings s"
    "scanner_set_distance_range_inner api lo hi (Some s) = Ok s' \<Longrightarrow> frozen_settings s' = frozen_settings s"
    by (auto simp: defs)
  show "scanner_nearest_inner c q n e k (Some s) = Ok s' \<Longrightarrow> frozen_settings s' = frozen_settings s"
    by (auto simp: defs upd split: option.split_asm)
  show "nearest_batch_inner api c q d m e k (Some s) = Ok s' \<Longrightarrow> frozen_settings s' = frozen_settings s"
    by (auto simp: defs upd split: option.split_asm)
  show "nearest_multivector_inner api c q d m e k (Some s) = Ok s' \<Longrightarrow> frozen_settings s' = frozen_settings s"
    by (auto simp: defs upd split: option.split_asm)
  show "fts_inner api c cols fz (Some s) = Ok s' \<Longrightarrow> frozen_settings s' = frozen_settings s"
    by (auto simp: defs upd split: option.split_asm if_split_asm)
  show "scanner_set_fts_query_context_inner api ctx (Some s) = Ok s' \<Longrightarrow> frozen_settings s' = frozen_settings s"
    by (auto simp: defs upd)
qed

lemma started_op_frozen:
  assumes "sc_scan_started s" "scanner_op_inner api op (Some s) = Ok s'"
  shows "frozen_settings s' = frozen_settings s"
  using assms(2)
  by (cases op) (auto dest: started_setter_frozen [OF assms(1)] started_query_frozen [OF assms(1)])

lemma frozen_settings_poison [simp]: "frozen_settings (poison s) = frozen_settings s"
  by (simp add: frozen_settings_def poison_def)

lemma frozen_started: "frozen_settings s' = frozen_settings s \<Longrightarrow> sc_scan_started s' = sc_scan_started s"
  by (simp add: frozen_settings_def)

lemma started_run_frozen:
  "sc_scan_started s \<Longrightarrow> \<exists>s'. snd (snd (scanner_run api ops (Some s) t)) = Some s' \<and> frozen_settings s' = frozen_settings s"
proof (induction ops arbitrary: s t)
  case (Cons op ops)
  obtain rc t1 p1 where c: "scanner_op_call api op (Some s) t = (rc, t1, p1)"
    by (cases "scanner_op_call api op (Some s) t")
  have "\<exists>s1. p1 = Some s1 \<and> frozen_settings s1 = frozen_settings s"
    using scanner_calls.call_changes [OF c] started_op_frozen [OF Cons.prems] by auto
  then obtain s1 where s1: "p1 = Some s1" "frozen_settings s1 = frozen_settings s" by blast
  have "sc_scan_started s1" using Cons.prems frozen_started [OF s1(2)] by blast
  from Cons.IH [OF this, of t1] s1 c show ?case by (auto simp: Let_def split: prod.splits)
qed simp

lemma nearest_batch_inner_OkD:
  assumes "nearest_batch_inner api column query_data dimension num_queries element_type k (Some s) = Ok s'"
  obtains buf count column_str vals where
    "query_data = Some buf" "unat num_queries \<le> max_batch_queries" "0 < unat num_queries"
    "0 < unat dimension" "unat dimension \<le> i32_max" "sc_limit s = None" "sc_offset s = None"
    "validate_batch_candidates num_queries k (sc_refine_factor s) = Ok ()"
    "batch_query_value_count dimension num_queries (of_nat (prim_width (array_type vals))) = Ok count"
    "decode_query_values buf count element_type = Ok vals" "batch_finite vals"
    "check_batch_column api (arc_val (sc_dataset s)) column_str dimension (array_type vals) = Ok ()"
    "s' = s\<lparr>sc_nearest := Some \<lparr>nq_mode = Batch num_queries, nq_column = column_str,
            nq_query = QMatrix dimension vals, nq_k = k, nq_lower_bound = None, nq_upper_bound = None\<rparr>\<rparr>"
proof -
  from assms obtain buf count column_str vals dtype where a:
    "query_data = Some buf" "unat num_queries \<le> max_batch_queries" "num_queries \<noteq> 0"
    "dimension \<noteq> 0" "unat dimension \<le> i32_max" "sc_limit s = None" "sc_offset s = None"
    "validate_batch_candidates num_queries k (sc_refine_factor s) = Ok ()"
    "prim_of_code element_type = Some dtype"
    "batch_query_value_count dimension num_queries (of_nat (prim_width dtype)) = Ok count"
    "decode_query_values buf count element_type = Ok vals" "batch_finite vals"
    "check_batch_column api (arc_val (sc_dataset s)) (the column_str) dimension dtype = Ok ()"
    "s' = s\<lparr>sc_nearest := Some \<lparr>nq_mode = Batch num_queries, nq_column = the column_str,
            nq_query = QMatrix dimension vals, nq_k = k, nq_lower_bound = None, nq_upper_bound = None\<rparr>\<rparr>"
    unfolding nearest_batch_inner_def
    by (auto simp: ensure_scan_not_started_def outcome_ok not_less simp del: prim_of_code.simps split: option.split_asm)
  moreover from a(9) decode_query_values_eq_Ok [OF a(11)] have "dtype = array_type vals" by simp
  ultimately show thesis by (intro that [of buf vals count "the column_str"]) (simp_all add: unat_gt_0)
qed

subsection \<open>Properties\<close>

text \<open>A small dataset to run the calls on: its columns are \<open>vec\<close>, lists of two floats, and no text index.\<close>

definition demo_scanner_api :: "(unit, unit, unit, unit) scanner_api" where
  "demo_scanner_api =
     \<lparr>sp_fts = \<lparr>fa_load_scalar_index = (\<lambda>_ _. Ok None), fa_load_indices_by_name = (\<lambda>_ _. Ok []),
        fa_fragment_ids = (\<lambda>_. [0]), fa_open_inverted = (\<lambda>_ _ _. Ok None), fa_params = (\<lambda>_. ()),
        fa_has_positions = (\<lambda>_. False), fa_query_tokens = (\<lambda>_ s. [s]), fa_build_scorer = (\<lambda>_ _ _. Ok ()),
        fa_uri = (\<lambda>_. ''memory''), fa_version_id = (\<lambda>_. 1)\<rparr>,
      sp_field = (\<lambda>_ c. if c = ''vec'' then Some (FixedSizeListT (PrimT Float32) 2) else None),
      sp_show_type = (\<lambda>_. ''type''), sp_show_f32 = (\<lambda>_. ''float''),
      sp_fixed_size_list = (\<lambda>_ _. Ok ()), sp_execution_error = internal_error, sp_fts_with_columns = (\<lambda>_ _. Ok ())\<rparr>"

abbreviation demo_handle :: "unit lance_dataset" where
  "demo_handle \<equiv> \<lparr>ds_inner = Arc 1 (), ds_lock_poisoned = False\<rparr>"

text \<open>C20. Whatever sequence of configuration calls a client makes on a new scanner, with whatever
  arguments, the handle stays consistent: at most one of vector query, text query and query context;
  a batch query has no global window, at most 128 queries and a candidate budget within bounds for
  the current refine factor; distance bounds are finite, ordered and only on a single query; the
  nprobes range is positive and ordered; strict and byte batch sizes are not both set; sizes are
  positive; and an attached context pins the scanner's own snapshot.\<close>

theorem scanner_config_invariant:
  assumes "lance_scanner_new dataset columns filter_ptr t0 = (Some s0, t1)"
  shows "\<exists>s. snd (snd (scanner_run api ops (Some s0) t)) = Some s \<and> scanner_ok s"
proof -
  obtain rcs t' p where r: "scanner_run api ops (Some s0) t = (rcs, t', p)"
    by (cases "scanner_run api ops (Some s0) t")
  from lance_scanner_new_ok [OF assms] have "scanner_ok s0" by simp
  from scanner_calls.calls_inv [OF this r [unfolded scanner_run_eq]] r show ?thesis by simp
qed

theorem scanner_config_invariant_witness:
  "\<exists>s :: (unit, unit, nat, unit) lance_scanner.
     snd (snd (scanner_run demo_scanner_api
       [OpU32 SetMinimumNprobes 4, OpU32 SetMaximumNprobes 2, OpI64 SetLimit 10, OpBool SetPrefilter True]
       (fst (lance_scanner_new (Some demo_handle) None None None)) None)) = Some s \<and> scanner_ok s"
proof -
  obtain s0 where n: "lance_scanner_new (Some demo_handle) None None None
      = (Some (s0 :: (unit, unit, nat, unit) lance_scanner), None)"
    by (simp add: lance_scanner_new_def scanner_new_inner_def parse_c_string_array_def clear_last_error_def)
  from scanner_config_invariant [OF n] show ?thesis unfolding n fst_conv by blast
qed

text \<open>Poisoning is absorbing: once a handle is poisoned, every later configuration call returns -1
  with \<open>LANCE_ERR_PANIC\<close> and changes nothing.\<close>

theorem poisoned_scanner_rejects:
  assumes "sc_poisoned s"
  shows "fst (scanner_run api ops (Some s) t) = replicate (length ops) (- 1) \<and>
    snd (snd (scanner_run api ops (Some s) t)) = Some s \<and>
    (ops = [] \<or> lance_last_error_code (fst (snd (scanner_run api ops (Some s) t))) = CPanic)"
  unfolding scanner_run_eq using assms by (rule scanner_calls.calls_poisoned)

theorem poisoned_scanner_rejects_witness:
  "fst (scanner_run demo_scanner_api [OpI64 SetLimit 1, OpU32 SetEf 2]
     (Some (poison (lance_scanner_init (Arc 1 ()) :: (unit, unit, nat, unit) lance_scanner))) None) = [- 1, - 1]"
proof -
  have "sc_poisoned (poison (lance_scanner_init (Arc 1 ()) :: (unit, unit, nat, unit) lance_scanner))"
    by (simp add: poison_def)
  from poisoned_scanner_rejects [OF this, of demo_scanner_api "[OpI64 SetLimit 1, OpU32 SetEf 2]" None]
  show ?thesis by simp
qed

text \<open>Every configuration call on a handle either succeeds (0, no error pending, the body's new handle) or
  fails (-1, an error pending) with the handle unchanged, except that a caught panic, which reports
  \<open>LANCE_ERR_PANIC\<close>, leaves it unchanged but poisoned.\<close>

theorem scanner_call_all_or_nothing:
  "case scanner_op_call api op (Some s) t of (rc, t', p) \<Rightarrow>
     (rc = 0 \<and> \<not> sc_poisoned s \<and> lance_last_error_code t' = COk \<and> scanner_op_inner api op (Some s) = Ok (the p)) \<or>
     (rc = - 1 \<and> lance_last_error_code t' \<noteq> COk \<and>
       (p = Some s \<or> (lance_last_error_code t' = CPanic \<and> p = Some (s\<lparr>sc_poisoned := True\<rparr>))))"
  by (cases rule: scanner_calls.call_cases [of s api op t]) (auto simp: poison_def)

text \<open>C21. Once a scan has started, no sequence of configuration calls changes the settings that the code
  guards: projection, filters, batch sizes in bytes and strictness, buffers, read-ahead,
  parallelism, order, index and statistics flags, row address and deleted-row flags, row lists,
  scalar segment, nprobes, approximation mode, query parallelism and statistics callback.\<close>

theorem started_scan_freezes_settings:
  assumes "sc_scan_started s" "scanner_run api ops (Some s) t = (rcs, t', Some s')"
  shows "frozen_settings s' = frozen_settings s"
  using started_run_frozen [OF assms(1), of api ops t] assms(2) by auto

theorem started_scan_freezes_settings_witness:
  "\<exists>rcs t' s'. scanner_run demo_scanner_api [OpBool SetUseStats False, OpI64 SetLimit 3]
       (Some ((lance_scanner_init (Arc 1 ()) :: (unit, unit, nat, unit) lance_scanner)\<lparr>sc_scan_started := True\<rparr>)) None
     = (rcs, t', Some s') \<and> sc_use_stats s' = None"
proof -
  let ?s = "(lance_scanner_init (Arc 1 ()) :: (unit, unit, nat, unit) lance_scanner)\<lparr>sc_scan_started := True\<rparr>"
  have st: "sc_scan_started ?s" by simp
  obtain rcs t' s' where r: "scanner_run demo_scanner_api [OpBool SetUseStats False, OpI64 SetLimit 3] (Some ?s) None
      = (rcs, t', Some s')"
    using started_run_frozen [OF st, of demo_scanner_api "[OpBool SetUseStats False, OpI64 SetLimit 3]" None]
    by (metis prod.collapse)
  from started_scan_freezes_settings [OF st r] have "sc_use_stats s' = None"
    by (simp add: frozen_settings_def)
  with r show ?thesis by blast
qed

text \<open>An accepted batch query is bounded and well formed: it is stored as the matrix of exactly
  \<open>dimension * num_queries\<close> finite elements decoded from the caller's aligned buffer (no product
  wraps), at most 64 MiB in all, with at most 128 queries, a candidate count
  \<open>num_queries * k * refine_factor\<close> of at most 100000, and no global window beside it.\<close>

theorem batch_query_bounded:
  assumes "nearest_batch_inner api column (Some buf) dimension num_queries element_type k (Some s) = Ok s'"
    and "unat dimension * unat num_queries \<le> length (rb_bytes buf)"
  shows "\<exists>column_str vals.
    sc_nearest s' = Some \<lparr>nq_mode = Batch num_queries, nq_column = column_str, nq_query = QMatrix dimension vals,
        nq_k = k, nq_lower_bound = None, nq_upper_bound = None\<rparr> \<and>
    array_length vals = unat dimension * unat num_queries \<and> batch_finite vals \<and>
    array_length vals * prim_width (array_type vals) \<le> 64 * 1024 * 1024 \<and>
    unat (rb_addr buf) mod prim_width (array_type vals) = 0 \<and>
    unat num_queries \<le> 128 \<and>
    unat num_queries * unat k * (case sc_refine_factor s' of Some r \<Rightarrow> unat r | None \<Rightarrow> 1) \<le> 100000 \<and>
    sc_limit s' = None \<and> sc_offset s' = None"
proof -
  from assms(1) obtain b count column_str vals where bf: "Some buf = Some b"
    and n: "unat num_queries \<le> max_batch_queries" "0 < unat num_queries"
      "0 < unat dimension" "unat dimension \<le> i32_max" "sc_limit s = None" "sc_offset s = None"
    and cand: "validate_batch_candidates num_queries k (sc_refine_factor s) = Ok ()"
    and count: "batch_query_value_count dimension num_queries (of_nat (prim_width (array_type vals))) = Ok count"
    and dec: "decode_query_values b count element_type = Ok vals" and fin: "batch_finite vals"
    and col: "check_batch_column api (arc_val (sc_dataset s)) column_str dimension (array_type vals) = Ok ()"
    and s': "s' = s\<lparr>sc_nearest := Some \<lparr>nq_mode = Batch num_queries, nq_column = column_str,
            nq_query = QMatrix dimension vals, nq_k = k, nq_lower_bound = None, nq_upper_bound = None\<rparr>\<rparr>"
    by (rule nearest_batch_inner_OkD)
  from bf have b: "b = buf" by simp
  have w: "unat (of_nat (prim_width t) :: usize) = prim_width t" for t
    by (cases t) simp_all
  from count have c: "unat count = unat dimension * unat num_queries"
    "unat dimension * unat num_queries * prim_width (array_type vals) \<le> max_batch_query_bytes"
    by (simp_all add: batch_query_value_count_eq_Ok w)
  have "array_length vals = unat dimension * unat num_queries"
    using decode_query_values_length [OF dec] assms(2) c(1) b by simp
  with b n c cand fin decode_query_values_eq_Ok [OF dec] show ?thesis
    by (simp add: s' max_batch_queries_def max_batch_query_bytes_def validate_batch_candidates_eq_Ok Let_def
        max_batch_candidates_def)
qed

definition demo_matrix :: raw_buffer where
  "demo_matrix = \<lparr>rb_addr = 64, rb_bytes = replicate 16 0\<rparr>"

lemma demo_batch_call: "nearest_batch_inner demo_scanner_api (Some ''vec'') (Some demo_matrix) 2 2 0 10
     (Some (lance_scanner_init (Arc 1 ()) :: (unit, unit, nat, unit) lance_scanner)) =
   Ok ((lance_scanner_init (Arc 1 ()))\<lparr>sc_nearest := Some \<lparr>nq_mode = Batch 2, nq_column = ''vec'',
         nq_query = QMatrix 2 (Float32Array [0, 0, 0, 0]), nq_k = 10, nq_lower_bound = None, nq_upper_bound = None\<rparr>\<rparr>)"
proof -
  let ?s = "lance_scanner_init (Arc 1 ()) :: (unit, unit, nat, unit) lance_scanner"
  have v: "validate_batch_candidates (2 :: usize) 10 None = Ok ()"
    by (simp add: validate_batch_candidates_eq_Ok max_batch_candidates_def)
  have c: "batch_query_value_count (2 :: usize) 2 (of_nat (prim_width Float32)) = Ok 4"
    by (simp add: batch_query_value_count_eq_Ok max_batch_query_bytes_def)
  have p: "parse_c_string (Some ''vec'') = Ok (Some ''vec'')" by code_simp
  have d: "decode_query_values demo_matrix 4 0 = Ok (Float32Array [0, 0, 0, 0])"
  proof -
    have "le_words 4 (replicate 16 0) 4 = [0, 0, 0, 0 :: u32]" by code_simp
    then show ?thesis by (simp add: decode_query_values_def demo_matrix_def Let_def)
  qed
  have b: "f32_finite 0" by code_simp
  have n: "unat (2 :: usize) = 2" by simp
  show ?thesis
    by (simp add: nearest_batch_inner_def ensure_scan_not_started_def v c p d b n i32_max_def max_batch_queries_def
      check_batch_column_def demo_scanner_api_def del: prim_width.simps)
qed

theorem batch_query_bounded_witness:
  "\<exists>s' :: (unit, unit, nat, unit) lance_scanner.
     nearest_batch_inner demo_scanner_api (Some ''vec'') (Some demo_matrix) 2 2 0 10
       (Some (lance_scanner_init (Arc 1 ()))) = Ok s' \<and> sc_limit s' = None"
proof -
  note call = demo_batch_call
  have "unat (2 :: usize) * unat (2 :: usize) \<le> length (rb_bytes demo_matrix)"
    by (simp add: demo_matrix_def)
  from batch_query_bounded [OF call this] call show ?thesis by blast
qed

end
