(* ===== verification/Scanner_Build.thy ===== *)
theory Scanner_Build
  imports Scan_Calls Scanner_Contract
begin

text \<open>
  Model of \<open>LanceScanner::build_scanner\<close> of \<open>src/scanner.rs\<close> and of what it calls: the translation
  of the handle's settings into calls on Lance's scanner, in the code's order, with its conflict
  checks, and the state that prepared text searches, multi-vector searches and scalar segments add.
\<close>

subsection \<open>Parts of the build\<close>

definition row_addr_mask_of :: "('ds, 'sc, 'cb, 'st) lance_scanner \<Rightarrow> row_addr_mask option" where
  "row_addr_mask_of s =
     (case (sc_row_addr_allowlist s, sc_row_addr_blocklist s) of
        (Some a, Some b) \<Rightarrow> Some \<lparr>rm_allow = Some a, rm_block = Some b\<rparr>
      | (Some a, None) \<Rightarrow> Some \<lparr>rm_allow = Some a, rm_block = None\<rparr>
      | (None, Some b) \<Rightarrow> Some \<lparr>rm_allow = None, rm_block = Some b\<rparr>
      | (None, None) \<Rightarrow> None)"

definition apply_fragment_filter ::
  "('ds, 'e, 'cb) planner_api \<Rightarrow> ('ds, 'sc, 'cb, 'st) lance_scanner \<Rightarrow> ('e, 'cb) scan_calls" where
  "apply_fragment_filter pl s =
     call_if_set (\<lambda>ids. CWithFragments (filter (\<lambda>f. fr_id f \<in> set ids) (pl_fragments pl (arc_val (sc_dataset s)))))
       (sc_fragment_ids s)"

text \<open>Each additional filter is planned on a clone of the scanner; its expression is then combined.\<close>

fun combine_filters ::
  "('ds, 'e, 'cb) planner_api \<Rightarrow> ('e, 'cb) scan_calls \<Rightarrow> string list \<Rightarrow> 'e option \<Rightarrow> 'e option outcome" where
  "combine_filters pl sc [] combined = Ok combined"
| "combine_filters pl sc (sql # sqls) combined =
     obind (fallible_call pl (CFilter sql) sc) (\<lambda>clone.
     obind (pl_expr_filter pl clone) (\<lambda>additional.
     case additional of
       None \<Rightarrow> Panic (StringPayload ''additional SQL filter exists'')
     | Some a \<Rightarrow> combine_filters pl sc sqls
         (Some (case combined of Some existing \<Rightarrow> pl_and pl existing a | None \<Rightarrow> a))))"

definition primary_filter ::
  "('ds, 'e, 'cb) planner_api \<Rightarrow> ('ds, 'sc, 'cb, 'st) lance_scanner \<Rightarrow> ('e, 'cb) scan_calls \<Rightarrow> ('e, 'cb) scan_calls outcome" where
  "primary_filter pl s sc =
     (case sc_substrait_filter s of
        Some substrait \<Rightarrow> fallible_call pl (CFilterSubstrait substrait) sc
      | None \<Rightarrow> (case sc_filter s of Some sql \<Rightarrow> fallible_call pl (CFilter sql) sc | None \<Rightarrow> Ok sc))"

definition apply_filter ::
  "('ds, 'e, 'cb) planner_api \<Rightarrow> ('ds, 'sc, 'cb, 'st) lance_scanner \<Rightarrow> ('e, 'cb) scan_calls \<Rightarrow> ('e, 'cb) scan_calls outcome" where
  "apply_filter pl s sc =
     obind (primary_filter pl s sc) (\<lambda>sc1.
     if sc_additional_sql_filters s = [] then Ok sc1
     else obind (pl_expr_filter pl sc1) (\<lambda>combined.
          obind (combine_filters pl sc1 (sc_additional_sql_filters s) combined) (\<lambda>result.
          case result of
            Some e \<Rightarrow> Ok (sc1 @ [CFilterExpr e])
          | None \<Rightarrow> Panic (StringPayload ''additional SQL filter exists''))))"

text \<open>The settings that are passed on as they are.\<close>

definition plain_settings :: "('ds, 'sc, 'cb, 'st) lance_scanner \<Rightarrow> ('e, 'cb) scan_calls" where
  "plain_settings s =
     call_if_set CBatchSize (sc_batch_size s) @ call_if_set CBatchSizeBytes (sc_batch_size_bytes s) @
     call_if_set CStrictBatchSize (sc_strict_batch_size s) @ call_if_set CIoBufferSize (sc_io_buffer_size s) @
     call_if_set CBatchReadahead (sc_batch_readahead s) @ call_if_set CFragmentReadahead (sc_fragment_readahead s) @
     call_if_set CTargetParallelism (sc_target_parallelism s) @ call_if_set CScanInOrder (sc_scan_in_order s) @
     call_if_set CUseScalarIndex (sc_use_scalar_index s) @ call_if_set CUseStats (sc_use_stats s) @
     call_if (sc_with_row_id s) CWithRowId @ call_if (sc_with_row_address s) CWithRowAddress @
     call_if (sc_include_deleted_rows s) CIncludeDeletedRows"

definition is_multi_vector :: "('ds, 'sc, 'cb, 'st) lance_scanner \<Rightarrow> bool" where
  "is_multi_vector s \<longleftrightarrow> (case sc_nearest s of Some q \<Rightarrow> nq_mode q = MultiVector | None \<Rightarrow> False)"

definition window_calls ::
  "('ds, 'e, 'cb) planner_api \<Rightarrow> ('ds, 'sc, 'cb, 'st) lance_scanner \<Rightarrow> ('e, 'cb) scan_calls \<Rightarrow> ('e, 'cb) scan_calls outcome" where
  "window_calls pl s sc =
     (if sc_limit s \<noteq> None \<or> sc_offset s \<noteq> None
      then obind (fallible_call pl (CLimit (sc_limit s) (sc_offset s)) sc) (\<lambda>sc1.
           if is_multi_vector s then fallible_call pl (CLimit None None) sc1 else Ok sc1)
      else Ok sc)"

text \<open>The refinement of a multi-vector query: always present, and bounded with k.\<close>

definition refine_calls ::
  "('ds, 'sc, 'cb, 'st) lance_scanner \<Rightarrow> nearest_query \<Rightarrow> ('e, 'cb) scan_calls \<Rightarrow> ('e, 'cb) scan_calls outcome" where
  "refine_calls s n sc =
     (if is_multi_vector s then
        reject_if (sc_metric_override s = Some Hamming)
          (invalid_input ''multi-vector queries support only l2, cosine, and dot metrics'') (
        let refine = (case sc_refine_factor s of Some r \<Rightarrow> r | None \<Rightarrow> 1) in
        reject_if (refine = 0 \<or> max_query_vector_candidates div unat refine < unat (nq_k n))
          (invalid_input ''multi-vector refined candidate count must be in 1..=100000'')
          (Ok (sc @ [CRefine refine])))
      else Ok (sc @ call_if_set CRefine (sc_refine_factor s)))"

definition nearest_calls ::
  "('ds, 'e, 'cb) planner_api \<Rightarrow> ('ds, 'sc, 'cb, 'st) lance_scanner \<Rightarrow> ('e, 'cb) scan_calls \<Rightarrow> ('e, 'cb) scan_calls outcome" where
  "nearest_calls pl s sc =
     (case sc_nearest s of
        None \<Rightarrow> Ok sc
      | Some n \<Rightarrow>
          obind (fallible_call pl (CNearest (nq_column n) (nq_query n) (nq_k n)) sc) (\<lambda>sc1.
          let sc2 = sc1 @ [CDistanceRange (nq_lower_bound n) (nq_upper_bound n)] @
                call_if_set CMinimumNprobes (np_minimum (sc_nprobes s)) @
                call_if_set CMaximumNprobes (np_maximum (sc_nprobes s)) @
                call_if_set CApproxMode (sc_approx_mode s) @ call_if_set CQueryParallelism (sc_query_parallelism s) in
          obind (refine_calls s n sc2) (\<lambda>sc3.
          let sc4 = sc3 @ call_if_set CEf (sc_ef s) @
                (case sc_metric_override s of
                   Some m \<Rightarrow> [CDistanceMetric m]
                 | None \<Rightarrow> call_if (is_multi_vector s) (CDistanceMetric L2)) @
                call_if_set CUseIndex (sc_use_index s) in
          case sc_index_segments s of
            Some segments \<Rightarrow> fallible_call pl (CIndexSegments segments) sc4
          | None \<Rightarrow> Ok sc4)))"

subsection \<open>Prepared state\<close>

record ('ds, 'sc, 'cb) prepared_fts =
  pf_context :: "('ds, 'sc) fts_query_context arc"
  pf_segments :: "index_metadata list"
  pf_scope_prefilter :: bool
  pf_row_addr_mask :: "row_addr_mask option"
  pf_batch_size :: "usize option"
  pf_callback :: "'cb option"

record ('ds, 'cb) prepared_scalar_segment =
  ps_dataset :: "'ds arc"
  ps_segment_uuid :: uuid
  ps_auto_selection :: bool
  ps_fragment_ids :: "u64 list"
  ps_use_scalar_index :: bool
  ps_callback :: "'cb option"

record ('ds, 'sc, 'e, 'cb) prepared_scanner =
  pr_scanner :: "('e, 'cb) scan_calls"
  pr_fts :: "('ds, 'sc, 'cb) prepared_fts option"
  pr_window :: "(usize \<times> usize option) option"
  pr_batch_size :: "usize option"
  pr_callback :: "'cb option"
  pr_scalar_segment :: "('ds, 'cb) prepared_scalar_segment option"

text \<open>\<open>select_fts_segments\<close>: the requested segments of a context, or all of them.\<close>

fun select_each ::
  "('ds, 'ix, 'par, 'sc) fts_api \<Rightarrow> ('ds, 'sc) fts_query_context \<Rightarrow> uuid list \<Rightarrow> index_metadata list outcome" where
  "select_each api ctx [] = Ok []"
| "select_each api ctx (uuid # uuids) =
     obind (ok_or (find (\<lambda>seg. im_uuid seg = uuid) (fc_segments ctx))
       (invalid_input (''FTS segment UUID '' @ show_uuid uuid @
          '' is not present in the attached query context for dataset version '' @
          show_u (fa_version_id api (arc_val (fc_dataset ctx)))))) (\<lambda>seg.
     obind (select_each api ctx uuids) (\<lambda>rest. Ok (seg # rest)))"

definition select_fts_segments ::
  "('ds, 'ix, 'par, 'sc) fts_api \<Rightarrow> ('ds, 'sc) fts_query_context \<Rightarrow> uuid list option \<Rightarrow> index_metadata list outcome" where
  "select_fts_segments api ctx selected_uuids =
     (case selected_uuids of
        None \<Rightarrow> Ok (fc_segments ctx)
      | Some uuids \<Rightarrow> obind (select_each api ctx uuids) (\<lambda>selected.
          reject_if (selected = []) (invalid_input ''FTS segment subset must contain at least one UUID'') (Ok selected)))"

definition prepare_fts ::
  "('ds, 'ix, 'par, 'sc) fts_api \<Rightarrow> ('ds, 'e, 'cb) planner_api \<Rightarrow> ('ds, 'sc, 'cb, 'st) lance_scanner \<Rightarrow>
     row_addr_mask option \<Rightarrow> ('e, 'cb) scan_calls \<Rightarrow>
     (('ds, 'sc, 'cb) prepared_fts option \<times> ('e, 'cb) scan_calls) outcome" where
  "prepare_fts api pl s rmask sc =
     (case sc_fts_context s of
        None \<Rightarrow> Ok (None, sc)
      | Some context \<Rightarrow>
          obind (validate_dataset_identity api (arc_val context) (sc_dataset s)) (\<lambda>_.
          obind (select_fts_segments api (arc_val context) (sc_fts_index_segments s)) (\<lambda>segments.
          obind (fallible_call pl (CFullTextSearch (fc_query (arc_val context))) sc) (\<lambda>sc1.
          Ok (Some \<lparr>pf_context = context, pf_segments = segments,
                pf_scope_prefilter = (sc_prefilter s \<and> (sc_filter s \<noteq> None \<or> sc_substrait_filter s \<noteq> None \<or>
                   sc_additional_sql_filters s \<noteq> [])),
                pf_row_addr_mask = rmask, pf_batch_size = sc_batch_size s,
                pf_callback = sc_scan_statistics_callback s\<rparr>, sc1)))))"

definition prepare_scalar_segment ::
  "('ds, 'sc, 'cb, 'st) lance_scanner \<Rightarrow> ('ds, 'cb) prepared_scalar_segment option outcome" where
  "prepare_scalar_segment s =
     (case sc_scalar_index_segment s of
        None \<Rightarrow> Ok None
      | Some segment_uuid \<Rightarrow>
          reject_if (sc_nearest s \<noteq> None \<or> sc_fts_query s \<noteq> None \<or> sc_fts_context s \<noteq> None \<or>
                     sc_index_segments s \<noteq> None \<or> sc_fts_index_segments s \<noteq> None \<or> sc_include_deleted_rows s)
            (invalid_input ''scalar_index_segment requires an ordinary scan of live rows; vector/FTS queries and include_deleted_rows=true are unsupported'') (
          obind (ok_or (case sc_fragment_ids s of Some ids \<Rightarrow> if ids = [] then None else Some ids | None \<Rightarrow> None)
            (invalid_input ''scalar_index_segment requires explicit nonempty fragment_ids for its read and fallback domain'')) (\<lambda>ids.
          Ok (Some \<lparr>ps_dataset = sc_dataset s, ps_segment_uuid = segment_uuid,
                ps_auto_selection = sc_scalar_index_auto_selection s, ps_fragment_ids = ids,
                ps_use_scalar_index = (case sc_use_scalar_index s of Some b \<Rightarrow> b | None \<Rightarrow> True),
                ps_callback = sc_scan_statistics_callback s\<rparr>))))"

subsection \<open>The build\<close>

text \<open>The candidate check that batch queries get again.\<close>

definition recheck_batch :: "('ds, 'sc, 'cb, 'st) lance_scanner \<Rightarrow> unit outcome" where
  "recheck_batch s =
     (case sc_nearest s of
        Some q \<Rightarrow> (case nq_mode q of
            Batch num_queries \<Rightarrow> validate_batch_candidates num_queries (nq_k q) (sc_refine_factor s)
          | _ \<Rightarrow> Ok ())
      | None \<Rightarrow> Ok ())"

definition build_scanner_body ::
  "('ds, 'ix, 'par, 'sc) fts_api \<Rightarrow> ('ds, 'e, 'cb) planner_api \<Rightarrow> ('ds, 'sc, 'cb, 'st) lance_scanner \<Rightarrow>
     ('ds, 'sc, 'e, 'cb) prepared_scanner outcome" where
  "build_scanner_body api pl s =
     obind (case sc_columns s of Some cols \<Rightarrow> fallible_call pl (CProject cols) [] | None \<Rightarrow> Ok []) (\<lambda>sc0.
     let sc1 = sc0 @ call_if_set CBlobHandling (sc_blob_handling s) in
     obind (recheck_batch s) (\<lambda>_.
     obind (window_calls pl s sc1) (\<lambda>sc2.
     let after_nearest = (sc_nearest s \<noteq> None \<and> \<not> sc_prefilter s);
         sc3 = sc2 @ plain_settings s @ (if after_nearest then [] else apply_fragment_filter pl s) in
     reject_if (sc_index_segments s \<noteq> None \<and> sc_nearest s = None)
       (invalid_input ''index_segments requires nearest() to be configured'') (
     reject_if (sc_fts_index_segments s \<noteq> None \<and> sc_fts_context s = None)
       (invalid_input ''fts_index_segments requires an FTS query context'') (
     reject_if (sc_fts_context s \<noteq> None \<and> sc_fragment_ids s \<noteq> None)
       (invalid_input ''fragment_ids cannot be combined with an FTS query context; split the query by FTS index segment UUID instead'') (
     let rmask = row_addr_mask_of s in
     reject_if (rmask \<noteq> None \<and> sc_scalar_index_segment s \<noteq> None)
       (invalid_input ''row address allowlist/blocklist cannot be combined with scalar_index_segment'') (
     obind (nearest_calls pl s (sc3 @ call_if_set CRowAddrPrefilter rmask @ call_if (sc_prefilter s) (CPrefilter True))) (\<lambda>sc4.
     let sc5 = sc4 @ (if after_nearest then apply_fragment_filter pl s else []) in
     obind (case sc_fts_query s of Some q \<Rightarrow> fallible_call pl (CFullTextSearch q) sc5 | None \<Rightarrow> Ok sc5) (\<lambda>sc6.
     obind (prepare_fts api pl s rmask sc6) (\<lambda>(fts, sc7).
     obind (apply_filter pl s sc7) (\<lambda>sc8.
     obind (prepare_scalar_segment s) (\<lambda>scalar.
     Ok \<lparr>pr_scanner = sc8 @ call_if_set (\<lambda>cb. CStatsCallback (PlainCallback cb)) (sc_scan_statistics_callback s),
         pr_fts = fts,
         pr_window = (if is_multi_vector s
           then Some ((case sc_offset s of Some n \<Rightarrow> n | None \<Rightarrow> 0), sc_limit s) else None),
         pr_batch_size = sc_batch_size s, pr_callback = sc_scan_statistics_callback s,
         pr_scalar_segment = scalar\<rparr>))))))))))))"

text \<open>Building marks the scan as started first, whatever happens then.\<close>

definition build_scanner ::
  "('ds, 'ix, 'par, 'sc) fts_api \<Rightarrow> ('ds, 'e, 'cb) planner_api \<Rightarrow> ('ds, 'sc, 'cb, 'st) lance_scanner \<Rightarrow>
     ('ds, 'sc, 'e, 'cb) prepared_scanner outcome \<times> ('ds, 'sc, 'cb, 'st) lance_scanner" where
  "build_scanner api pl s = (build_scanner_body api pl s, s\<lparr>sc_scan_started := True\<rparr>)"

subsection \<open>Lemmas\<close>

text \<open>What a call is about.\<close>

datatype call_class = WindowCall | DomainCall | MaskCall | FilterCall | TextCall | SettingCall

definition call_class :: "('e, 'cb) scan_call \<Rightarrow> call_class" where
  "call_class c =
     (case c of
        CLimit _ _ \<Rightarrow> WindowCall | CWithFragments _ \<Rightarrow> DomainCall | CNearest _ _ _ \<Rightarrow> DomainCall
      | CRowAddrPrefilter _ \<Rightarrow> MaskCall | CFilterSubstrait _ \<Rightarrow> FilterCall | CFilter _ \<Rightarrow> FilterCall
      | CFilterExpr _ \<Rightarrow> FilterCall | CFullTextSearch _ \<Rightarrow> TextCall | _ \<Rightarrow> SettingCall)"

abbreviation of_class :: "call_class \<Rightarrow> ('e, 'cb) scan_calls \<Rightarrow> ('e, 'cb) scan_calls" where
  "of_class k sc \<equiv> filter (\<lambda>c. call_class c = k) sc"

lemma call_class_simps [simp]:
  "call_class (CLimit l m) = WindowCall" "call_class (CWithFragments fs) = DomainCall"
  "call_class (CNearest c q k) = DomainCall" "call_class (CRowAddrPrefilter r) = MaskCall"
  "call_class (CFilterSubstrait b) = FilterCall" "call_class (CFilter f) = FilterCall"
  "call_class (CFilterExpr e) = FilterCall" "call_class (CFullTextSearch ft) = TextCall"
  "call_class (CProject cs) = SettingCall" "call_class (CBlobHandling h) = SettingCall"
  "call_class (CBatchSize n) = SettingCall" "call_class (CBatchSizeBytes n) = SettingCall"
  "call_class (CStrictBatchSize b') = SettingCall" "call_class (CIoBufferSize n) = SettingCall"
  "call_class (CBatchReadahead n) = SettingCall" "call_class (CFragmentReadahead n) = SettingCall"
  "call_class (CTargetParallelism n) = SettingCall" "call_class (CScanInOrder b') = SettingCall"
  "call_class (CUseScalarIndex b') = SettingCall" "call_class (CUseStats b') = SettingCall"
  "call_class CWithRowId = SettingCall" "call_class CWithRowAddress = SettingCall"
  "call_class CIncludeDeletedRows = SettingCall" "call_class (CPrefilter b') = SettingCall"
  "call_class (CDistanceRange lo hi) = SettingCall" "call_class (CMinimumNprobes v) = SettingCall"
  "call_class (CMaximumNprobes v) = SettingCall" "call_class (CApproxMode a) = SettingCall"
  "call_class (CQueryParallelism v) = SettingCall" "call_class (CRefine v) = SettingCall"
  "call_class (CEf v) = SettingCall" "call_class (CDistanceMetric mt) = SettingCall"
  "call_class (CUseIndex b') = SettingCall" "call_class (CIndexSegments us) = SettingCall"
  "call_class (CStatsCallback cb) = SettingCall"
  by (simp_all add: call_class_def)

lemma of_class_call_if_set [simp]:
  "(\<And>x. call_class (f x) = k') \<Longrightarrow> of_class k (call_if_set f v) = (if k = k' then call_if_set f v else [])"
  by (cases v) auto

lemma of_class_call_if [simp]: "of_class k (call_if b c) = (if call_class c = k then call_if b c else [])"
  by (cases b) auto

lemma of_class_plain_settings [simp]: "k \<noteq> SettingCall \<Longrightarrow> of_class k (plain_settings s) = []"
  by (simp add: plain_settings_def)

lemma of_class_fragments [simp]:
  "of_class k (apply_fragment_filter pl s) = (if k = DomainCall then apply_fragment_filter pl s else [])"
  by (simp add: apply_fragment_filter_def)

lemma window_calls_eq_Ok:
  "window_calls pl s sc = Ok sc' \<Longrightarrow> sc' = sc @
     (if sc_limit s \<noteq> None \<or> sc_offset s \<noteq> None
      then CLimit (sc_limit s) (sc_offset s) # call_if (is_multi_vector s) (CLimit None None) else [])"
  by (auto simp: window_calls_def outcome_ok fallible_call_eq_Ok split: if_splits)

lemma nearest_calls_eq_Ok:
  assumes "nearest_calls pl s sc = Ok sc'"
  obtains settings where
    "sc' = sc @ (case sc_nearest s of Some n \<Rightarrow> [CNearest (nq_column n) (nq_query n) (nq_k n)] | None \<Rightarrow> []) @ settings"
    "\<And>k. k \<noteq> SettingCall \<Longrightarrow> of_class k settings = []"
proof (cases "sc_nearest s")
  case None
  with assms that [of "[]"] show thesis by (simp add: nearest_calls_def)
next
  case (Some n)
  with assms obtain sc3 where sc3: "refine_calls s n (sc @ [CNearest (nq_column n) (nq_query n) (nq_k n),
      CDistanceRange (nq_lower_bound n) (nq_upper_bound n)] @
      call_if_set CMinimumNprobes (np_minimum (sc_nprobes s)) @ call_if_set CMaximumNprobes (np_maximum (sc_nprobes s)) @
      call_if_set CApproxMode (sc_approx_mode s) @ call_if_set CQueryParallelism (sc_query_parallelism s)) = Ok sc3"
    and rest: "(case sc_index_segments s of
        Some segments \<Rightarrow> fallible_call pl (CIndexSegments segments) (sc3 @ call_if_set CEf (sc_ef s) @
          (case sc_metric_override s of Some m \<Rightarrow> [CDistanceMetric m] | None \<Rightarrow> call_if (is_multi_vector s) (CDistanceMetric L2)) @
          call_if_set CUseIndex (sc_use_index s))
      | None \<Rightarrow> Ok (sc3 @ call_if_set CEf (sc_ef s) @
          (case sc_metric_override s of Some m \<Rightarrow> [CDistanceMetric m] | None \<Rightarrow> call_if (is_multi_vector s) (CDistanceMetric L2)) @
          call_if_set CUseIndex (sc_use_index s))) = Ok sc'"
    by (auto simp: nearest_calls_def outcome_ok fallible_call_eq_Ok Let_def)
  from sc3 obtain r where r: "sc3 = sc @ [CNearest (nq_column n) (nq_query n) (nq_k n),
      CDistanceRange (nq_lower_bound n) (nq_upper_bound n)] @
      call_if_set CMinimumNprobes (np_minimum (sc_nprobes s)) @ call_if_set CMaximumNprobes (np_maximum (sc_nprobes s)) @
      call_if_set CApproxMode (sc_approx_mode s) @ call_if_set CQueryParallelism (sc_query_parallelism s) @ r"
    and kr: "\<And>k. k \<noteq> SettingCall \<Longrightarrow> of_class k r = []"
    by (auto simp: refine_calls_def Let_def outcome_ok split: if_splits)
  let ?metric = "case sc_metric_override s of Some m \<Rightarrow> [CDistanceMetric m] | None \<Rightarrow> call_if (is_multi_vector s) (CDistanceMetric L2)"
  have m: "of_class k ?metric = []" if "k \<noteq> SettingCall" for k
    using that by (auto split: option.splits)
  from rest have "sc' = sc3 @ call_if_set CEf (sc_ef s) @ ?metric @ call_if_set CUseIndex (sc_use_index s) @
      call_if_set CIndexSegments (sc_index_segments s)"
    by (cases "sc_index_segments s") (simp_all add: fallible_call_eq_Ok)
  with r Some have "sc' = sc @ (case sc_nearest s of Some n \<Rightarrow> [CNearest (nq_column n) (nq_query n) (nq_k n)] | None \<Rightarrow> []) @
      (CDistanceRange (nq_lower_bound n) (nq_upper_bound n) #
      call_if_set CMinimumNprobes (np_minimum (sc_nprobes s)) @ call_if_set CMaximumNprobes (np_maximum (sc_nprobes s)) @
      call_if_set CApproxMode (sc_approx_mode s) @ call_if_set CQueryParallelism (sc_query_parallelism s) @ r @
      call_if_set CEf (sc_ef s) @ ?metric @ call_if_set CUseIndex (sc_use_index s) @
      call_if_set CIndexSegments (sc_index_segments s))"
    by simp
  then show thesis by (rule that) (simp add: kr m)
qed

text \<open>The filter calls: the primary one, and the conjunction when there are additional filters.\<close>

definition primary_calls :: "('ds, 'sc, 'cb, 'st) lance_scanner \<Rightarrow> ('e, 'cb) scan_calls" where
  "primary_calls s =
     (case sc_substrait_filter s of
        Some b \<Rightarrow> [CFilterSubstrait b]
      | None \<Rightarrow> (case sc_filter s of Some f \<Rightarrow> [CFilter f] | None \<Rightarrow> []))"

lemma primary_filter_eq_Ok: "primary_filter pl s sc = Ok sc' \<Longrightarrow> sc' = sc @ primary_calls s"
  by (auto simp: primary_filter_def primary_calls_def fallible_call_eq_Ok split: option.splits)

definition conjoin :: "('e \<Rightarrow> 'e \<Rightarrow> 'e) \<Rightarrow> 'e option \<Rightarrow> 'e list \<Rightarrow> 'e option" where
  "conjoin f base es = foldl (\<lambda>acc e. Some (case acc of Some x \<Rightarrow> f x e | None \<Rightarrow> e)) base es"

lemma conjoin_Cons [simp]:
  "conjoin f base [] = base"
  "conjoin f base (e # es) = conjoin f (Some (case base of Some x \<Rightarrow> f x e | None \<Rightarrow> e)) es"
  by (simp_all add: conjoin_def)

lemma combine_filters_eq_Ok:
  "combine_filters pl sc sqls base = Ok r \<Longrightarrow>
     \<exists>es. list_all2 (\<lambda>sql e. pl_expr_filter pl (sc @ [CFilter sql]) = Ok (Some e)) sqls es \<and> r = conjoin (pl_and pl) base es"
proof (induction sqls arbitrary: base)
  case Nil
  then show ?case by (auto intro!: exI [of _ "[]"])
next
  case (Cons sql sqls)
  then obtain a where a: "pl_expr_filter pl (sc @ [CFilter sql]) = Ok (Some a)"
    and r: "combine_filters pl sc sqls (Some (case base of Some x \<Rightarrow> pl_and pl x a | None \<Rightarrow> a)) = Ok r"
    by (auto simp: outcome_ok fallible_call_eq_Ok split: option.splits)
  from Cons.IH [OF r] obtain es where
    "list_all2 (\<lambda>sql e. pl_expr_filter pl (sc @ [CFilter sql]) = Ok (Some e)) sqls es"
    "r = conjoin (pl_and pl) (Some (case base of Some x \<Rightarrow> pl_and pl x a | None \<Rightarrow> a)) es" by blast
  with a show ?case by (intro exI [of _ "a # es"]) simp
qed

lemma apply_filter_eq_Ok:
  assumes "apply_filter pl s sc = Ok sc'"
  obtains extra where "sc' = sc @ primary_calls s @ extra"
    "sc_additional_sql_filters s = [] \<Longrightarrow> extra = []"
    "sc_additional_sql_filters s \<noteq> [] \<Longrightarrow> \<exists>base es e. pl_expr_filter pl (sc @ primary_calls s) = Ok base \<and>
       list_all2 (\<lambda>sql e. pl_expr_filter pl (sc @ primary_calls s @ [CFilter sql]) = Ok (Some e))
         (sc_additional_sql_filters s) es \<and>
       conjoin (pl_and pl) base es = Some e \<and> extra = [CFilterExpr e]"
proof (cases "sc_additional_sql_filters s = []")
  case True
  with assms that [of "[]"] show thesis
    by (auto simp: apply_filter_def obind_eq_Ok dest: primary_filter_eq_Ok)
next
  case False
  with assms obtain base r e where b: "pl_expr_filter pl (sc @ primary_calls s) = Ok base"
    and r: "combine_filters pl (sc @ primary_calls s) (sc_additional_sql_filters s) base = Ok r"
    and e: "r = Some e" "sc' = sc @ primary_calls s @ [CFilterExpr e]"
    by (auto simp: apply_filter_def obind_eq_Ok dest!: primary_filter_eq_Ok split: option.splits)
  from combine_filters_eq_Ok [OF r] e b False show thesis
    by (intro that [of "[CFilterExpr e]"]) auto
qed

lemma primary_calls_class [simp]: "of_class k (primary_calls s) = (if k = FilterCall then primary_calls s else [])"
  by (auto simp: primary_calls_def split: option.splits)

lemma prepare_fts_eq_Ok:
  "prepare_fts api pl s m sc = Ok (fts, sc') \<Longrightarrow>
     sc' = sc @ (case sc_fts_context s of Some c \<Rightarrow> [CFullTextSearch (fc_query (arc_val c))] | None \<Rightarrow> []) \<and>
     (fts = None \<longleftrightarrow> sc_fts_context s = None)"
  by (auto simp: prepare_fts_def outcome_ok fallible_call_eq_Ok split: option.splits)

text \<open>The calls of a successful build, in order.\<close>

lemma build_scanner_calls:
  fixes p :: "('ds, 'sc, 'e, 'cb) prepared_scanner" and s :: "('ds, 'sc, 'cb, 'st) lance_scanner"
  assumes "build_scanner_body api pl s = Ok p"
  obtains near_settings tx extra where
    "pr_scanner p =
       call_if_set CProject (sc_columns s) @ call_if_set CBlobHandling (sc_blob_handling s) @
       (if sc_limit s \<noteq> None \<or> sc_offset s \<noteq> None
        then CLimit (sc_limit s) (sc_offset s) # call_if (is_multi_vector s) (CLimit None None) else []) @
       plain_settings s @ (if sc_nearest s \<noteq> None \<and> \<not> sc_prefilter s then [] else apply_fragment_filter pl s) @
       call_if_set CRowAddrPrefilter (row_addr_mask_of s) @ call_if (sc_prefilter s) (CPrefilter True) @
       (case sc_nearest s of Some n \<Rightarrow> [CNearest (nq_column n) (nq_query n) (nq_k n)] | None \<Rightarrow> []) @ near_settings @
       (if sc_nearest s \<noteq> None \<and> \<not> sc_prefilter s then apply_fragment_filter pl s else []) @
       tx @ primary_calls s @ extra @
       call_if_set (\<lambda>cb. CStatsCallback (PlainCallback cb)) (sc_scan_statistics_callback s)"
    "\<And>k. k \<noteq> SettingCall \<Longrightarrow> of_class k near_settings = []"
    "\<And>k. k \<noteq> TextCall \<Longrightarrow> of_class k tx = []"
    "\<And>k. k \<noteq> FilterCall \<Longrightarrow> of_class k extra = []"
    "sc_additional_sql_filters s = [] \<Longrightarrow> extra = []"
    "sc_additional_sql_filters s \<noteq> [] \<Longrightarrow> \<exists>sc base es e. pl_expr_filter pl (sc @ primary_calls s) = Ok base \<and>
       list_all2 (\<lambda>sql e. pl_expr_filter pl (sc @ primary_calls s @ [CFilter sql]) = Ok (Some e))
         (sc_additional_sql_filters s) es \<and>
       conjoin (pl_and pl) base es = Some e \<and> extra = [CFilterExpr e]"
    "pr_window p = (if is_multi_vector s
       then Some ((case sc_offset s of Some n \<Rightarrow> n | None \<Rightarrow> 0), sc_limit s) else None)"
    "prepare_scalar_segment s = Ok (pr_scalar_segment p)"
    "row_addr_mask_of s = None \<or> sc_scalar_index_segment s = None"
    "pr_fts p = None \<longleftrightarrow> sc_fts_context s = None"
proof -
  let ?after = "sc_nearest s \<noteq> None \<and> \<not> sc_prefilter s"
  from assms obtain sc0 sc2 sc4 sc6 fts sc7 sc8 scalar where
    s0: "(case sc_columns s of Some cols \<Rightarrow> fallible_call pl (CProject cols) [] | None \<Rightarrow> Ok []) = Ok sc0"
    and s2: "window_calls pl s (sc0 @ call_if_set CBlobHandling (sc_blob_handling s)) = Ok sc2"
    and mk: "\<not> (row_addr_mask_of s \<noteq> None \<and> sc_scalar_index_segment s \<noteq> None)"
    and s4: "nearest_calls pl s ((sc2 @ plain_settings s @ (if ?after then [] else apply_fragment_filter pl s)) @
        call_if_set CRowAddrPrefilter (row_addr_mask_of s) @ call_if (sc_prefilter s) (CPrefilter True)) = Ok sc4"
    and s6: "(case sc_fts_query s of
        Some q \<Rightarrow> fallible_call pl (CFullTextSearch q) (sc4 @ (if ?after then apply_fragment_filter pl s else []))
      | None \<Rightarrow> Ok (sc4 @ (if ?after then apply_fragment_filter pl s else []))) = Ok sc6"
    and s7: "prepare_fts api pl s (row_addr_mask_of s) sc6 = Ok (fts, sc7)"
    and s8: "apply_filter pl s sc7 = Ok sc8"
    and sg: "prepare_scalar_segment s = Ok scalar"
    and p: "p = \<lparr>pr_scanner = sc8 @ call_if_set (\<lambda>cb. CStatsCallback (PlainCallback cb)) (sc_scan_statistics_callback s),
         pr_fts = fts,
         pr_window = (if is_multi_vector s
           then Some ((case sc_offset s of Some n \<Rightarrow> n | None \<Rightarrow> 0), sc_limit s) else None),
         pr_batch_size = sc_batch_size s, pr_callback = sc_scan_statistics_callback s,
         pr_scalar_segment = scalar\<rparr>"
    unfolding build_scanner_body_def Let_def obind_eq_Ok reject_if_eq_Ok
    by (elim exE conjE) (auto split: prod.split_asm simp: obind_eq_Ok)
  from s0 have c0: "sc0 = call_if_set CProject (sc_columns s)"
    by (auto simp: fallible_call_eq_Ok split: option.splits)
  note c2 = window_calls_eq_Ok [OF s2]
  from nearest_calls_eq_Ok [OF s4] obtain near where
    c4: "sc4 = ((sc2 @ plain_settings s @ (if ?after then [] else apply_fragment_filter pl s)) @
        call_if_set CRowAddrPrefilter (row_addr_mask_of s) @ call_if (sc_prefilter s) (CPrefilter True)) @
        (case sc_nearest s of Some n \<Rightarrow> [CNearest (nq_column n) (nq_query n) (nq_k n)] | None \<Rightarrow> []) @ near"
    and near: "\<And>k. k \<noteq> SettingCall \<Longrightarrow> of_class k near = []" by blast
  from s6 have c6: "sc6 = (sc4 @ (if ?after then apply_fragment_filter pl s else [])) @ call_if_set CFullTextSearch (sc_fts_query s)"
    by (cases "sc_fts_query s") (simp_all add: fallible_call_eq_Ok)
  note c7 = prepare_fts_eq_Ok [OF s7]
  define tx :: "('e, 'cb) scan_calls" where "tx = call_if_set CFullTextSearch (sc_fts_query s) @
    (case sc_fts_context s of Some c \<Rightarrow> [CFullTextSearch (fc_query (arc_val c))] | None \<Rightarrow> [])"
  have tk: "of_class k tx = []" if "k \<noteq> TextCall" for k
    using that by (auto simp: tx_def split: option.splits)
  from apply_filter_eq_Ok [OF s8] obtain extra where c8: "sc8 = sc7 @ primary_calls s @ extra"
    and e1: "sc_additional_sql_filters s = [] \<Longrightarrow> extra = []"
    and e2: "sc_additional_sql_filters s \<noteq> [] \<Longrightarrow> \<exists>base es e. pl_expr_filter pl (sc7 @ primary_calls s) = Ok base \<and>
       list_all2 (\<lambda>sql e. pl_expr_filter pl (sc7 @ primary_calls s @ [CFilter sql]) = Ok (Some e))
         (sc_additional_sql_filters s) es \<and>
       conjoin (pl_and pl) base es = Some e \<and> extra = [CFilterExpr e]"
    by blast
  have ek: "of_class k extra = []" if "k \<noteq> FilterCall" for k
    using that e1 e2 by (cases "sc_additional_sql_filters s = []") auto
  have e3: "\<exists>sc base es e. pl_expr_filter pl (sc @ primary_calls s) = Ok base \<and>
       list_all2 (\<lambda>sql e. pl_expr_filter pl (sc @ primary_calls s @ [CFilter sql]) = Ok (Some e))
         (sc_additional_sql_filters s) es \<and>
       conjoin (pl_and pl) base es = Some e \<and> extra = [CFilterExpr e]" if "sc_additional_sql_filters s \<noteq> []"
    using e2 [OF that] by (rule exI)
  have scan: "pr_scanner p =
       call_if_set CProject (sc_columns s) @ call_if_set CBlobHandling (sc_blob_handling s) @
       (if sc_limit s \<noteq> None \<or> sc_offset s \<noteq> None
        then CLimit (sc_limit s) (sc_offset s) # call_if (is_multi_vector s) (CLimit None None) else []) @
       plain_settings s @ (if ?after then [] else apply_fragment_filter pl s) @
       call_if_set CRowAddrPrefilter (row_addr_mask_of s) @ call_if (sc_prefilter s) (CPrefilter True) @
       (case sc_nearest s of Some n \<Rightarrow> [CNearest (nq_column n) (nq_query n) (nq_k n)] | None \<Rightarrow> []) @ near @
       (if ?after then apply_fragment_filter pl s else []) @ tx @ primary_calls s @ extra @
       call_if_set (\<lambda>cb. CStatsCallback (PlainCallback cb)) (sc_scan_statistics_callback s)"
    unfolding p prepared_scanner.simps c8 c7 [THEN conjunct1] c6 c4 c2 c0 tx_def by (simp only: append_assoc append_Cons append_Nil)
  show thesis
  proof (rule that [OF scan near tk ek e1 e3])
    show "pr_window p = (if is_multi_vector s
       then Some ((case sc_offset s of Some n \<Rightarrow> n | None \<Rightarrow> 0), sc_limit s) else None)" by (simp add: p)
    show "prepare_scalar_segment s = Ok (pr_scalar_segment p)" by (simp add: p sg)
    show "row_addr_mask_of s = None \<or> sc_scalar_index_segment s = None" using mk by blast
    show "pr_fts p = None \<longleftrightarrow> sc_fts_context s = None" using c7 by (simp add: p)
  qed
qed

lemma build_domain_calls:
  assumes "build_scanner_body api pl s = Ok p" "k \<in> {WindowCall, DomainCall, MaskCall}"
  shows "of_class k (pr_scanner p) = of_class k
    ((if sc_limit s \<noteq> None \<or> sc_offset s \<noteq> None
      then CLimit (sc_limit s) (sc_offset s) # call_if (is_multi_vector s) (CLimit None None) else []) @
     (if sc_nearest s \<noteq> None \<and> \<not> sc_prefilter s then [] else apply_fragment_filter pl s) @
     call_if_set CRowAddrPrefilter (row_addr_mask_of s) @
     (case sc_nearest s of Some n \<Rightarrow> [CNearest (nq_column n) (nq_query n) (nq_k n)] | None \<Rightarrow> []) @
     (if sc_nearest s \<noteq> None \<and> \<not> sc_prefilter s then apply_fragment_filter pl s else []))"
  using assms(1)
proof (rule build_scanner_calls)
  fix near tx extra
  assume c: "pr_scanner p =
       call_if_set CProject (sc_columns s) @ call_if_set CBlobHandling (sc_blob_handling s) @
       (if sc_limit s \<noteq> None \<or> sc_offset s \<noteq> None
        then CLimit (sc_limit s) (sc_offset s) # call_if (is_multi_vector s) (CLimit None None) else []) @
       plain_settings s @ (if sc_nearest s \<noteq> None \<and> \<not> sc_prefilter s then [] else apply_fragment_filter pl s) @
       call_if_set CRowAddrPrefilter (row_addr_mask_of s) @ call_if (sc_prefilter s) (CPrefilter True) @
       (case sc_nearest s of Some n \<Rightarrow> [CNearest (nq_column n) (nq_query n) (nq_k n)] | None \<Rightarrow> []) @ near @
       (if sc_nearest s \<noteq> None \<and> \<not> sc_prefilter s then apply_fragment_filter pl s else []) @
       tx @ primary_calls s @ extra @
       call_if_set (\<lambda>cb. CStatsCallback (PlainCallback cb)) (sc_scan_statistics_callback s)"
    and k: "\<And>k. k \<noteq> SettingCall \<Longrightarrow> of_class k near = []" "\<And>k. k \<noteq> TextCall \<Longrightarrow> of_class k tx = []"
    and ek: "\<And>k. k \<noteq> FilterCall \<Longrightarrow> of_class k extra = []"
    and e1: "sc_additional_sql_filters s = [] \<Longrightarrow> extra = []"
    and e2: "sc_additional_sql_filters s \<noteq> [] \<Longrightarrow> \<exists>sc base es e. pl_expr_filter pl (sc @ primary_calls s) = Ok base \<and>
       list_all2 (\<lambda>sql e. pl_expr_filter pl (sc @ primary_calls s @ [CFilter sql]) = Ok (Some e))
         (sc_additional_sql_filters s) es \<and>
       conjoin (pl_and pl) base es = Some e \<and> extra = [CFilterExpr e]"
  have k1: "k \<noteq> SettingCall" "k \<noteq> TextCall" "k \<noteq> FilterCall" using assms(2) by auto
  have n: "of_class k near = []" "of_class k tx = []" "of_class k extra = []"
    using k(1) [OF k1(1)] k(2) [OF k1(2)] ek [OF k1(3)] by simp_all
  show ?thesis
    unfolding c filter_append n using k1 by simp
qed

lemma build_filter_calls:
  assumes "build_scanner_body api pl s = Ok p"
  shows "\<exists>extra. of_class FilterCall (pr_scanner p) = primary_calls s @ extra \<and>
    (if sc_additional_sql_filters s = [] then extra = []
     else \<exists>sc base es e. pl_expr_filter pl (sc @ primary_calls s) = Ok base \<and>
       list_all2 (\<lambda>sql e. pl_expr_filter pl (sc @ primary_calls s @ [CFilter sql]) = Ok (Some e))
         (sc_additional_sql_filters s) es \<and>
       conjoin (pl_and pl) base es = Some e \<and> extra = [CFilterExpr e])"
  using assms
proof (rule build_scanner_calls)
  fix near tx extra
  assume c: "pr_scanner p =
       call_if_set CProject (sc_columns s) @ call_if_set CBlobHandling (sc_blob_handling s) @
       (if sc_limit s \<noteq> None \<or> sc_offset s \<noteq> None
        then CLimit (sc_limit s) (sc_offset s) # call_if (is_multi_vector s) (CLimit None None) else []) @
       plain_settings s @ (if sc_nearest s \<noteq> None \<and> \<not> sc_prefilter s then [] else apply_fragment_filter pl s) @
       call_if_set CRowAddrPrefilter (row_addr_mask_of s) @ call_if (sc_prefilter s) (CPrefilter True) @
       (case sc_nearest s of Some n \<Rightarrow> [CNearest (nq_column n) (nq_query n) (nq_k n)] | None \<Rightarrow> []) @ near @
       (if sc_nearest s \<noteq> None \<and> \<not> sc_prefilter s then apply_fragment_filter pl s else []) @
       tx @ primary_calls s @ extra @
       call_if_set (\<lambda>cb. CStatsCallback (PlainCallback cb)) (sc_scan_statistics_callback s)"
    and k: "\<And>k. k \<noteq> SettingCall \<Longrightarrow> of_class k near = []" "\<And>k. k \<noteq> TextCall \<Longrightarrow> of_class k tx = []"
    and e1: "sc_additional_sql_filters s = [] \<Longrightarrow> extra = []"
    and e2: "sc_additional_sql_filters s \<noteq> [] \<Longrightarrow> \<exists>sc base es e. pl_expr_filter pl (sc @ primary_calls s) = Ok base \<and>
       list_all2 (\<lambda>sql e. pl_expr_filter pl (sc @ primary_calls s @ [CFilter sql]) = Ok (Some e))
         (sc_additional_sql_filters s) es \<and>
       conjoin (pl_and pl) base es = Some e \<and> extra = [CFilterExpr e]"
  have ex: "of_class FilterCall extra = extra"
    using e1 e2 by (cases "sc_additional_sql_filters s = []") auto
  have "of_class FilterCall (pr_scanner p) = primary_calls s @ extra"
    unfolding c filter_append ex k(1) [of FilterCall, simplified] k(2) [of FilterCall, simplified]
    by (simp split: option.split)
  with e1 e2 show ?thesis by (intro exI [of _ extra]) (simp only: if_splits, blast)
qed

subsection \<open>Properties\<close>

text \<open>A planner that accepts every call and numbers its filter expressions, over a snapshot with the fragments
  0 and 1, and two handles: a multi-vector search with a window, filters and lists, and a scan of one
  scalar segment.\<close>

definition demo_planner :: "(unit, nat, nat) planner_api" where
  "demo_planner = \<lparr>pl_accepts = (\<lambda>_ _. Ok ()), pl_expr_filter = (\<lambda>sc. Ok (Some (length (of_class FilterCall sc)))),
     pl_and = (\<lambda>a b. 10 * a + b),
     pl_fragments = (\<lambda>_. [\<lparr>fr_id = 0, fr_has_overlays = False, fr_physical_rows = Some 5\<rparr>,
                          \<lparr>fr_id = 1, fr_has_overlays = False, fr_physical_rows = Some 5\<rparr>])\<rparr>"

definition demo_vector_scan :: "(unit, unit, nat, unit) lance_scanner" where
  "demo_vector_scan = (lance_scanner_init (Arc 1 ()))
     \<lparr>sc_nearest := Some \<lparr>nq_mode = MultiVector, nq_column = ''vec'', nq_query = QMatrix 1 (Float32Array [0]),
        nq_k = 3, nq_lower_bound = None, nq_upper_bound = None\<rparr>,
      sc_fragment_ids := Some [1], sc_limit := Some 5, sc_filter := Some ''a > 1'',
      sc_additional_sql_filters := [''b > 2''], sc_row_addr_allowlist := Some {7}\<rparr>"

definition demo_scalar_scan :: "(unit, unit, nat, unit) lance_scanner" where
  "demo_scalar_scan = (lance_scanner_init (Arc 1 ()))
     \<lparr>sc_fragment_ids := Some [1], sc_scalar_index_segment := Some (replicate 16 1)\<rparr>"

lemma demo_builds:
  "\<exists>p. build_scanner_body (sp_fts demo_scanner_api) demo_planner demo_vector_scan = Ok p"
  "\<exists>p ps. build_scanner_body (sp_fts demo_scanner_api) demo_planner demo_scalar_scan = Ok p \<and> pr_scalar_segment p = Some ps"
  by (simp_all add: build_scanner_body_def Let_def demo_vector_scan_def demo_scalar_scan_def demo_planner_def
      fallible_call_def recheck_batch_def window_calls_def is_multi_vector_def nearest_calls_def refine_calls_def
      prepare_fts_def apply_filter_def primary_filter_def prepare_scalar_segment_def row_addr_mask_of_def
      max_query_vector_candidates_def)

text \<open>The fragment scope and the vector query reach Lance in the order it demands: in a successful build,
  the calls that set the search domain are exactly the configured fragments (those of the snapshot
  whose id was listed) and the vector query, each at most once, with the fragments deferred after the
  query exactly when there is one and prefiltering is off.\<close>

theorem build_orders_fragments:
  assumes "build_scanner_body api pl s = Ok p"
  shows "of_class DomainCall (pr_scanner p) =
    (let frags = (case sc_fragment_ids s of
           Some ids \<Rightarrow> [CWithFragments (filter (\<lambda>f. fr_id f \<in> set ids) (pl_fragments pl (arc_val (sc_dataset s))))]
         | None \<Rightarrow> []);
         near = (case sc_nearest s of Some n \<Rightarrow> [CNearest (nq_column n) (nq_query n) (nq_k n)] | None \<Rightarrow> [])
     in if sc_nearest s \<noteq> None \<and> \<not> sc_prefilter s then near @ frags else frags @ near)"
  using build_domain_calls [OF assms, of DomainCall]
  by (simp add: Let_def apply_fragment_filter_def call_if_set_def split: option.split)

theorem build_orders_fragments_witness:
  "\<exists>p. build_scanner_body (sp_fts demo_scanner_api) demo_planner demo_vector_scan = Ok p \<and>
     of_class DomainCall (pr_scanner p) =
       [CNearest ''vec'' (QMatrix 1 (Float32Array [0])) 3,
        CWithFragments [\<lparr>fr_id = 1, fr_has_overlays = False, fr_physical_rows = Some 5\<rparr>]]"
proof -
  obtain p where b: "build_scanner_body (sp_fts demo_scanner_api) demo_planner demo_vector_scan = Ok p"
    using demo_builds(1) by blast
  from build_orders_fragments [OF b] b show ?thesis
    by (intro exI [of _ p]) (simp add: demo_vector_scan_def demo_planner_def)
qed

text \<open>A multi-vector query keeps its window for the final sort: after a successful build with a limit or
  offset, Lance's scanner last saw the window cleared exactly for multi-vector queries (having
  validated it first) and the configured one otherwise, and the deferred window is handed on exactly
  for multi-vector queries.\<close>

theorem build_defers_multivector_window:
  assumes "build_scanner_body api pl s = Ok p" and "sc_limit s \<noteq> None \<or> sc_offset s \<noteq> None"
  shows "of_class WindowCall (pr_scanner p) =
      CLimit (sc_limit s) (sc_offset s) # (if is_multi_vector s then [CLimit None None] else []) \<and>
    pr_window p = (if is_multi_vector s then Some ((case sc_offset s of Some n \<Rightarrow> n | None \<Rightarrow> 0), sc_limit s) else None)"
proof -
  have w: "pr_window p = (if is_multi_vector s
       then Some ((case sc_offset s of Some n \<Rightarrow> n | None \<Rightarrow> 0), sc_limit s) else None)"
    using assms(1) by (rule build_scanner_calls)
  from build_domain_calls [OF assms(1), of WindowCall] assms(2) w show ?thesis
    by (simp add: call_if_def split: option.split)
qed

theorem build_defers_multivector_window_witness:
  "\<exists>p. build_scanner_body (sp_fts demo_scanner_api) demo_planner demo_vector_scan = Ok p \<and>
     of_class WindowCall (pr_scanner p) = [CLimit (Some 5) None, CLimit None None] \<and> pr_window p = Some (0, Some 5)"
proof -
  obtain p where b: "build_scanner_body (sp_fts demo_scanner_api) demo_planner demo_vector_scan = Ok p"
    using demo_builds(1) by blast
  have l: "sc_limit demo_vector_scan \<noteq> None \<or> sc_offset demo_vector_scan \<noteq> None"
    by (simp add: demo_vector_scan_def)
  from build_defers_multivector_window [OF b l] b show ?thesis
    by (intro exI [of _ p]) (simp add: demo_vector_scan_def is_multi_vector_def)
qed

text \<open>The row mask given to Lance selects exactly the rows that the allow list, if any, contains and the
  block list, if any, does not; without either list no mask is given; and a mask never accompanies a
  scalar segment, whose candidates would replace it.\<close>

theorem build_row_mask:
  assumes "build_scanner_body api pl s = Ok p"
  shows "(case of_class MaskCall (pr_scanner p) of
      [] \<Rightarrow> sc_row_addr_allowlist s = None \<and> sc_row_addr_blocklist s = None
    | [CRowAddrPrefilter m] \<Rightarrow> mask_selects m r =
        ((case sc_row_addr_allowlist s of Some a \<Rightarrow> r \<in> a | None \<Rightarrow> True) \<and>
         (case sc_row_addr_blocklist s of Some b \<Rightarrow> r \<notin> b | None \<Rightarrow> True)) \<and> pr_scalar_segment p = None
    | _ \<Rightarrow> False)"
proof -
  have c: "of_class MaskCall (pr_scanner p) = call_if_set CRowAddrPrefilter (row_addr_mask_of s)"
    using build_domain_calls [OF assms, of MaskCall] by (simp split: option.split)
  have sg: "prepare_scalar_segment s = Ok (pr_scalar_segment p)"
    using assms by (rule build_scanner_calls)
  have ex: "row_addr_mask_of s = None \<or> sc_scalar_index_segment s = None"
    using assms by (rule build_scanner_calls)
  from sg have "sc_scalar_index_segment s = None \<Longrightarrow> pr_scalar_segment p = None"
    by (simp add: prepare_scalar_segment_def)
  with c ex show ?thesis
    by (auto simp: row_addr_mask_of_def mask_selects_def split: option.splits)
qed

theorem build_row_mask_witness:
  "\<exists>p m. build_scanner_body (sp_fts demo_scanner_api) demo_planner demo_vector_scan = Ok p \<and>
     of_class MaskCall (pr_scanner p) = [CRowAddrPrefilter m] \<and> mask_selects m 7 \<and> \<not> mask_selects m 8"
proof -
  obtain p where b: "build_scanner_body (sp_fts demo_scanner_api) demo_planner demo_vector_scan = Ok p"
    using demo_builds(1) by blast
  have c: "of_class MaskCall (pr_scanner p) = [CRowAddrPrefilter \<lparr>rm_allow = Some {7}, rm_block = None\<rparr>]"
    using build_domain_calls [OF b, of MaskCall]
    by (simp add: demo_vector_scan_def row_addr_mask_of_def split: option.split)
  from build_row_mask [OF b, of 7] build_row_mask [OF b, of 8] b c show ?thesis
    by (intro exI [of _ p] exI [of _ "\<lparr>rm_allow = Some {7}, rm_block = None\<rparr>"]) (simp add: demo_vector_scan_def)
qed

text \<open>Filters combine as documented: the Substrait filter wins over the SQL filter, no other filter call
  is made without additional filters, and with them one expression replaces it, the conjunction, in
  the order they were added, of the primary expression and each additional filter planned against the
  same scanner.\<close>

theorem build_filter_conjunction:
  assumes "build_scanner_body api pl s = Ok p"
  shows "\<exists>extra. of_class FilterCall (pr_scanner p) =
      (case sc_substrait_filter s of
         Some b \<Rightarrow> [CFilterSubstrait b]
       | None \<Rightarrow> (case sc_filter s of Some f \<Rightarrow> [CFilter f] | None \<Rightarrow> [])) @ extra \<and>
    (if sc_additional_sql_filters s = [] then extra = []
     else \<exists>sc base es e. pl_expr_filter pl (sc @ primary_calls s) = Ok base \<and>
       list_all2 (\<lambda>sql e. pl_expr_filter pl (sc @ primary_calls s @ [CFilter sql]) = Ok (Some e))
         (sc_additional_sql_filters s) es \<and>
       conjoin (pl_and pl) base es = Some e \<and> extra = [CFilterExpr e])"
  using build_filter_calls [OF assms] by (auto simp: primary_calls_def)

theorem build_filter_conjunction_witness:
  "\<exists>p e. build_scanner_body (sp_fts demo_scanner_api) demo_planner demo_vector_scan = Ok p \<and>
     of_class FilterCall (pr_scanner p) = [CFilter ''a > 1'', CFilterExpr e]"
proof -
  obtain p where b: "build_scanner_body (sp_fts demo_scanner_api) demo_planner demo_vector_scan = Ok p"
    using demo_builds(1) by blast
  from build_filter_conjunction [OF b] b show ?thesis
    by (auto simp: demo_vector_scan_def)
qed

text \<open>On a handle that the setters left consistent, the build's second candidate check for batch queries
  never fails, and a batch query reaches Lance without any global window.\<close>

theorem batch_recheck_redundant:
  assumes "scanner_ok s"
  shows "recheck_batch s = Ok () \<and>
    (is_batch_nearest (sc_nearest s) \<longrightarrow> window_calls pl s sc = Ok sc)"
  using assms
  by (auto simp: scanner_ok_def nearest_ok_def recheck_batch_def is_batch_nearest_def window_calls_def
      split: option.splits nearest_mode.splits)

theorem batch_recheck_redundant_witness:
  "\<exists>s' :: (unit, unit, nat, unit) lance_scanner.
     nearest_batch_inner demo_scanner_api (Some ''vec'') (Some demo_matrix) 2 2 0 10
       (Some (lance_scanner_init (Arc 1 ()))) = Ok s' \<and> recheck_batch s' = Ok ()"
proof -
  note call = demo_batch_call
  from search_setter_ok(2) [OF _ call] have "scanner_ok ((lance_scanner_init (Arc 1 ()) ::
      (unit, unit, nat, unit) lance_scanner)\<lparr>sc_nearest := Some \<lparr>nq_mode = Batch 2, nq_column = ''vec'',
        nq_query = QMatrix 2 (Float32Array [0, 0, 0, 0]), nq_k = 10, nq_lower_bound = None, nq_upper_bound = None\<rparr>\<rparr>)"
    by simp
  from batch_recheck_redundant [OF this, of demo_planner "[]"] call show ?thesis by blast
qed

text \<open>A scalar segment is prepared only for an ordinary scan of live rows with an explicit, nonempty
  fragment list, which becomes its read domain together with the scanner's snapshot.\<close>

theorem scalar_segment_preconditions:
  assumes "build_scanner_body api pl s = Ok p" "pr_scalar_segment p = Some ps"
  shows "sc_nearest s = None \<and> sc_fts_query s = None \<and> sc_fts_context s = None \<and> sc_index_segments s = None \<and>
    sc_fts_index_segments s = None \<and> \<not> sc_include_deleted_rows s \<and>
    sc_fragment_ids s = Some (ps_fragment_ids ps) \<and> ps_fragment_ids ps \<noteq> [] \<and>
    sc_scalar_index_segment s = Some (ps_segment_uuid ps) \<and> ps_dataset ps = sc_dataset s \<and> pr_fts p = None \<and>
    pr_window p = None"
proof -
  have "prepare_scalar_segment s = Ok (pr_scalar_segment p)"
    using assms(1) by (rule build_scanner_calls)
  with assms(2) have sg: "prepare_scalar_segment s = Ok (Some ps)" by simp
  have w: "pr_window p = (if is_multi_vector s
       then Some ((case sc_offset s of Some n \<Rightarrow> n | None \<Rightarrow> 0), sc_limit s) else None)"
    using assms(1) by (rule build_scanner_calls)
  have f: "pr_fts p = None \<longleftrightarrow> sc_fts_context s = None"
    using assms(1) by (rule build_scanner_calls)
  from sg have o: "sc_nearest s = None \<and> sc_fts_query s = None \<and> sc_fts_context s = None \<and> sc_index_segments s = None \<and>
    sc_fts_index_segments s = None \<and> \<not> sc_include_deleted_rows s \<and>
    sc_fragment_ids s = Some (ps_fragment_ids ps) \<and> ps_fragment_ids ps \<noteq> [] \<and>
    sc_scalar_index_segment s = Some (ps_segment_uuid ps) \<and> ps_dataset ps = sc_dataset s"
    by (auto simp: prepare_scalar_segment_def outcome_ok split: option.splits if_splits)
  with w f show ?thesis by (simp add: is_multi_vector_def)
qed

theorem scalar_segment_preconditions_witness:
  "\<exists>p ps. build_scanner_body (sp_fts demo_scanner_api) demo_planner demo_scalar_scan = Ok p \<and>
     pr_scalar_segment p = Some ps \<and> ps_fragment_ids ps = [1]"
proof -
  obtain p ps where b: "build_scanner_body (sp_fts demo_scanner_api) demo_planner demo_scalar_scan = Ok p"
    "pr_scalar_segment p = Some ps" using demo_builds(2) by blast
  from scalar_segment_preconditions [OF b] b show ?thesis by (auto simp: demo_scalar_scan_def)
qed

end
