(* ===== verification/Fts_Plan.thy ===== *)
theory Fts_Plan
  imports Scan_Calls
begin

text \<open>
  Model of the rewriting of a prepared full-text plan in \<open>src/scanner.rs\<close>: the fragments that the
  selected segments cover now, and the replacement of the planner's search nodes by nodes that
  search exactly the selected segments with the shared scorer. Execution plans are trees of nodes;
  rebuilding nodes is Lance's and DataFusion's, in the record \<open>plan_api\<close>.
\<close>

subsection \<open>Plans\<close>

record ('x, 'sc) fts_exec =
  fe_setup :: 'x
  fe_segments :: "index_metadata list option"
  fe_scorer :: "'sc option"
  fe_external_mask :: "row_addr_mask option"

datatype ('x, 'sc) plan_kind =
    FlatMatchQueryExec
  | MatchQueryExec "('x, 'sc) fts_exec"
  | PhraseQueryExec "('x, 'sc) fts_exec"
  | EmptyExec
  | OtherExec string

datatype ('x, 'sc) exec_plan =
  Plan (plan_kind: "('x, 'sc) plan_kind") (plan_schema: string) (plan_children: "('x, 'sc) exec_plan list")

record ('x, 'sc) plan_api =
  pa_with_new_children :: "('x, 'sc) plan_kind \<Rightarrow> ('x, 'sc) exec_plan list \<Rightarrow> string option"
  pa_new_with_segments :: "'x \<Rightarrow> index_metadata list \<Rightarrow> unit outcome"

subsection \<open>Fragments of the selected segments\<close>

fun segment_fragment_ids :: "index_metadata list \<Rightarrow> u32 list outcome" where
  "segment_fragment_ids [] = Ok []"
| "segment_fragment_ids (seg # segs) =
     obind (ok_or (im_fragment_bitmap seg)
       (internal_error (''prepared FTS segment '' @ show_uuid (im_uuid seg) @ '' lost its validated fragment coverage''))) (\<lambda>bitmap.
     obind (segment_fragment_ids segs) (\<lambda>rest. Ok (bitmap @ rest)))"

fun covered_fragments :: "u32 list \<Rightarrow> fragment list \<Rightarrow> fragment list outcome" where
  "covered_fragments ids [] = Ok []"
| "covered_fragments ids (f # fs) =
     obind (ok_or (u32_try_from (fr_id f))
       (internal_error (''current fragment id '' @ show_u (fr_id f) @ '' exceeds the validated u32 FTS coverage range''))) (\<lambda>i.
     obind (covered_fragments ids fs) (\<lambda>rest. Ok (if i \<in> set ids then f # rest else rest)))"

definition selected_current_fts_fragments ::
  "('ds, 'e, 'cb) planner_api \<Rightarrow> 'ds \<Rightarrow> index_metadata list \<Rightarrow> fragment list outcome" where
  "selected_current_fts_fragments pl d segments =
     obind (segment_fragment_ids segments) (\<lambda>ids. covered_fragments ids (pl_fragments pl d))"

subsection \<open>Rewriting\<close>

text \<open>The counts of rewritten search nodes and of removed flat-search nodes.\<close>

record rewrite_counts =
  rc_indexed :: nat
  rc_flat :: nat

definition attach_segments ::
  "('x, 'sc) plan_api \<Rightarrow> index_metadata list \<Rightarrow> 'sc \<Rightarrow> row_addr_mask option \<Rightarrow> ('x, 'sc) fts_exec \<Rightarrow> ('x, 'sc) fts_exec outcome" where
  "attach_segments pa segments scorer row_mask e =
     obind (pa_new_with_segments pa (fe_setup e) segments) (\<lambda>_.
     Ok \<lparr>fe_setup = fe_setup e, fe_segments = Some segments, fe_scorer = Some scorer, fe_external_mask = row_mask\<rparr>)"

text \<open>What becomes of a node once its children are rewritten.\<close>

definition rewrite_node ::
  "('x, 'sc) plan_api \<Rightarrow> index_metadata list \<Rightarrow> 'sc prepared_fts_query \<Rightarrow> bool \<Rightarrow> row_addr_mask option \<Rightarrow>
     ('x, 'sc) exec_plan \<Rightarrow> rewrite_counts \<Rightarrow> (('x, 'sc) exec_plan \<times> rewrite_counts) outcome" where
  "rewrite_node pa segments prepared current row_mask rebuilt counts =
     (let counted = counts\<lparr>rc_indexed := rc_indexed counts + 1\<rparr> in
      case plan_kind rebuilt of
        MatchQueryExec e \<Rightarrow>
          if \<not> current then Ok (Plan EmptyExec (plan_schema rebuilt) [], counted)
          else (case prepared of
            PreparedMatch scorer \<Rightarrow> obind (attach_segments pa segments scorer row_mask e) (\<lambda>e'.
              Ok (Plan (MatchQueryExec e') (plan_schema rebuilt) (plan_children rebuilt), counted))
          | PreparedPhrase _ \<Rightarrow> Err (internal_error ''prepared Phrase state cannot be attached to MatchQueryExec''))
      | PhraseQueryExec e \<Rightarrow>
          if \<not> current then Ok (Plan EmptyExec (plan_schema rebuilt) [], counted)
          else (case prepared of
            PreparedPhrase scorer \<Rightarrow> obind (attach_segments pa segments scorer row_mask e) (\<lambda>e'.
              Ok (Plan (PhraseQueryExec e') (plan_schema rebuilt) (plan_children rebuilt), counted))
          | PreparedMatch _ \<Rightarrow> Err (internal_error ''prepared Match state cannot be attached to PhraseQueryExec''))
      | _ \<Rightarrow> Ok (rebuilt, counts))"

fun rewrite_prepared_fts_plan ::
  "('x, 'sc) plan_api \<Rightarrow> index_metadata list \<Rightarrow> 'sc prepared_fts_query \<Rightarrow> bool \<Rightarrow> row_addr_mask option \<Rightarrow>
     ('x, 'sc) exec_plan \<Rightarrow> (('x, 'sc) exec_plan \<times> rewrite_counts) outcome"
and rewrite_children ::
  "('x, 'sc) plan_api \<Rightarrow> index_metadata list \<Rightarrow> 'sc prepared_fts_query \<Rightarrow> bool \<Rightarrow> row_addr_mask option \<Rightarrow>
     ('x, 'sc) exec_plan list \<Rightarrow> (('x, 'sc) exec_plan list \<times> rewrite_counts) outcome" where
  "rewrite_prepared_fts_plan pa segments prepared current row_mask (Plan kind schema children) =
     (if kind = FlatMatchQueryExec then Ok (Plan EmptyExec schema [], \<lparr>rc_indexed = 0, rc_flat = 1\<rparr>)
      else obind (rewrite_children pa segments prepared current row_mask children) (\<lambda>(new_children, counts).
           obind (if children = [] then Ok (Plan kind schema children)
                  else (case pa_with_new_children pa kind new_children of
                          None \<Rightarrow> Ok (Plan kind schema new_children)
                        | Some e \<Rightarrow> Err (internal_error (''failed to rebuild FTS execution plan children: '' @ e)))) (\<lambda>rebuilt.
           rewrite_node pa segments prepared current row_mask rebuilt counts)))"
| "rewrite_children pa segments prepared current row_mask [] = Ok ([], \<lparr>rc_indexed = 0, rc_flat = 0\<rparr>)"
| "rewrite_children pa segments prepared current row_mask (p # ps) =
     obind (rewrite_prepared_fts_plan pa segments prepared current row_mask p) (\<lambda>(p', c).
     obind (rewrite_children pa segments prepared current row_mask ps) (\<lambda>(ps', cs).
     Ok (p' # ps', \<lparr>rc_indexed = rc_indexed c + rc_indexed cs, rc_flat = rc_flat c + rc_flat cs\<rparr>)))"

text \<open>The plans that \<open>try_into_stream\<close> goes on to execute.\<close>

definition rewrite_accepted :: "bool \<Rightarrow> rewrite_counts \<Rightarrow> bool" where
  "rewrite_accepted current c \<longleftrightarrow>
     \<not> (1 < rc_indexed c \<or> 1 < rc_flat c \<or> rc_indexed c + rc_flat c = 0 \<or> (current \<and> rc_indexed c \<noteq> 1))"

subsection \<open>Lemmas\<close>

fun plan_kinds :: "('x, 'sc) exec_plan \<Rightarrow> ('x, 'sc) plan_kind list" where
  "plan_kinds (Plan kind schema children) = kind # concat (map plan_kinds children)"

definition is_search :: "('x, 'sc) plan_kind \<Rightarrow> bool" where
  "is_search k \<longleftrightarrow> (case k of MatchQueryExec _ \<Rightarrow> True | PhraseQueryExec _ \<Rightarrow> True | _ \<Rightarrow> False)"

definition searches_exactly :: "index_metadata list \<Rightarrow> 'sc prepared_fts_query \<Rightarrow> row_addr_mask option \<Rightarrow> ('x, 'sc) plan_kind \<Rightarrow> bool" where
  "searches_exactly segments prepared row_mask k \<longleftrightarrow>
     (case k of
        MatchQueryExec e \<Rightarrow> (case prepared of PreparedMatch s \<Rightarrow> fe_segments e = Some segments \<and> fe_scorer e = Some s \<and>
                                fe_external_mask e = row_mask | _ \<Rightarrow> False)
      | PhraseQueryExec e \<Rightarrow> (case prepared of PreparedPhrase s \<Rightarrow> fe_segments e = Some segments \<and> fe_scorer e = Some s \<and>
                                fe_external_mask e = row_mask | _ \<Rightarrow> False)
      | FlatMatchQueryExec \<Rightarrow> False
      | _ \<Rightarrow> True)"

text \<open>What a rewritten part of a plan looks like.\<close>

definition rewritten_kinds ::
  "index_metadata list \<Rightarrow> 'sc prepared_fts_query \<Rightarrow> bool \<Rightarrow> row_addr_mask option \<Rightarrow> ('x, 'sc) plan_kind list \<Rightarrow> nat \<Rightarrow> bool" where
  "rewritten_kinds segments prepared current row_mask ks n \<longleftrightarrow>
     list_all (searches_exactly segments prepared row_mask) ks \<and>
     length (filter is_search ks) = (if current then n else 0)"

lemma rewrite_node_sound:
  assumes "rewrite_node pa segments prepared current row_mask (Plan kind schema children) c = Ok (p', c')"
    and "kind \<noteq> FlatMatchQueryExec"
    and "rewritten_kinds segments prepared current row_mask (concat (map plan_kinds children)) (rc_indexed c)"
  shows "rewritten_kinds segments prepared current row_mask (plan_kinds p') (rc_indexed c')"
  using assms
  by (cases kind; cases current)
    (auto simp: rewrite_node_def Let_def rewritten_kinds_def searches_exactly_def is_search_def attach_segments_def
      outcome_ok split: prepared_fts_query.splits)

lemma rewrite_sound:
  "rewrite_prepared_fts_plan pa segments prepared current row_mask p = Ok (p', c) \<Longrightarrow>
     rewritten_kinds segments prepared current row_mask (plan_kinds p') (rc_indexed c)"
  "rewrite_children pa segments prepared current row_mask ps = Ok (ps', cs) \<Longrightarrow>
     rewritten_kinds segments prepared current row_mask (concat (map plan_kinds ps')) (rc_indexed cs)"
proof (induction pa segments prepared current row_mask p and pa segments prepared current row_mask ps
    arbitrary: p' c and ps' cs rule: rewrite_prepared_fts_plan_rewrite_children.induct)
  case (1 pa segments prepared current row_mask kind schema children)
  show ?case
  proof (cases "kind = FlatMatchQueryExec")
    case True
    with 1 show ?thesis by (auto simp: rewritten_kinds_def searches_exactly_def is_search_def)
  next
    case False
    with "1.prems" obtain nc counts where nc: "rewrite_children pa segments prepared current row_mask children = Ok (nc, counts)"
      and n: "rewrite_node pa segments prepared current row_mask (Plan kind schema nc) counts = Ok (p', c)"
      by (auto simp: outcome_ok split: if_splits option.splits)
    from rewrite_node_sound [OF n False "1.IH" [OF False nc]] show ?thesis .
  qed
next
  case (2 pa segments prepared current row_mask)
  then show ?case by (auto simp: rewritten_kinds_def)
next
  case (3 pa segments prepared current row_mask p ps)
  then show ?case by (fastforce simp: outcome_ok rewritten_kinds_def split: if_splits)
qed

lemma segment_fragment_ids_eq_Ok:
  "segment_fragment_ids segs = Ok ids \<Longrightarrow>
     (\<forall>seg \<in> set segs. im_fragment_bitmap seg \<noteq> None) \<and> set ids = segments_coverage segs"
  by (induction segs arbitrary: ids) (auto simp: outcome_ok segments_coverage_def)

lemma covered_fragments_eq_Ok:
  "covered_fragments ids fs = Ok gs \<longleftrightarrow>
     (\<forall>f \<in> set fs. unat (fr_id f) < 2 ^ 32) \<and> gs = filter (\<lambda>f. ucast (fr_id f) \<in> set ids) fs"
  by (induction fs arbitrary: gs) (auto simp: outcome_ok u32_try_from_def split: if_splits)

subsection \<open>Properties\<close>

text \<open>A rewritten full-text plan searches the selected segments and nothing else: no flat search is left,
  every Match or Phrase node that is left searches exactly the selected segments with the context's
  shared scorer and the scanner's row mask, and a plan that is accepted for execution has exactly one
  such node when the segments cover a current fragment, and none otherwise.\<close>

theorem rewritten_plan_searches_selected_segments:
  assumes "rewrite_prepared_fts_plan pa segments prepared current row_mask p = Ok (p', c)"
  shows "FlatMatchQueryExec \<notin> set (plan_kinds p') \<and>
    list_all (searches_exactly segments prepared row_mask) (plan_kinds p') \<and>
    (rewrite_accepted current c \<longrightarrow> length (filter is_search (plan_kinds p')) = (if current then 1 else 0))"
  using rewrite_sound(1) [OF assms]
  by (auto simp: rewritten_kinds_def rewrite_accepted_def searches_exactly_def list_all_iff
      simp flip: One_nat_def)

definition demo_plan_api :: "(unit, unit) plan_api" where
  "demo_plan_api = \<lparr>pa_with_new_children = (\<lambda>_ _. None), pa_new_with_segments = (\<lambda>_ _. Ok ())\<rparr>"

theorem rewritten_plan_searches_selected_segments_witness:
  "\<exists>p' c. rewrite_prepared_fts_plan demo_plan_api [demo_index] (PreparedMatch ()) True None
      (Plan (OtherExec ''union'') ''s''
        [Plan (MatchQueryExec \<lparr>fe_setup = (), fe_segments = None, fe_scorer = None, fe_external_mask = None\<rparr>) ''s'' [],
         Plan FlatMatchQueryExec ''s'' []]) = Ok (p', c) \<and>
     length (filter is_search (plan_kinds p')) = 1"
proof -
  let ?p = "Plan (OtherExec ''union'') ''s''
        [Plan (MatchQueryExec \<lparr>fe_setup = (), fe_segments = None, fe_scorer = None, fe_external_mask = None\<rparr>) ''s'' [],
         Plan FlatMatchQueryExec ''s'' []]"
  obtain p' c where r: "rewrite_prepared_fts_plan demo_plan_api [demo_index] (PreparedMatch ()) True None ?p = Ok (p', c)"
    and c: "rewrite_accepted True c"
    by (simp add: rewrite_node_def attach_segments_def demo_plan_api_def rewrite_accepted_def)
  from rewritten_plan_searches_selected_segments [OF r] c r show ?thesis by auto
qed

text \<open>The scope of a prefiltered prepared search is exactly the current fragments that the selected segments
  cover, in the snapshot's order.\<close>

theorem fts_fragment_scope:
  assumes "selected_current_fts_fragments pl d segments = Ok frags"
  shows "frags = filter (\<lambda>f. ucast (fr_id f) \<in> segments_coverage segments) (pl_fragments pl d) \<and>
    list_all (\<lambda>seg. im_fragment_bitmap seg \<noteq> None) segments"
proof -
  from assms obtain ids where i: "segment_fragment_ids segments = Ok ids"
    and c: "covered_fragments ids (pl_fragments pl d) = Ok frags"
    by (auto simp: selected_current_fts_fragments_def outcome_ok)
  from segment_fragment_ids_eq_Ok [OF i] c show ?thesis
    by (simp add: covered_fragments_eq_Ok list_all_iff)
qed

theorem fts_fragment_scope_witness:
  "\<exists>frags. selected_current_fts_fragments
     (\<lparr>pl_accepts = (\<lambda>_ _. Ok ()), pl_expr_filter = (\<lambda>_. Ok None), pl_and = (\<lambda>a b. a),
       pl_fragments = (\<lambda>_. [\<lparr>fr_id = 0, fr_has_overlays = False, fr_physical_rows = Some 5\<rparr>,
                            \<lparr>fr_id = 1, fr_has_overlays = False, fr_physical_rows = Some 5\<rparr>])\<rparr> :: (unit, nat, nat) planner_api)
     () [demo_index] = Ok frags \<and> length frags = 1"
proof -
  let ?pl = "\<lparr>pl_accepts = (\<lambda>_ _. Ok ()), pl_expr_filter = (\<lambda>_. Ok None), pl_and = (\<lambda>a b. a),
       pl_fragments = (\<lambda>_. [\<lparr>fr_id = 0, fr_has_overlays = False, fr_physical_rows = Some 5\<rparr>,
                            \<lparr>fr_id = 1, fr_has_overlays = False, fr_physical_rows = Some 5\<rparr>])\<rparr> :: (unit, nat, nat) planner_api"
  obtain frags where f: "selected_current_fts_fragments ?pl () [demo_index] = Ok frags"
    by (simp add: selected_current_fts_fragments_def demo_index_def u32_try_from_def)
  from fts_fragment_scope [OF f] f show ?thesis
    by (simp add: segments_coverage_def demo_index_def)
qed

end
