(* ===== verification/Scalar_Segment.thy ===== *)
theory Scalar_Segment
  imports Scanner_Build Scoped_Expression
begin

text \<open>
  Model of \<open>SegmentIndexLoader\<close> and \<open>PreparedScalarSegment::configure\<close> of \<open>src/scalar_segment.rs\<close>:
  the scan that is answered by one physical index segment. It either turns the segment's candidates
  into a row mask or, for one of a fixed set of reasons, leaves the scoped, fully filtered scan as it
  is. Index files, filter planning and index searches are the record \<open>segment_api\<close>.
\<close>

subsection \<open>What Lance provides\<close>

datatype index_type = BTreeIndex | BitmapIndex | LabelListIndex | OtherIndex

text \<open>The result of an index search: its upper bound as a mask, whether it is exact, and how many rows the
  mask can hold, when that is known.\<close>

record search_result =
  sr_upper :: row_addr_mask
  sr_is_exact :: bool
  sr_max_len :: "u64 option"

record ('ds, 'e, 'v, 'ix) segment_api =
  sa_cost :: "('ds, 'v) cost_api"
  sa_load_indices :: "'ds \<Rightarrow> index_metadata list outcome"
  sa_legacy_storage :: "'ds \<Rightarrow> bool"
  sa_frag_reuse_index :: "'ds \<Rightarrow> uuid option"
  sa_stable_row_ids :: "'ds \<Rightarrow> bool"
  sa_has_truth_test :: "'e \<Rightarrow> bool outcome"
  sa_column_refs :: "'e \<Rightarrow> string list"
  sa_stored_fields :: "'ds \<Rightarrow> string list"
  sa_index_query :: "'ds \<Rightarrow> 'e \<Rightarrow> 'v index_expr option outcome"
  sa_open_scalar_index :: "'ds \<Rightarrow> string \<Rightarrow> uuid \<Rightarrow> 'ix outcome"
  sa_index_type :: "'ix \<Rightarrow> index_type"
  sa_results_are_row_addresses :: "'ix \<Rightarrow> bool"
  sa_evaluate :: "(string \<Rightarrow> string \<Rightarrow> 'ix outcome) \<Rightarrow> 'v index_expr \<Rightarrow> search_result outcome"

text \<open>\<open>load_index\<close>: the one open segment, whatever asks for it under its own column and name.\<close>

definition load_index :: "'ix \<Rightarrow> string \<Rightarrow> string \<Rightarrow> string \<Rightarrow> string \<Rightarrow> 'ix outcome" where
  "load_index index own_name own_column column index_name =
     reject_if (column \<noteq> own_column \<or> index_name \<noteq> own_name)
       (invalid_input ''scalar expression references an index outside the selected segment'') (Ok index)"

subsection \<open>Preparing the candidates\<close>

text \<open>The checks against the snapshot: its fragments, the segment and its key field.\<close>

definition segment_of_snapshot ::
  "('ds, 'e, 'v, 'ix) segment_api \<Rightarrow> fragment list \<Rightarrow> ('ds, 'cb) prepared_scalar_segment \<Rightarrow>
     (index_metadata list \<times> index_metadata \<times> schema_field) outcome" where
  "segment_of_snapshot api fragments ps =
     (let d = arc_val (ps_dataset ps) in
      reject_if (\<not> set (ps_fragment_ids ps) \<subseteq> fr_id ` set fragments)
        (invalid_input ''scalar segment fragment_ids contains a fragment absent from the dataset snapshot'') (
      obind (sa_load_indices api d) (\<lambda>indices.
      obind (ok_or (find (\<lambda>i. im_uuid i = ps_segment_uuid ps) indices)
        (invalid_input (''scalar index segment '' @ show_uuid (ps_segment_uuid ps) @ '' is absent from the dataset snapshot''))) (\<lambda>index_meta.
      obind (ok_or (ca_keyed_field (sa_cost api) index_meta)
        (invalid_input ''scalar segment must index a single key field'')) (\<lambda>field_id.
      obind (ok_or (ca_field_by_id (sa_cost api) d field_id)
        (invalid_input ''scalar segment key field is absent from the dataset schema'')) (\<lambda>field.
      Ok (indices, index_meta, field)))))))"

text \<open>The reasons, in order, not to use the segment at all.\<close>

definition structural_fallback ::
  "('ds, 'e, 'v, 'ix) segment_api \<Rightarrow> fragment list \<Rightarrow> ('ds, 'cb) prepared_scalar_segment \<Rightarrow>
     index_metadata \<Rightarrow> schema_field \<Rightarrow> string option" where
  "structural_fallback api fragments ps index_meta field =
     (let d = arc_val (ps_dataset ps) in
      if \<not> ps_use_scalar_index ps then Some ''disabled''
      else if sa_legacy_storage api d then Some ''legacy_storage''
      else if \<not> list_ex (\<lambda>f. fd_id f = fd_id field) (ca_top_fields (sa_cost api) d) then Some ''nested_field''
      else case im_fragment_bitmap index_meta of
        None \<Rightarrow> Some ''unknown_coverage''
      | Some coverage \<Rightarrow>
          if \<not> covers coverage (ps_fragment_ids ps) then Some ''partial_coverage''
          else if list_ex (\<lambda>f. fr_has_overlays f \<or> fr_physical_rows f = None)
                    (filter (\<lambda>f. fr_id f \<in> set (ps_fragment_ids ps)) fragments) then Some ''fragment_state''
          else if sa_frag_reuse_index api d \<noteq> None then Some ''fragment_reuse''
          else None)"

text \<open>The index query of the whole filter, and its part scoped to the segment.\<close>

definition filter_driver ::
  "('ds, 'e, 'v, 'ix) segment_api \<Rightarrow> ('ds, 'e, 'cb) planner_api \<Rightarrow> 'ds \<Rightarrow> index_metadata \<Rightarrow> schema_field \<Rightarrow>
     ('e, 'cb) scan_calls \<Rightarrow> (string + 'v index_expr \<times> 'v index_expr) outcome" where
  "filter_driver api pl d index_meta field reader =
     obind (pl_expr_filter pl reader) (\<lambda>found.
     case found of
       None \<Rightarrow> Ok (Inl ''no_filter'')
     | Some f \<Rightarrow>
         obind (sa_has_truth_test api f) (\<lambda>truth_test.
         if truth_test then Ok (Inl ''boolean_truth_test'')
         else if \<not> set (sa_column_refs api f) \<subseteq> set (sa_stored_fields api d) then Ok (Inl ''filter_schema'')
         else obind (sa_index_query api d f) (\<lambda>index_query.
           case index_query of
             None \<Rightarrow> Ok (Inl ''no_driver'')
           | Some iq \<Rightarrow>
               (case scoped_expression iq (im_name index_meta) (fd_name field) False 0 max_expression_nodes of
                  Scoped (Some expr) _ \<Rightarrow> Ok (Inr (iq, expr))
                | Scoped None _ \<Rightarrow> Ok (Inl ''no_driver'')
                | Unscoped reason \<Rightarrow> Ok (Inl reason)))))"

definition physical_rows_of :: "fragment list \<Rightarrow> u64 list \<Rightarrow> u64" where
  "physical_rows_of fragments ids =
     foldl (\<lambda>sum f. saturating_add sum (case fr_physical_rows f of Some n \<Rightarrow> n | None \<Rightarrow> 0)) 0
       (filter (\<lambda>f. fr_id f \<in> set ids) fragments)"

definition selected_segment ::
  "('ds, 'e, 'v, 'ix) segment_api \<Rightarrow> fragment list \<Rightarrow> ('ds, 'cb) prepared_scalar_segment \<Rightarrow> index_metadata list \<Rightarrow>
     index_metadata \<Rightarrow> 'v index_expr \<Rightarrow> 'v index_expr \<Rightarrow> exec_counts \<Rightarrow> (uuid \<times> 'v index_expr) option \<times> exec_counts" where
  "selected_segment api fragments ps indices index_meta iq expr stats =
     (if ps_auto_selection ps
      then choose_segment (sa_cost api) (arc_val (ps_dataset ps)) indices index_meta expr iq
             \<lparr>rd_fragment_ids = ps_fragment_ids ps, rd_physical_rows = physical_rows_of fragments (ps_fragment_ids ps)\<rparr> stats
      else (Some (ps_segment_uuid ps, expr), stats))"

definition insert_time :: "string \<Rightarrow> usize \<Rightarrow> exec_counts \<Rightarrow> exec_counts" where
  "insert_time name v st = st\<lparr>ec_all_times := (ec_all_times st)(name \<mapsto> v)\<rparr>"

text \<open>Opening and searching the segment; the mask goes to the reader only when it is exact.\<close>

definition search_segment ::
  "('ds, 'e, 'v, 'ix) segment_api \<Rightarrow> 'ds \<Rightarrow> index_metadata list \<Rightarrow> uuid \<Rightarrow> 'v index_expr \<Rightarrow> usize \<Rightarrow>
     ('e, 'cb) scan_calls \<Rightarrow> exec_counts \<Rightarrow> (string option \<times> ('e, 'cb) scan_calls \<times> exec_counts) outcome" where
  "search_segment api d indices segment_uuid expr search_time reader stats =
     obind (ok_or (find (\<lambda>i. im_uuid i = segment_uuid) indices)
       (invalid_input ''runtime scalar index is absent from the dataset snapshot'')) (\<lambda>index_meta.
     case ca_keyed_field (sa_cost api) index_meta of
       None \<Rightarrow> Panic (StrPayload ''called `Option::unwrap()` on a `None` value'')
     | Some field_id \<Rightarrow>
       obind (ok_or (ca_field_by_id (sa_cost api) d field_id)
         (invalid_input ''runtime scalar index field is absent from the dataset schema'')) (\<lambda>field.
       obind (sa_open_scalar_index api d (fd_name field) segment_uuid) (\<lambda>index.
       if sa_index_type api index = OtherIndex then Ok (Some ''index_type'', reader, stats)
       else if sa_results_are_row_addresses api index \<and> sa_stable_row_ids api d
       then Ok (Some ''row_id_domain'', reader, stats)
       else obind (sa_evaluate api (load_index index (im_name index_meta) (fd_name field)) expr) (\<lambda>result.
         let stats1 = insert_count ''scalar_segments_searched'' 1 (insert_time ''scalar_segment_search_time'' search_time stats) in
         if \<not> sr_is_exact result then Ok (Some ''inexact_result'', reader, stats1)
         else Ok (None, reader @ [CRowAddrPrefilter (sr_upper result)],
                  (case sr_max_len result of
                     Some rows \<Rightarrow> insert_count ''scalar_segment_candidate_rows'' rows stats1
                   | None \<Rightarrow> insert_count ''scalar_segment_candidate_rows_unknown'' 1 stats1))))))"

definition configure_candidates ::
  "('ds, 'e, 'v, 'ix) segment_api \<Rightarrow> ('ds, 'e, 'cb) planner_api \<Rightarrow> usize \<Rightarrow> ('ds, 'cb) prepared_scalar_segment \<Rightarrow>
     ('e, 'cb) scan_calls \<Rightarrow> exec_counts \<Rightarrow> (string option \<times> ('e, 'cb) scan_calls \<times> exec_counts) outcome" where
  "configure_candidates api pl search_time ps reader stats =
     (let d = arc_val (ps_dataset ps); fragments = pl_fragments pl d in
      obind (segment_of_snapshot api fragments ps) (\<lambda>(indices, index_meta, field).
      case structural_fallback api fragments ps index_meta field of
        Some reason \<Rightarrow> Ok (Some reason, reader, stats)
      | None \<Rightarrow>
          obind (filter_driver api pl d index_meta field reader) (\<lambda>driver.
          case driver of
            Inl reason \<Rightarrow> Ok (Some reason, reader, stats)
          | Inr (iq, expr) \<Rightarrow>
              (case selected_segment api fragments ps indices index_meta iq expr stats of
                 (None, stats1) \<Rightarrow> Ok (Some ''runtime_cost'', reader, stats1)
               | (Some (segment_uuid, expr1), stats1) \<Rightarrow>
                   search_segment api d indices segment_uuid expr1 search_time reader stats1))))"

subsection \<open>Statistics\<close>

text \<open>The counters are machine words; their sums wrap as in a release build.\<close>

definition add_metric :: "exec_counts \<Rightarrow> string \<times> usize \<Rightarrow> exec_counts" where
  "add_metric st m =
     (case m of (name, v) \<Rightarrow>
        if name = ''iops'' then st\<lparr>ec_iops := ec_iops st + v\<rparr>
        else if name = ''requests'' then st\<lparr>ec_requests := ec_requests st + v\<rparr>
        else if name = ''bytes_read'' then st\<lparr>ec_bytes_read := ec_bytes_read st + v\<rparr>
        else if name = ''indices_loaded'' then st\<lparr>ec_indices_loaded := ec_indices_loaded st + v\<rparr>
        else if name = ''parts_loaded'' then st\<lparr>ec_parts_loaded := ec_parts_loaded st + v\<rparr>
        else if name = ''index_comparisons'' then st\<lparr>ec_index_comparisons := ec_index_comparisons st + v\<rparr>
        else insert_count name ((case ec_all_counts st name of Some n \<Rightarrow> n | None \<Rightarrow> 0) + v) st)"

text \<open>What the combined callback hands on when the reader reports \<open>read\<close>.\<close>

definition add_maps :: "(string \<rightharpoonup> usize) \<Rightarrow> (string \<rightharpoonup> usize) \<Rightarrow> string \<rightharpoonup> usize" where
  "add_maps read own = (\<lambda>name.
     case own name of
       Some v \<Rightarrow> Some ((case read name of Some n \<Rightarrow> n | None \<Rightarrow> 0) + v)
     | None \<Rightarrow> read name)"

definition combined_counts :: "exec_counts \<Rightarrow> exec_counts \<Rightarrow> exec_counts" where
  "combined_counts stats read =
     \<lparr>ec_iops = ec_iops read + ec_iops stats, ec_requests = ec_requests read + ec_requests stats,
      ec_bytes_read = ec_bytes_read read + ec_bytes_read stats,
      ec_indices_loaded = ec_indices_loaded read + ec_indices_loaded stats,
      ec_parts_loaded = ec_parts_loaded read + ec_parts_loaded stats,
      ec_index_comparisons = ec_index_comparisons read + ec_index_comparisons stats,
      ec_all_counts = add_maps (ec_all_counts read) (ec_all_counts stats),
      ec_all_times = add_maps (ec_all_times read) (ec_all_times stats)\<rparr>"

text \<open>\<open>configure\<close>; the metrics that Lance recorded meanwhile and the two clock readings are arguments.\<close>

definition configure ::
  "('ds, 'e, 'v, 'ix) segment_api \<Rightarrow> ('ds, 'e, 'cb) planner_api \<Rightarrow> (string \<times> usize) list \<Rightarrow> usize \<Rightarrow> usize \<Rightarrow>
     ('ds, 'cb) prepared_scalar_segment \<Rightarrow> ('e, 'cb) scan_calls \<Rightarrow> ('e, 'cb) scan_calls outcome" where
  "configure api pl metrics prepare_time search_time ps reader =
     (let reader1 = reader @ [CUseScalarIndex False];
          stats = insert_count ''scalar_segments_requested'' 1 exec_counts_default in
      obind (configure_candidates api pl search_time ps reader1 stats) (\<lambda>(reason, reader2, stats1).
      let stats2 = insert_time ''scalar_segment_prepare_time'' prepare_time stats1;
          stats3 = (case reason of
            Some r \<Rightarrow> insert_count (''scalar_segment_fallback_'' @ r) 1 (insert_count ''scalar_segment_fallbacks'' 1 stats2)
          | None \<Rightarrow> stats2);
          stats4 = foldl add_metric stats3 metrics
      in Ok (reader2 @ call_if_set (\<lambda>cb. CStatsCallback (CombinedCallback cb stats4)) (ps_callback ps))))"

subsection \<open>Lemmas\<close>

text \<open>What Lance documents, over a row's fragment \<open>frag r\<close> and the truth value \<open>sat r q\<close> of an index search on it.
  Indexes answer in row addresses of the current fragments only under these conditions: the dataset is not in the
  legacy format and has no fragment reuse index, the index is of a known type on a top-level field and does not answer
  in stable row ids, and the row's fragment has no overlays and a known size.\<close>

definition addressable :: "('ds, 'e, 'v, 'ix) segment_api \<Rightarrow> 'ds \<Rightarrow> fragment list \<Rightarrow> 'ix \<Rightarrow> i32 \<Rightarrow> u32 \<Rightarrow> bool" where
  "addressable api d fragments ix field_id frag \<longleftrightarrow>
     \<not> sa_legacy_storage api d \<and> sa_frag_reuse_index api d = None \<and> sa_index_type api ix \<noteq> OtherIndex \<and>
     \<not> (sa_results_are_row_addresses api ix \<and> sa_stable_row_ids api d) \<and>
     field_id \<in> fd_id ` set (ca_top_fields (sa_cost api) d) \<and>
     (\<exists>f \<in> set fragments. u32_try_from (fr_id f) = Some frag \<and> \<not> fr_has_overlays f \<and> fr_physical_rows f \<noteq> None)"

text \<open>A field is found in the schema under its own id, and an exact search of a segment of the snapshot, opened on its own key field, selects, among the rows of the
  fragments that this segment covers, those for which the expression is true. Nothing is said of rows outside the
  coverage, nor of a segment whose coverage is unknown.\<close>

definition exact_searches ::
  "('ds, 'e, 'v, 'ix) segment_api \<Rightarrow> 'ds \<Rightarrow> fragment list \<Rightarrow> (u64 \<Rightarrow> u32) \<Rightarrow> (u64 \<Rightarrow> 'v index_search \<Rightarrow> tri) \<Rightarrow> bool" where
  "exact_searches api d fragments frag sat \<longleftrightarrow>
     (\<forall>k field. ca_field_by_id (sa_cost api) d k = Some field \<longrightarrow> fd_id field = k) \<and>
     (\<forall>indices seg field_id field ix e result coverage r.
        sa_load_indices api d = Ok indices \<longrightarrow> seg \<in> set indices \<longrightarrow>
        ca_keyed_field (sa_cost api) seg = Some field_id \<longrightarrow> ca_field_by_id (sa_cost api) d field_id = Some field \<longrightarrow>
        sa_open_scalar_index api d (fd_name field) (im_uuid seg) = Ok ix \<longrightarrow>
        sa_evaluate api (load_index ix (im_name seg) (fd_name field)) e = Ok result \<longrightarrow> sr_is_exact result \<longrightarrow>
        im_fragment_bitmap seg = Some coverage \<longrightarrow> frag r \<in> set coverage \<longrightarrow>
        addressable api d fragments ix field_id (frag r) \<longrightarrow>
        mask_selects (sr_upper result) r = (expr_eval (sat r) e = Some True))"

text \<open>And the index query that is planned for a filter without truth tests, over stored fields, is true wherever the
  filter holds.\<close>

definition planner_sound ::
  "('ds, 'e, 'v, 'ix) segment_api \<Rightarrow> 'ds \<Rightarrow> (u64 \<Rightarrow> 'v index_search \<Rightarrow> tri) \<Rightarrow> ('e \<Rightarrow> u64 \<Rightarrow> bool) \<Rightarrow> bool" where
  "planner_sound api d sat holds \<longleftrightarrow>
     (\<forall>f iq r. sa_has_truth_test api f = Ok False \<longrightarrow> set (sa_column_refs api f) \<subseteq> set (sa_stored_fields api d) \<longrightarrow>
        sa_index_query api d f = Ok (Some iq) \<longrightarrow> holds f r \<longrightarrow> expr_eval (sat r) iq = Some True)"

lemma filter_driver_Inr:
  assumes "filter_driver api pl d index_meta field reader = Ok (Inr (iq, expr))"
  obtains f r where "pl_expr_filter pl reader = Ok (Some f)" "sa_has_truth_test api f = Ok False"
    "set (sa_column_refs api f) \<subseteq> set (sa_stored_fields api d)" "sa_index_query api d f = Ok (Some iq)"
    "scoped_expression iq (im_name index_meta) (fd_name field) False 0 max_expression_nodes = Scoped (Some expr) r"
proof -
  from assms obtain found where 1: "pl_expr_filter pl reader = Ok found"
    by (auto simp: filter_driver_def obind_eq_Ok)
  with assms obtain f where f: "found = Some f" by (cases found) (auto simp: filter_driver_def)
  with 1 assms obtain t where t: "sa_has_truth_test api f = Ok t" by (auto simp: filter_driver_def obind_eq_Ok)
  with 1 f assms have "\<not> t" by (auto simp: filter_driver_def)
  with 1 f t assms have c: "set (sa_column_refs api f) \<subseteq> set (sa_stored_fields api d)"
    by (auto simp: filter_driver_def split: if_splits)
  from 1 f t \<open>\<not> t\<close> assms obtain q where q: "sa_index_query api d f = Ok q"
    by (auto simp: filter_driver_def obind_eq_Ok split: if_splits)
  with 1 f t \<open>\<not> t\<close> assms obtain iq' where "q = Some iq'"
    by (cases q) (auto simp: filter_driver_def split: if_splits)
  with 1 f t \<open>\<not> t\<close> q assms obtain r where "iq' = iq"
    "scoped_expression iq (im_name index_meta) (fd_name field) False 0 max_expression_nodes = Scoped (Some expr) r"
    by (auto simp: filter_driver_def split: if_splits scoped.splits option.splits)
  with 1 f t \<open>\<not> t\<close> q \<open>q = Some iq'\<close> c show thesis by (intro that [of f r]) auto
qed

lemma segment_of_snapshot_Ok:
  assumes "segment_of_snapshot api fragments ps = Ok (indices, index_meta, field)"
  shows "sa_load_indices api (arc_val (ps_dataset ps)) = Ok indices \<and>
    find (\<lambda>i. im_uuid i = ps_segment_uuid ps) indices = Some index_meta \<and> set (ps_fragment_ids ps) \<subseteq> fr_id ` set fragments \<and>
    (\<exists>k. ca_keyed_field (sa_cost api) index_meta = Some k \<and> ca_field_by_id (sa_cost api) (arc_val (ps_dataset ps)) k = Some field)"
  using assms by (auto simp: segment_of_snapshot_def Let_def outcome_ok)

text \<open>What the structural checks leave.\<close>

lemma structural_fallback_None:
  assumes "structural_fallback api fragments ps index_meta field = None"
  obtains coverage where "im_fragment_bitmap index_meta = Some coverage" "covers coverage (ps_fragment_ids ps)"
    "\<not> sa_legacy_storage api (arc_val (ps_dataset ps))" "sa_frag_reuse_index api (arc_val (ps_dataset ps)) = None"
    "fd_id field \<in> fd_id ` set (ca_top_fields (sa_cost api) (arc_val (ps_dataset ps)))"
    "\<forall>f \<in> set fragments. fr_id f \<in> set (ps_fragment_ids ps) \<longrightarrow> \<not> fr_has_overlays f \<and> fr_physical_rows f \<noteq> None"
proof (cases "im_fragment_bitmap index_meta")
  case None
  with assms show thesis by (simp add: structural_fallback_def Let_def split: if_splits)
next
  case (Some coverage)
  note d = assms [unfolded structural_fallback_def Let_def Some option.case]
  from d Some show thesis
    by (intro that [of coverage]) (auto simp: list_ex_iff image_iff eq_commute split: if_splits)
qed

text \<open>An expression that is true on every matching row, for a segment on a top-level field that covers the read domain.\<close>

definition superset_choice ::
  "('ds, 'v) cost_api \<Rightarrow> 'ds \<Rightarrow> index_metadata list \<Rightarrow> u64 list \<Rightarrow> (u64 \<Rightarrow> 'v index_search \<Rightarrow> tri) \<Rightarrow> 'v index_expr \<Rightarrow>
     uuid \<Rightarrow> 'v index_expr \<Rightarrow> bool" where
  "superset_choice cost d indices ids sat iq u e \<longleftrightarrow>
     (\<exists>seg coverage k. seg \<in> set indices \<and> im_uuid seg = u \<and> im_fragment_bitmap seg = Some coverage \<and> covers coverage ids \<and>
        ca_keyed_field cost seg = Some k \<and> k \<in> fd_id ` set (ca_top_fields cost d)) \<and>
     (\<forall>r. expr_eval (sat r) iq = Some True \<longrightarrow> expr_eval (sat r) e = Some True)"

lemma selected_segment_superset:
  assumes "selected_segment api fragments ps indices index_meta iq expr stats = (Some (u, e), stats')"
    and "find (\<lambda>i. im_uuid i = ps_segment_uuid ps) indices = Some index_meta"
    and "im_fragment_bitmap index_meta = Some coverage" "covers coverage (ps_fragment_ids ps)"
    and "ca_keyed_field (sa_cost api) index_meta = Some k" "k \<in> fd_id ` set (ca_top_fields (sa_cost api) (arc_val (ps_dataset ps)))"
    and "scoped_expression iq (im_name index_meta) (fd_name field) False 0 max_expression_nodes = Scoped (Some expr) r"
  shows "superset_choice (sa_cost api) (arc_val (ps_dataset ps)) indices (ps_fragment_ids ps) sat iq u e"
proof -
  let ?choice = "superset_choice (sa_cost api) (arc_val (ps_dataset ps)) indices (ps_fragment_ids ps) sat iq"
  from assms(2) have m: "index_meta \<in> set indices" "im_uuid index_meta = ps_segment_uuid ps"
    by (auto simp: find_Some_iff)
  have scoped: "\<forall>r. expr_eval (sat r) iq = Some True \<longrightarrow> expr_eval (sat r) e' = Some True"
    if "scoped_expression iq n c False 0 k = Scoped (Some e') r'" for n c k e' r'
    using scoped_expression_sound [OF that] by blast
  have own: "?choice (im_uuid index_meta) expr"
    using m assms(3-6) scoped [OF assms(7)] by (auto simp: superset_choice_def)
  show ?thesis
  proof (cases "ps_auto_selection ps")
    case False
    with assms(1) own m show ?thesis by (simp add: selected_segment_def)
  next
    case True
    with choose_segment_cases [OF assms(1) [unfolded selected_segment_def, simplified True if_True]]
    have "choice_from (sa_cost api) (arc_val (ps_dataset ps)) (ps_fragment_ids ps) iq (set indices) (im_uuid index_meta, expr) (u, e)"
      by simp
    then show ?thesis
    proof (unfold choice_from_def, elim disjE bexE conjE)
      fix cand assume c: "cand \<in> set indices" "fst (u, e) = im_uuid cand"
        "valid_candidate (sa_cost api) (arc_val (ps_dataset ps)) (ps_fragment_ids ps) iq cand (snd (u, e))"
      then show ?thesis using scoped by (fastforce simp: valid_candidate_def superset_choice_def)
    qed (use own in simp)
  qed
qed

text \<open>What the structural checks establish for the rows of the requested fragments.\<close>

definition readable_rows :: "('ds, 'e, 'v, 'ix) segment_api \<Rightarrow> 'ds \<Rightarrow> fragment list \<Rightarrow> u32 \<Rightarrow> bool" where
  "readable_rows api d fragments frag \<longleftrightarrow> \<not> sa_legacy_storage api d \<and> sa_frag_reuse_index api d = None \<and>
     (\<exists>f \<in> set fragments. u32_try_from (fr_id f) = Some frag \<and> \<not> fr_has_overlays f \<and> fr_physical_rows f \<noteq> None)"

lemma search_segment_mask:
  assumes "search_segment api d indices u e t reader stats = Ok (reason, reader', stats')"
    and "superset_choice (sa_cost api) d indices ids sat iq u e" "distinct (map im_uuid indices)"
    and exact: "exact_searches api d fragments frag sat" and load: "sa_load_indices api d = Ok indices"
    and readable: "readable_rows api d fragments (frag r)"
    and sat: "expr_eval (sat r) iq = Some True" and row: "\<exists>i \<in> set ids. u32_try_from i = Some (frag r)"
  shows "\<exists>masks. reader' = reader @ masks \<and> length masks \<le> 1 \<and> (masks = [] \<longleftrightarrow> reason \<noteq> None) \<and>
    list_all (\<lambda>c. case c of CRowAddrPrefilter m \<Rightarrow> mask_selects m r | _ \<Rightarrow> False) masks"
proof -
  from assms(1) obtain seg where s: "find (\<lambda>i. im_uuid i = u) indices = Some seg"
    by (auto simp: search_segment_def outcome_ok)
  from assms(1) s obtain k field ix where o: "ca_keyed_field (sa_cost api) seg = Some k"
    "ca_field_by_id (sa_cost api) d k = Some field" "sa_open_scalar_index api d (fd_name field) u = Ok ix"
    by (cases "ca_keyed_field (sa_cost api) seg") (auto simp: search_segment_def outcome_ok)
  from s have seg: "seg \<in> set indices" "im_uuid seg = u" by (auto simp: find_Some_iff)
  from assms(2) obtain seg' coverage k' where s': "seg' \<in> set indices" "im_uuid seg' = u"
    "im_fragment_bitmap seg' = Some coverage" "covers coverage ids" "ca_keyed_field (sa_cost api) seg' = Some k'"
    "k' \<in> fd_id ` set (ca_top_fields (sa_cost api) d)" by (auto simp: superset_choice_def)
  with seg assms(3) have "seg' = seg" by (metis inj_on_def distinct_map)
  with s' o have cov: "im_fragment_bitmap seg = Some coverage" "k \<in> fd_id ` set (ca_top_fields (sa_cost api) d)" by auto
  from row s'(4) have fr: "frag r \<in> set coverage" by (fastforce simp: covers_def list_all_iff)
  from assms(2) sat have e: "expr_eval (sat r) e = Some True" by (simp add: superset_choice_def)
  show ?thesis
  proof (cases "sa_index_type api ix = OtherIndex \<or> (sa_results_are_row_addresses api ix \<and> sa_stable_row_ids api d)")
    case True
    with assms(1) s o have "reader' = reader" "reason \<noteq> None"
      by (auto simp: search_segment_def split: if_splits)
    then show ?thesis by simp
  next
    case False
    with assms(1) s o obtain result where res: "sa_evaluate api (load_index ix (im_name seg) (fd_name field)) e = Ok result"
      by (auto simp: search_segment_def obind_eq_Ok)
    have addr: "addressable api d fragments ix k (frag r)"
      using False readable cov(2) by (auto simp: addressable_def readable_rows_def)
    have open1: "sa_open_scalar_index api d (fd_name field) (im_uuid seg) = Ok ix" using o(3) seg(2) by simp
    have "mask_selects (sr_upper result) r" if "sr_is_exact result"
      using exact [unfolded exact_searches_def, THEN conjunct2, rule_format,
        OF load seg(1) o(1,2) open1 res that cov(1) fr addr] e by simp
    with assms(1) s o False res show ?thesis by (auto simp: search_segment_def Let_def split: if_splits)
  qed
qed

lemma configure_candidates_mask:
  assumes "configure_candidates api pl t ps reader stats = Ok (reason, reader', stats')"
    and "sa_load_indices api (arc_val (ps_dataset ps)) = Ok indices" "distinct (map im_uuid indices)"
    and "planner_sound api (arc_val (ps_dataset ps)) sat holds"
    and "exact_searches api (arc_val (ps_dataset ps)) (pl_fragments pl (arc_val (ps_dataset ps))) frag sat"
    and "pl_expr_filter pl reader = Ok (Some f)" "holds f r"
    and "\<exists>i \<in> set (ps_fragment_ids ps). u32_try_from i = Some (frag r)"
  shows "\<exists>masks. reader' = reader @ masks \<and> length masks \<le> 1 \<and> (masks = [] \<longleftrightarrow> reason \<noteq> None) \<and>
    list_all (\<lambda>c. case c of CRowAddrPrefilter m \<Rightarrow> mask_selects m r | _ \<Rightarrow> False) masks"
proof -
  let ?d = "arc_val (ps_dataset ps)" and ?frags = "pl_fragments pl (arc_val (ps_dataset ps))"
  from assms(1) obtain indices' index_meta field where seg: "segment_of_snapshot api ?frags ps = Ok (indices', index_meta, field)"
    by (auto simp: configure_candidates_def Let_def obind_eq_Ok)
  from segment_of_snapshot_Ok [OF seg] assms(2) obtain k where i: "indices' = indices"
    and m: "find (\<lambda>i. im_uuid i = ps_segment_uuid ps) indices = Some index_meta"
    and ids: "set (ps_fragment_ids ps) \<subseteq> fr_id ` set ?frags"
    and k: "ca_keyed_field (sa_cost api) index_meta = Some k" "ca_field_by_id (sa_cost api) ?d k = Some field" by auto
  show ?thesis
  proof (cases "structural_fallback api ?frags ps index_meta field")
    case (Some why)
    with assms(1) have "reason = Some why" "reader' = reader"
      by (simp_all add: configure_candidates_def Let_def seg)
    then show ?thesis by simp
  next
    case None
    with assms(1) seg obtain driver where driver: "filter_driver api pl ?d index_meta field reader = Ok driver"
      by (auto simp: configure_candidates_def Let_def obind_eq_Ok)
    obtain coverage where cov: "im_fragment_bitmap index_meta = Some coverage" "covers coverage (ps_fragment_ids ps)"
      and ok: "\<not> sa_legacy_storage api ?d" "sa_frag_reuse_index api ?d = None"
      and top: "fd_id field \<in> fd_id ` set (ca_top_fields (sa_cost api) ?d)"
      and clean: "\<forall>f \<in> set ?frags. fr_id f \<in> set (ps_fragment_ids ps) \<longrightarrow> \<not> fr_has_overlays f \<and> fr_physical_rows f \<noteq> None"
      using structural_fallback_None [OF None] .
    from assms(8) ids clean ok have readable: "readable_rows api ?d ?frags (frag r)"
      unfolding readable_rows_def by fastforce
    from assms(5) k(2) have "fd_id field = k" by (simp add: exact_searches_def)
    with top have top': "k \<in> fd_id ` set (ca_top_fields (sa_cost api) ?d)" by simp
    show ?thesis
    proof (cases driver)
      case (Inl why)
      with assms(1) seg None driver show ?thesis by (auto simp: configure_candidates_def Let_def)
    next
      case (Inr q)
      obtain iq expr where q: "q = (iq, expr)" by (cases q)
      obtain sel stats1 where sel: "selected_segment api ?frags ps indices index_meta iq expr stats = (sel, stats1)"
        by (cases "selected_segment api ?frags ps indices index_meta iq expr stats")
      show ?thesis
      proof (cases sel)
        case None
        with assms(1) seg \<open>structural_fallback api ?frags ps index_meta field = None\<close> driver Inr q sel i
        show ?thesis by (auto simp: configure_candidates_def Let_def)
      next
        case (Some ue)
        obtain u e where ue: "ue = (u, e)" by (cases ue)
        obtain f' r' where f': "pl_expr_filter pl reader = Ok (Some f')" "sa_has_truth_test api f' = Ok False"
          "set (sa_column_refs api f') \<subseteq> set (sa_stored_fields api ?d)" "sa_index_query api ?d f' = Ok (Some iq)"
          "scoped_expression iq (im_name index_meta) (fd_name field) False 0 max_expression_nodes = Scoped (Some expr) r'"
          using filter_driver_Inr [OF driver [unfolded Inr q]] .
        from f'(1) assms(6) have "f' = f" by simp
        with f'(2-4) assms(4,7) have iq: "expr_eval (sat r) iq = Some True" unfolding planner_sound_def by blast
        have sup: "superset_choice (sa_cost api) ?d indices (ps_fragment_ids ps) sat iq u e"
          using selected_segment_superset [OF sel [unfolded Some ue] m cov k(1) top' f'(5)] .
        have "search_segment api ?d indices u e t reader stats1 = Ok (reason, reader', stats')"
          using assms(1) seg \<open>structural_fallback api ?frags ps index_meta field = None\<close> driver Inr q sel Some ue i
          by (simp add: configure_candidates_def Let_def)
        from search_segment_mask [OF this sup assms(3,5,2) readable iq assms(8)] show ?thesis .
      qed
    qed
  qed
qed

subsection \<open>Properties\<close>

text \<open>C14. A scan through a scalar segment loses no matching row: whatever segment is asked for or selected at
  run time, whatever part of the filter it can answer and whatever fallback is taken, the reader that
  results is the given one with global index use switched off, at most one row mask, which selects
  every row of the requested fragments for which the filter holds, and the statistics callback.\<close>

theorem scalar_segment_keeps_matches:
  assumes "configure api pl metrics t1 t2 ps reader = Ok reader'"
    and "sa_load_indices api (arc_val (ps_dataset ps)) = Ok indices" "distinct (map im_uuid indices)"
    and "planner_sound api (arc_val (ps_dataset ps)) sat holds"
    and "exact_searches api (arc_val (ps_dataset ps)) (pl_fragments pl (arc_val (ps_dataset ps))) frag sat"
    and "pl_expr_filter pl (reader @ [CUseScalarIndex False]) = Ok (Some f)" "holds f r"
    and "\<exists>i \<in> set (ps_fragment_ids ps). u32_try_from i = Some (frag r)"
  shows "\<exists>masks stats. reader' = reader @ [CUseScalarIndex False] @ masks @
      call_if_set (\<lambda>cb. CStatsCallback (CombinedCallback cb stats)) (ps_callback ps) \<and> length masks \<le> 1 \<and>
    list_all (\<lambda>c. case c of CRowAddrPrefilter m \<Rightarrow> mask_selects m r | _ \<Rightarrow> False) masks"
proof -
  from assms(1) obtain reason reader2 stats1 stats4 where
    c: "configure_candidates api pl t2 ps (reader @ [CUseScalarIndex False])
          (insert_count ''scalar_segments_requested'' 1 exec_counts_default) = Ok (reason, reader2, stats1)"
    and r: "reader' = reader2 @ call_if_set (\<lambda>cb. CStatsCallback (CombinedCallback cb stats4)) (ps_callback ps)"
    by (auto simp: configure_def Let_def obind_eq_Ok)
  from configure_candidates_mask [OF c assms(2-8)] obtain masks where
    m: "reader2 = (reader @ [CUseScalarIndex False]) @ masks" "length masks \<le> 1"
      "list_all (\<lambda>c. case c of CRowAddrPrefilter m \<Rightarrow> mask_selects m r | _ \<Rightarrow> False) masks" by blast
  show ?thesis
    by (rule exI [of _ masks], rule exI [of _ stats4]) (use m r in simp)
qed

text \<open>A dataset of one fragment with one segment on column \<open>c\<close>; the filter selects row 7.\<close>

definition demo_query :: "int option index_expr" where
  "demo_query = EQuery \<lparr>is_index_name = ''i'', is_column = ''c'', is_index_type = ''BTree'', is_query = Some (SqEquals (Some 3))\<rparr>"

definition demo_segment_api :: "(unit, nat, int option, nat) segment_api" where
  "demo_segment_api =
     \<lparr>sa_cost = demo_cost_api\<lparr>ca_field_by_id := \<lambda>_ k. if k = 0 then Some \<lparr>fd_id = 0, fd_name = ''c'', fd_type = TOther ''int64''\<rparr> else None\<rparr>, sa_load_indices = (\<lambda>_. Ok [demo_index]), sa_legacy_storage = (\<lambda>_. False),
      sa_frag_reuse_index = (\<lambda>_. None), sa_stable_row_ids = (\<lambda>_. False), sa_has_truth_test = (\<lambda>_. Ok False),
      sa_column_refs = (\<lambda>_. [''c'']), sa_stored_fields = (\<lambda>_. [''c'']), sa_index_query = (\<lambda>_ _. Ok (Some demo_query)),
      sa_open_scalar_index = (\<lambda>_ _ _. Ok 0), sa_index_type = (\<lambda>_. BTreeIndex), sa_results_are_row_addresses = (\<lambda>_. True),
      sa_evaluate = (\<lambda>_ e. Ok \<lparr>sr_upper = \<lparr>rm_allow = Some {r. expr_eval (\<lambda>_. Some (r = 7)) e = Some True}, rm_block = None\<rparr>,
        sr_is_exact = True, sr_max_len = None\<rparr>)\<rparr>"

definition demo_segment_planner :: "(unit, nat, nat) planner_api" where
  "demo_segment_planner =
     \<lparr>pl_accepts = (\<lambda>_ _. Ok ()), pl_expr_filter = (\<lambda>_. Ok (Some 0)), pl_and = (\<lambda>a b. a),
      pl_fragments = (\<lambda>_. [\<lparr>fr_id = 0, fr_has_overlays = False, fr_physical_rows = Some 10\<rparr>])\<rparr>"

definition demo_prepared_segment :: "(unit, nat) prepared_scalar_segment" where
  "demo_prepared_segment =
     \<lparr>ps_dataset = Arc 1 (), ps_segment_uuid = replicate 16 1, ps_auto_selection = False, ps_fragment_ids = [0],
      ps_use_scalar_index = True, ps_callback = None\<rparr>"

lemma demo_scoped: "scoped_expression demo_query ''i'' ''c'' False 0 128 = Scoped (Some demo_query) 127"
  by (simp add: demo_query_def scoped_expression.simps [of "EQuery _"] max_expression_depth_def)

lemma demo_configured:
  "configure demo_segment_api demo_segment_planner [] 0 0 demo_prepared_segment [] =
     Ok [CUseScalarIndex False, CRowAddrPrefilter \<lparr>rm_allow = Some {7}, rm_block = None\<rparr>]"
  by (simp add: configure_def configure_candidates_def segment_of_snapshot_def structural_fallback_def filter_driver_def
      selected_segment_def search_segment_def demo_segment_api_def demo_segment_planner_def demo_prepared_segment_def
      demo_cost_api_def demo_index_def demo_scoped covers_def u32_try_from_def max_expression_nodes_def Let_def)
    (simp add: demo_query_def)

theorem scalar_segment_keeps_matches_witness:
  "\<exists>masks stats. [CUseScalarIndex False, CRowAddrPrefilter \<lparr>rm_allow = Some {7}, rm_block = None\<rparr>] =
      [] @ [CUseScalarIndex False] @ masks @
      call_if_set (\<lambda>cb. CStatsCallback (CombinedCallback cb stats)) (None :: nat option) \<and> length masks \<le> 1 \<and>
    list_all (\<lambda>c :: (nat, nat) scan_call. case c of CRowAddrPrefilter m \<Rightarrow> mask_selects m 7 | _ \<Rightarrow> False) masks"
proof -
  have "planner_sound demo_segment_api () (\<lambda>r _. Some (r = 7)) (\<lambda>_ r. r = 7)"
    by (simp add: planner_sound_def demo_segment_api_def demo_query_def)
  moreover have "exact_searches demo_segment_api () (pl_fragments demo_segment_planner ()) (\<lambda>_. 0) (\<lambda>r _. Some (r = 7))"
    by (auto simp: exact_searches_def demo_segment_api_def demo_cost_api_def mask_selects_def split: if_splits)
  ultimately show ?thesis
    using scalar_segment_keeps_matches [OF demo_configured, of "[demo_index]" "\<lambda>r _. Some (r = 7)" "\<lambda>_ r. r = 7" "\<lambda>_. 0" 0 7]
    by (simp add: demo_segment_api_def demo_segment_planner_def demo_prepared_segment_def u32_try_from_def)
qed

end
