(* ===== verification/Scan_Stream.thy ===== *)
theory Scan_Stream
  imports Scanner_Build Fts_Plan Multivector Scalar_Segment
begin

text \<open>
  Model of \<open>PreparedScanner::try_into_stream\<close> and \<open>LanceScanner::materialize_stream\<close> of
  \<open>src/scanner.rs\<close>: from a built scanner to an open stream, through the scalar segment, the
  multi-vector rewriting or the rewriting of a prepared text search. This is where the parts of a
  scan meet; what they need from Lance and DataFusion is the record \<open>scan_env\<close>.
\<close>

subsection \<open>The environment\<close>

text \<open>
  The environments of the parts, and then Lance's \<open>create_plan\<close> and \<open>execute_plan\<close>, for the two kinds
  of plan the code rewrites (the text plans of \<open>Fts_Plan\<close> and the vector plans of \<open>Multivector\<close>
  are the same Rust type), and Lance's own \<open>try_into_stream\<close>. The metrics and clock readings are those
  that configuring a scalar segment observes. A panic of \<open>block_on\<close> on a thread that already drives a
  runtime is \<open>se_nested\<close>.
\<close>

record ('ds, 'ix, 'par, 'sc, 'e, 'cb, 'v, 'six, 'm, 'mx, 'x, 'st) scan_env =
  se_fts :: "('ds, 'ix, 'par, 'sc) fts_api"
  se_planner :: "('ds, 'e, 'cb) planner_api"
  se_segment :: "('ds, 'e, 'v, 'six) segment_api"
  se_metrics :: "(string \<times> usize) list"
  se_prepare_time :: usize
  se_search_time :: usize
  se_mv :: "('m, 'm mv_plan, 'mx) mv_api"
  se_plan :: "('x, 'sc) plan_api"
  se_create_plan :: "('e, 'cb) scan_calls \<Rightarrow> ('x, 'sc) exec_plan outcome"
  se_create_mv_plan :: "('e, 'cb) scan_calls \<Rightarrow> 'm mv_plan outcome"
  se_execute :: "('x, 'sc) exec_plan \<Rightarrow> usize option \<Rightarrow> 'cb option \<Rightarrow> 'st outcome"
  se_execute_mv :: "'m mv_plan \<Rightarrow> usize option \<Rightarrow> 'cb option \<Rightarrow> 'st outcome"
  se_stream :: "('e, 'cb) scan_calls \<Rightarrow> 'st outcome"
  se_nested :: "payload option"

definition block_on :: "payload option \<Rightarrow> 'a outcome \<Rightarrow> 'a outcome" where
  "block_on nested f = (case nested of Some p \<Rightarrow> Panic p | None \<Rightarrow> f)"

subsection \<open>Opening the stream\<close>

definition unexpected_plan :: "bool \<Rightarrow> rewrite_counts \<Rightarrow> string" where
  "unexpected_plan current c =
     ''unexpected prepared FTS plan for selected segments with current fragment coverage '' @
       (if current then ''true'' else ''false'') @ '': rewrote '' @ show_nat (rc_indexed c) @
       '' indexed FTS query node(s) and removed '' @ show_nat (rc_flat c) @ '' FlatMatchQueryExec node(s)''"

definition fts_stream ::
  "('ds, 'ix, 'par, 'sc, 'e, 'cb, 'v, 'six, 'm, 'mx, 'x, 'st) scan_env \<Rightarrow> ('ds, 'sc, 'cb) prepared_fts \<Rightarrow>
     ('e, 'cb) scan_calls \<Rightarrow> 'st outcome" where
  "fts_stream env f reader =
     (let context = arc_val (pf_context f) in
      obind (selected_current_fts_fragments (se_planner env) (arc_val (fc_dataset context)) (pf_segments f)) (\<lambda>frags.
      let current = (frags \<noteq> []);
          reader1 = (if pf_scope_prefilter f \<and> current then reader @ [CWithFragments frags] else reader) in
      obind (se_create_plan env reader1) (\<lambda>plan.
      obind (rewrite_prepared_fts_plan (se_plan env) (pf_segments f) (fc_prepared context) current
               (pf_row_addr_mask f) plan) (\<lambda>(plan1, rewritten).
      reject_if (\<not> rewrite_accepted current rewritten) (internal_error (unexpected_plan current rewritten))
        (se_execute env plan1 (pf_batch_size f) (pf_callback f))))))"

definition try_into_stream ::
  "('ds, 'ix, 'par, 'sc, 'e, 'cb, 'v, 'six, 'm, 'mx, 'x, 'st) scan_env \<Rightarrow> ('ds, 'sc, 'e, 'cb) prepared_scanner \<Rightarrow>
     'st outcome" where
  "try_into_stream env p =
     (case pr_scalar_segment p of
        Some ps \<Rightarrow>
          obind (configure (se_segment env) (se_planner env) (se_metrics env) (se_prepare_time env) (se_search_time env)
                   ps (pr_scanner p)) (se_stream env)
      | None \<Rightarrow>
          (case pr_window p of
             Some (offset, limit) \<Rightarrow>
               obind (se_create_mv_plan env (pr_scanner p)) (\<lambda>created.
               obind (rewrite_plan (se_mv env) created) (\<lambda>scored.
               obind (apply_result_window (se_mv env) offset limit scored) (\<lambda>windowed.
               se_execute_mv env windowed (pr_batch_size p) (pr_callback p))))
           | None \<Rightarrow>
               (case pr_fts p of
                  None \<Rightarrow> se_stream env (pr_scanner p)
                | Some f \<Rightarrow> fts_stream env f (pr_scanner p))))"

text \<open>The handle remembers the open stream; a failure leaves it without one, but started.\<close>

definition materialize_stream ::
  "('ds, 'ix, 'par, 'sc, 'e, 'cb, 'v, 'six, 'm, 'mx, 'x, 'st) scan_env \<Rightarrow> ('ds, 'sc, 'cb, 'st) lance_scanner \<Rightarrow>
     unit outcome \<times> ('ds, 'sc, 'cb, 'st) lance_scanner" where
  "materialize_stream env s =
     (let (built, s1) = build_scanner (se_fts env) (se_planner env) s
      in case obind built (\<lambda>p. block_on (se_nested env) (try_into_stream env p)) of
           Ok st \<Rightarrow> (Ok (), s1\<lparr>sc_stream := Some st\<rparr>)
         | Err e \<Rightarrow> (Err e, s1)
         | Panic q \<Rightarrow> (Panic q, s1))"

subsection \<open>Lemmas\<close>

lemma materialize_stream_Ok:
  assumes "materialize_stream env s = (Ok (), s')"
  obtains p st where "build_scanner_body (se_fts env) (se_planner env) s = Ok p" "try_into_stream env p = Ok st"
    "s' = s\<lparr>sc_scan_started := True, sc_stream := Some st\<rparr>" "se_nested env = None"
  using assms
  by (auto simp: materialize_stream_def build_scanner_def block_on_def Let_def outcome_ok
      split: outcome.splits option.splits)

lemma materialize_stream_started: "sc_scan_started (snd (materialize_stream env s))"
  by (auto simp: materialize_stream_def build_scanner_def Let_def split: outcome.splits)

lemma materialize_stream_frame:
  "sc_poisoned (snd (materialize_stream env s)) = sc_poisoned s"
  "fst (materialize_stream env s) \<noteq> Ok () \<Longrightarrow> sc_stream (snd (materialize_stream env s)) = sc_stream s"
  by (auto simp: materialize_stream_def build_scanner_def Let_def split: outcome.splits)

lemma select_each_subset: "select_each api ctx uuids = Ok segs \<Longrightarrow>
    set segs \<subseteq> set (fc_segments ctx) \<and> map im_uuid segs = uuids"
  by (induction uuids arbitrary: segs) (auto simp: outcome_ok find_Some_iff)

lemma select_fts_segments_subset:
  assumes "select_fts_segments api ctx uuids = Ok segs"
  shows "set segs \<subseteq> set (fc_segments ctx)" "\<And>us. uuids = Some us \<Longrightarrow> map im_uuid segs = us"
  using assms by (auto simp: select_fts_segments_def outcome_ok dest: select_each_subset split: option.splits)

lemma prepare_fts_Some:
  assumes "prepare_fts api pl s rmask sc = Ok (Some f, sc')"
  shows "sc_fts_context s = Some (pf_context f) \<and> pf_row_addr_mask f = rmask \<and> pf_batch_size f = sc_batch_size s \<and>
    pf_callback f = sc_scan_statistics_callback s \<and>
    validate_dataset_identity api (arc_val (pf_context f)) (sc_dataset s) = Ok () \<and>
    select_fts_segments api (arc_val (pf_context f)) (sc_fts_index_segments s) = Ok (pf_segments f)"
  using assms by (auto simp: prepare_fts_def outcome_ok split: option.splits)

lemma fts_stream_Ok:
  assumes "fts_stream env f reader = Ok st"
  obtains frags plan plan1 c where
    "selected_current_fts_fragments (se_planner env) (arc_val (fc_dataset (arc_val (pf_context f)))) (pf_segments f) = Ok frags"
    "rewrite_prepared_fts_plan (se_plan env) (pf_segments f) (fc_prepared (arc_val (pf_context f))) (frags \<noteq> [])
       (pf_row_addr_mask f) plan = Ok (plan1, c)"
    "rewrite_accepted (frags \<noteq> []) c" "se_execute env plan1 (pf_batch_size f) (pf_callback f) = Ok st"
  using assms by (auto simp: fts_stream_def Let_def outcome_ok)

lemma build_scanner_prepares_fts:
  assumes "build_scanner_body api pl s = Ok p"
  obtains sc sc' where "prepare_fts api pl s (row_addr_mask_of s) sc = Ok (pr_fts p, sc')"
proof -
  from assms obtain sc6 fts sc7 sc8 scalar where
    s7: "prepare_fts api pl s (row_addr_mask_of s) sc6 = Ok (fts, sc7)"
    and p: "p = \<lparr>pr_scanner = sc8 @ call_if_set (\<lambda>cb. CStatsCallback (PlainCallback cb)) (sc_scan_statistics_callback s),
         pr_fts = fts,
         pr_window = (if is_multi_vector s
           then Some ((case sc_offset s of Some n \<Rightarrow> n | None \<Rightarrow> 0), sc_limit s) else None),
         pr_batch_size = sc_batch_size s, pr_callback = sc_scan_statistics_callback s,
         pr_scalar_segment = scalar\<rparr>"
    unfolding build_scanner_body_def Let_def obind_eq_Ok reject_if_eq_Ok
    by (elim exE conjE) (auto split: prod.split_asm simp: obind_eq_Ok)
  from s7 that [of sc6 sc7] show thesis by (simp add: p)
qed

text \<open>A text search over a context leaves no room for the other two ways of opening a stream.\<close>

lemma build_text_scan:
  assumes "build_scanner_body api pl s = Ok p" "scanner_ok s" "sc_fts_context s = Some context"
  obtains f where "pr_fts p = Some f" "pf_context f = context" "pf_row_addr_mask f = row_addr_mask_of s"
    "pf_batch_size f = sc_batch_size s" "pf_callback f = sc_scan_statistics_callback s"
    "select_fts_segments api (arc_val context) (sc_fts_index_segments s) = Ok (pf_segments f)"
    "pr_window p = None" "pr_scalar_segment p = None"
proof -
  from assms(2,3) have n: "sc_nearest s = None" by (auto simp: scanner_ok_def search_exclusive_def)
  have w: "pr_window p = None" using assms(1)
    by (rule build_scanner_calls) (simp add: is_multi_vector_def n)
  have "prepare_scalar_segment s = Ok (pr_scalar_segment p)" using assms(1) by (rule build_scanner_calls)
  with assms(3) have g: "pr_scalar_segment p = None"
    by (auto simp: prepare_scalar_segment_def outcome_ok split: option.splits)
  from build_scanner_prepares_fts [OF assms(1)] obtain sc sc' where
    q: "prepare_fts api pl s (row_addr_mask_of s) sc = Ok (pr_fts p, sc')" .
  with assms(3) obtain f where f: "pr_fts p = Some f"
    by (cases "pr_fts p") (auto simp: prepare_fts_def outcome_ok)
  from prepare_fts_Some [OF q [unfolded f]] assms(3) that [OF f _ _ _ _ _ w g] show thesis by simp
qed

subsection \<open>Properties\<close>

text \<open>C6. A scan over a prepared text-search context does what the context promises, from the settings to the
  open stream: if opening succeeds, the stream comes from executing, with the configured batch size
  and statistics callback, a plan in which every text search has exactly the selected segments of
  the context, its shared scorer and the configured row mask; there is one such search when the
  segments cover a fragment of the snapshot, and none otherwise; and the snapshot is the scanner's.\<close>

theorem prepared_text_scan_end_to_end:
  assumes "scanner_ok s" "sc_fts_context s = Some context" "materialize_stream env s = (Ok (), s')"
  shows "\<exists>segments plan st. sc_stream s' = Some st \<and>
    se_execute env plan (sc_batch_size s) (sc_scan_statistics_callback s) = Ok st \<and>
    arc_ptr_eq (fc_dataset (arc_val context)) (sc_dataset s) \<and>
    (case sc_fts_index_segments s of
       Some us \<Rightarrow> map im_uuid segments = us \<and> set segments \<subseteq> set (fc_segments (arc_val context))
     | None \<Rightarrow> segments = fc_segments (arc_val context)) \<and>
    list_all (searches_exactly segments (fc_prepared (arc_val context)) (row_addr_mask_of s)) (plan_kinds plan) \<and>
    length (filter is_search (plan_kinds plan)) =
      (if \<exists>f \<in> set (pl_fragments (se_planner env) (arc_val (fc_dataset (arc_val context)))).
            ucast (fr_id f) \<in> segments_coverage segments then 1 else 0)"
proof -
  from assms(3) obtain p st where b: "build_scanner_body (se_fts env) (se_planner env) s = Ok p"
    and o1: "try_into_stream env p = Ok st" and s': "s' = s\<lparr>sc_scan_started := True, sc_stream := Some st\<rparr>"
    by (rule materialize_stream_Ok)
  from build_text_scan [OF b assms(1,2)] obtain f where f: "pr_fts p = Some f" "pf_context f = context"
    "pf_row_addr_mask f = row_addr_mask_of s" "pf_batch_size f = sc_batch_size s"
    "pf_callback f = sc_scan_statistics_callback s"
    "select_fts_segments (se_fts env) (arc_val context) (sc_fts_index_segments s) = Ok (pf_segments f)"
    "pr_window p = None" "pr_scalar_segment p = None" .
  from o1 f have "fts_stream env f (pr_scanner p) = Ok st" by (simp add: try_into_stream_def)
  then obtain frags plan plan1 c where
    g: "selected_current_fts_fragments (se_planner env) (arc_val (fc_dataset (arc_val context))) (pf_segments f) = Ok frags"
    and r: "rewrite_prepared_fts_plan (se_plan env) (pf_segments f) (fc_prepared (arc_val context)) (frags \<noteq> [])
       (row_addr_mask_of s) plan = Ok (plan1, c)"
    and a: "rewrite_accepted (frags \<noteq> []) c"
    and e: "se_execute env plan1 (sc_batch_size s) (sc_scan_statistics_callback s) = Ok st"
    by (rule fts_stream_Ok) (simp add: f)
  from rewrite_sound(1) [OF r] a have k:
    "list_all (searches_exactly (pf_segments f) (fc_prepared (arc_val context)) (row_addr_mask_of s)) (plan_kinds plan1)"
    "length (filter is_search (plan_kinds plan1)) = (if frags \<noteq> [] then 1 else 0)"
    by (auto simp: rewritten_kinds_def rewrite_accepted_def)
  from g have fr: "frags \<noteq> [] \<longleftrightarrow> (\<exists>f' \<in> set (pl_fragments (se_planner env) (arc_val (fc_dataset (arc_val context)))).
      ucast (fr_id f') \<in> segments_coverage (pf_segments f))"
    by (auto simp: selected_current_fts_fragments_def outcome_ok covered_fragments_eq_Ok filter_empty_conv
        dest!: segment_fragment_ids_eq_Ok)
  have seg: "case sc_fts_index_segments s of
       Some us \<Rightarrow> map im_uuid (pf_segments f) = us \<and> set (pf_segments f) \<subseteq> set (fc_segments (arc_val context))
     | None \<Rightarrow> pf_segments f = fc_segments (arc_val context)"
    using f(6) select_fts_segments_subset [OF f(6)]
    by (cases "sc_fts_index_segments s") (simp_all add: select_fts_segments_def)
  have "arc_ptr_eq (fc_dataset (arc_val context)) (sc_dataset s)"
    using assms(1,2) by (simp add: scanner_ok_def)
  with s' e k seg fr show ?thesis by (intro exI [of _ "pf_segments f"] exI [of _ plan1] exI [of _ st]) simp
qed

definition demo_text_context :: "(unit, unit) fts_query_context arc" where
  "demo_text_context = Arc 2 \<lparr>fc_dataset = Arc 1 (), fc_query = FtsMatch ''fox'' (Some ''c'') OpOr None,
     fc_segments = [demo_index], fc_prepared = PreparedMatch ()\<rparr>"

definition demo_text_scan :: "(unit, unit, nat, nat) lance_scanner" where
  "demo_text_scan = (lance_scanner_init (Arc 1 ()))\<lparr>sc_fts_context := Some demo_text_context\<rparr>"

definition demo_env :: "(unit, unit, unit, unit, nat, nat, int option, nat, unit, nat, unit, nat) scan_env" where
  "demo_env =
     \<lparr>se_fts = sp_fts demo_scanner_api, se_planner = demo_planner, se_segment = demo_segment_api, se_metrics = [],
      se_prepare_time = 0, se_search_time = 0, se_mv = demo_plan_mv_api, se_plan = demo_plan_api,
      se_create_plan = (\<lambda>_. Ok (Plan (MatchQueryExec \<lparr>fe_setup = (), fe_segments = None, fe_scorer = None,
        fe_external_mask = None\<rparr>) ''s'' [Plan FlatMatchQueryExec ''s'' []])),
      se_create_mv_plan = (\<lambda>_. Ok (MvPlan MultivectorScoring [])), se_execute = (\<lambda>p _ _. Ok (length (plan_kinds p))),
      se_execute_mv = (\<lambda>_ _ _. Ok 0), se_stream = (\<lambda>calls. Ok (length calls)), se_nested = None\<rparr>"

lemma demo_text_opens: "\<exists>s'. materialize_stream demo_env demo_text_scan = (Ok (), s') \<and> sc_stream s' = Some 2"
  by (simp add: materialize_stream_def build_scanner_def build_scanner_body_def Let_def demo_env_def demo_text_scan_def
      demo_text_context_def demo_planner_def fallible_call_def recheck_batch_def window_calls_def is_multi_vector_def
      nearest_calls_def prepare_fts_def apply_filter_def primary_filter_def prepare_scalar_segment_def row_addr_mask_of_def
      validate_dataset_identity_def arc_ptr_eq_def select_fts_segments_def try_into_stream_def block_on_def fts_stream_def
      selected_current_fts_fragments_def demo_index_def u32_try_from_def demo_plan_api_def rewrite_node_def
      attach_segments_def rewrite_accepted_def)

theorem prepared_text_scan_end_to_end_witness:
  "\<exists>plan. se_execute demo_env plan None None = Ok 2 \<and>
     list_all (searches_exactly [demo_index] (PreparedMatch ()) None) (plan_kinds plan) \<and>
     length (filter is_search (plan_kinds plan)) = 1"
proof -
  obtain s' where m: "materialize_stream demo_env demo_text_scan = (Ok (), s')" "sc_stream s' = Some 2"
    using demo_text_opens by blast
  have ok: "scanner_ok demo_text_scan"
    by (simp add: scanner_ok_defs demo_text_scan_def demo_text_context_def arc_ptr_eq_def)
  have x: "sc_fts_context demo_text_scan = Some demo_text_context" by (simp add: demo_text_scan_def)
  have c: "\<exists>f \<in> set (pl_fragments (se_planner demo_env) (arc_val (fc_dataset (arc_val demo_text_context)))).
      ucast (fr_id f) \<in> segments_coverage [demo_index]"
    by (simp add: demo_env_def demo_planner_def demo_text_context_def segments_coverage_def demo_index_def)
  from prepared_text_scan_end_to_end [OF ok x m(1)] m(2) c show ?thesis
    by (auto simp: demo_text_scan_def demo_text_context_def row_addr_mask_of_def)
qed

end
