(* ===== verification/Step_Systems.thy ===== *)
theory Step_Systems
  imports Prelude
begin

text \<open>
  Step relations over the atomic accesses of all threads, or the calls of a host, with the states they reach; and the
  contract that the code's two ways of retiring a C callback share (the poll wakers of \<open>src/scanner.rs\<close> and the
  build progress gate of \<open>src/index_segment.rs\<close>): a state from which no call is made any more, and what is known of
  the callback in that state.
\<close>

inductive runs :: "('s \<Rightarrow> 's \<Rightarrow> bool) \<Rightarrow> 's \<Rightarrow> 's \<Rightarrow> bool" for step where
  stop: "runs step s s"
| more: "runs step s s' \<Longrightarrow> step s' s'' \<Longrightarrow> runs step s s''"

lemma runs_trans: "runs step s' s'' \<Longrightarrow> runs step s s' \<Longrightarrow> runs step s s''"
  by (induction rule: runs.induct) (auto intro: runs.more)

lemma runs_one: "step s s' \<Longrightarrow> runs step s s'"
  by (blast intro: runs.intros)

text \<open>A step relation with an invariant.\<close>

locale step_system =
  fixes step :: "'s \<Rightarrow> 's \<Rightarrow> bool"
    and initial :: 's
    and inv :: "'s \<Rightarrow> bool"
  assumes inv_initial: "inv initial"
    and inv_step: "inv s \<Longrightarrow> step s s' \<Longrightarrow> inv s'"
begin

lemma runs_inv: "runs step s s' \<Longrightarrow> inv s \<Longrightarrow> inv s'"
  by (induction rule: runs.induct) (auto intro: inv_step)

lemma reachable_inv: "runs step initial s \<Longrightarrow> inv s"
  using runs_inv inv_initial by blast

end

text \<open>A step relation with a state from which no call is made any more.\<close>

locale callback_boundary = step_system step initial inv
  for step :: "'s \<Rightarrow> 's \<Rightarrow> bool" and initial :: 's and inv :: "'s \<Rightarrow> bool" +
  fixes closed :: "'s \<Rightarrow> bool"
    and calls :: "'s \<Rightarrow> 'c"
    and quiet :: "'s \<Rightarrow> bool"
  assumes closed_step: "inv s \<Longrightarrow> closed s \<Longrightarrow> step s s' \<Longrightarrow> closed s' \<and> calls s' = calls s"
    and closed_quiet: "inv s \<Longrightarrow> closed s \<Longrightarrow> quiet s"
begin

lemma runs_closed: "runs step s s' \<Longrightarrow> inv s \<Longrightarrow> closed s \<Longrightarrow> closed s' \<and> calls s' = calls s"
proof (induction rule: runs.induct)
  case (more s s' s'')
  with closed_step [OF runs_inv [OF more.hyps(1) more.prems(1)] _ more.hyps(2)] show ?case by simp
qed simp

text \<open>The boundary: from a reachable closed state on, no call is made, and the callback stays quiet.\<close>

lemma closed_silent:
  assumes "runs step initial s" "closed s" "runs step s s'"
  shows "calls s' = calls s \<and> quiet s'"
  using runs_closed [OF assms(3) reachable_inv [OF assms(1)] assms(2)] runs_inv [OF assms(3) reachable_inv [OF assms(1)]]
  by (simp add: closed_quiet)

end

end
