(* ===== verification/Poll_Waker.thy ===== *)
theory Poll_Waker
  imports Step_Systems
begin

text \<open>
  Model of the poll wakers of \<open>src/scanner.rs\<close> (\<open>CWakerContext\<close>, \<open>PollWakerRegistry\<close>): one-shot C
  callbacks that any thread may fire, and the close protocol that cancels those that have not entered
  and waits for those that have. Every critical section is one atomic operation; the interleavings of
  pollers, wakers and the closing thread are the step relation \<open>waker_step\<close>.
\<close>

subsection \<open>Contexts\<close>

text \<open>\<open>CWakerState\<close>, with what surrounds it: the number of \<open>Waker\<close> handles to the context, and a record of
  how often its C function was entered.\<close>

record waker_context =
  wc_fired :: bool
  wc_cancelled :: bool
  wc_active :: bool
  wc_wakers :: nat
  wc_calls :: nat

definition new_context :: waker_context where
  "new_context = \<lparr>wc_fired = False, wc_cancelled = False, wc_active = False, wc_wakers = 1, wc_calls = 0\<rparr>"

text \<open>The strong count, when the closing thread holds no reference: the handles, and the reference of the
  thread that is inside the callback.\<close>

definition strong_count :: "waker_context \<Rightarrow> nat" where
  "strong_count w = wc_wakers w + (if wc_active w then 1 else 0)"

text \<open>\<open>wake_once\<close> up to the call of the C function (which then is running), and after it.\<close>

definition wake_enter :: "waker_context \<Rightarrow> waker_context" where
  "wake_enter w =
     (if wc_cancelled w \<or> wc_fired w then w
      else w\<lparr>wc_fired := True, wc_active := True, wc_calls := wc_calls w + 1\<rparr>)"

definition wake_exit :: "waker_context \<Rightarrow> waker_context" where
  "wake_exit w = w\<lparr>wc_active := False\<rparr>"

definition cancel :: "waker_context \<Rightarrow> waker_context" where
  "cancel w = w\<lparr>wc_cancelled := True\<rparr>"

text \<open>The vtable: \<open>clone\<close> and \<open>drop\<close> count; \<open>wake\<close> consumes a handle, \<open>wake_by_ref\<close> borrows one.\<close>

definition clone_waker :: "waker_context \<Rightarrow> waker_context" where
  "clone_waker w = w\<lparr>wc_wakers := wc_wakers w + 1\<rparr>"

definition drop_waker :: "waker_context \<Rightarrow> waker_context" where
  "drop_waker w = w\<lparr>wc_wakers := wc_wakers w - 1\<rparr>"

definition wake :: "bool \<Rightarrow> waker_context \<Rightarrow> waker_context" where
  "wake consumes w = wake_enter (if consumes then drop_waker w else w)"

subsection \<open>The registry\<close>

text \<open>The contexts live in a heap indexed by their address; the closing thread's program counter says
  which contexts it still has to cancel, and which to wait for.\<close>

datatype closer = Serving | Cancelling "nat list" "nat list" | Waiting "nat list" | Closed

record waker_system =
  ws_contexts :: "nat \<rightharpoonup> waker_context"
  ws_retired :: bool
  ws_registrations :: "nat list"
  ws_closer :: closer

definition initial_wakers :: waker_system where
  "initial_wakers = \<lparr>ws_contexts = Map.empty, ws_retired = False, ws_registrations = [], ws_closer = Serving\<rparr>"

definition upgradable :: "waker_system \<Rightarrow> nat \<Rightarrow> bool" where
  "upgradable s c \<longleftrightarrow> (case ws_contexts s c of Some w \<Rightarrow> 0 < strong_count w | None \<Rightarrow> False)"

text \<open>\<open>make_raw_waker\<close> with \<open>register\<close>: a fresh context, cancelled at once when the registry is retired.\<close>

definition make_raw_waker :: "nat \<Rightarrow> waker_system \<Rightarrow> waker_system" where
  "make_raw_waker c s =
     (let kept = filter (upgradable s) (ws_registrations s) in
      if ws_retired s
      then s\<lparr>ws_contexts := (ws_contexts s)(c \<mapsto> cancel new_context), ws_registrations := kept\<rparr>
      else s\<lparr>ws_contexts := (ws_contexts s)(c \<mapsto> new_context), ws_registrations := kept @ [c]\<rparr>)"

definition on_context :: "nat \<Rightarrow> (waker_context \<Rightarrow> waker_context) \<Rightarrow> waker_system \<Rightarrow> waker_system" where
  "on_context c f s = s\<lparr>ws_contexts := (ws_contexts s)(c := map_option f (ws_contexts s c))\<rparr>"

text \<open>\<open>retire_and_wait\<close>, one critical section a step: retire and drain, cancel each, wait for each.\<close>

definition retire :: "waker_system \<Rightarrow> waker_system" where
  "retire s =
     (let live = filter (upgradable s) (ws_registrations s) in
      s\<lparr>ws_retired := True, ws_registrations := [], ws_closer := Cancelling live live\<rparr>)"

fun close_step :: "waker_system \<Rightarrow> waker_system option" where
  "close_step s =
     (case ws_closer s of
        Serving \<Rightarrow> Some (retire s)
      | Cancelling (c # cs) live \<Rightarrow> Some ((on_context c cancel s)\<lparr>ws_closer := Cancelling cs live\<rparr>)
      | Cancelling [] live \<Rightarrow> Some (s\<lparr>ws_closer := Waiting live\<rparr>)
      | Waiting (c # cs) \<Rightarrow>
          (case ws_contexts s c of
             Some w \<Rightarrow> if wc_active w then None else Some (s\<lparr>ws_closer := Waiting cs\<rparr>)
           | None \<Rightarrow> None)
      | Waiting [] \<Rightarrow> Some (s\<lparr>ws_closer := Closed\<rparr>)
      | Closed \<Rightarrow> None)"

declare close_step.simps [simp del]

subsection \<open>Interleavings\<close>

inductive waker_step :: "waker_system \<Rightarrow> waker_system \<Rightarrow> bool" where
  poll: "ws_contexts s c = None \<Longrightarrow> waker_step s (make_raw_waker c s)"
| clone_handle: "ws_contexts s c = Some w \<Longrightarrow> 0 < wc_wakers w \<Longrightarrow> waker_step s (on_context c clone_waker s)"
| drop_handle: "ws_contexts s c = Some w \<Longrightarrow> 0 < wc_wakers w \<Longrightarrow> waker_step s (on_context c drop_waker s)"
| wake_handle: "ws_contexts s c = Some w \<Longrightarrow> 0 < wc_wakers w \<Longrightarrow> waker_step s (on_context c (wake consumes) s)"
| callback_returns: "ws_contexts s c = Some w \<Longrightarrow> wc_active w \<Longrightarrow> waker_step s (on_context c wake_exit s)"
| close: "close_step s = Some s' \<Longrightarrow> waker_step s s'"

inductive_cases waker_stepE: "waker_step s s'"

abbreviation waker_steps :: "waker_system \<Rightarrow> waker_system \<Rightarrow> bool" where
  "waker_steps \<equiv> runs waker_step"

abbreviation reachable_wakers :: "waker_system \<Rightarrow> bool" where
  "reachable_wakers \<equiv> waker_steps initial_wakers"

subsection \<open>The invariant\<close>

text \<open>A context is spent when no callback of it runs and none can start: it has fired, is cancelled, or has
  no handle left.\<close>

definition spent :: "waker_context \<Rightarrow> bool" where
  "spent w \<longleftrightarrow> \<not> wc_active w \<and> (wc_fired w \<or> wc_cancelled w \<or> wc_wakers w = 0)"

definition context_ok :: "waker_context \<Rightarrow> bool" where
  "context_ok w \<longleftrightarrow> wc_calls w = (if wc_fired w then 1 else 0) \<and> (wc_active w \<longrightarrow> wc_fired w)"

text \<open>What the closing thread has established of a context, by its program counter.\<close>

definition closer_ok :: "waker_system \<Rightarrow> nat \<Rightarrow> waker_context \<Rightarrow> bool" where
  "closer_ok s c w \<longleftrightarrow>
     (case ws_closer s of
        Serving \<Rightarrow> 0 < strong_count w \<longrightarrow> c \<in> set (ws_registrations s)
      | Cancelling todo live \<Rightarrow> (c \<in> set live \<and> (c \<in> set todo \<or> wc_cancelled w)) \<or> spent w
      | Waiting live \<Rightarrow> (c \<in> set live \<and> wc_cancelled w) \<or> spent w
      | Closed \<Rightarrow> spent w)"

definition wakers_ok :: "waker_system \<Rightarrow> bool" where
  "wakers_ok s \<longleftrightarrow>
     (ws_retired s \<longleftrightarrow> ws_closer s \<noteq> Serving) \<and>
     (\<forall>c \<in> set (ws_registrations s) \<union> (case ws_closer s of Cancelling todo live \<Rightarrow> set todo \<union> set live | Waiting live \<Rightarrow> set live | _ \<Rightarrow> {}).
        ws_contexts s c \<noteq> None) \<and>
     (\<forall>c w. ws_contexts s c = Some w \<longrightarrow> context_ok w \<and> closer_ok s c w)"

lemmas context_op_defs = clone_waker_def drop_waker_def wake_def wake_enter_def wake_exit_def cancel_def

lemma context_ok_ops:
  assumes "context_ok w"
  shows "context_ok (clone_waker w)" "context_ok (drop_waker w)" "context_ok (wake b w)" "context_ok (wake_exit w)"
    "context_ok (cancel w)"
  using assms by (auto simp: context_ok_def context_op_defs)

lemma spent_ops:
  assumes "spent w"
  shows "0 < wc_wakers w \<Longrightarrow> spent (clone_waker w)" "spent (drop_waker w)" "0 < wc_wakers w \<Longrightarrow> spent (wake b w)"
    "spent (wake_exit w)" "spent (cancel w)"
  using assms by (auto simp: spent_def context_op_defs)

lemma cancelled_ops:
  "wc_cancelled (clone_waker w) = wc_cancelled w" "wc_cancelled (drop_waker w) = wc_cancelled w"
  "wc_cancelled (wake b w) = wc_cancelled w" "wc_cancelled (wake_exit w) = wc_cancelled w"
  by (simp_all add: context_op_defs)

lemma closer_ok_ops:
  assumes "closer_ok s c w"
  shows "0 < wc_wakers w \<Longrightarrow> closer_ok s c (clone_waker w)" "0 < wc_wakers w \<Longrightarrow> closer_ok s c (drop_waker w)"
    "0 < wc_wakers w \<Longrightarrow> closer_ok s c (wake b w)" "wc_active w \<Longrightarrow> closer_ok s c (wake_exit w)"
proof -
  have keep: "closer_ok s c (f w)"
    if "wc_cancelled (f w) = wc_cancelled w" "spent w \<longrightarrow> spent (f w)" "0 < strong_count w" for f
    using assms that by (auto simp: closer_ok_def split: closer.splits)
  show "0 < wc_wakers w \<Longrightarrow> closer_ok s c (clone_waker w)"
    by (rule keep) (simp_all add: spent_ops strong_count_def cancelled_ops)
  show "0 < wc_wakers w \<Longrightarrow> closer_ok s c (drop_waker w)"
    by (rule keep) (simp_all add: spent_ops strong_count_def cancelled_ops)
  show "0 < wc_wakers w \<Longrightarrow> closer_ok s c (wake b w)"
    by (rule keep) (simp_all add: spent_ops strong_count_def cancelled_ops)
  show "wc_active w \<Longrightarrow> closer_ok s c (wake_exit w)"
    by (rule keep) (simp_all add: spent_ops strong_count_def cancelled_ops)
qed

definition closer_list :: "closer \<Rightarrow> nat set" where
  "closer_list cl = (case cl of Cancelling todo live \<Rightarrow> set todo \<union> set live | Waiting live \<Rightarrow> set live | _ \<Rightarrow> {})"

lemma wakers_ok_def2:
  "wakers_ok s \<longleftrightarrow>
     (ws_retired s \<longleftrightarrow> ws_closer s \<noteq> Serving) \<and>
     set (ws_registrations s) \<union> closer_list (ws_closer s) \<subseteq> dom (ws_contexts s) \<and>
     (\<forall>c w. ws_contexts s c = Some w \<longrightarrow> context_ok w \<and> closer_ok s c w)"
  by (auto simp: wakers_ok_def closer_list_def domIff subset_iff split: closer.splits)

lemma wakers_okD:
  "wakers_ok s \<Longrightarrow> ws_contexts s c = Some w \<Longrightarrow> context_ok w"
  "wakers_ok s \<Longrightarrow> ws_contexts s c = Some w \<Longrightarrow> closer_ok s c w"
  by (simp_all add: wakers_ok_def2)

lemma closer_ok_on_context [simp]: "closer_ok (on_context c f s) i w = closer_ok s i w"
  by (simp add: closer_ok_def on_context_def split: closer.split)

lemma wakers_ok_on_context:
  assumes "wakers_ok s" "ws_contexts s c = Some w" "context_ok (f w)" "closer_ok s c (f w)"
  shows "wakers_ok (on_context c f s)"
proof -
  have "context_ok w' \<and> closer_ok s i w'" if "ws_contexts (on_context c f s) i = Some w'" for i w'
    using assms that by (cases "i = c") (auto simp: on_context_def wakers_okD)
  moreover have "dom (ws_contexts (on_context c f s)) = dom (ws_contexts s)"
    using assms(2) by (auto simp: on_context_def)
  moreover have "ws_retired (on_context c f s) = ws_retired s" "ws_closer (on_context c f s) = ws_closer s"
    "ws_registrations (on_context c f s) = ws_registrations s" by (simp_all add: on_context_def)
  ultimately show ?thesis using assms(1) by (simp add: wakers_ok_def2)
qed

lemma wakers_ok_make_raw_waker:
  assumes "wakers_ok s" "ws_contexts s c = None"
  shows "wakers_ok (make_raw_waker c s)"
proof -
  have new: "context_ok new_context" "context_ok (cancel new_context)" "spent (cancel new_context)"
    by (simp_all add: context_ok_def spent_def new_context_def cancel_def)
  show ?thesis
  proof (cases "ws_closer s = Serving")
    case True
    have "closer_ok (make_raw_waker c s) i w" if "ws_contexts s i = Some w" for i w
      using assms that True by (auto simp: wakers_ok_def2 closer_ok_def make_raw_waker_def upgradable_def)
    with assms True new show ?thesis
      by (auto simp: wakers_ok_def2 make_raw_waker_def closer_list_def closer_ok_def)
  next
    case False
    with assms new show ?thesis
      by (auto simp: wakers_ok_def2 make_raw_waker_def closer_ok_def split: closer.splits)
  qed
qed

lemma wakers_ok_close_step:
  assumes "wakers_ok s" "close_step s = Some s'"
  shows "wakers_ok s'"
proof (cases "ws_closer s")
  case Serving
  with assms have s': "s' = retire s" by (simp add: close_step.simps)
  have "closer_ok (retire s) c w" if "ws_contexts s c = Some w" for c w
  proof (cases "0 < strong_count w")
    case True
    with assms(1) that Serving have "c \<in> set (ws_registrations s)" by (auto simp: wakers_ok_def2 closer_ok_def)
    with True that show ?thesis by (auto simp: closer_ok_def retire_def Let_def upgradable_def)
  qed (auto simp: closer_ok_def retire_def Let_def spent_def strong_count_def split: if_splits)
  with assms(1) Serving show ?thesis
    by (auto simp: s' wakers_ok_def2 retire_def Let_def closer_list_def)
next
  case (Cancelling todo live)
  show ?thesis
  proof (cases todo)
    case Nil
    with assms Cancelling show ?thesis
      by (auto simp: wakers_ok_def2 close_step.simps closer_list_def closer_ok_def)
  next
    case (Cons c cs)
    with assms(2) Cancelling have s': "s' = (on_context c cancel s)\<lparr>ws_closer := Cancelling cs live\<rparr>"
      by (simp add: close_step.simps)
    have "context_ok w \<and> closer_ok s' i w" if i: "ws_contexts s' i = Some w" for i w
    proof (cases "i = c")
      case True
      with i obtain w0 where w: "ws_contexts s c = Some w0" "w = cancel w0" by (auto simp: s' on_context_def)
      with assms(1) have "context_ok w0" "closer_ok s c w0" by (auto simp: wakers_ok_def2)
      with w(2) Cancelling Cons True show ?thesis
        using context_ok_ops(5) spent_ops(5) by (auto simp: closer_ok_def s' cancel_def)
    next
      case False
      with i have "ws_contexts s i = Some w" by (simp add: s' on_context_def)
      with assms(1) have "context_ok w" "closer_ok s i w" by (auto simp: wakers_ok_def2)
      with Cancelling Cons False show ?thesis by (auto simp: closer_ok_def s')
    qed
    with assms(1) Cancelling Cons show ?thesis
      by (auto simp: wakers_ok_def2 s' on_context_def closer_list_def)
  qed
next
  case (Waiting live)
  show ?thesis
  proof (cases live)
    case Nil
    with assms Waiting show ?thesis
      by (auto simp: wakers_ok_def2 close_step.simps closer_list_def closer_ok_def)
  next
    case (Cons c cs)
    with assms(2) Waiting obtain w where w: "ws_contexts s c = Some w" "\<not> wc_active w" "s' = s\<lparr>ws_closer := Waiting cs\<rparr>"
      by (auto simp: close_step.simps split: option.splits if_splits)
    with assms(1) Waiting Cons show ?thesis
      by (fastforce simp: wakers_ok_def2 closer_list_def closer_ok_def spent_def)
  qed
next
  case Closed
  with assms show ?thesis by (simp add: close_step.simps)
qed

lemma wakers_ok_step: "waker_step s s' \<Longrightarrow> wakers_ok s \<Longrightarrow> wakers_ok s'"
proof (induction rule: waker_step.induct)
  case (poll s c)
  then show ?case by (simp add: wakers_ok_make_raw_waker)
next
  case (close s s')
  then show ?case by (simp add: wakers_ok_close_step)
qed (blast intro: wakers_ok_on_context context_ok_ops closer_ok_ops dest: wakers_okD)+

lemma wakers_ok_initial: "wakers_ok initial_wakers"
  by (simp add: wakers_ok_def2 initial_wakers_def closer_list_def)

text \<open>A context never goes away, and once spent stays spent and is not called again.\<close>

lemma step_keeps_spent:
  assumes "waker_step s s'" "ws_contexts s c = Some w" "spent w"
  shows "\<exists>w'. ws_contexts s' c = Some w' \<and> spent w' \<and> wc_calls w' = wc_calls w"
  using assms
proof (induction rule: waker_step.induct)
  case (close s s')
  then show ?case
    by (auto simp: close_step.simps retire_def Let_def on_context_def spent_def cancel_def
        split: closer.splits list.splits option.splits if_splits)
qed (auto simp: make_raw_waker_def on_context_def Let_def spent_def context_op_defs split: if_splits)

lemma step_new_context:
  assumes "waker_step s s'" "ws_contexts s c = None" "ws_contexts s' c = Some w" "ws_retired s"
  shows "w = cancel new_context"
  using assms
proof (induction rule: waker_step.induct)
  case (close s s')
  then show ?case
    by (auto simp: close_step.simps retire_def Let_def on_context_def
        split: closer.splits list.splits option.splits if_splits)
qed (auto simp: make_raw_waker_def on_context_def Let_def split: if_splits)

lemma step_closed:
  assumes "waker_step s s'" "ws_closer s = Closed"
  shows "ws_closer s' = Closed"
  using assms by (induction rule: waker_step.induct) (auto simp: make_raw_waker_def on_context_def Let_def close_step.simps)

definition calls_of :: "waker_system \<Rightarrow> nat \<Rightarrow> nat" where
  "calls_of s c = (case ws_contexts s c of Some w \<Rightarrow> wc_calls w | None \<Rightarrow> 0)"

lemma closed_spent: "wakers_ok s \<Longrightarrow> ws_closer s = Closed \<Longrightarrow> ws_contexts s c = Some w \<Longrightarrow> spent w"
  by (auto simp: wakers_ok_def2 closer_ok_def)

lemma closed_step_calls:
  assumes "wakers_ok s" "ws_closer s = Closed" "waker_step s s'"
  shows "calls_of s' c = calls_of s c"
proof (cases "ws_contexts s c")
  case None
  show ?thesis
  proof (cases "ws_contexts s' c")
    case (Some w)
    have "ws_retired s" using assms(1,2) by (simp add: wakers_ok_def2)
    with step_new_context [OF assms(3) None Some] None Some show ?thesis
      by (simp add: calls_of_def cancel_def new_context_def)
  qed (simp add: None calls_of_def)
next
  case (Some w)
  with step_keeps_spent [OF assms(3) Some closed_spent [OF assms(1,2) Some]] show ?thesis by (auto simp: calls_of_def)
qed

interpretation wakers: callback_boundary waker_step initial_wakers wakers_ok "\<lambda>s. ws_closer s = Closed" calls_of
    "\<lambda>s. \<forall>c w. ws_contexts s c = Some w \<longrightarrow> \<not> wc_active w"
proof unfold_locales
  show "wakers_ok initial_wakers" by (rule wakers_ok_initial)
  fix s s'
  assume ok: "wakers_ok s"
  show "waker_step s s' \<Longrightarrow> wakers_ok s'" using ok by (rule wakers_ok_step [rotated])
  assume closed: "ws_closer s = Closed"
  show "waker_step s s' \<Longrightarrow> ws_closer s' = Closed \<and> calls_of s' = calls_of s"
    using closed_step_calls [OF ok closed] step_closed closed by blast
  show "\<forall>c w. ws_contexts s c = Some w \<longrightarrow> \<not> wc_active w"
    using closed_spent [OF ok closed] by (auto simp: spent_def)
qed

lemma reachable_context_ok:
  "reachable_wakers s \<Longrightarrow> ws_contexts s c = Some w \<Longrightarrow> wc_calls w \<le> 1 \<and> (wc_active w \<longrightarrow> wc_calls w = 1)"
  using wakers.reachable_inv wakers_okD(1) by (fastforce simp: context_ok_def)

fun close_distance :: "closer \<Rightarrow> nat" where
  "close_distance Serving = 0"
| "close_distance (Cancelling todo live) = length todo + length live + 3"
| "close_distance (Waiting live) = length live + 2"
| "close_distance Closed = 1"

lemma close_step_distance:
  "close_step s = Some s' \<Longrightarrow> ws_closer s \<noteq> Serving \<Longrightarrow> close_distance (ws_closer s') < close_distance (ws_closer s)"
  by (auto simp: close_step.simps on_context_def split: closer.splits list.splits option.splits if_splits)

lemma waker_step_distance:
  assumes "waker_step s s'" "ws_closer s \<noteq> Serving"
  shows "close_distance (ws_closer s') \<le> close_distance (ws_closer s)"
  using assms
  by (induction rule: waker_step.induct)
    (auto simp: make_raw_waker_def on_context_def Let_def dest: close_step_distance)

text \<open>A scanner that is being closed while its one waker is inside the callback, and one that was closed before
  any poll.\<close>

definition demo_waking :: waker_system where
  "demo_waking = on_context 0 (wake True) (make_raw_waker 0 initial_wakers)"

definition demo_blocked :: waker_system where
  "demo_blocked = (on_context 0 cancel (retire demo_waking))\<lparr>ws_closer := Waiting [0]\<rparr>"

definition demo_closed :: waker_system where
  "demo_closed = (retire initial_wakers)\<lparr>ws_closer := Closed\<rparr>"

lemma demo_waking_reachable: "reachable_wakers demo_waking"
proof -
  have "reachable_wakers (make_raw_waker 0 initial_wakers)"
    by (rule runs_one, rule waker_step.poll) (simp add: initial_wakers_def)
  then show ?thesis unfolding demo_waking_def
    by (rule runs.more)
      (rule waker_step.wake_handle [of _ _ new_context], simp_all add: make_raw_waker_def initial_wakers_def new_context_def)
qed

lemma demo_closer_fields [simp]:
  "ws_closer demo_waking = Serving" "ws_registrations demo_waking = [0]"
  "ws_contexts demo_waking 0 = Some \<lparr>wc_fired = True, wc_cancelled = False, wc_active = True, wc_wakers = 0, wc_calls = 1\<rparr>"
  by (simp_all add: demo_waking_def make_raw_waker_def initial_wakers_def on_context_def new_context_def
      context_op_defs)

lemma demo_blocked_reachable: "reachable_wakers demo_blocked"
proof -
  let ?s1 = "retire demo_waking"
  let ?s2 = "(on_context 0 cancel ?s1)\<lparr>ws_closer := Cancelling [] [0]\<rparr>"
  have u: "upgradable demo_waking 0" by (simp add: upgradable_def strong_count_def)
  have 1: "close_step demo_waking = Some ?s1" by (simp add: close_step.simps)
  have 2: "close_step ?s1 = Some ?s2" by (simp add: close_step.simps retire_def Let_def u)
  have 3: "close_step ?s2 = Some demo_blocked" by (simp add: close_step.simps demo_blocked_def)
  from 1 2 3 show ?thesis
    by (blast intro: demo_waking_reachable runs.more waker_step.close)
qed

lemma demo_closed_reachable: "reachable_wakers demo_closed"
proof -
  let ?s1 = "retire initial_wakers" and ?s2 = "(retire initial_wakers)\<lparr>ws_closer := Waiting []\<rparr>"
  have 1: "close_step initial_wakers = Some ?s1" by (simp add: close_step.simps initial_wakers_def)
  have 2: "close_step ?s1 = Some ?s2" by (simp add: close_step.simps retire_def initial_wakers_def Let_def)
  have 3: "close_step ?s2 = Some demo_closed" by (simp add: close_step.simps demo_closed_def)
  from 1 2 3 show ?thesis
    by (blast intro: runs.stop runs.more waker_step.close)
qed

subsection \<open>Properties\<close>

text \<open>C8. A poll waker is single-use: under every interleaving of polls, handle clones, drops and wakes from any
  number of threads, and close, the C function of each context is entered at most once, and it is
  running only between that entry and its return.\<close>

theorem waker_fires_at_most_once:
  assumes "reachable_wakers s" "ws_contexts s c = Some w"
  shows "wc_calls w \<le> 1 \<and> (wc_active w \<longrightarrow> wc_calls w = 1)"
  using reachable_context_ok [OF assms] .

theorem waker_fires_at_most_once_witness:
  "\<exists>w. ws_contexts demo_waking 0 = Some w \<and> wc_active w \<and> wc_calls w = 1"
  using waker_fires_at_most_once [OF demo_waking_reachable demo_closer_fields(3)] by simp

text \<open>C9. Closing is the retirement boundary of every callback context: once \<open>retire_and_wait\<close> has returned, no
  poll waker of the scanner is running, and whatever happens afterwards, later polls included, none
  is ever entered again.\<close>

theorem close_retires_wakers:
  assumes "reachable_wakers s" "ws_closer s = Closed" "waker_steps s s'"
  shows "calls_of s' c = calls_of s c \<and> (case ws_contexts s' c of Some w \<Rightarrow> \<not> wc_active w | None \<Rightarrow> True)"
  using wakers.closed_silent [OF assms] by (auto split: option.split)

theorem close_retires_wakers_witness:
  "calls_of (on_context 4 (wake False) (make_raw_waker 4 demo_closed)) 4 = 0"
proof -
  have f: "ws_contexts demo_closed 4 = None" "ws_retired demo_closed" "ws_closer demo_closed = Closed"
    by (simp_all add: demo_closed_def retire_def initial_wakers_def Let_def)
  have "waker_step demo_closed (make_raw_waker 4 demo_closed)" by (rule waker_step.poll) (rule f)
  moreover have "waker_step (make_raw_waker 4 demo_closed) (on_context 4 (wake False) (make_raw_waker 4 demo_closed))"
    by (rule waker_step.wake_handle [of _ _ "cancel new_context"])
      (simp_all add: make_raw_waker_def f Let_def cancel_def new_context_def)
  ultimately have "waker_steps demo_closed (on_context 4 (wake False) (make_raw_waker 4 demo_closed))"
    by (blast intro: runs.intros)
  from close_retires_wakers [OF demo_closed_reachable f(3) this, of 4] show ?thesis by (simp add: calls_of_def f)
qed

text \<open>C16. Closing never deadlocks: in every reachable state in which it has not returned, the closing thread can take
  a step, unless it waits for a callback that is inside the C function right now and whose return is
  a step; its own steps bring it closer to the end, and no other step takes it further away.\<close>

theorem close_makes_progress:
  assumes "reachable_wakers s" "ws_closer s \<noteq> Closed"
  shows "(case close_step s of
      Some s' \<Rightarrow> ws_closer s = Serving \<or> close_distance (ws_closer s') < close_distance (ws_closer s)
    | None \<Rightarrow> (case ws_closer s of
          Waiting (c # _) \<Rightarrow> (case ws_contexts s c of
              Some w \<Rightarrow> wc_active w \<and> wc_calls w = 1 \<and> waker_step s (on_context c wake_exit s)
            | None \<Rightarrow> False)
        | _ \<Rightarrow> False)) \<and>
    (ws_closer s = Serving \<or> (\<forall>s'. waker_step s s' \<longrightarrow> close_distance (ws_closer s') \<le> close_distance (ws_closer s)))"
proof (rule conjI)
  show "case close_step s of
      Some s' \<Rightarrow> ws_closer s = Serving \<or> close_distance (ws_closer s') < close_distance (ws_closer s)
    | None \<Rightarrow> (case ws_closer s of
          Waiting (c # _) \<Rightarrow> (case ws_contexts s c of
              Some w \<Rightarrow> wc_active w \<and> wc_calls w = 1 \<and> waker_step s (on_context c wake_exit s)
            | None \<Rightarrow> False)
        | _ \<Rightarrow> False)"
  proof (cases "ws_closer s")
    case (Waiting live)
    then show ?thesis
    proof (cases live)
      case (Cons c cs)
      with Waiting wakers.reachable_inv [OF assms(1)] obtain w where w: "ws_contexts s c = Some w"
        by (auto simp: wakers_ok_def2 closer_list_def)
      show ?thesis
      proof (cases "wc_active w")
        case True
        with reachable_context_ok [OF assms(1) w] show ?thesis
          using Waiting Cons w by (simp add: close_step.simps waker_step.callback_returns)
      next
        case False
        with Waiting Cons w show ?thesis by (simp add: close_step.simps)
      qed
    qed (simp add: close_step.simps)
  qed (use assms(2) in \<open>auto simp: close_step.simps on_context_def split: list.split\<close>)
qed (use waker_step_distance in blast)

theorem close_makes_progress_witness:
  "close_step demo_blocked = None \<and> waker_step demo_blocked (on_context 0 wake_exit demo_blocked)"
proof -
  have f: "ws_closer demo_blocked = Waiting [0]" by (simp add: demo_blocked_def)
  have b: "close_step demo_blocked = None"
    by (simp add: close_step.simps demo_blocked_def retire_def on_context_def cancel_def Let_def)
  from close_makes_progress [OF demo_blocked_reachable] f b show ?thesis by (auto split: option.splits)
qed

end
