(* ===== verification/Scan_Iter.thy ===== *)
theory Scan_Iter
  imports Scan_Stream Stream_Guard Poll_Waker
begin

text \<open>
  Model of the ways to consume a scan in \<open>src/scanner.rs\<close>: \<open>lance_scanner_next\<close> (blocking),
  \<open>lance_scanner_poll_next\<close> (cooperative) and \<open>lance_scanner_to_arrow_stream\<close> (exported), each with its
  NULL and poison checks and its panic guard. The open stream is a parameter \<open>poll\<close>: one poll of it is
  ready with an event or pending. Blocking is polling until ready, so a stream that is never ready
  blocks forever: the result of the blocking call is then None.
\<close>

subsection \<open>Polling and blocking\<close>

type_synonym ('st, 'b) polling = "'st \<Rightarrow> 'b poll option \<times> 'st"

partial_function (option) block_next :: "('st, 'b) polling \<Rightarrow> 'st \<Rightarrow> ('b poll \<times> 'st) option" where
  "block_next poll st = (case poll st of (Some ev, st') \<Rightarrow> Some (ev, st') | (None, st') \<Rightarrow> block_next poll st')"

text \<open>\<open>materialize_stream\<close> when there is no stream yet.\<close>

definition open_lazily ::
  "('ds, 'ix, 'par, 'sc, 'e, 'cb, 'v, 'six, 'm, 'mx, 'x, 'st) scan_env \<Rightarrow> ('ds, 'sc, 'cb, 'st) lance_scanner \<Rightarrow>
     unit outcome \<times> ('ds, 'sc, 'cb, 'st) lance_scanner" where
  "open_lazily env s = (if sc_stream s = None then materialize_stream env s else (Ok (), s))"

text \<open>\<open>set_lance_error\<close> before a returned status: formatting the error may unwind.\<close>

definition report_error :: "lance_error \<Rightarrow> 'r \<Rightarrow> tls \<Rightarrow> 'r unwind \<times> tls" where
  "report_error e r t = (case set_lance_error e t of Returned t' \<Rightarrow> (Returned r, t') | Unwound p \<Rightarrow> (Unwound p, t))"

text \<open>The \<open>catch_unwind\<close> around an iteration: a caught panic poisons the handle.\<close>

definition catch_scan ::
  "'r \<Rightarrow> 'r unwind \<Rightarrow> tls \<Rightarrow> ('ds, 'sc, 'cb, 'st) lance_scanner \<Rightarrow> 'r \<times> tls \<times> ('ds, 'sc, 'cb, 'st) lance_scanner" where
  "catch_scan errval r t s =
     (case r of
        Returned v \<Rightarrow> (v, t, s)
      | Unwound p \<Rightarrow> (errval, set_last_error CPanic (''panic in FFI call: '' @ panic_payload_message p) t, poison s))"

definition unwrap_none :: payload where
  "unwrap_none = StrPayload ''called `Option::unwrap()` on a `None` value''"

subsection \<open>Blocking iteration\<close>

text \<open>What the event of the stream becomes: the return code and the batch pointer.\<close>

fun next_result :: "'b poll \<Rightarrow> tls \<Rightarrow> (int \<times> 'b ptr) unwind \<times> tls" where
  "next_result (PollBatch b) t = (Returned (0, Some b), clear_last_error t)"
| "next_result (PollErr e) t = report_error e (- 1, null) t"
| "next_result PollEnd t = (Returned (1, null), clear_last_error t)"
| "next_result (PollPanic p) t = (Unwound p, t)"

definition scanner_next_inner ::
  "('ds, 'ix, 'par, 'sc, 'e, 'cb, 'v, 'six, 'm, 'mx, 'x, 'st) scan_env \<Rightarrow> ('st, 'b) polling \<Rightarrow>
     ('ds, 'sc, 'cb, 'st) lance_scanner \<Rightarrow> tls \<Rightarrow>
     ((int \<times> 'b ptr) unwind \<times> tls \<times> ('ds, 'sc, 'cb, 'st) lance_scanner) option" where
  "scanner_next_inner env poll s t =
     (let (opened, s1) = open_lazily env s
      in case opened of
           Panic p \<Rightarrow> Some (Unwound p, t, s1)
         | Err e \<Rightarrow> (let (r, t') = report_error e (- 1, null) t in Some (r, t', s1))
         | Ok _ \<Rightarrow>
             (case (sc_stream s1, se_nested env) of
                (None, _) \<Rightarrow> Some (Unwound unwrap_none, t, s1)
              | (_, Some p) \<Rightarrow> Some (Unwound p, t, s1)
              | (Some st, None) \<Rightarrow>
                  map_option (\<lambda>(ev, st'). let (r, t') = next_result ev t in (r, t', s1\<lparr>sc_stream := Some st'\<rparr>))
                    (block_next poll st)))"

text \<open>The caller's slot is nulled before anything else.\<close>

definition lance_scanner_next ::
  "('ds, 'ix, 'par, 'sc, 'e, 'cb, 'v, 'six, 'm, 'mx, 'x, 'st) scan_env \<Rightarrow> ('st, 'b) polling \<Rightarrow>
     ('ds, 'sc, 'cb, 'st) lance_scanner ptr \<Rightarrow> 'b ptr ptr \<Rightarrow> tls \<Rightarrow>
     (int \<times> tls \<times> ('ds, 'sc, 'cb, 'st) lance_scanner ptr \<times> 'b ptr ptr) option" where
  "lance_scanner_next env poll scanner out t =
     (let nulled = map_option (\<lambda>_. null) out in
      case scanner of
        None \<Rightarrow> Some (- 1, set_last_error CInvalidArgument ''scanner must not be NULL'' t, scanner, nulled)
      | Some s \<Rightarrow>
          if sc_poisoned s
          then Some (- 1, set_last_error CPanic ''scanner is poisoned by an earlier panic'' t, scanner, nulled)
          else if is_null out then Some (- 1, set_last_error CInvalidArgument ''out must not be NULL'' t, scanner, nulled)
          else map_option (\<lambda>(r, t1, s1).
                 let ((rc, b), t2, s2) = catch_scan (- 1, null) r t1 s1 in (rc, t2, Some s2, Some b))
               (scanner_next_inner env poll s t))"

subsection \<open>Cooperative iteration\<close>

datatype lance_poll_status = StatusReady | StatusPending | StatusFinished | StatusError

fun poll_status_value :: "lance_poll_status \<Rightarrow> int" where
  "poll_status_value StatusReady = 0"
| "poll_status_value StatusPending = 1"
| "poll_status_value StatusFinished = 2"
| "poll_status_value StatusError = - 1"

fun poll_result :: "'b poll option \<Rightarrow> tls \<Rightarrow> (lance_poll_status \<times> 'b ptr) unwind \<times> tls" where
  "poll_result (Some (PollBatch b)) t = (Returned (StatusReady, Some b), clear_last_error t)"
| "poll_result (Some (PollErr e)) t = report_error e (StatusError, null) t"
| "poll_result (Some PollEnd) t = (Returned (StatusFinished, null), clear_last_error t)"
| "poll_result None t = (Returned (StatusPending, null), clear_last_error t)"
| "poll_result (Some (PollPanic p)) t = (Unwound p, t)"

text \<open>The waker is registered under the fresh address \<open>c\<close> once the stream is open; what the stream does with
  its clones of the waker, and the drop at the end, are steps of \<open>Poll_Waker\<close>.\<close>

definition scanner_poll_next_inner ::
  "('ds, 'ix, 'par, 'sc, 'e, 'cb, 'v, 'six, 'm, 'mx, 'x, 'st) scan_env \<Rightarrow> ('st, 'b) polling \<Rightarrow> nat \<Rightarrow>
     ('ds, 'sc, 'cb, 'st) lance_scanner \<Rightarrow> waker_system \<Rightarrow> tls \<Rightarrow>
     (lance_poll_status \<times> 'b ptr) unwind \<times> tls \<times> ('ds, 'sc, 'cb, 'st) lance_scanner \<times> waker_system" where
  "scanner_poll_next_inner env poll c s wakers t =
     (let (opened, s1) = open_lazily env s
      in case opened of
           Panic p \<Rightarrow> (Unwound p, t, s1, wakers)
         | Err e \<Rightarrow> (let (r, t') = report_error e (StatusError, null) t in (r, t', s1, wakers))
         | Ok _ \<Rightarrow>
             (case sc_stream s1 of
                None \<Rightarrow> (Unwound unwrap_none, t, s1, make_raw_waker c wakers)
              | Some st \<Rightarrow>
                  (let (ev, st') = poll st; (r, t') = poll_result ev t
                   in (r, t', s1\<lparr>sc_stream := Some st'\<rparr>, make_raw_waker c wakers))))"

text \<open>The waker argument: NULL, or present; its function and context live in the registered context.\<close>

definition lance_scanner_poll_next ::
  "('ds, 'ix, 'par, 'sc, 'e, 'cb, 'v, 'six, 'm, 'mx, 'x, 'st) scan_env \<Rightarrow> ('st, 'b) polling \<Rightarrow> nat \<Rightarrow>
     ('ds, 'sc, 'cb, 'st) lance_scanner ptr \<Rightarrow> waker_system \<Rightarrow> unit ptr \<Rightarrow> 'b ptr ptr \<Rightarrow> tls \<Rightarrow>
     lance_poll_status \<times> tls \<times> ('ds, 'sc, 'cb, 'st) lance_scanner ptr \<times> waker_system \<times> 'b ptr ptr" where
  "lance_scanner_poll_next env poll c scanner wakers waker out t =
     (let nulled = map_option (\<lambda>_. null) out in
      case scanner of
        None \<Rightarrow> (StatusError, set_last_error CInvalidArgument ''scanner must not be NULL'' t, scanner, wakers, nulled)
      | Some s \<Rightarrow>
          if sc_poisoned s
          then (StatusError, set_last_error CPanic ''scanner is poisoned by an earlier panic'' t, scanner, wakers, nulled)
          else if is_null out
          then (StatusError, set_last_error CInvalidArgument ''out must not be NULL'' t, scanner, wakers, nulled)
          else if is_null waker
          then (StatusError, set_last_error CInvalidArgument ''waker must not be NULL'' t, scanner, wakers, nulled)
          else (let (r, t1, s1, wakers1) = scanner_poll_next_inner env poll c s wakers t;
                    ((status, b), t2, s2) = catch_scan (StatusError, null) r t1 s1
                in (status, t2, Some s2, wakers1, Some b)))"

subsection \<open>Exported streams\<close>

text \<open>Each export builds the scan anew; the handle's own stream is not touched. The schema of a stream and the
  conversion of schemas to C are parameters, as in \<open>Stream_Guard\<close>.\<close>

definition scanner_to_arrow_stream_inner ::
  "('ds, 'ix, 'par, 'sc, 'e, 'cb, 'v, 'six, 'm, 'mx, 'x, 'st) scan_env \<Rightarrow> ('sch \<Rightarrow> unit outcome) \<Rightarrow> ('st \<Rightarrow> 'sch) \<Rightarrow>
     ('ds, 'sc, 'cb, 'st) lance_scanner \<Rightarrow>
     ('st, 'sch) guarded_reader outcome \<times> ('ds, 'sc, 'cb, 'st) lance_scanner" where
  "scanner_to_arrow_stream_inner env conv schema_of s =
     (let (built, s1) = build_scanner (se_fts env) (se_planner env) s
      in (obind built (\<lambda>p. obind (block_on (se_nested env) (try_into_stream env p)) (\<lambda>st.
            guarded_reader_new conv st (schema_of st))), s1))"

definition export_result :: "'r outcome \<Rightarrow> tls \<Rightarrow> (int \<times> 'r ptr) unwind \<times> tls" where
  "export_result res t =
     (case res of
        Ok r \<Rightarrow> (Returned (0, Some r), clear_last_error t)
      | Err e \<Rightarrow> report_error e (- 1, null) t
      | Panic p \<Rightarrow> (Unwound p, t))"

definition lance_scanner_to_arrow_stream ::
  "('ds, 'ix, 'par, 'sc, 'e, 'cb, 'v, 'six, 'm, 'mx, 'x, 'st) scan_env \<Rightarrow> ('sch \<Rightarrow> unit outcome) \<Rightarrow> ('st \<Rightarrow> 'sch) \<Rightarrow>
     ('ds, 'sc, 'cb, 'st) lance_scanner ptr \<Rightarrow> ('st, 'sch) guarded_reader ptr ptr \<Rightarrow> tls \<Rightarrow>
     int \<times> tls \<times> ('ds, 'sc, 'cb, 'st) lance_scanner ptr \<times> ('st, 'sch) guarded_reader ptr ptr" where
  "lance_scanner_to_arrow_stream env conv schema_of scanner out t =
     (case scanner of
        None \<Rightarrow> (- 1, set_last_error CInvalidArgument ''scanner must not be NULL'' t, scanner, out)
      | Some s \<Rightarrow>
          if sc_poisoned s
          then (- 1, set_last_error CPanic ''scanner is poisoned by an earlier panic'' t, scanner, out)
          else if is_null out then (- 1, set_last_error CInvalidArgument ''out must not be NULL'' t, scanner, out)
          else (let (res, s1) = scanner_to_arrow_stream_inner env conv schema_of s;
                    (r, t1) = export_result res t;
                    ((rc, exported), t2, s2) = catch_scan (- 1, null) r t1 s1
                in (rc, t2, Some s2, (case exported of Some e \<Rightarrow> Some (Some e) | None \<Rightarrow> out))))"

subsection \<open>Blocking is polling until ready\<close>

fun block_fuel :: "nat \<Rightarrow> ('st, 'b) polling \<Rightarrow> 'st \<Rightarrow> ('b poll \<times> 'st) option" where
  "block_fuel 0 poll st = None"
| "block_fuel (Suc n) poll st =
     (case poll st of (Some ev, st') \<Rightarrow> Some (ev, st') | (None, st') \<Rightarrow> block_fuel n poll st')"

lemma block_next_fuel:
  assumes "block_next (poll :: ('st, 'b) polling) st = Some r"
  shows "\<exists>n. block_fuel n poll st = Some r"
proof (rule block_next.raw_induct [OF _ assms, where P = "\<lambda>poll st r. \<exists>n. block_fuel n poll st = Some r"])
  fix rec :: "('st, 'b) polling \<Rightarrow> 'st \<Rightarrow> ('b poll \<times> 'st) option" and poll st r
  assume ih: "\<And>poll st r. rec poll st = Some r \<Longrightarrow> \<exists>n. block_fuel n poll st = Some r"
    and r: "(case poll st of (None, st') \<Rightarrow> rec poll st' | (Some ev, st') \<Rightarrow> Some (ev, st')) = Some r"
  obtain ev st' where p: "poll st = (ev, st')" by fastforce
  show "\<exists>n. block_fuel n poll st = Some r"
  proof (cases ev)
    case None
    with r p have "rec poll st' = Some r" by simp
    then obtain n where "block_fuel n poll st' = Some r" using ih by blast
    with p None show ?thesis by (intro exI [of _ "Suc n"]) simp
  next
    case (Some e)
    with r p show ?thesis by (intro exI [of _ "Suc 0"]) simp
  qed
qed

lemma block_fuel_next: "block_fuel n poll st = Some r \<Longrightarrow> block_next poll st = Some r"
proof (induction n arbitrary: st)
  case (Suc n)
  then show ?case by (subst block_next.simps) (auto split: prod.splits option.splits)
qed simp

lemma block_next_iff: "block_next poll st = Some r \<longleftrightarrow> (\<exists>n. block_fuel n poll st = Some r)"
  by (rule iffI, erule block_next_fuel, erule exE, erule block_fuel_next)

text \<open>A consumer that polls again whenever it gets PENDING, at most \<open>n\<close> times, with fresh waker contexts.\<close>

fun poll_until ::
  "nat \<Rightarrow> ('ds, 'ix, 'par, 'sc, 'e, 'cb, 'v, 'six, 'm, 'mx, 'x, 'st) scan_env \<Rightarrow> ('st, 'b) polling \<Rightarrow> nat \<Rightarrow>
     ('ds, 'sc, 'cb, 'st) lance_scanner ptr \<Rightarrow> waker_system \<Rightarrow> tls \<Rightarrow>
     (lance_poll_status \<times> tls \<times> ('ds, 'sc, 'cb, 'st) lance_scanner ptr \<times> 'b ptr ptr) option" where
  "poll_until 0 env poll c scanner wakers t = None"
| "poll_until (Suc n) env poll c scanner wakers t =
     (let (status, t', scanner', wakers', out) = lance_scanner_poll_next env poll c scanner wakers (Some ()) (Some null) t
      in if status = StatusPending then poll_until n env poll (Suc c) scanner' wakers' t'
         else Some (status, t', scanner', out))"

fun next_code :: "lance_poll_status \<Rightarrow> int" where
  "next_code StatusReady = 0"
| "next_code StatusFinished = 1"
| "next_code _ = - 1"

text \<open>What a ready event makes of an open handle, for the two consumers.\<close>

definition polled ::
  "('ds, 'sc, 'cb, 'st) lance_scanner \<Rightarrow> 'b poll \<times> 'st \<Rightarrow>
     lance_poll_status \<times> tls \<times> ('ds, 'sc, 'cb, 'st) lance_scanner ptr \<times> 'b ptr ptr" where
  "polled s = (\<lambda>(ev, st). let (r, t1) = poll_result (Some ev) None;
       ((status, b), t2, s2) = catch_scan (StatusError, null) r t1 (s\<lparr>sc_stream := Some st\<rparr>)
     in (status, t2, Some s2, Some b))"

lemma set_last_error_any: "set_last_error c m t = set_last_error c m None"
  unfolding set_last_error_eq ..

lemma report_error_eq:
  "report_error e r t =
     (case err_display e of Returned m \<Rightarrow> (Returned r, set_last_error (error_code_from_lance e) m None)
      | Unwound p \<Rightarrow> (Unwound p, t))"
  by (simp add: report_error_def set_lance_error_def set_last_error_any [of _ _ t] split: unwind.split)

lemma catch_report:
  "(let (r, t1) = report_error e v t in catch_scan v r t1 s) =
     (case err_display e of
        Returned m \<Rightarrow> (v, set_last_error (error_code_from_lance e) m None, s)
      | Unwound p \<Rightarrow> (v, set_last_error CPanic (''panic in FFI call: '' @ panic_payload_message p) None, poison s))"
  by (auto simp: report_error_eq catch_scan_def set_last_error_any [of _ _ t] split: unwind.splits)

lemma polled_simps:
  "polled s (PollBatch b, st) = (StatusReady, None, Some (s\<lparr>sc_stream := Some st\<rparr>), Some (Some b))"
  "polled s (PollEnd, st) = (StatusFinished, None, Some (s\<lparr>sc_stream := Some st\<rparr>), Some null)"
  "polled s (PollPanic p, st) = (StatusError,
     set_last_error CPanic (''panic in FFI call: '' @ panic_payload_message p) None, Some (poison (s\<lparr>sc_stream := Some st\<rparr>)), Some null)"
  "polled s (PollErr e, st) = (case err_display e of
        Returned m \<Rightarrow> (StatusError, set_last_error (error_code_from_lance e) m None, Some (s\<lparr>sc_stream := Some st\<rparr>), Some null)
      | Unwound p \<Rightarrow> (StatusError, set_last_error CPanic (''panic in FFI call: '' @ panic_payload_message p) None,
          Some (poison (s\<lparr>sc_stream := Some st\<rparr>)), Some null))"
  by (auto simp: polled_def catch_scan_def report_error_eq clear_last_error_def Let_def
      split: unwind.splits)

lemma poll_next_open:
  assumes "sc_stream s = Some st" "\<not> sc_poisoned s" "poll st = (ev, st')"
  shows "lance_scanner_poll_next env poll c (Some s) wakers (Some ()) (Some out) t =
    (case ev of
       None \<Rightarrow> (StatusPending, None, Some (s\<lparr>sc_stream := Some st'\<rparr>), make_raw_waker c wakers, Some null)
     | Some e \<Rightarrow> (case polled s (e, st') of (status, t', s', b) \<Rightarrow> (status, t', s', make_raw_waker c wakers, b)))"
proof (cases ev)
  case None
  with assms show ?thesis
    by (simp add: lance_scanner_poll_next_def scanner_poll_next_inner_def open_lazily_def catch_scan_def clear_last_error_def)
next
  case (Some e)
  with assms show ?thesis
    by (cases e) (auto simp: lance_scanner_poll_next_def scanner_poll_next_inner_def open_lazily_def catch_scan_def
        polled_simps clear_last_error_def report_error_eq set_last_error_any [of _ _ t] split: unwind.splits)
qed

lemma next_open:
  assumes "sc_stream s = Some st" "\<not> sc_poisoned s" "se_nested env = None"
  shows "lance_scanner_next env poll (Some s) (Some out) t =
    map_option (\<lambda>r. case polled s r of (status, t', s', b) \<Rightarrow> (next_code status, t', s', b)) (block_next poll st)"
proof (cases "block_next poll st")
  case (Some r)
  obtain ev st' where r: "r = (ev, st')" by fastforce
  with Some assms show ?thesis
    by (cases ev) (simp_all add: lance_scanner_next_def scanner_next_inner_def open_lazily_def catch_scan_def
        polled_simps clear_last_error_def report_error_eq set_last_error_any [of _ _ t] split: unwind.split)
qed (use assms in \<open>simp add: lance_scanner_next_def scanner_next_inner_def open_lazily_def\<close>)


lemma poll_until_open:
  assumes "sc_stream s = Some st" "\<not> sc_poisoned s"
  shows "poll_until n env poll c (Some s) wakers t = map_option (polled s) (block_fuel n poll st)"
  using assms
proof (induction n arbitrary: s st c wakers t)
  case (Suc n)
  obtain ev st' where p: "poll st = (ev, st')" by fastforce
  note nx = poll_next_open [where poll = poll, OF Suc.prems p]
  show ?case
  proof (cases ev)
    case None
    have e: "polled (s\<lparr>sc_stream := Some st'\<rparr>) = polled s" by (rule ext) (simp add: polled_def split_beta)
    from None p Suc.IH [of "s\<lparr>sc_stream := Some st'\<rparr>" st'] Suc.prems show ?thesis by (simp add: nx e)
  next
    case (Some e)
    have "fst (polled s (e, st')) \<noteq> StatusPending"
      by (cases e) (auto simp: polled_simps split: unwind.splits)
    with Some p show ?thesis by (auto simp: split_beta nx)
  qed
qed simp

text \<open>The first call opens the stream; from then on both consumers work on the same open handle.\<close>

lemma first_call:
  assumes "sc_stream s = None" "\<not> sc_poisoned s" "materialize_stream env s = (opened, s1)"
  shows "opened = Ok () \<Longrightarrow>
      lance_scanner_poll_next env poll c (Some s) wakers (Some ()) (Some out) t =
        lance_scanner_poll_next env poll c (Some s1) wakers (Some ()) (Some out) t \<and>
      lance_scanner_next env poll (Some s) (Some out) t = lance_scanner_next env poll (Some s1) (Some out) t"
    "opened \<noteq> Ok () \<Longrightarrow> \<exists>t' s2.
      lance_scanner_poll_next env poll c (Some s) wakers (Some ()) (Some out) t =
        (StatusError, t', Some s2, wakers, Some null) \<and>
      lance_scanner_next env poll (Some s) (Some out) t = Some (- 1, t', Some s2, Some null)"
proof -
  have np: "\<not> sc_poisoned s1" using materialize_stream_frame(1) [of env s] assms(2,3) by simp
  { assume "opened = Ok ()"
    with assms obtain st where "sc_stream s1 = Some st" by (auto elim!: materialize_stream_Ok)
    with np assms \<open>opened = Ok ()\<close> show
      "lance_scanner_poll_next env poll c (Some s) wakers (Some ()) (Some out) t =
        lance_scanner_poll_next env poll c (Some s1) wakers (Some ()) (Some out) t \<and>
      lance_scanner_next env poll (Some s) (Some out) t = lance_scanner_next env poll (Some s1) (Some out) t"
      by (simp add: lance_scanner_poll_next_def scanner_poll_next_inner_def lance_scanner_next_def
          scanner_next_inner_def open_lazily_def) }
  { assume "opened \<noteq> Ok ()"
    with assms show "\<exists>t' s2.
      lance_scanner_poll_next env poll c (Some s) wakers (Some ()) (Some out) t =
        (StatusError, t', Some s2, wakers, Some null) \<and>
      lance_scanner_next env poll (Some s) (Some out) t = Some (- 1, t', Some s2, Some null)"
      by (cases opened) (auto simp: lance_scanner_poll_next_def scanner_poll_next_inner_def lance_scanner_next_def
          scanner_next_inner_def open_lazily_def report_error_eq catch_scan_def split: unwind.split) }
qed

lemma coded_eq:
  "(case r of (status, t', s', b) \<Rightarrow> (next_code status, t', s', b)) = (rc, t0, s0, b0) \<longleftrightarrow>
     (\<exists>status. r = (status, t0, s0, b0) \<and> rc = next_code status)"
  by (auto split: prod.splits)

text \<open>What a consumer of \<open>n\<close> blocking calls should see of a stream: each event once and in order, with its
  code; a panic, and everything after it, is LANCE_ERR_PANIC.\<close>

fun event_result :: "'b poll \<Rightarrow> int \<times> error_code \<times> 'b ptr ptr" where
  "event_result (PollBatch b) = (0, COk, Some (Some b))"
| "event_result PollEnd = (1, COk, Some null)"
| "event_result (PollErr e) = (- 1, error_code_from_lance e, Some null)"
| "event_result (PollPanic p) = (- 1, CPanic, Some null)"

fun next_spec :: "nat \<Rightarrow> ('st, 'b) polling \<Rightarrow> 'st \<Rightarrow> (int \<times> error_code \<times> 'b ptr ptr) list option" where
  "next_spec 0 poll st = Some []"
| "next_spec (Suc n) poll st =
     (case block_next poll st of
        None \<Rightarrow> None
      | Some (ev, st') \<Rightarrow>
          if poll_panics ev then Some (replicate (Suc n) (- 1, CPanic, Some null))
          else map_option (\<lambda>rs. event_result ev # rs) (next_spec n poll st'))"

fun next_run ::
  "nat \<Rightarrow> ('ds, 'ix, 'par, 'sc, 'e, 'cb, 'v, 'six, 'm, 'mx, 'x, 'st) scan_env \<Rightarrow> ('st, 'b) polling \<Rightarrow>
     ('ds, 'sc, 'cb, 'st) lance_scanner ptr \<Rightarrow> tls \<Rightarrow> (int \<times> error_code \<times> 'b ptr ptr) list option" where
  "next_run 0 env poll scanner t = Some []"
| "next_run (Suc n) env poll scanner t =
     (case lance_scanner_next env poll scanner (Some null) t of
        None \<Rightarrow> None
      | Some (rc, t', scanner', out) \<Rightarrow>
          map_option (\<lambda>rs. (rc, lance_last_error_code t', out) # rs) (next_run n env poll scanner' t'))"

lemma next_run_poisoned:
  "sc_poisoned s \<Longrightarrow> next_run n env poll (Some s) t = Some (replicate n (- 1, CPanic, Some null))"
  by (induction n arbitrary: t) (simp_all add: lance_scanner_next_def)

lemma polled_result:
  "polled s (ev, st') = (status, t', s', b) \<Longrightarrow>
     (if poll_panics ev
      then next_code status = - 1 \<and> lance_last_error_code t' = CPanic \<and> b = Some null \<and> (\<exists>s2. s' = Some s2 \<and> sc_poisoned s2)
      else (next_code status, lance_last_error_code t', b) = event_result ev \<and> s' = Some (s\<lparr>sc_stream := Some st'\<rparr>))"
  by (cases ev) (auto simp: polled_simps poll_panics_def poison_def split: unwind.splits)

lemma next_run_open:
  assumes "sc_stream s = Some st" "\<not> sc_poisoned s" "se_nested env = None"
  shows "next_run n env poll (Some s) t = next_spec n poll st"
  using assms(1,2)
proof (induction n arbitrary: s st t)
  case (Suc n)
  note nx = next_open [where poll = poll, OF Suc.prems assms(3)]
  show ?case
  proof (cases "block_next poll st")
    case (Some r)
    obtain ev st' where r: "r = (ev, st')" by fastforce
    obtain status t' s' b where q: "polled s (ev, st') = (status, t', s', b)" by (cases "polled s (ev, st')") auto
    note pr = polled_result [OF q]
    show ?thesis
    proof (cases "poll_panics ev")
      case True
      with pr obtain s2 where "s' = Some s2" "sc_poisoned s2" by auto
      with True pr q r Some show ?thesis by (simp add: nx next_run_poisoned)
    next
      case False
      with pr q r Some Suc.IH [of "s\<lparr>sc_stream := Some st'\<rparr>" st'] Suc.prems show ?thesis by (simp add: nx)
    qed
  qed (simp add: nx)
qed simp

subsection \<open>Properties\<close>

text \<open>C13. Cooperative and blocking iteration agree: a consumer that polls again after every PENDING ends, after
  some number of polls, with a status, a last error, a handle and a batch if and only if one blocking
  call on the same handle returns the corresponding code with the same last error, handle and batch;
  so blocking returns exactly when polling finishes, errors, panics and end of stream included.\<close>

theorem polling_equals_blocking:
  assumes "se_nested env = None"
  shows "(\<exists>n status. poll_until n env poll c (Some s) wakers t = Some (status, t', s', b) \<and> rc = next_code status) \<longleftrightarrow>
    lance_scanner_next env poll (Some s) (Some null) t = Some (rc, t', s', b)"
proof -
  have op: "(\<exists>n status. poll_until n env poll c (Some s) wakers t = Some (status, t', s', b) \<and> rc = next_code status) \<longleftrightarrow>
      lance_scanner_next env poll (Some s) (Some null) t = Some (rc, t', s', b)"
    if "sc_stream s = Some st" "\<not> sc_poisoned s" for s :: "('a, 'd, 'f, 'l) lance_scanner" and st
    unfolding poll_until_open [OF that] next_open [OF that assms] map_option_eq_Some block_next_iff coded_eq
    by blast
  have single: "(\<exists>n status. poll_until n env poll c (Some s) wakers t = Some (status, t', s', b) \<and> rc = next_code status) \<longleftrightarrow>
      lance_scanner_next env poll (Some s) (Some null) t = Some (rc, t', s', b)"
    if "lance_scanner_poll_next env poll c (Some s) wakers (Some ()) (Some null) t = (StatusError, t1, sp, wakers, Some null)"
       "lance_scanner_next env poll (Some s) (Some null) t = Some (- 1, t1, sp, Some null)" for t1 sp
  proof -
    have "poll_until n env poll c (Some s) wakers t = (if n = 0 then None else Some (StatusError, t1, sp, Some null))" for n
      using that(1) by (cases n) simp_all
    with that(2) show ?thesis by auto
  qed
  show ?thesis
  proof (cases "sc_poisoned s")
    case True
    then show ?thesis by (intro single) (simp_all add: lance_scanner_poll_next_def lance_scanner_next_def)
  next
    case np: False
    show ?thesis
    proof (cases "sc_stream s")
      case None
      obtain opened s1 where m: "materialize_stream env s = (opened, s1)" by fastforce
      show ?thesis
      proof (cases "opened = Ok ()")
        case True
        with m None obtain st where st: "sc_stream s1 = Some st" by (auto elim!: materialize_stream_Ok)
        have np1: "\<not> sc_poisoned s1" using materialize_stream_frame(1) [of env s] m np by simp
        have "poll_until n env poll c (Some s) wakers t = poll_until n env poll c (Some s1) wakers t" for n
          by (cases n) (simp_all add: first_call(1) [OF None np m True])
        with op [OF st np1] show ?thesis by (simp add: first_call(1) [OF None np m True])
      next
        case False
        from first_call(2) [OF None np m False, of poll c wakers null t] show ?thesis by (elim exE conjE) (rule single)
      qed
    qed (rule op [OF _ np])
  qed
qed

definition demo_poll :: "(nat, nat) polling" where
  "demo_poll st = (if st = 2 then (None, 1) else if st = 1 then (Some (PollBatch 7), 0) else (Some PollEnd, 0))"

lemma demo_blocks: "block_next demo_poll 2 = Some (PollBatch 7, 0)" "block_next demo_poll 0 = Some (PollEnd, 0)"
  by (rule block_fuel_next [of 2]; simp add: demo_poll_def numeral_2_eq_2) (rule block_fuel_next [of 1]; simp add: demo_poll_def)

theorem polling_equals_blocking_witness:
  "lance_scanner_next demo_env demo_poll (Some (demo_text_scan\<lparr>sc_stream := Some 2\<rparr>)) (Some null) None =
     Some (0, None, Some (demo_text_scan\<lparr>sc_stream := Some 0\<rparr>), Some (Some 7))"
proof -
  have "poll_until 2 demo_env demo_poll 0 (Some (demo_text_scan\<lparr>sc_stream := Some 2\<rparr>)) initial_wakers None =
      Some (StatusReady, None, Some (demo_text_scan\<lparr>sc_stream := Some 0\<rparr>), Some (Some 7))"
    by (subst poll_until_open [of _ 2]) (simp_all add: demo_text_scan_def demo_poll_def polled_simps numeral_2_eq_2)
  moreover have "se_nested demo_env = None" by (simp add: demo_env_def)
  ultimately show ?thesis
    using polling_equals_blocking [of demo_env demo_poll 0 "demo_text_scan\<lparr>sc_stream := Some 2\<rparr>" initial_wakers None
        None "Some (demo_text_scan\<lparr>sc_stream := Some 0\<rparr>)" "Some (Some 7)" 0] by force
qed

text \<open>C11. Blocking iteration hands out the stream: any number of \<open>lance_scanner_next\<close> calls on a scanner whose
  stream opens returns exactly the stream's events, each once and in order, as codes 0, 1 and -1 with
  the batch and the error code; after the first panic, of the stream or of an error's formatting,
  every call fails with LANCE_ERR_PANIC without touching the stream; and the calls return exactly as
  long as the stream does.\<close>

theorem next_refines_stream:
  assumes "\<not> sc_poisoned s" "open_lazily env s = (Ok (), s1)" "sc_stream s1 = Some st" "se_nested env = None"
  shows "next_run n env poll (Some s) t = next_spec n poll st"
proof (cases "sc_stream s")
  case None
  with assms(2) have m: "materialize_stream env s = (Ok (), s1)" by (simp add: open_lazily_def)
  have np: "\<not> sc_poisoned s1" using materialize_stream_frame(1) [of env s] m assms(1) by simp
  have "next_run n env poll (Some s) t = next_run n env poll (Some s1) t"
    by (cases n) (simp_all add: first_call(1) [OF None assms(1) m])
  with next_run_open [OF assms(3) np assms(4)] show ?thesis by simp
next
  case (Some st')
  with assms(2) have "s1 = s" by (simp add: open_lazily_def)
  with assms show ?thesis by (intro next_run_open) simp_all
qed

theorem next_refines_stream_witness:
  "next_run 3 demo_env demo_poll (Some demo_text_scan) None =
     Some [(0, COk, Some (Some 7)), (1, COk, Some null), (1, COk, Some null)]"
proof -
  obtain s' where m: "materialize_stream demo_env demo_text_scan = (Ok (), s')" "sc_stream s' = Some 2"
    using demo_text_opens by blast
  have "sc_stream demo_text_scan = None" "\<not> sc_poisoned demo_text_scan" by (simp_all add: demo_text_scan_def)
  with m have "next_run 3 demo_env demo_poll (Some demo_text_scan) None = next_spec 3 demo_poll 2"
    by (intro next_refines_stream) (simp_all add: open_lazily_def demo_env_def)
  then show ?thesis by (simp add: numeral_3_eq_3 demo_blocks poll_panics_def)
qed

end
