(* ===== verification/Dispatcher.thy ===== *)
theory Dispatcher
  imports Errors
begin

text \<open>
  Model of \<open>src/async_dispatcher.rs\<close>: completion messages travel over a channel to one dispatcher thread,
  which installs each message's error in its own thread-local slot and calls the C callback. When the
  thread could not be started, or the channel has failed, the sending thread delivers the message
  itself. The host's callback is a parameter: what it does to the error slot of the thread it runs on,
  and whether it unwinds.
\<close>

subsection \<open>Messages and delivery\<close>

record ('c, 'r) dispatcher_message =
  dm_callback :: 'c
  dm_status :: i32
  dm_result :: "'r ptr"
  dm_error :: "(error_code \<times> string) option"

text \<open>What a callback saw: the message, and the error slot at its entry.\<close>

record ('c, 'r) delivery =
  dl_message :: "('c, 'r) dispatcher_message"
  dl_tls :: tls

definition deliver_message ::
  "(('c, 'r) dispatcher_message \<Rightarrow> tls \<Rightarrow> unit unwind \<times> tls) \<Rightarrow> ('c, 'r) dispatcher_message \<Rightarrow> tls \<Rightarrow>
     ('c, 'r) delivery \<times> tls" where
  "deliver_message host msg t =
     (let t1 = (case dm_error msg of Some (code, message) \<Rightarrow> set_last_error code message t | None \<Rightarrow> clear_last_error t)
      in (\<lparr>dl_message = msg, dl_tls = t1\<rparr>, snd (host msg t1)))"

text \<open>The channel: its queue, and whether the receiving thread still holds the other end.\<close>

record ('c, 'r) dispatcher =
  dp_connected :: bool
  dp_queue :: "('c, 'r) dispatcher_message list"

definition dispatcher_send ::
  "('c, 'r) dispatcher \<Rightarrow> ('c, 'r) dispatcher_message \<Rightarrow> ('c, 'r) dispatcher_message option \<times> ('c, 'r) dispatcher" where
  "dispatcher_send d msg =
     (if dp_connected d then (None, d\<lparr>dp_queue := dp_queue d @ [msg]\<rparr>) else (Some msg, d))"

text \<open>The process: the lazily created dispatcher, its thread's error slot, and the deliveries so far.\<close>

record ('c, 'r) process =
  pc_dispatcher :: "('c, 'r) dispatcher option"
  pc_tls :: tls
  pc_log :: "('c, 'r) delivery list"

text \<open>\<open>dispatch_message\<close> on a thread whose error slot is \<open>t\<close>.\<close>

definition dispatch_message ::
  "(('c, 'r) dispatcher_message \<Rightarrow> tls \<Rightarrow> unit unwind \<times> tls) \<Rightarrow> ('c, 'r) dispatcher_message \<Rightarrow> tls \<Rightarrow>
     ('c, 'r) process \<Rightarrow> tls \<times> ('c, 'r) process" where
  "dispatch_message host msg t p =
     (let (undelivered, dispatcher) =
            (case pc_dispatcher p of
               Some d \<Rightarrow> (let (u, d') = dispatcher_send d msg in (u, Some d'))
             | None \<Rightarrow> (Some msg, None));
          p1 = p\<lparr>pc_dispatcher := dispatcher\<rparr>
      in case undelivered of
           None \<Rightarrow> (t, p1)
         | Some m \<Rightarrow> (let (d, t') = deliver_message host m t in (t', p1\<lparr>pc_log := pc_log p1 @ [d]\<rparr>)))"

definition dispatch_callback ::
  "(('c, 'r) dispatcher_message \<Rightarrow> tls \<Rightarrow> unit unwind \<times> tls) \<Rightarrow> 'c \<Rightarrow> i32 \<Rightarrow> 'r ptr \<Rightarrow> (error_code \<times> string) option \<Rightarrow>
     tls \<Rightarrow> ('c, 'r) process \<Rightarrow> tls \<times> ('c, 'r) process" where
  "dispatch_callback host callback status result error t p =
     dispatch_message host \<lparr>dm_callback = callback, dm_status = status, dm_result = result, dm_error = error\<rparr> t p"

text \<open>One turn of the dispatcher thread's loop; with nothing in the channel it waits.\<close>

definition receive_one ::
  "(('c, 'r) dispatcher_message \<Rightarrow> tls \<Rightarrow> unit unwind \<times> tls) \<Rightarrow> ('c, 'r) process \<Rightarrow> ('c, 'r) process" where
  "receive_one host p =
     (case pc_dispatcher p of
        Some d \<Rightarrow>
          (case dp_queue d of
             msg # rest \<Rightarrow>
               (let (dl, t') = deliver_message host msg (pc_tls p)
                in p\<lparr>pc_dispatcher := Some (d\<lparr>dp_queue := rest\<rparr>), pc_tls := t', pc_log := pc_log p @ [dl]\<rparr>)
           | [] \<Rightarrow> p)
      | None \<Rightarrow> p)"

text \<open>The process before its first dispatch: the thread starts, or it does not.\<close>

definition started :: "bool \<Rightarrow> ('c, 'r) process" where
  "started ok = \<lparr>pc_dispatcher = (if ok then Some \<lparr>dp_connected = True, dp_queue = []\<rparr> else None), pc_tls = None, pc_log = []\<rparr>"

subsection \<open>Runs\<close>

text \<open>Any interleaving of dispatches, from any threads, with turns of the loop.\<close>

datatype ('c, 'r) dispatch_event = DispatchFrom tls "('c, 'r) dispatcher_message" | LoopTurn

fun dispatch_run ::
  "(('c, 'r) dispatcher_message \<Rightarrow> tls \<Rightarrow> unit unwind \<times> tls) \<Rightarrow> ('c, 'r) dispatch_event list \<Rightarrow>
     ('c, 'r) process \<Rightarrow> ('c, 'r) process" where
  "dispatch_run host [] p = p"
| "dispatch_run host (DispatchFrom t msg # es) p = dispatch_run host es (snd (dispatch_message host msg t p))"
| "dispatch_run host (LoopTurn # es) p = dispatch_run host es (receive_one host p)"

fun dispatched :: "('c, 'r) dispatch_event list \<Rightarrow> ('c, 'r) dispatcher_message list" where
  "dispatched [] = []"
| "dispatched (DispatchFrom t msg # es) = msg # dispatched es"
| "dispatched (LoopTurn # es) = dispatched es"

definition pending :: "('c, 'r) process \<Rightarrow> ('c, 'r) dispatcher_message list" where
  "pending p = (case pc_dispatcher p of Some d \<Rightarrow> dp_queue d | None \<Rightarrow> [])"

text \<open>A callback that asks for its outcome gets its own: the code and the whole message of its completion (in which
  a NUL byte is spelled out), and nothing after a success.\<close>

definition sees_own_outcome :: "('c, 'r) delivery \<Rightarrow> bool" where
  "sees_own_outcome d \<longleftrightarrow>
     (case dm_error (dl_message d) of
        None \<Rightarrow> lance_last_error_code (dl_tls d) = COk \<and> fst (lance_last_error_message (dl_tls d)) = None
      | Some (code, message) \<Rightarrow> lance_last_error_code (dl_tls d) = code \<and>
          fst (lance_last_error_message (dl_tls d)) = Some (replace_nul message))"

lemma deliver_message_fields:
  "dl_message (fst (deliver_message host msg t)) = msg" "sees_own_outcome (fst (deliver_message host msg t))"
  by (auto simp: deliver_message_def Let_def sees_own_outcome_def set_last_error_eq clear_last_error_def
      lance_last_error_code_def lance_last_error_message_def split: option.splits)

lemma dispatch_message_log:
  "map dl_message (pc_log (snd (dispatch_message host msg t p))) @ pending (snd (dispatch_message host msg t p)) =
     (if (\<exists>d. pc_dispatcher p = Some d \<and> dp_connected d) then map dl_message (pc_log p) @ pending p @ [msg]
      else map dl_message (pc_log p) @ [msg] @ pending p)"
  "list_all sees_own_outcome (pc_log p) \<Longrightarrow> list_all sees_own_outcome (pc_log (snd (dispatch_message host msg t p)))"
  by (auto simp: dispatch_message_def dispatcher_send_def pending_def Let_def split_beta deliver_message_fields
      split: option.splits)

lemma dispatch_message_connected:
  "(\<exists>d. pc_dispatcher (snd (dispatch_message host msg t p)) = Some d \<and> dp_connected d) \<longleftrightarrow>
     (\<exists>d. pc_dispatcher p = Some d \<and> dp_connected d)"
  by (auto simp: dispatch_message_def dispatcher_send_def Let_def split_beta split: option.splits)

lemma receive_one_log:
  "map dl_message (pc_log (receive_one host p)) @ pending (receive_one host p) = map dl_message (pc_log p) @ pending p"
  "list_all sees_own_outcome (pc_log p) \<Longrightarrow> list_all sees_own_outcome (pc_log (receive_one host p))"
  "pending (receive_one host p) = tl (pending p)"
  "(\<exists>d. pc_dispatcher (receive_one host p) = Some d \<and> dp_connected d) \<longleftrightarrow> (\<exists>d. pc_dispatcher p = Some d \<and> dp_connected d)"
  by (auto simp: receive_one_def pending_def Let_def split_beta deliver_message_fields split: option.splits list.splits)

lemma dispatch_run_log:
  assumes "pc_dispatcher p = None \<or> (\<exists>d. pc_dispatcher p = Some d \<and> dp_connected d)"
  shows "map dl_message (pc_log (dispatch_run host es p)) @ pending (dispatch_run host es p) =
    map dl_message (pc_log p) @ pending p @ dispatched es"
  using assms
proof (induction host es p rule: dispatch_run.induct)
  case (2 host t msg es p)
  have n: "pc_dispatcher p = None \<longleftrightarrow> pc_dispatcher (snd (dispatch_message host msg t p)) = None"
    by (auto simp: dispatch_message_def Let_def split_beta split: option.splits)
  with 2 dispatch_message_connected [of host msg t p] dispatch_message_log(1) [of host msg t p] show ?case
    by (auto simp: pending_def)
next
  case (3 host es p)
  have "pc_dispatcher p = None \<longleftrightarrow> pc_dispatcher (receive_one host p) = None"
    by (auto simp: receive_one_def Let_def split_beta split: option.splits list.splits)
  with 3 receive_one_log(1,4) [of host p] show ?case by auto
qed simp

lemma dispatch_run_outcomes:
  "list_all sees_own_outcome (pc_log p) \<Longrightarrow> list_all sees_own_outcome (pc_log (dispatch_run host es p))"
  by (induction host es p rule: dispatch_run.induct) (simp_all add: dispatch_message_log receive_one_log)

lemma dispatch_run_append: "dispatch_run host (es @ fs) p = dispatch_run host fs (dispatch_run host es p)"
  by (induction host es p rule: dispatch_run.induct) simp_all

lemma drain: "pending (dispatch_run host (replicate n LoopTurn) p) = drop n (pending p)"
proof (induction n arbitrary: p)
  case (Suc n)
  then show ?case by (simp add: receive_one_log(3) drop_Suc)
qed simp

lemma dispatched_append: "dispatched (es @ fs) = dispatched es @ dispatched fs"
  by (induction es rule: dispatched.induct) simp_all

lemma dispatched_turns [simp]: "dispatched (replicate n LoopTurn) = []"
  by (induction n) simp_all

lemma length_dispatched: "length (dispatched es) \<le> length es"
  by (induction es rule: dispatched.induct) simp_all

subsection \<open>Properties\<close>

text \<open>C12. Every dispatched completion is delivered exactly once, in the order of dispatch, whether or not the
  dispatcher thread could be started and however its loop interleaves with the dispatching threads,
  once the loop has had as many further turns as there were events; and inside the callback the last
  error is always the one of its own completion, code and message, and no error when it succeeded.\<close>

theorem completions_delivered_once:
  assumes "length es \<le> n"
  shows "let p = dispatch_run host (es @ replicate n LoopTurn) (started ok) in
    map dl_message (pc_log p) = dispatched es \<and> list_all sees_own_outcome (pc_log p)"
proof -
  let ?p = "dispatch_run host es (started ok)"
  have s: "pc_dispatcher (started ok) = None \<or> (\<exists>d. pc_dispatcher (started ok) = Some d \<and> dp_connected d)"
    "pc_log (started ok) = []" "pending (started ok) = []" by (simp_all add: started_def pending_def)
  have "map dl_message (pc_log (dispatch_run host (es @ replicate n LoopTurn) (started ok))) @
      pending (dispatch_run host (es @ replicate n LoopTurn) (started ok)) = dispatched es"
    using dispatch_run_log [OF s(1), of host "es @ replicate n LoopTurn"] by (simp add: s dispatched_append)
  moreover have "length (pending ?p) \<le> length es"
    using dispatch_run_log [OF s(1), of host es] length_dispatched [of es]
    by (auto simp: s dest: arg_cong [where f = length])
  then have "pending (dispatch_run host (es @ replicate n LoopTurn) (started ok)) = []"
    using assms by (simp add: dispatch_run_append drain)
  ultimately show ?thesis using dispatch_run_outcomes [of "started ok"] by (simp add: s Let_def)
qed

theorem completions_delivered_once_witness:
  "let p = dispatch_run (\<lambda>_ t. (Unwound OtherPayload, t))
     ([DispatchFrom None \<lparr>dm_callback = 1 :: nat, dm_status = - 1, dm_result = None :: nat ptr, dm_error = Some (CPanic, ''x'')\<rparr>] @
       replicate 1 LoopTurn) (started True)
   in map dl_message (pc_log p) = [\<lparr>dm_callback = 1, dm_status = - 1, dm_result = None, dm_error = Some (CPanic, ''x'')\<rparr>] \<and>
     list_all (\<lambda>d. lance_last_error_code (dl_tls d) = CPanic \<and> fst (lance_last_error_message (dl_tls d)) = Some ''x'') (pc_log p)"
proof -
  let ?m = "\<lparr>dm_callback = 1 :: nat, dm_status = - 1, dm_result = None :: nat ptr, dm_error = Some (CPanic, ''x'')\<rparr>"
  let ?p = "dispatch_run (\<lambda>_ t. (Unwound OtherPayload, t)) ([DispatchFrom None ?m] @ replicate 1 LoopTurn) (started True)"
  have len: "length [DispatchFrom None ?m] \<le> 1" by simp
  have d: "map dl_message (pc_log ?p) = [?m]" "list_all sees_own_outcome (pc_log ?p)"
    using completions_delivered_once [OF len, of "\<lambda>_ t. (Unwound OtherPayload, t)" True] by (simp_all add: Let_def)
  then obtain dl where "pc_log ?p = [dl]" "dl_message dl = ?m" by (auto simp del: append.simps replicate.simps)
  with d show ?thesis by (simp add: Let_def sees_own_outcome_def)
qed

end
