(* ===== verification/Scan_Async.thy ===== *)
theory Scan_Async
  imports Scan_Iter Dispatcher "HOL-Library.Multiset"
begin

text \<open>
  Model of \<open>lance_scanner_scan_async\<close> of \<open>src/scanner.rs\<close>: the entry guard, the call-time setup and the
  spawned task, which between them report one completion through the dispatcher. The task runs
  later, on a worker thread; whether spawning it panics is a parameter.
\<close>

subsection \<open>Call-time setup\<close>

text \<open>\<open>scan_async_setup\<close> returns the task it spawned, if any, beside the thread's error slot, the handle and
  the dispatcher process.\<close>

definition scan_async_setup ::
  "('ds, 'ix, 'par, 'sc, 'e, 'cb, 'v, 'six, 'm, 'mx, 'x, 'st) scan_env \<Rightarrow>
     (('c, ('st, 'sch) guarded_reader) dispatcher_message \<Rightarrow> tls \<Rightarrow> unit unwind \<times> tls) \<Rightarrow> payload option \<Rightarrow>
     ('ds, 'sc, 'cb, 'st) lance_scanner ptr \<Rightarrow> 'c \<Rightarrow> tls \<Rightarrow> ('c, ('st, 'sch) guarded_reader) process \<Rightarrow>
     ('ds, 'sc, 'e, 'cb) prepared_scanner option unwind \<times> tls \<times> ('ds, 'sc, 'cb, 'st) lance_scanner ptr \<times>
       ('c, ('st, 'sch) guarded_reader) process" where
  "scan_async_setup env host spawn scanner callback t p =
     (case scanner of
        None \<Rightarrow>
          (let t1 = set_last_error CInvalidArgument ''scanner is NULL'' t;
               (t2, p1) = dispatch_callback host callback (- 1) null (Some (CInvalidArgument, ''scanner is NULL'')) t1 p
           in (Returned None, t2, scanner, p1))
      | Some s \<Rightarrow>
          if sc_poisoned s then
            (let t1 = set_last_error CPanic ''scanner is poisoned by an earlier panic'' t;
                 (t2, p1) = dispatch_callback host callback (- 1) null
                   (Some (CPanic, ''scanner is poisoned by an earlier panic'')) t1 p
             in (Returned None, t2, scanner, p1))
          else
            (let (built, s1) = build_scanner (se_fts env) (se_planner env) s
             in case built of
                  Panic q \<Rightarrow> (Unwound q, t, Some s1, p)
                | Err e \<Rightarrow>
                    (case err_display e of
                       Unwound q \<Rightarrow> (Unwound q, t, Some s1, p)
                     | Returned m \<Rightarrow>
                         (let t1 = set_last_error (error_code_from_lance e) m t;
                              (t2, p1) = dispatch_callback host callback (- 1) null
                                (Some (error_code_from_lance e, m)) t1 p
                          in (Returned None, t2, Some s1, p1)))
                | Ok prepared \<Rightarrow>
                    (case spawn of
                       Some q \<Rightarrow> (Unwound q, t, Some s1, p)
                     | None \<Rightarrow> (Returned (Some prepared), t, Some s1, p))))"

subsection \<open>The entry guard\<close>

definition scan_async_guarded ::
  "(('c, ('st, 'sch) guarded_reader) dispatcher_message \<Rightarrow> tls \<Rightarrow> unit unwind \<times> tls) \<Rightarrow> 'c \<Rightarrow>
     ('ds, 'sc, 'e, 'cb) prepared_scanner option unwind \<times> tls \<times> ('ds, 'sc, 'cb, 'st) lance_scanner ptr \<times>
       ('c, ('st, 'sch) guarded_reader) process \<Rightarrow>
     ('ds, 'sc, 'e, 'cb) prepared_scanner option \<times> tls \<times> ('ds, 'sc, 'cb, 'st) lance_scanner ptr \<times>
       ('c, ('st, 'sch) guarded_reader) process" where
  "scan_async_guarded host callback setup =
     (case setup of
        (Returned task, t, scanner, p) \<Rightarrow> (task, t, scanner, p)
      | (Unwound q, t, scanner, p) \<Rightarrow>
          (let (t1, p1) = dispatch_callback host callback (- 1) null
                 (Some (CPanic, ''panic in FFI call: '' @ panic_payload_message q)) t p
           in (None, t1, map_option poison scanner, p1)))"

definition lance_scanner_scan_async ::
  "('ds, 'ix, 'par, 'sc, 'e, 'cb, 'v, 'six, 'm, 'mx, 'x, 'st) scan_env \<Rightarrow>
     (('c, ('st, 'sch) guarded_reader) dispatcher_message \<Rightarrow> tls \<Rightarrow> unit unwind \<times> tls) \<Rightarrow> payload option \<Rightarrow>
     ('ds, 'sc, 'cb, 'st) lance_scanner ptr \<Rightarrow> 'c ptr \<Rightarrow> tls \<Rightarrow> ('c, ('st, 'sch) guarded_reader) process \<Rightarrow>
     ('ds, 'sc, 'e, 'cb) prepared_scanner option \<times> tls \<times> ('ds, 'sc, 'cb, 'st) lance_scanner ptr \<times>
       ('c, ('st, 'sch) guarded_reader) process" where
  "lance_scanner_scan_async env host spawn scanner callback t p =
     (case callback of
        None \<Rightarrow> (None, set_last_error CInvalidArgument ''callback must not be NULL'' t, scanner, p)
      | Some cb \<Rightarrow> scan_async_guarded host cb (scan_async_setup env host spawn scanner cb t p))"

subsection \<open>The task\<close>

text \<open>The body under \<open>catch_unwind\<close> is the outcome \<open>Ok\<close> of a reader to hand over, an error to report, or a
  panic, also of formatting the error or of exporting the schema. The boolean says that the task
  poisoned the handle.\<close>

definition scan_task_body ::
  "('ds, 'ix, 'par, 'sc, 'e, 'cb, 'v, 'six, 'm, 'mx, 'x, 'st) scan_env \<Rightarrow> ('sch \<Rightarrow> unit outcome) \<Rightarrow> ('st \<Rightarrow> 'sch) \<Rightarrow>
     ('ds, 'sc, 'e, 'cb) prepared_scanner \<Rightarrow> ('st, 'sch) guarded_reader outcome" where
  "scan_task_body env conv schema_of prepared =
     obind (try_into_stream env prepared) (\<lambda>st. guarded_reader_new conv st (schema_of st))"

definition scan_task ::
  "('ds, 'ix, 'par, 'sc, 'e, 'cb, 'v, 'six, 'm, 'mx, 'x, 'st) scan_env \<Rightarrow> ('sch \<Rightarrow> unit outcome) \<Rightarrow> ('st \<Rightarrow> 'sch) \<Rightarrow>
     (('c, ('st, 'sch) guarded_reader) dispatcher_message \<Rightarrow> tls \<Rightarrow> unit unwind \<times> tls) \<Rightarrow> 'c \<Rightarrow>
     ('ds, 'sc, 'e, 'cb) prepared_scanner \<Rightarrow> tls \<Rightarrow> ('c, ('st, 'sch) guarded_reader) process \<Rightarrow>
     bool \<times> tls \<times> ('c, ('st, 'sch) guarded_reader) process" where
  "scan_task env conv schema_of host callback prepared t p =
     (let panicked = (\<lambda>q. (True, dispatch_callback host callback (- 1) null
            (Some (CPanic, ''panic in FFI call: '' @ panic_payload_message q)) t p))
      in case scan_task_body env conv schema_of prepared of
           Ok reader \<Rightarrow> (False, dispatch_callback host callback 0 (Some reader) None t p)
         | Err e \<Rightarrow>
             (case err_display e of
                Returned m \<Rightarrow> (False, dispatch_callback host callback (- 1) null (Some (error_code_from_lance e, m)) t p)
              | Unwound q \<Rightarrow> panicked q)
         | Panic q \<Rightarrow> panicked q)"

subsection \<open>Lemmas\<close>

text \<open>The messages that have reached the dispatcher, delivered or not, in no particular order.\<close>

definition completions :: "('c, 'r) process \<Rightarrow> ('c, 'r) dispatcher_message multiset" where
  "completions p = mset (map dl_message (pc_log p)) + mset (pending p)"

lemma completions_dispatch:
  "completions (snd (dispatch_callback host callback status result error t p)) =
     add_mset \<lparr>dm_callback = callback, dm_status = status, dm_result = result, dm_error = error\<rparr> (completions p)"
proof -
  let ?msg = "\<lparr>dm_callback = callback, dm_status = status, dm_result = result, dm_error = error\<rparr>"
  have "completions (snd (dispatch_message host ?msg t p)) =
      mset (map dl_message (pc_log (snd (dispatch_message host ?msg t p))) @ pending (snd (dispatch_message host ?msg t p)))"
    by (simp add: completions_def)
  then show ?thesis
    by (simp add: dispatch_message_log(1) dispatch_callback_def completions_def)
qed

lemma completions_receive: "completions (receive_one host p) = completions p"
proof -
  have "completions (receive_one host p) = mset (map dl_message (pc_log (receive_one host p)) @ pending (receive_one host p))"
    by (simp add: completions_def)
  then show ?thesis by (simp add: receive_one_log(1) completions_def)
qed

lemma completions_run: "completions (dispatch_run host es p) = completions p + mset (dispatched es)"
proof (induction host es p rule: dispatch_run.induct)
  case (2 host t msg es p)
  have "completions (snd (dispatch_message host msg t p)) = add_mset msg (completions p)"
    using completions_dispatch [of host "dm_callback msg" "dm_status msg" "dm_result msg" "dm_error msg" t p]
    by (cases msg) (simp add: dispatch_callback_def)
  with 2 show ?case by simp
qed (simp_all add: completions_receive)

text \<open>What a completion may say: success carries a stream and no error, failure an error and no stream.\<close>

definition well_formed_completion :: "('c, 'r) dispatcher_message \<Rightarrow> bool" where
  "well_formed_completion m \<longleftrightarrow>
     (dm_status m = 0 \<and> dm_result m \<noteq> None \<and> dm_error m = None) \<or>
     (dm_status m = - 1 \<and> dm_result m = None \<and> (\<exists>code msg. dm_error m = Some (code, msg) \<and> code \<noteq> COk))"

text \<open>An asynchronous scan from the call to the end of its task, with whatever the dispatcher and other scans
  do in between.\<close>

definition async_scan where
  "async_scan env conv schema_of host spawn scanner callback es t worker p =
     (let (task, t1, scanner1, p1) = lance_scanner_scan_async env host spawn scanner (Some callback) t p;
          p2 = dispatch_run host es p1
      in case task of
           None \<Rightarrow> (scanner1, p2)
         | Some prepared \<Rightarrow>
             (let (poisoned, t2, p3) = scan_task env conv schema_of host callback prepared worker p2
              in (if poisoned then map_option poison scanner1 else scanner1, p3)))"

definition handle_poisoned :: "('ds, 'sc, 'cb, 'st) lance_scanner ptr \<Rightarrow> bool" where
  "handle_poisoned scanner = (case scanner of Some s \<Rightarrow> sc_poisoned s | None \<Rightarrow> True)"

text \<open>The call alone: it has reported a failure, or it has spawned the task and reported nothing.\<close>

definition failure_of :: "'c \<Rightarrow> ('ds, 'sc, 'cb, 'st) lance_scanner ptr \<Rightarrow> ('c, 'r) dispatcher_message \<Rightarrow> bool" where
  "failure_of callback scanner m \<longleftrightarrow> dm_callback m = callback \<and> well_formed_completion m \<and> dm_status m = - 1 \<and>
     (case dm_error m of Some (code, msg) \<Rightarrow> code = CPanic \<longrightarrow> handle_poisoned scanner | None \<Rightarrow> False)"

lemma failure_of_message:
  "code \<noteq> COk \<Longrightarrow> (code = CPanic \<Longrightarrow> handle_poisoned scanner) \<Longrightarrow>
     failure_of callback scanner \<lparr>dm_callback = callback, dm_status = - 1, dm_result = None, dm_error = Some (code, msg)\<rparr>"
  by (simp add: failure_of_def well_formed_completion_def)

lemma handle_poisoned_poison [simp]: "handle_poisoned (map_option poison scanner)"
  by (cases scanner) (simp_all add: handle_poisoned_def poison_def)

lemma scan_async_call:
  fixes scanner1 :: "('ds, 'sc, 'cb, 'st) lance_scanner ptr"
  assumes "lance_scanner_scan_async env host spawn scanner (Some callback) t p = (task, t1, scanner1, p1)"
  shows "case task of
      None \<Rightarrow> (\<exists>m. completions p1 = add_mset m (completions p) \<and> failure_of callback scanner1 m) \<and>
        \<not> (\<exists>s prepared. scanner = Some s \<and> \<not> sc_poisoned s \<and>
              build_scanner_body (se_fts env) (se_planner env) s = Ok prepared \<and> spawn = None)
    | Some prepared \<Rightarrow> p1 = p \<and> (\<exists>s. scanner = Some s \<and> \<not> sc_poisoned s \<and>
        build_scanner_body (se_fts env) (se_planner env) s = Ok prepared \<and> spawn = None)"
proof -
  note rep = completions_dispatch [of host callback "- 1" null]
  have f: "\<exists>m. completions (snd (dispatch_callback host callback (- 1) null (Some (code, msg)) t' p)) = add_mset m (completions p) \<and>
      failure_of callback sc m" if "code \<noteq> COk" "code = CPanic \<Longrightarrow> handle_poisoned sc" for code msg and t' :: tls and sc :: "('ds, 'sc, 'cb, 'st) lance_scanner ptr"
    by (intro exI conjI) (rule rep, rule failure_of_message [OF that])
  show ?thesis
  proof (cases scanner)
    case None
    with assms f [of CInvalidArgument "None"] show ?thesis
      by (auto simp: lance_scanner_scan_async_def scan_async_guarded_def scan_async_setup_def split_beta Let_def)
  next
    case (Some s)
    let ?s1 = "s\<lparr>sc_scan_started := True\<rparr>"
    note call = lance_scanner_scan_async_def scan_async_guarded_def scan_async_setup_def build_scanner_def split_beta Let_def
    have fp: "\<exists>m. completions (snd (dispatch_callback host callback (- 1) null (Some (CPanic, msg)) t' p)) =
        add_mset m (completions p) \<and> failure_of callback (Some (poison ?s1)) m" for msg and t' :: tls
      by (rule f) (simp_all add: handle_poisoned_def poison_def)
    show ?thesis
    proof (cases "sc_poisoned s")
      case True
      then have "\<exists>m. completions (snd (dispatch_callback host callback (- 1) null (Some (CPanic, msg)) t' p)) =
          add_mset m (completions p) \<and> failure_of callback (Some s) m" for msg and t' :: tls
        by (intro f) (simp_all add: handle_poisoned_def)
      with Some True assms show ?thesis by (auto simp: call)
    next
      case np: False
      show ?thesis
      proof (cases "build_scanner_body (se_fts env) (se_planner env) s")
        case (Ok prepared)
        show ?thesis
        proof (cases spawn)
          case None
          with Ok Some np assms show ?thesis by (auto simp: call)
        next
          case (Some q)
          with Ok \<open>scanner = Some s\<close> np assms fp show ?thesis by (auto simp: call)
        qed
      next
        case (Err e)
        have "\<exists>m. completions (snd (dispatch_callback host callback (- 1) null (Some (error_code_from_lance e, msg)) t' p)) =
            add_mset m (completions p) \<and> failure_of callback (Some ?s1) m" for msg and t' :: tls
          by (rule f) simp_all
        with Some np assms Err fp show ?thesis by (cases "err_display e") (auto simp: call)
      next
        case (Panic q)
        with Some np assms fp show ?thesis by (auto simp: call)
      qed
    qed
  qed
qed

text \<open>The completion of a scan: of its callback, well formed, a success exactly when a reader is ready, which is
  then its result, and only a poisoned handle reports a panic.\<close>

definition completion_of ::
  "'c \<Rightarrow> ('ds, 'sc, 'cb, 'st) lance_scanner ptr \<Rightarrow> 'r ptr \<Rightarrow> ('c, 'r) dispatcher_message \<Rightarrow> bool" where
  "completion_of callback scanner reader m \<longleftrightarrow> dm_callback m = callback \<and> well_formed_completion m \<and> dm_result m = reader \<and>
     (case dm_error m of Some (code, msg) \<Rightarrow> code = CPanic \<longrightarrow> handle_poisoned scanner | None \<Rightarrow> reader \<noteq> None)"

lemma failure_completion: "failure_of callback scanner m \<Longrightarrow> completion_of callback scanner None m"
  by (auto simp: failure_of_def completion_of_def well_formed_completion_def split: option.splits)

lemma scan_task_reports:
  fixes scanner :: "('ds, 'sc, 'cb, 'st) lance_scanner ptr"
  assumes "scan_task env conv schema_of host callback prepared t p = (poisoned, t2, p2)"
  shows "\<exists>m. completions p2 = add_mset m (completions p) \<and>
    completion_of callback (if poisoned then map_option poison scanner else scanner)
      (case scan_task_body env conv schema_of prepared of Ok r \<Rightarrow> Some r | _ \<Rightarrow> None) m"
proof -
  note rep = completions_dispatch [of host callback]
  have f: "\<exists>m. completions (snd (dispatch_callback host callback (- 1) null (Some (code, msg)) t p)) = add_mset m (completions p) \<and>
      completion_of callback sc None m" if "code \<noteq> COk" "code = CPanic \<Longrightarrow> handle_poisoned sc"
    for code msg and sc :: "('ds, 'sc, 'cb, 'st) lance_scanner ptr"
    by (intro exI conjI) (rule rep, rule failure_completion, rule failure_of_message [OF that])
  have s: "\<exists>m. completions (snd (dispatch_callback host callback 0 (Some r) None t p)) = add_mset m (completions p) \<and>
      completion_of callback sc (Some r) m" for r and sc :: "('ds, 'sc, 'cb, 'st) lance_scanner ptr"
    by (intro exI conjI) (rule rep, simp add: completion_of_def well_formed_completion_def)
  have e: "error_code_from_lance x \<noteq> COk" "error_code_from_lance x = CPanic \<Longrightarrow> handle_poisoned scanner" for x by simp_all
  have q: "CPanic \<noteq> COk" "CPanic = CPanic \<Longrightarrow> handle_poisoned (map_option poison scanner)" by simp_all
  from assms have p: "poisoned = fst (scan_task env conv schema_of host callback prepared t p)"
    "p2 = snd (snd (scan_task env conv schema_of host callback prepared t p))" by simp_all
  show ?thesis unfolding p
    by (cases "scan_task_body env conv schema_of prepared")
      (auto simp: scan_task_def Let_def intro: f [OF e] f [OF q, simplified] s [simplified] split: unwind.split)
qed

text \<open>The reader an asynchronous scan hands over: none if the handle is missing or poisoned or the spawn panics,
  else what the scan opens.\<close>

definition handed_reader ::
  "('ds, 'ix, 'par, 'sc, 'e, 'cb, 'v, 'six, 'm, 'mx, 'x, 'st) scan_env \<Rightarrow> ('sch \<Rightarrow> unit outcome) \<Rightarrow> ('st \<Rightarrow> 'sch) \<Rightarrow>
     payload option \<Rightarrow> ('ds, 'sc, 'cb, 'st) lance_scanner ptr \<Rightarrow> ('st, 'sch) guarded_reader ptr" where
  "handed_reader env conv schema_of spawn scanner =
     (case scanner of
        None \<Rightarrow> None
      | Some s \<Rightarrow>
          if sc_poisoned s then None
          else
            (case spawn of
               Some q \<Rightarrow> None
             | None \<Rightarrow>
                 (case obind (build_scanner_body (se_fts env) (se_planner env) s) (scan_task_body env conv schema_of) of
                    Ok r \<Rightarrow> Some r | _ \<Rightarrow> None)))"

subsection \<open>Properties\<close>

text \<open>C15. An asynchronous scan with a callback is reported exactly once, whatever goes wrong where: from the call to
  the end of its task, interleaved with any other deliveries and dispatches, exactly one completion of
  its own is handed to the dispatcher; it carries a stream and no error, or an error and no stream,
  and carries a stream exactly when the handle was usable, the scan could be built, spawned and opened
  and its schema exported; and a completion that reports a panic leaves a poisoned handle.\<close>

theorem async_scan_completes_once:
  "let (scanner', p') = async_scan env conv schema_of host spawn scanner callback es t worker p in
    \<exists>m. completions p' = add_mset m (completions p + mset (dispatched es)) \<and>
      completion_of callback scanner' (handed_reader env conv schema_of spawn scanner) m"
proof -
  obtain scanner' p' where a: "async_scan env conv schema_of host spawn scanner callback es t worker p = (scanner', p')"
    by fastforce
  obtain task t1 scanner1 p1 where c: "lance_scanner_scan_async env host spawn scanner (Some callback) t p = (task, t1, scanner1, p1)"
    by (metis surj_pair)
  note call = scan_async_call [OF c]
  show ?thesis
  proof (cases task)
    case None
    with a c have r: "scanner' = scanner1" "p' = dispatch_run host es p1" by (simp_all add: async_scan_def)
    from call None obtain m where m: "completions p1 = add_mset m (completions p)" "failure_of callback scanner1 m"
      and n: "\<not> (\<exists>s prepared. scanner = Some s \<and> \<not> sc_poisoned s \<and>
              build_scanner_body (se_fts env) (se_planner env) s = Ok prepared \<and> spawn = None)" by auto
    from n have "handed_reader env conv schema_of spawn scanner = None"
      by (auto split: option.splits outcome.splits simp: obind_eq_Ok handed_reader_def)
    with m r failure_completion [OF m(2)] show ?thesis by (simp add: a completions_run)
  next
    case (Some prepared)
    with call obtain s where s: "scanner = Some s" "\<not> sc_poisoned s" "spawn = None" "p1 = p"
      "build_scanner_body (se_fts env) (se_planner env) s = Ok prepared" by auto
    obtain poisoned t2 p3 where k: "scan_task env conv schema_of host callback prepared worker (dispatch_run host es p1) = (poisoned, t2, p3)"
      by (metis surj_pair)
    with a c Some have "scanner' = (if poisoned then map_option poison scanner1 else scanner1)" "p' = p3"
      by (auto simp: async_scan_def)
    with scan_task_reports [OF k, of scanner1] s show ?thesis unfolding a by (simp add: completions_run handed_reader_def)
  qed
qed

end
