(* ===== verification/Mutations.thy ===== *)
theory Mutations
  imports Dataset
begin

text \<open>
  Model of the entry points that change a dataset through its handle: \<open>src/delete.rs\<close>,
  \<open>src/update.rs\<close>, \<open>src/drop_columns.rs\<close>, \<open>src/alter_columns.rs\<close>, \<open>src/compact.rs\<close>,
  \<open>src/add_columns.rs\<close>, \<open>src/merge_insert.rs\<close>, and \<open>src/restore.rs\<close>, which makes a new handle. Each
  validates its arguments and then runs one of Lance's operations inside \<open>with_mut\<close>; the operations,
  as they run under \<open>block_on\<close>, are the record \<open>mutation_api\<close>. Arrays passed with a length hold at least
  that many entries, as the C contract demands.
\<close>

subsection \<open>Arguments from C\<close>

text \<open>The fields of an \<open>ArrowSchema\<close> and an \<open>ArrowArrayStream\<close> that the code looks at: whether the callbacks
  are set, and the format string. The rest belongs to arrow-rs.\<close>

record 'f ffi_schema =
  fs_release :: bool
  fs_format :: "string ptr"
  fs_rest :: 'f

record 'raw c_stream =
  cs_release :: bool
  cs_get_schema :: bool
  cs_get_next :: bool
  cs_rest :: 'raw

text \<open>\<open>usize::try_from\<close> on a target whose pointers have the width of the result.\<close>

definition u64_to_usize :: "u64 \<Rightarrow> string \<Rightarrow> ('w::len word) outcome" where
  "u64_to_usize v field =
     (if unat v < 2 ^ LENGTH('w) then Ok (ucast v)
      else Err (invalid_input (field @ ''='' @ show_u v @ '' exceeds usize::MAX on this target'')))"

record 'f column_alteration_arg =
  la_path :: "string ptr"
  la_rename :: "string ptr"
  la_nullable_mode :: i32
  la_data_type :: "'f ffi_schema ptr"

record 'ty column_alteration =
  ca_path :: string
  ca_rename :: "string option"
  ca_nullable :: "bool option"
  ca_data_type :: "'ty option"

record compaction_options_arg =
  lo_target_rows_per_fragment :: u64
  lo_max_rows_per_group :: u64
  lo_max_bytes_per_file :: u64
  lo_num_threads :: u64
  lo_batch_size :: u64

text \<open>Upstream's options and metrics, over its \<open>usize\<close>.\<close>

record 'n compaction_options =
  co_target_rows_per_fragment :: 'n
  co_max_rows_per_group :: 'n
  co_max_bytes_per_file :: "'n option"
  co_num_threads :: "'n option"
  co_batch_size :: "'n option"

record 'n compaction_metrics =
  cm_fragments_removed :: 'n
  cm_fragments_added :: 'n
  cm_files_removed :: 'n
  cm_files_added :: 'n

datatype ('sch, 'rd) new_column_transform =
    SqlExpressions "(string \<times> string) list"
  | AllNulls 'sch
  | ReaderColumns 'rd

datatype when_matched = MatchedDoNothing | MatchedUpdateAll | MatchedUpdateIf string | MatchedFail | MatchedDelete

datatype when_not_matched = NotMatchedInsertAll | NotMatchedDoNothing

text \<open>What unmatched target rows suffer, before and after its SQL is planned.\<close>

datatype 'q when_not_matched_by_source = BySourceKeep | BySourceDelete | BySourceDeleteIf 'q

record merge_stats =
  ms_inserted :: u64
  ms_updated :: u64
  ms_deleted :: u64

subsection \<open>Lance's operations\<close>

record ('ds, 'f, 'ty, 'sch, 'raw, 'rd, 'q, 'n) mutation_api =
  mu_delete :: "'ds \<Rightarrow> string \<Rightarrow> u64 outcome \<times> 'ds"
  mu_update_where :: "'ds \<Rightarrow> string \<Rightarrow> unit outcome"
  mu_update_set :: "'ds \<Rightarrow> string option \<Rightarrow> (string \<times> string) list \<Rightarrow> string \<times> string \<Rightarrow> unit outcome"
  mu_update :: "'ds \<Rightarrow> string option \<Rightarrow> (string \<times> string) list \<Rightarrow> (u64 \<times> 'ds) outcome"
  mu_drop_columns :: "'ds \<Rightarrow> string list \<Rightarrow> unit outcome \<times> 'ds"
  mu_data_type :: "'f ffi_schema \<Rightarrow> 'ty outcome"
  mu_alter_columns :: "'ds \<Rightarrow> 'ty column_alteration list \<Rightarrow> unit outcome \<times> 'ds"
  mu_compaction_default :: "'n compaction_options"
  mu_compact :: "'ds \<Rightarrow> 'n compaction_options \<Rightarrow> 'n compaction_metrics outcome \<times> 'ds"
  mu_arrow_schema :: "'f ffi_schema \<Rightarrow> 'sch outcome"
  mu_from_raw :: "'raw c_stream \<Rightarrow> 'rd outcome"
  mu_add_columns :: "'ds \<Rightarrow> ('sch, 'rd) new_column_transform \<Rightarrow> u32 option \<Rightarrow> unit outcome \<times> 'ds"
  mu_delete_if :: "'ds \<Rightarrow> string \<Rightarrow> 'q outcome"
  mu_merge_new :: "'ds \<Rightarrow> string list \<Rightarrow> unit outcome"
  mu_merge_build :: "'ds \<Rightarrow> string list \<Rightarrow> when_matched \<Rightarrow> when_not_matched \<Rightarrow> 'q when_not_matched_by_source \<Rightarrow> unit outcome"
  mu_merge_execute :: "'ds \<Rightarrow> string list \<Rightarrow> when_matched \<Rightarrow> when_not_matched \<Rightarrow> 'q when_not_matched_by_source \<Rightarrow> 'rd \<Rightarrow>
                         (merge_stats \<times> 'ds) outcome"
  mu_checkout_version :: "'ds \<Rightarrow> u64 \<Rightarrow> 'ds outcome"
  mu_restore :: "'ds \<Rightarrow> unit outcome \<times> 'ds"

subsection \<open>The common shape\<close>

text \<open>Validation yields the handle and the operation's arguments, or fails; the operation then runs on the
  handle. The fresh \<open>Arc\<close> has the address \<open>a\<close>.\<close>

definition mutate ::
  "nat \<Rightarrow> 'ds lance_dataset ptr \<Rightarrow> ('ds lance_dataset \<times> 'v) outcome \<Rightarrow> ('v \<Rightarrow> 'ds \<Rightarrow> 'r outcome \<times> 'ds) \<Rightarrow>
     'r outcome \<times> 'ds lance_dataset ptr" where
  "mutate a dataset args f =
     (case args of
        Ok (h, v) \<Rightarrow> (let (r, h') = with_mut a (f v) h in (r, Some h'))
      | Err e \<Rightarrow> (Err e, dataset)
      | Panic p \<Rightarrow> (Panic p, dataset))"

text \<open>\<open>ffi_try!\<close> around it, and the optional result slot, written on success only.\<close>

definition mutation_entry ::
  "'r outcome \<times> 'ds lance_dataset ptr \<Rightarrow> 'r ptr \<Rightarrow> tls \<Rightarrow> int \<times> tls \<times> 'ds lance_dataset ptr \<times> 'r ptr" where
  "mutation_entry res out t =
     (let (rc, t') = ffi_try (obind (fst res) (\<lambda>_. Ok 0)) (- 1) t
      in (rc, t', snd res, (case fst res of Ok v \<Rightarrow> map_option (\<lambda>_. v) out | _ \<Rightarrow> out)))"

text \<open>Operations that work on a snapshot and publish the dataset they return.\<close>

definition publish :: "'ds \<Rightarrow> ('r \<times> 'ds) outcome \<Rightarrow> 'r outcome \<times> 'ds" where
  "publish d m = (case m of Ok (r, d') \<Rightarrow> (Ok r, d') | Err e \<Rightarrow> (Err e, d) | Panic p \<Rightarrow> (Panic p, d))"

subsection \<open>Delete\<close>

definition delete_args :: "'ds lance_dataset ptr \<Rightarrow> string ptr \<Rightarrow> ('ds lance_dataset \<times> string) outcome" where
  "delete_args dataset predicate =
     (case (dataset, predicate) of
        (Some h, Some _) \<Rightarrow>
          obind (required_string predicate (invalid_input ''predicate must not be empty'')) (\<lambda>p. Ok (h, p))
      | _ \<Rightarrow> Err (invalid_input ''dataset and predicate must not be NULL''))"

definition delete_inner where
  "delete_inner api a dataset predicate = mutate a dataset (delete_args dataset predicate) (\<lambda>p d. mu_delete api d p)"

definition lance_dataset_delete where
  "lance_dataset_delete api a dataset predicate out_num_deleted t =
     mutation_entry (delete_inner api a dataset predicate) out_num_deleted t"

subsection \<open>Update\<close>

fun update_pairs :: "nat \<Rightarrow> string ptr list \<Rightarrow> string ptr list \<Rightarrow> (string \<times> string) list outcome" where
  "update_pairs i (c # cs) (v # vs) =
     obind (required_string c (entry_error ''columns'' i)) (\<lambda>col.
     obind (required_string v (entry_error ''values'' i)) (\<lambda>val.
     obind (update_pairs (Suc i) cs vs) (\<lambda>rest. Ok ((col, val) # rest))))"
| "update_pairs i _ _ = Ok []"

definition update_args ::
  "'ds lance_dataset ptr \<Rightarrow> string ptr \<Rightarrow> string ptr list ptr \<Rightarrow> string ptr list ptr \<Rightarrow> usize \<Rightarrow>
     ('ds lance_dataset \<times> string option \<times> (string \<times> string) list) outcome" where
  "update_args dataset predicate columns values1 num_updates =
     obind (ok_or dataset (invalid_input ''dataset must not be NULL'')) (\<lambda>h.
     reject_if (num_updates = 0) (invalid_input ''num_updates must be >= 1'') (
     case (columns, values1) of
       (Some cs, Some vs) \<Rightarrow>
         obind (parse_c_string predicate) (\<lambda>p.
         reject_if (p = Some []) (invalid_input ''predicate must not be empty (pass NULL to update all rows)'') (
         obind (update_pairs 0 (take (unat num_updates) cs) (take (unat num_updates) vs)) (\<lambda>upd.
         Ok (h, p, upd))))
     | _ \<Rightarrow> Err (invalid_input ''columns and values must not be NULL when num_updates > 0'')))"

text \<open>The builder: the filter, then the assignments in order, each checked as it is added.\<close>

fun set_columns ::
  "('ds, 'f, 'ty, 'sch, 'raw, 'rd, 'q, 'n) mutation_api \<Rightarrow> 'ds \<Rightarrow> string option \<Rightarrow> (string \<times> string) list \<Rightarrow>
     (string \<times> string) list \<Rightarrow> unit outcome" where
  "set_columns api d p added [] = Ok ()"
| "set_columns api d p added (u # us) =
     obind (mu_update_set api d p added u) (\<lambda>_. set_columns api d p (added @ [u]) us)"

definition update_dataset ::
  "('ds, 'f, 'ty, 'sch, 'raw, 'rd, 'q, 'n) mutation_api \<Rightarrow> string option \<times> (string \<times> string) list \<Rightarrow> 'ds \<Rightarrow>
     u64 outcome \<times> 'ds" where
  "update_dataset api = (\<lambda>(p, upd) d. publish d
     (obind (case p of Some q \<Rightarrow> mu_update_where api d q | None \<Rightarrow> Ok ()) (\<lambda>_.
      obind (set_columns api d p [] upd) (\<lambda>_. mu_update api d p upd))))"

definition update_inner where
  "update_inner api a dataset predicate columns values1 num_updates =
     mutate a dataset (update_args dataset predicate columns values1 num_updates) (update_dataset api)"

definition lance_dataset_update where
  "lance_dataset_update api a dataset predicate columns values1 num_updates out_num_updated t =
     mutation_entry (update_inner api a dataset predicate columns values1 num_updates) out_num_updated t"

subsection \<open>Drop columns\<close>

definition drop_columns_args ::
  "'ds lance_dataset ptr \<Rightarrow> string ptr list ptr \<Rightarrow> usize \<Rightarrow> ('ds lance_dataset \<times> string list) outcome" where
  "drop_columns_args dataset columns num_columns =
     obind (ok_or dataset (invalid_input ''dataset must not be NULL'')) (\<lambda>h.
     obind (ok_or columns (invalid_input ''columns must not be NULL'')) (\<lambda>cs.
     reject_if (num_columns = 0) (invalid_input ''num_columns must be > 0'') (
     obind (required_entries ''columns'' 0 (take (unat num_columns) cs)) (\<lambda>names. Ok (h, names)))))"

definition drop_columns_inner where
  "drop_columns_inner api a dataset columns num_columns =
     mutate a dataset (drop_columns_args dataset columns num_columns) (\<lambda>names d. mu_drop_columns api d names)"

definition lance_dataset_drop_columns where
  "lance_dataset_drop_columns api a dataset columns num_columns t =
     mutation_entry (drop_columns_inner api a dataset columns num_columns) None t"

subsection \<open>Alter columns\<close>

definition nullable_mode_from_raw :: "i32 \<Rightarrow> bool option outcome" where
  "nullable_mode_from_raw raw =
     (if raw = 0 then Ok None else if raw = 1 then Ok (Some True) else if raw = 2 then Ok (Some False)
      else Err (invalid_input (''invalid nullable_mode '' @ show_i raw @
             ''; expected 0..=2 (see LanceColumnNullableMode)'')))"

definition alteration_field :: "nat \<Rightarrow> string \<Rightarrow> string" where
  "alteration_field i field = ''alterations['' @ show_nat i @ '']'' @ field"

text \<open>\<open>release == NULL\<close> or \<open>format == NULL\<close>: a schema that is no longer, or not yet, one.\<close>

definition schema_usable :: "'f ffi_schema \<Rightarrow> bool" where
  "schema_usable f \<longleftrightarrow> fs_release f \<and> fs_format f \<noteq> None"

definition parse_alteration ::
  "('ds, 'f, 'ty, 'sch, 'raw, 'rd, 'q, 'n) mutation_api \<Rightarrow> nat \<Rightarrow> 'f column_alteration_arg \<Rightarrow> 'ty column_alteration outcome" where
  "parse_alteration api i arg =
     obind (required_string (la_path arg) (invalid_input (alteration_field i ''.path must not be NULL or empty''))) (\<lambda>path.
     obind (parse_c_string (la_rename arg)) (\<lambda>rename.
     reject_if (rename = Some []) (invalid_input (alteration_field i ''.rename must not be empty'')) (
     obind (nullable_mode_from_raw (la_nullable_mode arg)) (\<lambda>nullable.
     obind (case la_data_type arg of
              None \<Rightarrow> Ok None
            | Some f \<Rightarrow>
                reject_if (\<not> schema_usable f)
                  (invalid_input (alteration_field i ''.data_type is uninitialised or already released''))
                  (obind (map_err_text (\<lambda>e. alteration_field i ''.data_type is not a valid Arrow type: '' @ e)
                            (mu_data_type api f)) (\<lambda>ty. Ok (Some ty)))) (\<lambda>data_type.
     reject_if (rename = None \<and> nullable = None \<and> data_type = None)
       (invalid_input (alteration_field i '' is a no-op: set rename, nullable_mode, or data_type to request a change''))
       (Ok \<lparr>ca_path = path, ca_rename = rename, ca_nullable = nullable, ca_data_type = data_type\<rparr>))))))"

fun parse_alterations ::
  "('ds, 'f, 'ty, 'sch, 'raw, 'rd, 'q, 'n) mutation_api \<Rightarrow> nat \<Rightarrow> 'f column_alteration_arg list \<Rightarrow>
     'ty column_alteration list outcome" where
  "parse_alterations api i [] = Ok []"
| "parse_alterations api i (x # xs) =
     obind (parse_alteration api i x) (\<lambda>y. obind (parse_alterations api (Suc i) xs) (\<lambda>ys. Ok (y # ys)))"

definition alter_columns_args where
  "alter_columns_args api dataset alterations num_alterations =
     obind (ok_or dataset (invalid_input ''dataset must not be NULL'')) (\<lambda>h.
     obind (ok_or alterations (invalid_input ''alterations must not be NULL'')) (\<lambda>xs.
     reject_if (num_alterations = (0 :: usize)) (invalid_input ''num_alterations must be > 0'') (
     obind (parse_alterations api 0 (take (unat num_alterations) xs)) (\<lambda>ys. Ok (h, ys)))))"

definition alter_columns_inner where
  "alter_columns_inner api a dataset alterations num_alterations =
     mutate a dataset (alter_columns_args api dataset alterations num_alterations) (\<lambda>ys d. mu_alter_columns api d ys)"

definition lance_dataset_alter_columns where
  "lance_dataset_alter_columns api a dataset alterations num_alterations t =
     mutation_entry (alter_columns_inner api a dataset alterations num_alterations) None t"

subsection \<open>Compaction\<close>

text \<open>A zero keeps the upstream default; anything else overrides it, if it fits.\<close>

definition override :: "u64 \<Rightarrow> string \<Rightarrow> 'a \<Rightarrow> (('w::len) word \<Rightarrow> 'a) \<Rightarrow> 'a outcome" where
  "override v field dflt wrap = (if 0 < v then obind (u64_to_usize v field) (\<lambda>n. Ok (wrap n)) else Ok dflt)"

definition resolve_options ::
  "('ds, 'f, 'ty, 'sch, 'raw, 'rd, 'q, ('w::len) word) mutation_api \<Rightarrow> compaction_options_arg ptr \<Rightarrow>
     'w word compaction_options outcome" where
  "resolve_options api options =
     (let dflt = mu_compaction_default api in
      case options of
        None \<Rightarrow> Ok dflt
      | Some opts \<Rightarrow>
          obind (override (lo_target_rows_per_fragment opts) ''target_rows_per_fragment'' (co_target_rows_per_fragment dflt) id) (\<lambda>target.
          obind (override (lo_max_rows_per_group opts) ''max_rows_per_group'' (co_max_rows_per_group dflt) id) (\<lambda>rows.
          obind (override (lo_max_bytes_per_file opts) ''max_bytes_per_file'' (co_max_bytes_per_file dflt) Some) (\<lambda>bytes.
          obind (override (lo_num_threads opts) ''num_threads'' (co_num_threads dflt) Some) (\<lambda>threads.
          obind (override (lo_batch_size opts) ''batch_size'' (co_batch_size dflt) Some) (\<lambda>batch.
          Ok \<lparr>co_target_rows_per_fragment = target, co_max_rows_per_group = rows, co_max_bytes_per_file = bytes,
              co_num_threads = threads, co_batch_size = batch\<rparr>))))))"

definition compact_args where
  "compact_args api dataset options =
     obind (ok_or dataset (invalid_input ''dataset must not be NULL'')) (\<lambda>h.
     obind (resolve_options api options) (\<lambda>resolved. Ok (h, resolved)))"

text \<open>The metrics for C are 64 bits wide.\<close>

definition metrics_for_c :: "('w::len) word compaction_metrics \<Rightarrow> u64 compaction_metrics" where
  "metrics_for_c m =
     \<lparr>cm_fragments_removed = ucast (cm_fragments_removed m), cm_fragments_added = ucast (cm_fragments_added m),
      cm_files_removed = ucast (cm_files_removed m), cm_files_added = ucast (cm_files_added m)\<rparr>"

definition compact_inner where
  "compact_inner api a dataset options =
     (let (res, dataset') = mutate a dataset (compact_args api dataset options) (\<lambda>resolved d. mu_compact api d resolved)
      in (obind res (\<lambda>m. Ok (metrics_for_c m)), dataset'))"

definition lance_dataset_compact_files where
  "lance_dataset_compact_files api a dataset options out_metrics t =
     mutation_entry (compact_inner api a dataset options) out_metrics t"

subsection \<open>Add columns\<close>

definition parse_required_field :: "string ptr \<Rightarrow> nat \<Rightarrow> string \<Rightarrow> string outcome" where
  "parse_required_field p i field =
     required_string p (invalid_input (''columns['' @ show_nat i @ ''].'' @ field @ '' must not be NULL or empty''))"

definition resolve_batch_size :: "u64 \<Rightarrow> u32 option outcome" where
  "resolve_batch_size batch_size =
     (if batch_size = 0 then Ok None
      else if unat batch_size < 2 ^ 32 then Ok (Some (ucast batch_size))
      else Err (invalid_input (''batch_size='' @ show_u batch_size @ '' exceeds u32::MAX'')))"

text \<open>An entry of the C array: its name and its expression.\<close>

fun parse_sql_columns :: "nat \<Rightarrow> (string ptr \<times> string ptr) list \<Rightarrow> (string \<times> string) list outcome" where
  "parse_sql_columns i [] = Ok []"
| "parse_sql_columns i ((n, e) # xs) =
     obind (parse_required_field n i ''name'') (\<lambda>name.
     obind (parse_required_field e i ''expression'') (\<lambda>expression.
     obind (parse_sql_columns (Suc i) xs) (\<lambda>rest. Ok ((name, expression) # rest))))"

definition add_columns_sql_args ::
  "'ds lance_dataset ptr \<Rightarrow> (string ptr \<times> string ptr) list ptr \<Rightarrow> usize \<Rightarrow> u64 \<Rightarrow>
     ('ds lance_dataset \<times> ('sch, 'rd) new_column_transform \<times> u32 option) outcome" where
  "add_columns_sql_args dataset columns num_columns batch_size =
     obind (ok_or dataset (invalid_input ''dataset must not be NULL'')) (\<lambda>h.
     obind (ok_or columns (invalid_input ''columns must not be NULL'')) (\<lambda>cs.
     reject_if (num_columns = 0) (invalid_input ''num_columns must be > 0'') (
     obind (resolve_batch_size batch_size) (\<lambda>bs.
     obind (parse_sql_columns 0 (take (unat num_columns) cs)) (\<lambda>ps. Ok (h, SqlExpressions ps, bs))))))"

definition add_columns_dataset where
  "add_columns_dataset api = (\<lambda>(transform, batch_size) d. mu_add_columns api d transform batch_size)"

definition add_columns_sql_inner where
  "add_columns_sql_inner api a dataset columns num_columns batch_size =
     mutate a dataset (add_columns_sql_args dataset columns num_columns batch_size) (add_columns_dataset api)"

definition lance_dataset_add_columns_sql where
  "lance_dataset_add_columns_sql api a dataset columns num_columns batch_size t =
     mutation_entry (add_columns_sql_inner api a dataset columns num_columns batch_size) None t"

definition add_columns_nulls_args where
  "add_columns_nulls_args api dataset schema =
     obind (ok_or dataset (invalid_input ''dataset must not be NULL'')) (\<lambda>h.
     obind (ok_or schema (invalid_input ''schema must not be NULL'')) (\<lambda>f.
     reject_if (\<not> schema_usable f) (invalid_input ''schema is uninitialised or already released'') (
     reject_if (\<not> to_str_ok (the (fs_format f))) (invalid_input ''schema format string is not valid UTF-8'') (
     obind (map_err_text (\<lambda>e. ''schema is not a valid Arrow schema: '' @ e) (mu_arrow_schema api f)) (\<lambda>sch.
     Ok (h, AllNulls sch, None))))))"

definition add_columns_nulls_inner where
  "add_columns_nulls_inner api a dataset schema =
     mutate a dataset (add_columns_nulls_args api dataset schema) (add_columns_dataset api)"

definition lance_dataset_add_columns_nulls where
  "lance_dataset_add_columns_nulls api a dataset schema t =
     mutation_entry (add_columns_nulls_inner api a dataset schema) None t"

text \<open>A stream argument is owned by the call: \<open>from_raw\<close> moves the caller's struct out, leaving it released, and
  whatever becomes of the reader, dropping it releases the producer. \<open>taken\<close> is the struct the caller
  is left with.\<close>

definition taken :: "'raw c_stream ptr \<Rightarrow> 'raw c_stream ptr" where
  "taken stream = map_option (\<lambda>s. s\<lparr>cs_release := False\<rparr>) stream"

definition reader_from_raw ::
  "('ds, 'f, 'ty, 'sch, 'raw, 'rd, 'q, 'n) mutation_api \<Rightarrow> 'raw c_stream \<Rightarrow> 'rd outcome" where
  "reader_from_raw api s = map_err_text (\<lambda>e. e) (mu_from_raw api s)"

definition add_columns_stream_args ::
  "('ds, 'f, 'ty, 'sch, 'raw, 'rd, 'q, 'n) mutation_api \<Rightarrow> 'ds lance_dataset ptr \<Rightarrow> 'raw c_stream ptr \<Rightarrow> u64 \<Rightarrow>
     ('ds lance_dataset \<times> ('sch, 'rd) new_column_transform \<times> u32 option) outcome" where
  "add_columns_stream_args api dataset stream batch_size =
     obind (ok_or stream (invalid_input ''stream must not be NULL'')) (\<lambda>s.
     reject_if (\<not> cs_release s \<or> \<not> cs_get_schema s \<or> \<not> cs_get_next s)
       (invalid_input ''stream is uninitialised, already released, or missing a required get_schema/get_next/release callback'') (
     obind (reader_from_raw api s) (\<lambda>reader.
     obind (ok_or dataset (invalid_input ''dataset must not be NULL'')) (\<lambda>h.
     obind (resolve_batch_size batch_size) (\<lambda>bs.
     Ok (h, ReaderColumns reader, bs))))))"

text \<open>On a missing callback the code releases the stream itself, and otherwise hands it to \<open>from_raw\<close>.\<close>

definition add_columns_stream_inner where
  "add_columns_stream_inner api a dataset stream batch_size =
     (mutate a dataset (add_columns_stream_args api dataset stream batch_size) (add_columns_dataset api), taken stream)"

definition lance_dataset_add_columns_stream where
  "lance_dataset_add_columns_stream api a dataset stream batch_size t =
     (let (res, stream') = add_columns_stream_inner api a dataset stream batch_size
      in (mutation_entry res None t, stream'))"

subsection \<open>Merge insert\<close>

record merge_insert_params =
  mp_when_matched :: i32
  mp_when_matched_expr :: "string ptr"
  mp_when_not_matched :: i32
  mp_when_not_matched_by_source :: i32
  mp_when_not_matched_by_source_expr :: "string ptr"

datatype merge_when_matched = KindDoNothing | KindUpdateAll | KindUpdateIf | KindFail | KindDelete

definition merge_when_matched_from_raw :: "i32 \<Rightarrow> merge_when_matched outcome" where
  "merge_when_matched_from_raw raw =
     (if raw = 0 then Ok KindDoNothing else if raw = 1 then Ok KindUpdateAll else if raw = 2 then Ok KindUpdateIf
      else if raw = 3 then Ok KindFail else if raw = 4 then Ok KindDelete
      else Err (invalid_input (''invalid when_matched '' @ show_i raw @ ''; expected 0..=4 (see LanceMergeWhenMatched)'')))"

definition merge_when_not_matched_from_raw :: "i32 \<Rightarrow> when_not_matched outcome" where
  "merge_when_not_matched_from_raw raw =
     (if raw = 0 then Ok NotMatchedInsertAll else if raw = 1 then Ok NotMatchedDoNothing
      else Err (invalid_input (''invalid when_not_matched '' @ show_i raw @
             ''; expected 0 or 1 (see LanceMergeWhenNotMatched)'')))"

definition merge_by_source_from_raw :: "i32 \<Rightarrow> unit when_not_matched_by_source outcome" where
  "merge_by_source_from_raw raw =
     (if raw = 0 then Ok BySourceKeep else if raw = 1 then Ok BySourceDelete else if raw = 2 then Ok (BySourceDeleteIf ())
      else Err (invalid_input (''invalid when_not_matched_by_source '' @ show_i raw @
             ''; expected 0..=2 (see LanceMergeWhenNotMatchedBySource)'')))"

definition read_optional_expr :: "string ptr \<Rightarrow> string \<Rightarrow> string option outcome" where
  "read_optional_expr p field =
     obind (parse_c_string p) (\<lambda>s. reject_if (s = Some []) (invalid_input (field @ '' must not be empty'')) (Ok s))"

definition reject_unused_expr :: "string \<Rightarrow> string \<Rightarrow> string option \<Rightarrow> 'a \<Rightarrow> 'a outcome" where
  "reject_unused_expr field mode expr r =
     reject_if (expr \<noteq> None) (invalid_input (field @ ''_expr must be NULL when '' @ field @ ''='' @ mode)) (Ok r)"

definition resolve_params ::
  "merge_insert_params ptr \<Rightarrow> (when_matched \<times> when_not_matched \<times> string when_not_matched_by_source) outcome" where
  "resolve_params params =
     (case params of
        None \<Rightarrow> Ok (MatchedDoNothing, NotMatchedInsertAll, BySourceKeep)
      | Some mp \<Rightarrow>
          obind (merge_when_matched_from_raw (mp_when_matched mp)) (\<lambda>matched_kind.
          obind (merge_when_not_matched_from_raw (mp_when_not_matched mp)) (\<lambda>not_matched.
          obind (merge_by_source_from_raw (mp_when_not_matched_by_source mp)) (\<lambda>by_source_kind.
          obind (read_optional_expr (mp_when_matched_expr mp) ''when_matched_expr'') (\<lambda>mexpr.
          obind (read_optional_expr (mp_when_not_matched_by_source_expr mp) ''when_not_matched_by_source_expr'') (\<lambda>sexpr.
          obind (case matched_kind of
                   KindDoNothing \<Rightarrow> reject_unused_expr ''when_matched'' ''DoNothing'' mexpr MatchedDoNothing
                 | KindUpdateAll \<Rightarrow> reject_unused_expr ''when_matched'' ''UpdateAll'' mexpr MatchedUpdateAll
                 | KindUpdateIf \<Rightarrow>
                     obind (ok_or mexpr (invalid_input ''when_matched=UpdateIf requires when_matched_expr'')) (\<lambda>e. Ok (MatchedUpdateIf e))
                 | KindFail \<Rightarrow> reject_unused_expr ''when_matched'' ''Fail'' mexpr MatchedFail
                 | KindDelete \<Rightarrow> reject_unused_expr ''when_matched'' ''Delete'' mexpr MatchedDelete) (\<lambda>matched.
          obind (case by_source_kind of
                   BySourceKeep \<Rightarrow> reject_unused_expr ''when_not_matched_by_source'' ''Keep'' sexpr BySourceKeep
                 | BySourceDelete \<Rightarrow> reject_unused_expr ''when_not_matched_by_source'' ''Delete'' sexpr BySourceDelete
                 | BySourceDeleteIf _ \<Rightarrow>
                     obind (ok_or sexpr
                       (invalid_input ''when_not_matched_by_source=DeleteIf requires when_not_matched_by_source_expr'')) (\<lambda>e.
                     Ok (BySourceDeleteIf e))) (\<lambda>by_source.
          Ok (matched, not_matched, by_source)))))))))"

text \<open>The stream is taken before the other arguments are looked at.\<close>

definition merge_insert_args where
  "merge_insert_args api dataset on_columns num_on_columns source params =
     obind (ok_or source (invalid_input ''source stream must not be NULL'')) (\<lambda>s.
     obind (reader_from_raw api s) (\<lambda>reader.
     obind (ok_or dataset (invalid_input ''dataset must not be NULL'')) (\<lambda>h.
     reject_if (num_on_columns = (0 :: usize)) (invalid_input ''num_on_columns must be >= 1'') (
     obind (ok_or on_columns (invalid_input ''on_columns must not be NULL when num_on_columns > 0'')) (\<lambda>cs.
     obind (required_entries ''on_columns'' 0 (take (unat num_on_columns) cs)) (\<lambda>keys.
     obind (resolve_params params) (\<lambda>resolved.
     Ok (h, keys, resolved, reader))))))))"

definition merge_dataset ::
  "('ds, 'f, 'ty, 'sch, 'raw, 'rd, 'q, 'n) mutation_api \<Rightarrow>
     string list \<times> (when_matched \<times> when_not_matched \<times> string when_not_matched_by_source) \<times> 'rd \<Rightarrow> 'ds \<Rightarrow> merge_stats outcome \<times> 'ds" where
  "merge_dataset api = (\<lambda>(keys, (matched, not_matched, by_source), reader) d. publish d
     (obind (case by_source of
               BySourceKeep \<Rightarrow> Ok BySourceKeep
             | BySourceDelete \<Rightarrow> Ok BySourceDelete
             | BySourceDeleteIf e \<Rightarrow> obind (mu_delete_if api d e) (\<lambda>q. Ok (BySourceDeleteIf q))) (\<lambda>planned.
      obind (mu_merge_new api d keys) (\<lambda>_.
      obind (mu_merge_build api d keys matched not_matched planned) (\<lambda>_.
      mu_merge_execute api d keys matched not_matched planned reader)))))"

definition merge_insert_inner where
  "merge_insert_inner api a dataset on_columns num_on_columns source params =
     (mutate a dataset (merge_insert_args api dataset on_columns num_on_columns source params) (merge_dataset api), taken source)"

definition lance_dataset_merge_insert where
  "lance_dataset_merge_insert api a dataset on_columns num_on_columns source params out_result t =
     (let (res, source') = merge_insert_inner api a dataset on_columns num_on_columns source params
      in (mutation_entry res out_result t, source'))"

subsection \<open>Restore\<close>

text \<open>Restoring leaves the handle alone and returns a new one, in an \<open>Arc\<close> of its own.\<close>

definition restore_inner ::
  "('ds, 'f, 'ty, 'sch, 'raw, 'rd, 'q, 'n) mutation_api \<Rightarrow> nat \<Rightarrow> 'ds lance_dataset ptr \<Rightarrow> u64 \<Rightarrow> 'ds lance_dataset outcome" where
  "restore_inner api a dataset version =
     obind (ok_or dataset (invalid_input ''dataset must not be NULL'')) (\<lambda>h.
     reject_if (version = 0) (invalid_input ''version must be >= 1; 0 is reserved as the \"latest\" sentinel'') (
     obind (mu_checkout_version api (arc_val (snapshot h)) version) (\<lambda>checked_out.
     let (res, restored) = mu_restore api checked_out in
     obind res (\<lambda>_. Ok \<lparr>ds_inner = Arc a restored, ds_lock_poisoned = False\<rparr>))))"

definition lance_dataset_restore where
  "lance_dataset_restore api a dataset version t =
     ffi_try (obind (restore_inner api a dataset version) (\<lambda>h. Ok (Some h))) None t"

end
