(* ===== verification/Mutation_Contract.thy ===== *)
theory Mutation_Contract
  imports Mutations Fts_Query
begin

text \<open>
  What calls that change a dataset through a handle promise: any sequence of them is the sequence of their
  transactions on the dataset, and which of them cut the handle off from the text-search contexts prepared on its
  snapshot. The contract is the locale \<open>transactional_calls\<close>; the mutation entry points are its first
  instance, and all entry points together, in \<open>Handle_Contract\<close>, its second.
\<close>

subsection \<open>Calls\<close>

text \<open>A mutation call with the arguments of its C function, the handle and the result slot apart.\<close>

datatype ('f, 'raw) mutation_call =
    DeleteCall "string ptr"
  | UpdateCall "string ptr" "string ptr list ptr" "string ptr list ptr" usize
  | DropColumnsCall "string ptr list ptr" usize
  | AlterColumnsCall "'f column_alteration_arg list ptr" usize
  | CompactCall "compaction_options_arg ptr"
  | AddColumnsSqlCall "(string ptr \<times> string ptr) list ptr" usize u64
  | AddColumnsNullsCall "'f ffi_schema ptr"
  | AddColumnsStreamCall "'raw c_stream ptr" u64
  | MergeInsertCall "string ptr list ptr" usize "'raw c_stream ptr" "merge_insert_params ptr"

definition forget :: "'r outcome \<times> 'h \<Rightarrow> unit outcome \<times> 'h" where
  "forget = (\<lambda>(res, h). (obind res (\<lambda>_. Ok ()), h))"

fun mutation_call_inner ::
  "('ds, 'f, 'ty, 'sch, 'raw, 'rd, 'q, ('w::len) word) mutation_api \<Rightarrow> nat \<Rightarrow> ('f, 'raw) mutation_call \<Rightarrow>
     'ds lance_dataset ptr \<Rightarrow> unit outcome \<times> 'ds lance_dataset ptr" where
  "mutation_call_inner api a (DeleteCall p) ds = forget (delete_inner api a ds p)"
| "mutation_call_inner api a (UpdateCall p cs vs n) ds = forget (update_inner api a ds p cs vs n)"
| "mutation_call_inner api a (DropColumnsCall cs n) ds = forget (drop_columns_inner api a ds cs n)"
| "mutation_call_inner api a (AlterColumnsCall xs n) ds = forget (alter_columns_inner api a ds xs n)"
| "mutation_call_inner api a (CompactCall opts) ds = forget (compact_inner api a ds opts)"
| "mutation_call_inner api a (AddColumnsSqlCall cs n b) ds = forget (add_columns_sql_inner api a ds cs n b)"
| "mutation_call_inner api a (AddColumnsNullsCall f) ds = forget (add_columns_nulls_inner api a ds f)"
| "mutation_call_inner api a (AddColumnsStreamCall s b) ds = forget (fst (add_columns_stream_inner api a ds s b))"
| "mutation_call_inner api a (MergeInsertCall cs n s mp) ds = forget (fst (merge_insert_inner api a ds cs n s mp))"

text \<open>The operation on the dataset that a call asks for, once its arguments are valid. Validation sees the handle
  only to reject NULL, so any handle will do.\<close>

definition operation_of :: "('ds lance_dataset \<times> 'v) outcome \<Rightarrow> ('v \<Rightarrow> 'ds \<Rightarrow> 'r outcome \<times> 'ds) \<Rightarrow>
    ('ds \<Rightarrow> unit outcome \<times> 'ds) outcome" where
  "operation_of args f = obind args (\<lambda>(_, v). Ok (\<lambda>d. forget (f v d)))"

fun call_operation ::
  "('ds, 'f, 'ty, 'sch, 'raw, 'rd, 'q, ('w::len) word) mutation_api \<Rightarrow> ('f, 'raw) mutation_call \<Rightarrow> 'ds lance_dataset \<Rightarrow>
     ('ds \<Rightarrow> unit outcome \<times> 'ds) outcome" where
  "call_operation api (DeleteCall p) h = operation_of (delete_args (Some h) p) (\<lambda>p d. mu_delete api d p)"
| "call_operation api (UpdateCall p cs vs n) h = operation_of (update_args (Some h) p cs vs n) (update_dataset api)"
| "call_operation api (DropColumnsCall cs n) h =
     operation_of (drop_columns_args (Some h) cs n) (\<lambda>names d. mu_drop_columns api d names)"
| "call_operation api (AlterColumnsCall xs n) h =
     operation_of (alter_columns_args api (Some h) xs n) (\<lambda>ys d. mu_alter_columns api d ys)"
| "call_operation api (CompactCall opts) h =
     operation_of (compact_args api (Some h) opts) (\<lambda>resolved d. mu_compact api d resolved)"
| "call_operation api (AddColumnsSqlCall cs n b) h =
     operation_of (add_columns_sql_args (Some h) cs n b) (add_columns_dataset api)"
| "call_operation api (AddColumnsNullsCall f) h =
     operation_of (add_columns_nulls_args api (Some h) f) (add_columns_dataset api)"
| "call_operation api (AddColumnsStreamCall s b) h =
     operation_of (add_columns_stream_args api (Some h) s b) (add_columns_dataset api)"
| "call_operation api (MergeInsertCall cs n s mp) h =
     operation_of (merge_insert_args api (Some h) cs n s mp) (merge_dataset api)"

definition any_handle :: "'ds \<Rightarrow> 'ds lance_dataset" where
  "any_handle d = \<lparr>ds_inner = Arc 0 d, ds_lock_poisoned = False\<rparr>"

subsection \<open>The contract of calls on a handle\<close>

text \<open>The transaction of a call: its operation, or the rejection of its arguments.\<close>

definition transaction_of :: "('c \<Rightarrow> 'ds lance_dataset \<Rightarrow> ('ds \<Rightarrow> unit outcome \<times> 'ds) outcome) \<Rightarrow> 'c \<Rightarrow> 'ds \<Rightarrow>
    unit outcome \<times> 'ds" where
  "transaction_of call_op c d =
     (case call_op c (any_handle d) of
        Ok f \<Rightarrow> f d
      | Err e \<Rightarrow> (Err e, d)
      | Panic p \<Rightarrow> (Panic p, d))"

fun run_calls :: "(nat \<Rightarrow> 'c \<Rightarrow> 'h \<Rightarrow> 'r \<times> 'h) \<Rightarrow> (nat \<times> 'c) list \<Rightarrow> 'h \<Rightarrow> 'r list \<times> 'h" where
  "run_calls call_inner [] ds = ([], ds)"
| "run_calls call_inner ((a, c) # calls) ds =
     (let (r, ds') = call_inner a c ds; (rs, ds'') = run_calls call_inner calls ds' in (r # rs, ds''))"

text \<open>Calls that validate their arguments without looking at the handle and then run one operation inside
  \<open>with_mut\<close>.\<close>

locale transactional_calls =
  fixes call_inner :: "nat \<Rightarrow> 'c \<Rightarrow> 'ds lance_dataset ptr \<Rightarrow> unit outcome \<times> 'ds lance_dataset ptr"
    and call_op :: "'c \<Rightarrow> 'ds lance_dataset \<Rightarrow> ('ds \<Rightarrow> unit outcome \<times> 'ds) outcome"
  assumes inner_op: "call_inner a c (Some h) =
      (case call_op c h of
         Ok g \<Rightarrow> (let (r, h') = with_mut a g h in (r, Some h'))
       | Err e \<Rightarrow> (Err e, Some h)
       | Panic p \<Rightarrow> (Panic p, Some h))"
    and op_handle: "call_op c h = call_op c h'"
begin

lemma call_transacts:
  "\<exists>h'. call_inner a c (Some h) = (fst (transact (transaction_of call_op c) (arc_val (snapshot h))), Some h') \<and>
     arc_val (snapshot h') = snd (transact (transaction_of call_op c) (arc_val (snapshot h)))"
proof -
  have "call_op c (any_handle d) = call_op c h" for d by (rule op_handle)
  then show ?thesis
    by (cases "call_op c h") (auto simp: inner_op transaction_of_def with_mut_def snapshot_def Let_def
        split: outcome.split prod.split)
qed

lemma run_refines:
  "\<exists>h'. run_calls call_inner calls (Some h) =
      (fst (run_transactions (map (\<lambda>c. transaction_of call_op (snd c)) calls) (arc_val (snapshot h))), Some h') \<and>
    arc_val (snapshot h') = snd (run_transactions (map (\<lambda>c. transaction_of call_op (snd c)) calls) (arc_val (snapshot h)))"
proof (induction calls arbitrary: h)
  case (Cons c calls)
  obtain a call where c: "c = (a, call)" by fastforce
  from call_transacts [of a call h] obtain h1 where
    s: "call_inner a call (Some h) = (fst (transact (transaction_of call_op call) (arc_val (snapshot h))), Some h1)"
      "arc_val (snapshot h1) = snd (transact (transaction_of call_op call) (arc_val (snapshot h)))" by blast
  from Cons.IH [of h1] c s show ?case by (auto simp: split_beta Let_def simp del: transact.simps)
qed simp

text \<open>Which calls cut the handle off from the contexts prepared on its snapshot.\<close>

lemma call_invalidates:
  fixes ctx :: "('ds, 'sc) fts_query_context"
  assumes "arc_ptr_eq (fc_dataset ctx) (snapshot h)" "a \<noteq> arc_addr (snapshot h)"
    and "call_inner a c (Some h) = (res, Some h')"
  shows "validate_dataset_identity fts ctx (snapshot h') = Ok () \<longleftrightarrow>
    (\<forall>g. call_op c h \<noteq> Ok g) \<or> (\<exists>p. res = Panic p)"
proof (cases "call_op c h")
  case (Ok g)
  with assms show ?thesis
    by (auto simp: inner_op with_mut_def snapshot_def validate_dataset_identity_def arc_ptr_eq_def
        reject_if_eq_Ok split: outcome.splits prod.splits)
qed (use assms in \<open>auto simp: inner_op validate_dataset_identity_def\<close>)

end

subsection \<open>Lemmas\<close>

lemma forget_mutate:
  "forget (mutate a dataset args f) =
     (case args of
        Ok (h, v) \<Rightarrow> (let (r, h') = with_mut a (\<lambda>d. forget (f v d)) h in (r, Some h'))
      | Err e \<Rightarrow> (Err e, dataset)
      | Panic p \<Rightarrow> (Panic p, dataset))"
  by (auto simp: mutate_def forget_def with_mut_def Let_def split: outcome.split prod.split)

text \<open>Validation hands the handle through.\<close>

definition hands_through :: "'ds lance_dataset \<Rightarrow> ('ds lance_dataset \<times> 'v) outcome \<Rightarrow> bool" where
  "hands_through h args \<longleftrightarrow> (\<forall>h' v. args = Ok (h', v) \<longrightarrow> h' = h)"

lemma args_hand_through:
  "hands_through h (delete_args (Some h) p)"
  "hands_through h (update_args (Some h) p cs vs n)"
  "hands_through h (drop_columns_args (Some h) cs n)"
  "hands_through h (alter_columns_args api (Some h) xs n)"
  "hands_through h (compact_args api (Some h) opts)"
  "hands_through h (add_columns_sql_args (Some h) sc n b)"
  "hands_through h (add_columns_nulls_args api (Some h) f)"
  "hands_through h (add_columns_stream_args api (Some h) s b)"
  "hands_through h (merge_insert_args api (Some h) cs n s mp)"
  by (auto simp: hands_through_def delete_args_def update_args_def drop_columns_args_def alter_columns_args_def
      compact_args_def add_columns_sql_args_def add_columns_nulls_args_def add_columns_stream_args_def
      merge_insert_args_def outcome_ok split: option.splits)

lemma forget_mutate_operation:
  assumes "hands_through h args"
  shows "forget (mutate a (Some h) args f) =
    (case operation_of args f of
       Ok g \<Rightarrow> (let (r, h') = with_mut a g h in (r, Some h'))
     | Err e \<Rightarrow> (Err e, Some h)
     | Panic p \<Rightarrow> (Panic p, Some h))"
  using assms by (cases args) (auto simp: forget_mutate operation_of_def hands_through_def)

lemma mutation_call_operation:
  "mutation_call_inner api a call (Some h) =
     (case call_operation api call h of
        Ok g \<Rightarrow> (let (r, h') = with_mut a g h in (r, Some h'))
      | Err e \<Rightarrow> (Err e, Some h)
      | Panic p \<Rightarrow> (Panic p, Some h))"
proof (cases call)
  case (CompactCall opts)
  have "forget (compact_inner api a (Some h) opts) =
      forget (mutate a (Some h) (compact_args api (Some h) opts) (\<lambda>resolved d. mu_compact api d resolved))"
    by (simp add: compact_inner_def forget_def split_beta obind_assoc)
  with CompactCall show ?thesis by (simp add: forget_mutate_operation args_hand_through)
qed (simp_all add: forget_mutate_operation args_hand_through delete_inner_def update_inner_def drop_columns_inner_def
    alter_columns_inner_def add_columns_sql_inner_def add_columns_nulls_inner_def add_columns_stream_inner_def
    merge_insert_inner_def)

lemma obind_reject_if: "obind (reject_if c e k) f = reject_if c e (obind k f)"
  by (simp add: reject_if_def)

lemma call_operation_handle: "call_operation api call h = call_operation api call h'"
  by (cases call)
    (auto simp: operation_of_def delete_args_def update_args_def drop_columns_args_def alter_columns_args_def
      compact_args_def add_columns_sql_args_def add_columns_nulls_args_def add_columns_stream_args_def
      merge_insert_args_def obind_assoc obind_reject_if split: option.split)

interpretation mutation: transactional_calls "mutation_call_inner api" "call_operation api" for api
proof unfold_locales
  show "mutation_call_inner api a c (Some h) =
      (case call_operation api c h of
         Ok g \<Rightarrow> (let (r, h') = with_mut a g h in (r, Some h'))
       | Err e \<Rightarrow> (Err e, Some h)
       | Panic p \<Rightarrow> (Panic p, Some h))" for a c h by (rule mutation_call_operation)
  show "call_operation api c h = call_operation api c h'" for c h h' by (rule call_operation_handle)
qed

definition demo_mutation_api :: "(nat, unit, unit, unit, unit, unit, unit, 64 word) mutation_api" where
  "demo_mutation_api =
     \<lparr>mu_delete = (\<lambda>d _. (Err (LanceError IO (Returned ''disk full'')), Suc d)), mu_update_where = (\<lambda>_ _. Ok ()),
      mu_update_set = (\<lambda>_ _ _ _. Ok ()), mu_update = (\<lambda>d _ _. Ok (1, Suc d)), mu_drop_columns = (\<lambda>d _. (Ok (), Suc d)),
      mu_data_type = (\<lambda>_. Ok ()), mu_alter_columns = (\<lambda>d _. (Ok (), Suc d)),
      mu_compaction_default = \<lparr>co_target_rows_per_fragment = 1048576, co_max_rows_per_group = 1024,
        co_max_bytes_per_file = None, co_num_threads = None, co_batch_size = None\<rparr>,
      mu_compact = (\<lambda>d _. (Ok \<lparr>cm_fragments_removed = 2, cm_fragments_added = 1, cm_files_removed = 2, cm_files_added = 1\<rparr>, Suc d)),
      mu_arrow_schema = (\<lambda>_. Ok ()), mu_from_raw = (\<lambda>_. Ok ()), mu_add_columns = (\<lambda>d _ _. (Ok (), Suc d)),
      mu_delete_if = (\<lambda>_ _. Ok ()), mu_merge_new = (\<lambda>_ _. Ok ()), mu_merge_build = (\<lambda>_ _ _ _ _. Ok ()),
      mu_merge_execute = (\<lambda>d _ _ _ _ _. Ok (\<lparr>ms_inserted = 1, ms_updated = 0, ms_deleted = 0\<rparr>, Suc d)),
      mu_checkout_version = (\<lambda>d _. Ok d), mu_restore = (\<lambda>d. (Ok (), Suc d))\<rparr>"

definition expr_given :: "string ptr \<Rightarrow> string \<Rightarrow> bool" where
  "expr_given p e \<longleftrightarrow> p = Some e \<and> e \<noteq> [] \<and> to_str_ok e"

lemma read_optional_expr_eq_Ok:
  "read_optional_expr p field = Ok r \<longleftrightarrow> r = p \<and> (case p of Some e \<Rightarrow> expr_given p e | None \<Rightarrow> True)"
  by (cases p) (auto simp: read_optional_expr_def outcome_ok parse_c_string_eq_Ok expr_given_def)

text \<open>Merge parameters are accepted exactly when the three modes are in range and each expression is present, not
  empty and valid UTF-8 if its mode needs one, and absent otherwise; the resolved behaviours are then
  those of the modes, with the caller's expressions.\<close>

theorem resolve_params_exact:
  "resolve_params (Some mp) = Ok (matched, not_matched, by_source) \<longleftrightarrow>
     (case matched of
        MatchedDoNothing \<Rightarrow> mp_when_matched mp = 0 \<and> mp_when_matched_expr mp = None
      | MatchedUpdateAll \<Rightarrow> mp_when_matched mp = 1 \<and> mp_when_matched_expr mp = None
      | MatchedUpdateIf e \<Rightarrow> mp_when_matched mp = 2 \<and> expr_given (mp_when_matched_expr mp) e
      | MatchedFail \<Rightarrow> mp_when_matched mp = 3 \<and> mp_when_matched_expr mp = None
      | MatchedDelete \<Rightarrow> mp_when_matched mp = 4 \<and> mp_when_matched_expr mp = None) \<and>
     mp_when_not_matched mp = (case not_matched of NotMatchedInsertAll \<Rightarrow> 0 | NotMatchedDoNothing \<Rightarrow> 1) \<and>
     (case by_source of
        BySourceKeep \<Rightarrow> mp_when_not_matched_by_source mp = 0 \<and> mp_when_not_matched_by_source_expr mp = None
      | BySourceDelete \<Rightarrow> mp_when_not_matched_by_source mp = 1 \<and> mp_when_not_matched_by_source_expr mp = None
      | BySourceDeleteIf e \<Rightarrow> mp_when_not_matched_by_source mp = 2 \<and> expr_given (mp_when_not_matched_by_source_expr mp) e)"
proof -
  show ?thesis
    by (auto simp: resolve_params_def outcome_ok read_optional_expr_eq_Ok merge_when_matched_from_raw_def
        merge_when_not_matched_from_raw_def merge_by_source_from_raw_def reject_unused_expr_def expr_given_def
        split: if_splits merge_when_matched.splits when_matched.splits when_not_matched.splits
          when_not_matched_by_source.splits option.splits)
qed

end
