(* ===== verification/Index_Params.thy ===== *)
theory Index_Params
  imports Mutations Scanner
begin

text \<open>
  Model of the index parameters of \<open>src/index.rs\<close>: the C enumerations, and the translation of
  \<open>LanceVectorIndexParams\<close> into Lance's build parameters for each of the six kinds of vector index.
  Upstream's constructors and defaults are the record \<open>build_defaults\<close>; the tagged constructors of
  the resulting parameters are the datatype \<open>core_params\<close>.
\<close>

subsection \<open>Enumerations\<close>

datatype scalar_index_type = ScalarBTree | ScalarBitmap | ScalarLabelList | ScalarInverted

definition scalar_type_from_c :: "i32 \<Rightarrow> scalar_index_type outcome" where
  "scalar_type_from_c v =
     (if v = 1 then Ok ScalarBTree else if v = 2 then Ok ScalarBitmap else if v = 3 then Ok ScalarLabelList
      else if v = 4 then Ok ScalarInverted
      else Err (invalid_input (''invalid scalar index type: '' @ show_i v)))"

fun scalar_type_value :: "scalar_index_type \<Rightarrow> i32" where
  "scalar_type_value ScalarBTree = 1"
| "scalar_type_value ScalarBitmap = 2"
| "scalar_type_value ScalarLabelList = 3"
| "scalar_type_value ScalarInverted = 4"

datatype vector_index_type = IvfFlat | IvfSq | IvfPq | IvfHnswSq | IvfHnswPq | IvfHnswFlat

definition vector_type_from_c :: "i32 \<Rightarrow> vector_index_type outcome" where
  "vector_type_from_c v =
     (if v = 101 then Ok IvfFlat else if v = 102 then Ok IvfSq else if v = 103 then Ok IvfPq
      else if v = 104 then Ok IvfHnswSq else if v = 105 then Ok IvfHnswPq else if v = 106 then Ok IvfHnswFlat
      else Err (invalid_input (''invalid vector index type: '' @ show_i v)))"

fun vector_type_value :: "vector_index_type \<Rightarrow> i32" where
  "vector_type_value IvfFlat = 101"
| "vector_type_value IvfSq = 102"
| "vector_type_value IvfPq = 103"
| "vector_type_value IvfHnswSq = 104"
| "vector_type_value IvfHnswPq = 105"
| "vector_type_value IvfHnswFlat = 106"

fun vector_type_debug :: "vector_index_type \<Rightarrow> string" where
  "vector_type_debug IvfFlat = ''IvfFlat''"
| "vector_type_debug IvfSq = ''IvfSq''"
| "vector_type_debug IvfPq = ''IvfPq''"
| "vector_type_debug IvfHnswSq = ''IvfHnswSq''"
| "vector_type_debug IvfHnswPq = ''IvfHnswPq''"
| "vector_type_debug IvfHnswFlat = ''IvfHnswFlat''"

text \<open>The metric of the C interface and the distance type of Lance are the same four values.\<close>

definition metric_from_c :: "i32 \<Rightarrow> metric_type outcome" where
  "metric_from_c v =
     (if v = 0 then Ok L2 else if v = 1 then Ok Cosine else if v = 2 then Ok Dot else if v = 3 then Ok Hamming
      else Err (invalid_input
        (''metric must be one of 0 (L2), 1 (Cosine), 2 (Dot), or 3 (Hamming); got '' @ show_i v)))"

fun metric_value :: "metric_type \<Rightarrow> i32" where
  "metric_value L2 = 0"
| "metric_value Cosine = 1"
| "metric_value Dot = 2"
| "metric_value Hamming = 3"

definition to_distance :: "metric_type \<Rightarrow> metric_type" where
  "to_distance m = m"

subsection \<open>Parameters\<close>

record vector_index_params =
  vp_index_type :: vector_index_type
  vp_metric :: metric_type
  vp_num_partitions :: u32
  vp_num_sub_vectors :: u32
  vp_num_bits :: u32
  vp_max_iterations :: u32
  vp_hnsw_m :: u32
  vp_hnsw_ef_construction :: u32
  vp_sample_rate :: u32

text \<open>Lance's parameters: what this code sets, and the rest.\<close>

record ('c, 'r) ivf_params =
  iv_centroids :: "'c option"
  iv_max_iters :: usize
  iv_sample_rate :: usize
  iv_rest :: 'r

record ('b, 'r) pq_params =
  pq_num_sub_vectors :: usize
  pq_num_bits :: usize
  pq_max_iters :: usize
  pq_codebook :: "'b option"
  pq_rest :: 'r

record 'r sq_params =
  sq_num_bits :: u16
  sq_sample_rate :: usize
  sq_rest :: 'r

record 'r hnsw_params =
  hn_m :: usize
  hn_ef_construction :: usize
  hn_rest :: 'r

record ('c, 'b, 'r) build_defaults =
  bd_ivf_new :: "usize \<Rightarrow> ('c, 'r) ivf_params"
  bd_pq_default :: "('b, 'r) pq_params"
  bd_sq_default :: "'r sq_params"
  bd_hnsw_default :: "'r hnsw_params"
  bd_centroids_len :: "'c \<Rightarrow> usize"

datatype ('c, 'b, 'r) core_params =
    WithIvfFlatParams metric_type "('c, 'r) ivf_params"
  | WithIvfPqParams metric_type "('c, 'r) ivf_params" "('b, 'r) pq_params"
  | WithIvfSqParams metric_type "('c, 'r) ivf_params" "'r sq_params"
  | IvfHnsw metric_type "('c, 'r) ivf_params" "'r hnsw_params"
  | WithIvfHnswPqParams metric_type "('c, 'r) ivf_params" "'r hnsw_params" "('b, 'r) pq_params"
  | WithIvfHnswSqParams metric_type "('c, 'r) ivf_params" "'r hnsw_params" "'r sq_params"

definition require_field :: "string \<Rightarrow> u32 \<Rightarrow> u32 outcome" where
  "require_field name v =
     (if v = 0 then Err (invalid_input (name @ '' is required for this index type and must be > 0'')) else Ok v)"

text \<open>\<open>LanceVectorIndexType\<close> casts: \<open>u32 as usize\<close> and \<open>u32 as u16\<close>.\<close>

definition build_ivf ::
  "('c, 'b, 'r) build_defaults \<Rightarrow> vector_index_params \<Rightarrow> 'c option \<Rightarrow> ('c, 'r) ivf_params outcome" where
  "build_ivf bd p centroids =
     obind (require_field ''num_partitions'' (vp_num_partitions p)) (\<lambda>n.
     let num_partitions = ucast n; ivf = bd_ivf_new bd num_partitions in
     obind (case centroids of
              None \<Rightarrow> Ok ivf
            | Some c \<Rightarrow>
                reject_if (bd_centroids_len bd c \<noteq> num_partitions)
                  (invalid_input (''ivf_centroids length '' @ show_u (bd_centroids_len bd c) @
                     '' does not match num_partitions '' @ show_u num_partitions))
                  (Ok (ivf\<lparr>iv_centroids := Some c\<rparr>))) (\<lambda>ivf.
     let ivf = (if vp_max_iterations p \<noteq> 0 then ivf\<lparr>iv_max_iters := ucast (vp_max_iterations p)\<rparr> else ivf);
         ivf = (if vp_sample_rate p \<noteq> 0 then ivf\<lparr>iv_sample_rate := ucast (vp_sample_rate p)\<rparr> else ivf)
     in Ok ivf))"

definition build_pq ::
  "('c, 'b, 'r) build_defaults \<Rightarrow> vector_index_params \<Rightarrow> 'b option \<Rightarrow> ('b, 'r) pq_params outcome" where
  "build_pq bd p codebook =
     obind (require_field ''num_sub_vectors'' (vp_num_sub_vectors p)) (\<lambda>n.
     let num_bits = (if vp_num_bits p = 0 then 8 else ucast (vp_num_bits p)) in
     reject_if (num_bits \<notin> {4, 8})
       (invalid_input (''num_bits must be 4 or 8 for Lance PQ indexes, got '' @ show_u num_bits)) (
     let max_iters = (if vp_max_iterations p = 0 then 50 else ucast (vp_max_iterations p)) in
     Ok ((bd_pq_default bd)\<lparr>pq_num_sub_vectors := ucast n, pq_num_bits := num_bits, pq_max_iters := max_iters,
         pq_codebook := codebook\<rparr>)))"

definition build_sq :: "('c, 'b, 'r) build_defaults \<Rightarrow> vector_index_params \<Rightarrow> 'r sq_params outcome" where
  "build_sq bd p =
     obind (if vp_num_bits p \<noteq> 0 then
              reject_if (vp_num_bits p \<noteq> 8)
                (invalid_input (''num_bits must be 0 or 8 for Lance SQ indexes, got '' @ show_u (vp_num_bits p)))
                (Ok ((bd_sq_default bd)\<lparr>sq_num_bits := ucast (vp_num_bits p)\<rparr>))
            else Ok (bd_sq_default bd)) (\<lambda>sq.
     Ok (if vp_sample_rate p \<noteq> 0 then sq\<lparr>sq_sample_rate := ucast (vp_sample_rate p)\<rparr> else sq))"

definition build_hnsw :: "('c, 'b, 'r) build_defaults \<Rightarrow> vector_index_params \<Rightarrow> 'r hnsw_params outcome" where
  "build_hnsw bd p =
     obind (require_field ''hnsw_m'' (vp_hnsw_m p)) (\<lambda>m.
     let hnsw = (bd_hnsw_default bd)\<lparr>hn_m := ucast m\<rparr> in
     Ok (if vp_hnsw_ef_construction p \<noteq> 0 then hnsw\<lparr>hn_ef_construction := ucast (vp_hnsw_ef_construction p)\<rparr>
         else hnsw))"

definition build_vector_params_with_models ::
  "('c, 'b, 'r) build_defaults \<Rightarrow> vector_index_params \<Rightarrow> 'c option \<Rightarrow> 'b option \<Rightarrow> ('c, 'b, 'r) core_params outcome" where
  "build_vector_params_with_models bd p centroids codebook =
     (let metric = to_distance (vp_metric p) in
      case vp_index_type p of
        IvfFlat \<Rightarrow> obind (build_ivf bd p centroids) (\<lambda>ivf. Ok (WithIvfFlatParams metric ivf))
      | IvfPq \<Rightarrow> obind (build_ivf bd p centroids) (\<lambda>ivf. obind (build_pq bd p codebook) (\<lambda>pq.
          Ok (WithIvfPqParams metric ivf pq)))
      | IvfSq \<Rightarrow> obind (build_ivf bd p centroids) (\<lambda>ivf. obind (build_sq bd p) (\<lambda>sq.
          Ok (WithIvfSqParams metric ivf sq)))
      | IvfHnswFlat \<Rightarrow> obind (build_ivf bd p centroids) (\<lambda>ivf. obind (build_hnsw bd p) (\<lambda>hnsw.
          Ok (IvfHnsw metric ivf hnsw)))
      | IvfHnswPq \<Rightarrow> obind (build_ivf bd p centroids) (\<lambda>ivf. obind (build_hnsw bd p) (\<lambda>hnsw.
          obind (build_pq bd p codebook) (\<lambda>pq. Ok (WithIvfHnswPqParams metric ivf hnsw pq))))
      | IvfHnswSq \<Rightarrow> obind (build_ivf bd p centroids) (\<lambda>ivf. obind (build_hnsw bd p) (\<lambda>hnsw.
          obind (build_sq bd p) (\<lambda>sq. Ok (WithIvfHnswSqParams metric ivf hnsw sq)))))"

definition build_vector_params ::
  "('c, 'b, 'r) build_defaults \<Rightarrow> vector_index_params \<Rightarrow> ('c, 'b, 'r) core_params outcome" where
  "build_vector_params bd p = build_vector_params_with_models bd p None None"

subsection \<open>What each kind needs\<close>

definition is_pq :: "vector_index_type \<Rightarrow> bool" where
  "is_pq ty \<longleftrightarrow> ty = IvfPq \<or> ty = IvfHnswPq"

definition is_sq :: "vector_index_type \<Rightarrow> bool" where
  "is_sq ty \<longleftrightarrow> ty = IvfSq \<or> ty = IvfHnswSq"

definition is_hnsw :: "vector_index_type \<Rightarrow> bool" where
  "is_hnsw ty \<longleftrightarrow> ty = IvfHnswSq \<or> ty = IvfHnswPq \<or> ty = IvfHnswFlat"

definition effective_bits :: "vector_index_params \<Rightarrow> u32" where
  "effective_bits p = (if vp_num_bits p = 0 then 8 else vp_num_bits p)"

definition params_acceptable :: "('c, 'b, 'r) build_defaults \<Rightarrow> vector_index_params \<Rightarrow> 'c option \<Rightarrow> bool" where
  "params_acceptable bd p centroids \<longleftrightarrow>
     vp_num_partitions p \<noteq> 0 \<and>
     (case centroids of Some c \<Rightarrow> bd_centroids_len bd c = ucast (vp_num_partitions p) | None \<Rightarrow> True) \<and>
     (is_hnsw (vp_index_type p) \<longrightarrow> vp_hnsw_m p \<noteq> 0) \<and>
     (is_pq (vp_index_type p) \<longrightarrow> vp_num_sub_vectors p \<noteq> 0 \<and> effective_bits p \<in> {4, 8}) \<and>
     (is_sq (vp_index_type p) \<longrightarrow> effective_bits p = 8)"

text \<open>The parts of the parameters.\<close>

fun core_metric :: "('c, 'b, 'r) core_params \<Rightarrow> metric_type" where
  "core_metric (WithIvfFlatParams m ivf) = m"
| "core_metric (WithIvfPqParams m ivf pq) = m"
| "core_metric (WithIvfSqParams m ivf sq) = m"
| "core_metric (IvfHnsw m ivf hnsw) = m"
| "core_metric (WithIvfHnswPqParams m ivf hnsw pq) = m"
| "core_metric (WithIvfHnswSqParams m ivf hnsw sq) = m"

fun core_ivf :: "('c, 'b, 'r) core_params \<Rightarrow> ('c, 'r) ivf_params" where
  "core_ivf (WithIvfFlatParams m ivf) = ivf"
| "core_ivf (WithIvfPqParams m ivf pq) = ivf"
| "core_ivf (WithIvfSqParams m ivf sq) = ivf"
| "core_ivf (IvfHnsw m ivf hnsw) = ivf"
| "core_ivf (WithIvfHnswPqParams m ivf hnsw pq) = ivf"
| "core_ivf (WithIvfHnswSqParams m ivf hnsw sq) = ivf"

fun core_pq :: "('c, 'b, 'r) core_params \<Rightarrow> ('b, 'r) pq_params option" where
  "core_pq (WithIvfPqParams m ivf pq) = Some pq"
| "core_pq (WithIvfHnswPqParams m ivf hnsw pq) = Some pq"
| "core_pq _ = None"

fun core_sq :: "('c, 'b, 'r) core_params \<Rightarrow> 'r sq_params option" where
  "core_sq (WithIvfSqParams m ivf sq) = Some sq"
| "core_sq (WithIvfHnswSqParams m ivf hnsw sq) = Some sq"
| "core_sq _ = None"

fun core_hnsw :: "('c, 'b, 'r) core_params \<Rightarrow> 'r hnsw_params option" where
  "core_hnsw (IvfHnsw m ivf hnsw) = Some hnsw"
| "core_hnsw (WithIvfHnswPqParams m ivf hnsw pq) = Some hnsw"
| "core_hnsw (WithIvfHnswSqParams m ivf hnsw sq) = Some hnsw"
| "core_hnsw _ = None"

subsection \<open>Lemmas\<close>

lemma from_c_values [simp]:
  "scalar_type_from_c (scalar_type_value st) = Ok st"
  "vector_type_from_c (vector_type_value vt) = Ok vt"
  "metric_from_c (metric_value m) = Ok m"
proof -
  show "scalar_type_from_c (scalar_type_value st) = Ok st" by (cases st) (simp_all add: scalar_type_from_c_def)
  show "vector_type_from_c (vector_type_value vt) = Ok vt" by (cases vt) (simp_all add: vector_type_from_c_def)
  show "metric_from_c (metric_value m) = Ok m" by (cases m) (simp_all add: metric_from_c_def)
qed

lemma scalar_type_from_c_Ok: "scalar_type_from_c v = Ok st \<longleftrightarrow> v = scalar_type_value st"
  by (cases st) (auto simp: scalar_type_from_c_def split: if_splits)

lemma vector_type_from_c_Ok: "vector_type_from_c v = Ok vt \<longleftrightarrow> v = vector_type_value vt"
  by (cases vt) (auto simp: vector_type_from_c_def split: if_splits)

lemma metric_from_c_Ok: "metric_from_c v = Ok m \<longleftrightarrow> v = metric_value m"
  by (cases m) (auto simp: metric_from_c_def split: if_splits)

lemmas from_c_Ok = scalar_type_from_c_Ok vector_type_from_c_Ok metric_from_c_Ok

lemma from_c_not_Panic [simp]:
  "scalar_type_from_c v \<noteq> Panic q" "vector_type_from_c v \<noteq> Panic q" "metric_from_c v \<noteq> Panic q"
  by (simp_all add: scalar_type_from_c_def vector_type_from_c_def metric_from_c_def)

lemma require_field_Ok: "require_field name v = Ok w \<longleftrightarrow> v \<noteq> 0 \<and> w = v"
  by (auto simp: require_field_def)

lemma require_field_not_Panic [simp]: "require_field name v \<noteq> Panic q"
  by (simp add: require_field_def)

lemma build_not_Panic [simp]:
  "build_ivf bd p c \<noteq> Panic q" "build_pq bd p b \<noteq> Panic q" "build_sq bd p \<noteq> Panic q" "build_hnsw bd p \<noteq> Panic q"
  by (auto simp: build_ivf_def build_pq_def build_sq_def build_hnsw_def Let_def outcome_panic
      split: option.splits if_splits)

lemma ex_obind_Ok: "(\<exists>y. obind m f = Ok y) \<longleftrightarrow> (\<exists>x. m = Ok x \<and> (\<exists>y. f x = Ok y))"
  by (auto simp: obind_eq_Ok)

lemma build_vector_params_not_Panic [simp]: "build_vector_params_with_models bd p c b \<noteq> Panic q"
  by (simp add: build_vector_params_with_models_def Let_def outcome_panic split: vector_index_type.split)

lemma bits_cast: "(ucast (b :: u32) :: usize) \<in> {4, 8} \<longleftrightarrow> b \<in> {4, 8}"
  by (auto simp: word_unat_eq_iff)

lemma build_ivf_Ok:
  "(\<exists>ivf. build_ivf bd p c = Ok ivf) \<longleftrightarrow> vp_num_partitions p \<noteq> 0 \<and>
     (case c of Some a \<Rightarrow> bd_centroids_len bd a = ucast (vp_num_partitions p) | None \<Rightarrow> True)"
  by (auto simp: build_ivf_def require_field_Ok outcome_ok Let_def split: option.split)

lemma build_pq_Ok:
  "(\<exists>pq. build_pq bd p b = Ok pq) \<longleftrightarrow> vp_num_sub_vectors p \<noteq> 0 \<and> effective_bits p \<in> {4, 8}"
  using bits_cast [of "vp_num_bits p"] by (auto simp: build_pq_def require_field_Ok outcome_ok Let_def effective_bits_def)

lemma build_sq_Ok: "(\<exists>sq. build_sq bd p = Ok sq) \<longleftrightarrow> effective_bits p = 8"
  by (auto simp: build_sq_def outcome_ok effective_bits_def)

lemma build_hnsw_Ok: "(\<exists>hnsw. build_hnsw bd p = Ok hnsw) \<longleftrightarrow> vp_hnsw_m p \<noteq> 0"
  by (auto simp: build_hnsw_def require_field_Ok outcome_ok Let_def)

text \<open>The parameters are accepted exactly when everything the kind of index needs is present and in range.\<close>

lemma build_vector_params_exact:
  "(\<exists>core. build_vector_params_with_models bd p c b = Ok core) \<longleftrightarrow> params_acceptable bd p c"
  by (cases "vp_index_type p")
    (simp_all add: build_vector_params_with_models_def Let_def params_acceptable_def is_pq_def is_sq_def is_hnsw_def
      ex_obind_Ok build_ivf_Ok build_pq_Ok build_sq_Ok build_hnsw_Ok)

end
