(* ===== verification/Model_Schema.thy ===== *)
theory Model_Schema
  imports Dataset
begin

text \<open>
  Model of \<open>validate_model_schema\<close> of \<open>src/index_segment.rs\<close>: the preflight that walks a foreign
  \<open>ArrowSchema\<close> before arrow-rs may see it. The schema is a graph of structs in the memory of the
  caller; a pointer is its address, NULL the address 0, and \<open>mem\<close> says what struct is at an address.
\<close>

subsection \<open>Foreign schemas\<close>

type_synonym addr = usize

text \<open>The children pointer is NULL or the array it points at, of which the first \<open>n_children\<close> entries are read;
  \<open>sn_meta\<close> stands for the metadata and flags that only arrow-rs reads.\<close>

record 'm schema_node =
  sn_release :: bool
  sn_format :: "string ptr"
  sn_name :: "string ptr"
  sn_n_children :: i64
  sn_children :: "(nat \<Rightarrow> addr) ptr"
  sn_dictionary :: addr
  sn_meta :: 'm

type_synonym 'm schema_memory = "addr \<Rightarrow> 'm schema_node"

text \<open>\<open>isize::MAX as usize / size_of::<*mut FFI_ArrowSchema>()\<close>.\<close>

definition max_pointer_slice :: nat where
  "max_pointer_slice = (2 ^ 63 - 1) div 8"

subsection \<open>The preflight\<close>

text \<open>A loop over the children that threads the set of visited addresses.\<close>

fun visit_each :: "(nat \<Rightarrow> 'v \<Rightarrow> 'v outcome) \<Rightarrow> nat list \<Rightarrow> 'v \<Rightarrow> 'v outcome" where
  "visit_each f [] v = Ok v"
| "visit_each f (i # is) v = obind (f i v) (visit_each f is)"

lemma visit_each_cong [fundef_cong]:
  "is = is' \<Longrightarrow> v = v' \<Longrightarrow> (\<And>i w. i \<in> set is' \<Longrightarrow> f i w = g i w) \<Longrightarrow> visit_each f is v = visit_each g is' v'"
proof (induction is' arbitrary: "is" v v')
  case (Cons i is')
  then show ?case by (cases "g i v'") auto
qed auto

text \<open>The checks of one node before its children, and the number of children.\<close>

definition check_node :: "'m schema_node \<Rightarrow> string \<Rightarrow> nat outcome" where
  "check_node value1 path =
     reject_if (\<not> sn_release value1 \<or> sn_format value1 = None)
       (invalid_input (path @ '' is uninitialized or already released'')) (
     reject_if (case sn_format value1 of Some f \<Rightarrow> \<not> to_str_ok f | None \<Rightarrow> False)
       (invalid_input (path @ '' format string is not valid UTF-8'')) (
     reject_if (case sn_name value1 of Some n \<Rightarrow> \<not> to_str_ok n | None \<Rightarrow> False)
       (invalid_input (path @ '' name string is not valid UTF-8'')) (
     reject_if (sint (sn_n_children value1) < 0)
       (invalid_input (path @ ''.n_children must be non-negative, got '' @ show_i (sn_n_children value1))) (
     let child_count = nat (sint (sn_n_children value1)) in
     reject_if (max_pointer_slice < child_count)
       (invalid_input (path @ ''.n_children '' @ show_nat child_count @ '' exceeds the addressable pointer slice length'')) (
     reject_if (0 < child_count \<and> sn_children value1 = None)
       (invalid_input (path @ ''.children is NULL while n_children is '' @ show_nat child_count))
       (Ok child_count))))))"

function preflight :: "'m schema_memory \<Rightarrow> addr \<Rightarrow> string \<Rightarrow> nat \<Rightarrow> addr list \<Rightarrow> addr list outcome" where
  "preflight mem schema path depth visited =
     (if schema = 0 then Err (invalid_input (path @ '' must not be NULL''))
      else if 64 < depth then Err (invalid_input (path @ '' nesting depth exceeds the supported maximum of 64''))
      else if schema \<in> set visited then Err (invalid_input (path @ '' contains a schema pointer cycle''))
      else
        (let value1 = mem schema in
         obind (check_node value1 path) (\<lambda>child_count.
         obind (visit_each
                  (\<lambda>index v. preflight mem (case sn_children value1 of Some c \<Rightarrow> c index | None \<Rightarrow> 0)
                     (path @ ''.children['' @ show_nat index @ '']'') (depth + 1) v)
                  [0..<child_count] (schema # visited)) (\<lambda>visited.
         if sn_dictionary value1 \<noteq> 0
         then preflight mem (sn_dictionary value1) (path @ ''.dictionary'') (depth + 1) visited
         else Ok visited))))"
  by pat_completeness auto

termination
  by (relation "measure (\<lambda>(mem, schema, path, depth, visited). 66 - depth)") auto

declare preflight.simps [simp del]

text \<open>The whole: the preflight, and then arrow-rs's own conversions to a type and a field.\<close>

record ('m, 'f) schema_api =
  sa_data_type :: "'m schema_memory \<Rightarrow> addr \<Rightarrow> unit outcome"
  sa_field :: "'m schema_memory \<Rightarrow> addr \<Rightarrow> 'f outcome"

definition validate_model_schema ::
  "('m, 'f) schema_api \<Rightarrow> 'm schema_memory \<Rightarrow> addr \<Rightarrow> string \<Rightarrow> 'f outcome" where
  "validate_model_schema sa mem schema name =
     obind (preflight mem schema (name @ ''_schema'') 0 []) (\<lambda>_.
     obind (map_err_text (\<lambda>e. name @ ''_schema is not a valid Arrow type: '' @ e) (sa_data_type sa mem schema)) (\<lambda>_.
     map_err_text (\<lambda>e. name @ ''_schema is not a valid Arrow field: '' @ e) (sa_field sa mem schema)))"

subsection \<open>The graph\<close>

text \<open>The pointers a node holds, children first.\<close>

definition node_pointers :: "'m schema_node \<Rightarrow> addr list" where
  "node_pointers n =
     map (\<lambda>i. case sn_children n of Some c \<Rightarrow> c i | None \<Rightarrow> 0) [0..<nat (sint (sn_n_children n))] @
     (if sn_dictionary n \<noteq> 0 then [sn_dictionary n] else [])"

text \<open>A node that arrow-rs may look at.\<close>

definition node_usable :: "'m schema_node \<Rightarrow> bool" where
  "node_usable n \<longleftrightarrow> (\<exists>k. \<forall>path. check_node n path = Ok k)"

text \<open>The nodes at the end of a path of pointers, with its length.\<close>

inductive reaches :: "'m schema_memory \<Rightarrow> addr \<Rightarrow> nat \<Rightarrow> addr \<Rightarrow> bool" for mem where
  here: "reaches mem a 0 a"
| down: "b \<in> set (node_pointers (mem a)) \<Longrightarrow> reaches mem b n c \<Longrightarrow> reaches mem a (Suc n) c"

text \<open>The nodes in the order of a walk down to \<open>n\<close> levels, and whether the walk sees all of them.\<close>

fun schema_walk :: "nat \<Rightarrow> 'm schema_memory \<Rightarrow> addr \<Rightarrow> addr list" where
  "schema_walk 0 mem a = []"
| "schema_walk (Suc n) mem a = a # concat (map (schema_walk n mem) (node_pointers (mem a)))"

fun shallow :: "nat \<Rightarrow> 'm schema_memory \<Rightarrow> addr \<Rightarrow> bool" where
  "shallow 0 mem a = False"
| "shallow (Suc n) mem a = list_all (shallow n mem) (node_pointers (mem a))"

definition schema_tree :: "nat \<Rightarrow> 'm schema_memory \<Rightarrow> addr \<Rightarrow> bool" where
  "schema_tree n mem a \<longleftrightarrow> shallow n mem a \<and> list_all (\<lambda>b. b \<noteq> 0 \<and> node_usable (mem b)) (schema_walk n mem a) \<and>
     distinct (schema_walk n mem a)"

subsection \<open>Lemmas\<close>

lemma check_node_Ok:
  "check_node n path = Ok k \<longleftrightarrow> sn_release n \<and> (case sn_format n of Some f \<Rightarrow> to_str_ok f | None \<Rightarrow> False) \<and>
     (case sn_name n of Some s \<Rightarrow> to_str_ok s | None \<Rightarrow> True) \<and> 0 \<le> sint (sn_n_children n) \<and>
     k = nat (sint (sn_n_children n)) \<and> k \<le> max_pointer_slice \<and> (0 < k \<longrightarrow> sn_children n \<noteq> None)"
  unfolding check_node_def Let_def reject_if_eq_Ok
  by (auto simp: not_less split: option.splits)

lemma check_node_usable: "check_node n path = Ok k \<Longrightarrow> node_usable n"
  by (auto simp: node_usable_def check_node_Ok)

lemma node_usable_check:
  "node_usable n \<longleftrightarrow> check_node n path = Ok (nat (sint (sn_n_children n)))"
  by (auto simp: node_usable_def check_node_Ok)

lemma visit_each_append: "visit_each f (is @ js) v = obind (visit_each f is v) (visit_each f js)"
proof (induction "is" arbitrary: v)
  case (Cons i "is")
  then have "visit_each f (is @ js) = (\<lambda>v. obind (visit_each f is v) (visit_each f js))" by (simp add: fun_eq_iff)
  then show ?case by (simp add: obind_assoc)
qed simp

text \<open>A loop whose every turn accepts a good pointer with fresh nodes, and adds them.\<close>

lemma visit_each_exact:
  assumes "\<And>i w v. i \<in> set is \<Longrightarrow> f i w = Ok v \<longleftrightarrow> good (ptr i) \<and> set (nodes (ptr i)) \<inter> set w = {} \<and> v = rev (nodes (ptr i)) @ w"
    and "\<And>p. good p \<Longrightarrow> distinct (nodes p)"
  shows "visit_each f is w = Ok v \<longleftrightarrow>
     list_all good (map ptr is) \<and> distinct (concat (map nodes (map ptr is))) \<and>
     set (concat (map nodes (map ptr is))) \<inter> set w = {} \<and> v = rev (concat (map nodes (map ptr is))) @ w"
  using assms(1)
proof (induction "is" arbitrary: w v)
  case (Cons i "is")
  have i: "f i w = Ok u \<longleftrightarrow> good (ptr i) \<and> set (nodes (ptr i)) \<inter> set w = {} \<and> u = rev (nodes (ptr i)) @ w" for u
    by (rule Cons.prems) simp
  have rest: "visit_each f is u = Ok v \<longleftrightarrow>
     list_all good (map ptr is) \<and> distinct (concat (map nodes (map ptr is))) \<and>
     set (concat (map nodes (map ptr is))) \<inter> set u = {} \<and> v = rev (concat (map nodes (map ptr is))) @ u" for u
    by (rule Cons.IH) (rule Cons.prems, simp)
  show ?case unfolding visit_each.simps obind_eq_Ok i rest
    using assms(2) [of "ptr i"] by (auto simp: Int_Un_distrib2 Int_Un_distrib)
qed auto

lemma preflight_exact_at:
  "preflight mem a path depth visited = Ok v \<longleftrightarrow>
     schema_tree (65 - depth) mem a \<and> set (schema_walk (65 - depth) mem a) \<inter> set visited = {} \<and>
     v = rev (schema_walk (65 - depth) mem a) @ visited"
proof (induction "65 - depth" arbitrary: a path depth visited v)
  case 0
  then show ?case by (subst preflight.simps) (simp add: schema_tree_def)
next
  case (Suc n)
  then have d: "depth \<le> 64" "n = 65 - Suc depth" by simp_all
  let ?n = "mem a"
  let ?child = "\<lambda>i. case sn_children ?n of Some c \<Rightarrow> c i | None \<Rightarrow> 0"
  let ?path = "\<lambda>i. path @ ''.children['' @ show_nat i @ '']''"
  let ?is = "[0..<nat (sint (sn_n_children ?n))]"
  let ?dict = "if sn_dictionary ?n \<noteq> 0 then [sn_dictionary ?n] else []"
  have IH: "preflight mem b p (Suc depth) w = Ok u \<longleftrightarrow>
      schema_tree n mem b \<and> set (schema_walk n mem b) \<inter> set w = {} \<and> u = rev (schema_walk n mem b) @ w" for b p w u
    unfolding d(2) using Suc(1) [of "Suc depth"] d by simp
  have good: "schema_tree n mem p \<Longrightarrow> distinct (schema_walk n mem p)" for p
    by (simp add: schema_tree_def)
  have kids: "visit_each (\<lambda>i. preflight mem (?child i) (?path i) (depth + 1)) ?is w = Ok u \<longleftrightarrow>
      list_all (schema_tree n mem) (map ?child ?is) \<and> distinct (concat (map (schema_walk n mem) (map ?child ?is))) \<and>
      set (concat (map (schema_walk n mem) (map ?child ?is))) \<inter> set w = {} \<and>
      u = rev (concat (map (schema_walk n mem) (map ?child ?is))) @ w" for w u
    by (rule visit_each_exact [OF _ good]) (simp add: IH)
  have "preflight mem a path depth visited = Ok v \<longleftrightarrow>
      a \<noteq> 0 \<and> a \<notin> set visited \<and> node_usable ?n \<and>
      (\<exists>u. visit_each (\<lambda>i. preflight mem (?child i) (?path i) (depth + 1)) ?is (a # visited) = Ok u \<and>
        (if sn_dictionary ?n \<noteq> 0 then preflight mem (sn_dictionary ?n) (path @ ''.dictionary'') (depth + 1) u = Ok v else u = v))"
    using d(1) by (subst preflight.simps) (auto simp: Let_def obind_eq_Ok check_node_Ok node_usable_check [where path = path])
  also have "\<dots> \<longleftrightarrow> a \<noteq> 0 \<and> a \<notin> set visited \<and> node_usable ?n \<and>
      list_all (schema_tree n mem) (node_pointers ?n) \<and>
      distinct (concat (map (schema_walk n mem) (node_pointers ?n))) \<and>
      set (concat (map (schema_walk n mem) (node_pointers ?n))) \<inter> set (a # visited) = {} \<and>
      v = rev (concat (map (schema_walk n mem) (node_pointers ?n))) @ a # visited"
    unfolding kids node_pointers_def
    by (cases "sn_dictionary ?n = 0") (auto simp: IH dest: good)
  also have "\<dots> \<longleftrightarrow> schema_tree (Suc n) mem a \<and> set (schema_walk (Suc n) mem a) \<inter> set visited = {} \<and>
      v = rev (schema_walk (Suc n) mem a) @ visited"
    by (auto simp: schema_tree_def list_all_iff distinct_concat_iff)
  finally show ?case unfolding Suc(2) .
qed

text \<open>The walk lists what pointers reach, and a shallow graph has no longer path.\<close>

lemma walk_reaches: "set (schema_walk n mem a) = {b. \<exists>k < n. reaches mem a k b}"
proof (induction n arbitrary: a)
  case (Suc n)
  have "(\<exists>k < Suc n. reaches mem a k b) \<longleftrightarrow> b = a \<or> (\<exists>c \<in> set (node_pointers (mem a)). \<exists>k < n. reaches mem c k b)" for b
  proof
    assume "\<exists>k < Suc n. reaches mem a k b"
    then obtain k where k: "k < Suc n" "reaches mem a k b" by blast
    from k(2) show "b = a \<or> (\<exists>c \<in> set (node_pointers (mem a)). \<exists>k < n. reaches mem c k b)"
      by (cases rule: reaches.cases) (use k(1) in auto)
  next
    assume "b = a \<or> (\<exists>c \<in> set (node_pointers (mem a)). \<exists>k < n. reaches mem c k b)"
    then show "\<exists>k < Suc n. reaches mem a k b"
      by (metis Suc_less_eq reaches.here reaches.down zero_less_Suc)
  qed
  with Suc show ?case by auto
qed simp

lemma shallow_reaches: "shallow n mem a \<Longrightarrow> reaches mem a k b \<Longrightarrow> k < n"
proof (induction n arbitrary: a k)
  case (Suc n)
  from Suc.prems(2) show ?case
    by (cases rule: reaches.cases) (use Suc.prems(1) Suc.IH in \<open>auto simp: list_all_iff\<close>)
qed simp

lemma not_shallow: "\<not> shallow n mem a \<Longrightarrow> \<exists>b. reaches mem a n b"
proof (induction n arbitrary: a)
  case (Suc n)
  then show ?case by (auto simp: list_all_iff) (meson reaches.down)
qed (auto intro: reaches.here)

subsection \<open>Properties\<close>

text \<open>C32. The preflight accepts a foreign schema exactly when it is a tree of usable structs at most 64 levels deep:
  no struct is met twice (so the graph has neither cycles nor sharing), and every struct that any chain
  of child and dictionary pointers reaches is non-NULL, live, with a UTF-8 format and name and a
  readable array of children. It always ends, whatever the graph, and what it then hands to arrow-rs is
  nothing else.\<close>

theorem preflight_accepts_trees:
  "(\<exists>v. preflight mem a path 0 [] = Ok v) \<longleftrightarrow>
     distinct (schema_walk 65 mem a) \<and>
     (\<forall>k b. reaches mem a k b \<longrightarrow> k \<le> 64 \<and> b \<noteq> 0 \<and> node_usable (mem b))"
proof
  assume "\<exists>v. preflight mem a path 0 [] = Ok v"
  then have t: "schema_tree 65 mem a" by (auto simp: preflight_exact_at)
  then have "k \<le> 64 \<and> b \<noteq> 0 \<and> node_usable (mem b)" if "reaches mem a k b" for k b
    using shallow_reaches [of 65 mem a k b] that walk_reaches [of 65 mem a]
    by (force simp: schema_tree_def list_all_iff)
  with t show "distinct (schema_walk 65 mem a) \<and> (\<forall>k b. reaches mem a k b \<longrightarrow> k \<le> 64 \<and> b \<noteq> 0 \<and> node_usable (mem b))"
    by (simp add: schema_tree_def)
next
  assume r: "distinct (schema_walk 65 mem a) \<and> (\<forall>k b. reaches mem a k b \<longrightarrow> k \<le> 64 \<and> b \<noteq> 0 \<and> node_usable (mem b))"
  then have "shallow 65 mem a" using not_shallow [of 65 mem a] by force
  moreover have "list_all (\<lambda>b. b \<noteq> 0 \<and> node_usable (mem b)) (schema_walk 65 mem a)"
    using r walk_reaches [of 65 mem a] by (auto simp: list_all_iff)
  ultimately show "\<exists>v. preflight mem a path 0 [] = Ok v"
    using r by (simp add: preflight_exact_at schema_tree_def)
qed

text \<open>The schema of a list of four floats at address 16, its child at address 80.\<close>

definition demo_memory :: "unit schema_memory" where
  "demo_memory a =
     (if a = 16 then \<lparr>sn_release = True, sn_format = Some ''+w:4'', sn_name = Some [], sn_n_children = 1,
        sn_children = Some (\<lambda>_. 80), sn_dictionary = 0, sn_meta = ()\<rparr>
      else \<lparr>sn_release = True, sn_format = Some ''f'', sn_name = Some ''item'', sn_n_children = 0, sn_children = None,
        sn_dictionary = 0, sn_meta = ()\<rparr>)"

lemma demo_preflight: "preflight demo_memory 16 path 0 [] = Ok [80, 16]"
proof -
  have "check_node (demo_memory 16) p = Ok 1" "check_node (demo_memory 80) p = Ok 0" for p
    by (simp_all add: check_node_def demo_memory_def to_str_ok_def max_pointer_slice_def)
  moreover from this have "preflight demo_memory 80 p (Suc 0) [16] = Ok [80, 16]" for p
    by (subst preflight.simps) (simp add: demo_memory_def)
  ultimately show ?thesis by (subst preflight.simps) (simp add: demo_memory_def)
qed

theorem preflight_accepts_trees_witness: "node_usable (demo_memory 80) \<and> distinct (schema_walk 65 demo_memory 16)"
proof -
  have "reaches demo_memory 16 (Suc 0) 80"
    by (rule reaches.down [OF _ reaches.here]) (simp add: demo_memory_def node_pointers_def)
  moreover have "\<exists>v. preflight demo_memory 16 ''model_schema'' 0 [] = Ok v" using demo_preflight by blast
  ultimately show ?thesis unfolding preflight_accepts_trees by blast
qed

end
