(* ===== verification/Model_Arrays.thy ===== *)
theory Model_Arrays
  imports Model_Schema Scanner Index_Selection
begin

text \<open>
  Model of the model arrays of \<open>src/index_segment.rs\<close>: the provenance that the metadata of a model's schema
  records (\<open>model_provenance\<close>), the validation and import of a foreign \<open>ArrowArray\<close> (\<open>borrow_model_array\<close>), and
  the normal form of an imported list array (\<open>fixed_size_list_model\<close>). What arrow-rs does with arrays is the
  record \<open>arrow_api\<close>.
\<close>

subsection \<open>Parsing integers\<close>

text \<open>\<open>str::parse\<close> of the standard library for an integer type with the bounds \<open>lo\<close> and \<open>hi\<close>: one digit after the
  other, so the first bad digit or the first overflow decides.\<close>

datatype int_error = EmptyNumber | InvalidDigit | PosOverflow | NegOverflow

fun int_error_text :: "int_error \<Rightarrow> string" where
  "int_error_text EmptyNumber = ''cannot parse integer from empty string''"
| "int_error_text InvalidDigit = ''invalid digit found in string''"
| "int_error_text PosOverflow = ''number too large to fit in target type''"
| "int_error_text NegOverflow = ''number too small to fit in target type''"

fun parse_digits :: "bool \<Rightarrow> int \<Rightarrow> int \<Rightarrow> string \<Rightarrow> int \<Rightarrow> int_error + int" where
  "parse_digits negative lo hi [] r = Inr r"
| "parse_digits negative lo hi (c # cs) r =
     (let digit = int (of_char c) - 48; next1 = (if negative then r * 10 - digit else r * 10 + digit)
      in if \<not> is_digit c then Inl InvalidDigit
         else if next1 < lo then Inl NegOverflow
         else if hi < next1 then Inl PosOverflow
         else parse_digits negative lo hi cs next1)"

definition parse_int :: "int \<Rightarrow> int \<Rightarrow> string \<Rightarrow> int_error + int" where
  "parse_int lo hi s =
     (case s of
        [] \<Rightarrow> Inl EmptyNumber
      | c # cs \<Rightarrow>
          if c = CHR 0x2B then (if cs = [] then Inl InvalidDigit else parse_digits False lo hi cs 0)
          else if c = CHR 0x2D \<and> cs = [] then Inl InvalidDigit
          else if c = CHR 0x2D \<and> lo < 0 then parse_digits True lo hi cs 0
          else parse_digits False lo hi s 0)"

definition parse_unsigned :: "string \<Rightarrow> (int_error + 'w::len word)" where
  "parse_unsigned s = map_sum id word_of_int (parse_int 0 (2 ^ LENGTH('w) - 1) s)"

definition parse_signed :: "string \<Rightarrow> (int_error + 'w::len word)" where
  "parse_signed s = map_sum id word_of_int (parse_int (- (2 ^ (LENGTH('w) - 1))) (2 ^ (LENGTH('w) - 1) - 1) s)"

definition parsed :: "(string \<Rightarrow> string) \<Rightarrow> int_error + 'a \<Rightarrow> 'a outcome" where
  "parsed f r = (case r of Inr v \<Rightarrow> Ok v | Inl e \<Rightarrow> Err (invalid_input (f (int_error_text e))))"

subsection \<open>Provenance\<close>

text \<open>A field: its type and the metadata of its schema.\<close>

record model_field =
  mo_type :: data_type
  mo_metadata :: "string \<rightharpoonup> string"

definition MODEL_KIND_KEY :: string where "MODEL_KIND_KEY = ''lance:index_model:kind''"
definition MODEL_METRIC_KEY :: string where "MODEL_METRIC_KEY = ''lance:index_model:metric''"
definition MODEL_DIMENSION_KEY :: string where "MODEL_DIMENSION_KEY = ''lance:index_model:dimension''"
definition IVF_MODEL_ID_KEY :: string where "IVF_MODEL_ID_KEY = ''lance:index_model:ivf_id''"
definition PQ_SUB_VECTORS_KEY :: string where "PQ_SUB_VECTORS_KEY = ''lance:index_model:num_sub_vectors''"
definition PQ_BITS_KEY :: string where "PQ_BITS_KEY = ''lance:index_model:num_bits''"

record model_provenance =
  mp_kind :: string
  mp_metric :: i32
  mp_dimension :: usize
  mp_ivf_id :: uuid
  mp_num_sub_vectors :: "u32 option"
  mp_num_bits :: "u32 option"

definition required_key :: "(string \<rightharpoonup> string) \<Rightarrow> string \<Rightarrow> string \<Rightarrow> string outcome" where
  "required_key metadata name key =
     ok_or (metadata key) (invalid_input (name @ ''_schema metadata is missing required key '' @ quoted key))"

definition bad_metadata :: "string \<Rightarrow> string \<Rightarrow> string \<Rightarrow> string" where
  "bad_metadata name key error = name @ ''_schema metadata '' @ quoted key @ '' is invalid: '' @ error"

definition optional_u32 :: "(string \<rightharpoonup> string) \<Rightarrow> string \<Rightarrow> string \<Rightarrow> u32 option outcome" where
  "optional_u32 metadata name key =
     (case metadata key of
        None \<Rightarrow> Ok None
      | Some value1 \<Rightarrow>
          obind (parsed (\<lambda>e. name @ ''_schema metadata '' @ quoted key @ '' value '' @ quoted value1 @ '' is invalid: '' @ e)
                   (parse_unsigned value1)) (\<lambda>v. Ok (Some v)))"

text \<open>What the metadata of a validated field says; \<open>Uuid::parse_str\<close> belongs to the uuid crate.\<close>

definition provenance_of :: "(string \<Rightarrow> uuid outcome) \<Rightarrow> (string \<rightharpoonup> string) \<Rightarrow> string \<Rightarrow> model_provenance outcome" where
  "provenance_of parse_uuid metadata name =
     obind (required_key metadata name MODEL_METRIC_KEY) (\<lambda>m.
     obind (parsed (bad_metadata name MODEL_METRIC_KEY) (parse_signed m)) (\<lambda>metric.
     obind (required_key metadata name MODEL_DIMENSION_KEY) (\<lambda>d.
     obind (parsed (bad_metadata name MODEL_DIMENSION_KEY) (parse_unsigned d)) (\<lambda>dimension.
     obind (required_key metadata name IVF_MODEL_ID_KEY) (\<lambda>i.
     obind (map_err_text (bad_metadata name IVF_MODEL_ID_KEY) (parse_uuid i)) (\<lambda>ivf_id.
     obind (required_key metadata name MODEL_KIND_KEY) (\<lambda>kind.
     obind (optional_u32 metadata name PQ_SUB_VECTORS_KEY) (\<lambda>subs.
     obind (optional_u32 metadata name PQ_BITS_KEY) (\<lambda>bits.
     Ok \<lparr>mp_kind = kind, mp_metric = metric, mp_dimension = dimension, mp_ivf_id = ivf_id,
         mp_num_sub_vectors = subs, mp_num_bits = bits\<rparr>)))))))))"

definition model_provenance_of ::
  "('m, model_field) schema_api \<Rightarrow> (string \<Rightarrow> uuid outcome) \<Rightarrow> 'm schema_memory \<Rightarrow> addr \<Rightarrow> string \<Rightarrow> model_provenance outcome" where
  "model_provenance_of sa parse_uuid mem schema name =
     obind (validate_model_schema sa mem schema name) (\<lambda>field. provenance_of parse_uuid (mo_metadata field) name)"

subsection \<open>Foreign arrays\<close>

text \<open>An \<open>FFI_ArrowArray\<close>: whether its release callback is gone, its counts, the array of buffer pointers, the
  first child pointer when the children pointer is not NULL, and whether it has a dictionary.\<close>

datatype ffi_array = FfiArray
  (fa_released: bool) (fa_length: i64) (fa_null_count: i64) (fa_offset: i64) (fa_n_buffers: i64) (fa_n_children: i64)
  (fa_buffers: "(nat \<Rightarrow> addr) option") (fa_children: "ffi_array option option") (fa_dictionary: bool)

text \<open>\<open>FFI_ArrowArray::empty()\<close>.\<close>

definition ffi_array_empty :: ffi_array where
  "ffi_array_empty = FfiArray True 0 0 0 0 0 None None False"

text \<open>An imported \<open>FixedSizeListArray\<close>: its child field and list size, its window, and the values array.\<close>

record ('fld, 'arr) fixed_size_list =
  fl_field :: 'fld
  fl_value_length :: i32
  fl_offset :: usize
  fl_len :: usize
  fl_null_count :: usize
  fl_values :: 'arr

record ('m, 'fld, 'arr) arrow_api =
  aa_schema :: "('m, model_field) schema_api"
  aa_parse_uuid :: "string \<Rightarrow> uuid outcome"
  aa_show_type :: "data_type \<Rightarrow> string"
  aa_from_ffi :: "ffi_array \<Rightarrow> 'm schema_memory \<Rightarrow> addr \<Rightarrow> 'arr outcome"
  aa_make_array :: "'arr \<Rightarrow> 'arr outcome"
  aa_to_ffi :: "'arr \<Rightarrow> ffi_array outcome"
  aa_data_type :: "'arr \<Rightarrow> data_type"
  aa_list_type :: "('fld, 'arr) fixed_size_list \<Rightarrow> data_type"
  aa_downcast :: "'arr \<Rightarrow> ('fld, 'arr) fixed_size_list option"
  aa_slice :: "'arr \<Rightarrow> usize \<Rightarrow> usize \<Rightarrow> 'arr outcome"
  aa_null_count :: "'arr \<Rightarrow> usize"
  aa_try_new :: "'fld \<Rightarrow> i32 \<Rightarrow> 'arr \<Rightarrow> ('fld, 'arr) fixed_size_list outcome"

definition import_model_array ::
  "('m, 'fld, 'arr) arrow_api \<Rightarrow> ffi_array \<Rightarrow> 'm schema_memory \<Rightarrow> addr \<Rightarrow> string \<Rightarrow> 'arr outcome" where
  "import_model_array aa array mem schema name =
     obind (validate_model_schema (aa_schema aa) mem schema name) (\<lambda>_.
     obind (map_err_text (\<lambda>e. ''invalid '' @ name @ '' Arrow C data: '' @ e) (aa_from_ffi aa array mem schema))
       (aa_make_array aa))"

definition validate_common :: "ffi_array \<Rightarrow> string \<Rightarrow> unit outcome" where
  "validate_common value1 path =
     reject_if (sint (fa_length value1) < 0 \<or> sint (fa_offset value1) < 0)
       (invalid_input (path @ '' length and offset must be non-negative; length='' @ show_i (fa_length value1) @
          '', offset='' @ show_i (fa_offset value1))) (
     reject_if (sint (fa_null_count value1) < - 1 \<or> sint (fa_length value1) < sint (fa_null_count value1))
       (invalid_input (path @ ''.null_count '' @ show_i (fa_null_count value1) @ '' is invalid for length '' @
          show_i (fa_length value1))) (
     reject_if (sint (fa_n_buffers value1) < 0 \<or> sint (fa_n_children value1) < 0)
       (invalid_input (path @ ''.n_buffers and n_children must be non-negative; n_buffers='' @
          show_i (fa_n_buffers value1) @ '', n_children='' @ show_i (fa_n_children value1)))
       (Ok ())))"

text \<open>\<open>usize::try_from\<close> of an \<open>i64\<close> or \<open>i32\<close>.\<close>

definition usize_try_from :: "'w::len word \<Rightarrow> usize option" where
  "usize_try_from v = (if 0 \<le> sint v then Some (word_of_int (sint v)) else None)"

definition buffer_at :: "ffi_array \<Rightarrow> nat \<Rightarrow> addr" where
  "buffer_at a i = (case fa_buffers a of Some b \<Rightarrow> b i | None \<Rightarrow> 0)"

text \<open>The list layer, which gives its child.\<close>

definition check_list_layer :: "ffi_array \<Rightarrow> string \<Rightarrow> ffi_array outcome" where
  "check_list_layer a name =
     reject_if (fa_released a) (invalid_input (name @ '' is uninitialized or already released'')) (
     obind (validate_common a name) (\<lambda>_.
     reject_if (fa_n_buffers a \<noteq> 1 \<or> fa_buffers a = None)
       (invalid_input (name @ '' FixedSizeList must have one buffer and a non-NULL buffers pointer; n_buffers='' @
          show_i (fa_n_buffers a))) (
     reject_if (fa_n_children a \<noteq> 1 \<or> fa_children a = None)
       (invalid_input (name @ '' FixedSizeList must have one child and a non-NULL children pointer; n_children='' @
          show_i (fa_n_children a))) (
     reject_if (fa_dictionary a) (invalid_input (name @ '' FixedSizeList dictionary must be NULL'')) (
     reject_if (0 < sint (fa_null_count a) \<and> buffer_at a 0 = 0)
       (invalid_input (name @ '' has null_count '' @ show_i (fa_null_count a) @ '' but no validity buffer'')) (
     ok_or (Option.bind (fa_children a) id) (invalid_input (name @ ''.children[0] is NULL'')))))))) "

text \<open>The layer of the values.\<close>

definition check_values_layer :: "ffi_array \<Rightarrow> string \<Rightarrow> unit outcome" where
  "check_values_layer child name =
     reject_if (fa_released child) (invalid_input (name @ ''.children[0] is uninitialized or already released'')) (
     obind (validate_common child (name @ ''.children[0]'')) (\<lambda>_.
     reject_if (fa_n_buffers child \<noteq> 2 \<or> fa_buffers child = None)
       (invalid_input (name @ ''.children[0] Float32 must have two buffers and a non-NULL buffers pointer; n_buffers='' @
          show_i (fa_n_buffers child))) (
     reject_if (fa_n_children child \<noteq> 0 \<or> fa_dictionary child)
       (invalid_input (name @ ''.children[0] must have no children or dictionary'')) (
     reject_if (0 < sint (fa_null_count child) \<and> buffer_at child 0 = 0)
       (invalid_input (name @ ''.children[0] has null_count '' @ show_i (fa_null_count child) @
          '' but no validity buffer'')) (
     reject_if (0 < sint (fa_length child) \<and> buffer_at child 1 = 0)
       (invalid_input (name @ ''.children[0] has length '' @ show_i (fa_length child) @ '' but a NULL values buffer''))
       (Ok ()))))))"

text \<open>The coverage check: the end of the child's window, its offset included, against what the parent needs.\<close>

definition check_coverage :: "ffi_array \<Rightarrow> ffi_array \<Rightarrow> i32 \<Rightarrow> string \<Rightarrow> unit outcome" where
  "check_coverage a child list_size name =
     obind (ok_or (usize_try_from (fa_offset a)) (invalid_input (name @ ''.offset does not fit usize''))) (\<lambda>parent_offset.
     obind (ok_or (usize_try_from (fa_length a)) (invalid_input (name @ ''.length does not fit usize''))) (\<lambda>parent_len.
     obind (ok_or (usize_try_from list_size) (invalid_input (name @ '' list_size does not fit usize''))) (\<lambda>size.
     obind (ok_or (Option.bind (checked_add parent_offset parent_len) (\<lambda>n. checked_mul n size))
              (invalid_input (name @ '' (offset + length) * list_size overflows usize''))) (\<lambda>required.
     obind (ok_or (usize_try_from (fa_offset child)) (invalid_input (name @ ''.children[0].offset does not fit usize'')))
       (\<lambda>child_offset.
     obind (ok_or (usize_try_from (fa_length child)) (invalid_input (name @ ''.children[0].length does not fit usize'')))
       (\<lambda>child_len.
     reject_if ((case checked_add child_offset child_len of Some n \<Rightarrow> n | None \<Rightarrow> 0) < required)
       (invalid_input (name @ ''.children[0] does not cover the parent range: child offset='' @ show_i (fa_offset child) @
          '', length='' @ show_i (fa_length child) @ '', required elements='' @ show_u required))
       (Ok ())))))))"

text \<open>The schema must describe a fixed-size list of 32-bit floats; the result is its list size.\<close>

definition check_model_type :: "(data_type \<Rightarrow> string) \<Rightarrow> data_type \<Rightarrow> string \<Rightarrow> i32 outcome" where
  "check_model_type show_type ty name =
     (case ty of
        FixedSizeListT child list_size \<Rightarrow>
          reject_if (sint list_size \<le> 0 \<or> child \<noteq> PrimT Float32)
            (invalid_input (name @ ''_schema must describe FixedSizeList<Float32> with positive list_size, got '' @ show_type ty))
            (Ok list_size)
      | _ \<Rightarrow> Err (invalid_input (name @ ''_schema must describe FixedSizeList, got '' @ show_type ty)))"

text \<open>The import: the array moves out of the caller's slot, and an exported copy moves in when all went well.
  The second result is the slot.\<close>

definition borrow_model_array ::
  "('m, 'fld, 'arr) arrow_api \<Rightarrow> 'm schema_memory \<Rightarrow> ffi_array ptr \<Rightarrow> addr \<Rightarrow> string \<Rightarrow> 'arr outcome \<times> ffi_array ptr" where
  "borrow_model_array aa mem array schema name =
     (case obind (ok_or array (invalid_input (name @ '' must not be NULL''))) (\<lambda>a.
           obind (validate_model_schema (aa_schema aa) mem schema name) (\<lambda>field.
           obind (check_model_type (aa_show_type aa) (mo_type field) name) (\<lambda>list_size.
           obind (check_list_layer a name) (\<lambda>child.
           obind (check_values_layer child name) (\<lambda>_.
           obind (check_coverage a child list_size name) (\<lambda>_. Ok a)))))) of
        Err e \<Rightarrow> (Err e, array)
      | Panic p \<Rightarrow> (Panic p, array)
      | Ok owned \<Rightarrow>
          (case obind (import_model_array aa owned mem schema name) (\<lambda>imported.
                obind (aa_to_ffi aa imported) (\<lambda>replacement. Ok (imported, replacement))) of
             Ok (imported, replacement) \<Rightarrow> (Ok imported, Some replacement)
           | Err e \<Rightarrow> (Err e, Some ffi_array_empty)
           | Panic p \<Rightarrow> (Panic p, Some ffi_array_empty)))"

subsection \<open>The normal form of a model\<close>

definition fixed_size_list_model ::
  "('m, 'fld, 'arr) arrow_api \<Rightarrow> 'arr \<Rightarrow> string \<Rightarrow> ('fld, 'arr) fixed_size_list outcome" where
  "fixed_size_list_model aa array name =
     obind (ok_or (aa_downcast aa array)
       (invalid_input (name @ '' must be FixedSizeList<Float32>, got '' @ aa_show_type aa (aa_data_type aa array)))) (\<lambda>model.
     reject_if (fl_null_count model \<noteq> 0)
       (invalid_input (name @ '' must not contain NULL lists; null_count is '' @ show_u (fl_null_count model))) (
     obind (ok_or (usize_try_from (fl_value_length model))
       (invalid_input (name @ '' has invalid negative list_size '' @ show_i (fl_value_length model)))) (\<lambda>list_size.
     obind (ok_or (checked_mul (fl_offset model) list_size)
       (invalid_input (name @ '' offset '' @ show_u (fl_offset model) @ '' * list_size '' @ show_u list_size @
          '' overflows usize''))) (\<lambda>values_offset.
     obind (ok_or (checked_mul (fl_len model) list_size)
       (invalid_input (name @ '' length '' @ show_u (fl_len model) @ '' * list_size '' @ show_u list_size @
          '' overflows usize''))) (\<lambda>values_len.
     obind (aa_slice aa (fl_values model) values_offset values_len) (\<lambda>values1.
     reject_if (aa_null_count aa values1 \<noteq> 0)
       (invalid_input (name @ '' values must not contain NULLs; null_count is '' @ show_u (aa_null_count aa values1)))
       (map_err_text (\<lambda>e. ''invalid '' @ name @ '': '' @ e)
          (aa_try_new aa (fl_field model) (fl_value_length model) values1))))))))"

subsection \<open>Lemmas on numbers\<close>

lemma sint_bounds64: "sint (v :: i64) < 2 ^ 63" "- (2 ^ 63) \<le> sint v"
  using sint_lt [of v] sint_ge [of v] by simp_all

lemma uint_of_small: "0 \<le> i \<Longrightarrow> i < 2 ^ 64 \<Longrightarrow> uint (word_of_int i :: usize) = i"
  by (simp add: uint_word_of_int)

lemma usize_try_from_Some:
  fixes v :: "'w::len word"
  assumes "LENGTH('w) \<le> 64"
  shows "usize_try_from v = Some n \<longleftrightarrow> 0 \<le> sint v \<and> uint n = sint v"
proof -
  have "sint v < 2 ^ (LENGTH('w) - 1)" by (rule sint_lt)
  also have "(2 :: int) ^ (LENGTH('w) - 1) \<le> 2 ^ 63" using assms by (intro power_increasing) auto
  finally have "0 \<le> sint v \<Longrightarrow> uint (word_of_int (sint v) :: usize) = sint v"
    by (intro uint_of_small) simp_all
  then show ?thesis unfolding usize_try_from_def by (metis option.distinct(1) option.inject word_uint_eq_iff)
qed

lemma unat_of_uint: "uint (n :: usize) = i \<Longrightarrow> unat n = nat i"
  by auto

lemma checked_mul_le: "(\<exists>r. checked_mul a b = Some r \<and> r \<le> c) \<longleftrightarrow> unat a * unat b \<le> unat c"
  for a b c :: "'w::len word"
proof (cases "checked_mul a b")
  case None
  have "unat c < 2 ^ LENGTH('w)" by (rule unsigned_less)
  also have "2 ^ LENGTH('w) \<le> unat a * unat b" using None by (simp add: checked_mul_None)
  finally show ?thesis using None by simp
next
  case (Some r)
  then have "unat r = unat a * unat b" by (simp add: checked_mul_Some)
  with Some show ?thesis by (simp add: word_le_nat_alt)
qed

lemma check_coverage_Ok:
  "check_coverage a child list_size name = Ok () \<longleftrightarrow>
     0 \<le> sint (fa_offset a) \<and> 0 \<le> sint (fa_length a) \<and> 0 \<le> sint list_size \<and>
     0 \<le> sint (fa_offset child) \<and> 0 \<le> sint (fa_length child) \<and>
     (sint (fa_offset a) + sint (fa_length a)) * sint list_size \<le> sint (fa_offset child) + sint (fa_length child)"
    (is "?lhs \<longleftrightarrow> ?rhs")
proof -
  have conv64: "uint (word_of_int (sint v) :: usize) = sint v" if "0 \<le> sint v" for v :: i64
    using that sint_bounds64 [of v] by (intro uint_of_small) simp_all
  have conv32: "uint (word_of_int (sint v) :: usize) = sint v" if "0 \<le> sint v" for v :: i32
    using that sint_lt [of v] by (intro uint_of_small) simp_all
  show ?thesis
  proof (cases "0 \<le> sint (fa_offset a) \<and> 0 \<le> sint (fa_length a) \<and> 0 \<le> sint list_size \<and>
      0 \<le> sint (fa_offset child) \<and> 0 \<le> sint (fa_length child)")
    case True
    define po pl ls co cl :: usize where d: "po = word_of_int (sint (fa_offset a))" "pl = word_of_int (sint (fa_length a))"
      "ls = word_of_int (sint list_size)" "co = word_of_int (sint (fa_offset child))" "cl = word_of_int (sint (fa_length child))"
    have u: "uint po = sint (fa_offset a)" "uint pl = sint (fa_length a)" "uint ls = sint list_size"
      "uint co = sint (fa_offset child)" "uint cl = sint (fa_length child)"
      using True unfolding d by (blast intro: conv64 conv32)+
    have t: "usize_try_from (fa_offset a) = Some po" "usize_try_from (fa_length a) = Some pl"
      "usize_try_from list_size = Some ls" "usize_try_from (fa_offset child) = Some co" "usize_try_from (fa_length child) = Some cl"
      using True unfolding d usize_try_from_def by presburger+
    have n: "int (unat po) = sint (fa_offset a)" "int (unat pl) = sint (fa_length a)" "int (unat ls) = sint list_size"
      "int (unat co) = sint (fa_offset child)" "int (unat cl) = sint (fa_length child)"
      using u by simp_all
    have "int (unat po + unat pl) < int (2 ^ 64)" "int (unat co + unat cl) < int (2 ^ 64)"
      using sint_bounds64(1) [of "fa_offset a"] sint_bounds64(1) [of "fa_length a"]
        sint_bounds64(1) [of "fa_offset child"] sint_bounds64(1) [of "fa_length child"] n by simp_all
    then have small: "unat po + unat pl < 2 ^ 64" "unat co + unat cl < 2 ^ 64"
      by (simp_all only: of_nat_less_iff)
    have c: "checked_add co cl = Some (co + cl)" "checked_add po pl = Some (po + pl)"
      using small by (simp_all add: checked_add_def)
    have s: "unat (co + cl) = unat co + unat cl" "unat (po + pl) = unat po + unat pl"
      using small by (simp_all add: unat_word_ariths)
    have "?lhs \<longleftrightarrow> (\<exists>r. checked_mul (po + pl) ls = Some r \<and> r \<le> co + cl)"
      using c by (auto simp: check_coverage_def t outcome_ok ok_or_eq_Ok not_less)
    also have "\<dots> \<longleftrightarrow> (unat po + unat pl) * unat ls \<le> unat co + unat cl"
      by (simp only: checked_mul_le s)
    also have "\<dots> \<longleftrightarrow> ?rhs"
    proof -
      have "(unat po + unat pl) * unat ls \<le> unat co + unat cl \<longleftrightarrow>
          int ((unat po + unat pl) * unat ls) \<le> int (unat co + unat cl)" by (simp only: of_nat_le_iff)
      also have "\<dots> \<longleftrightarrow> (int (unat po) + int (unat pl)) * int (unat ls) \<le> int (unat co) + int (unat cl)"
        by (simp only: of_nat_add of_nat_mult)
      finally show ?thesis using True unfolding n by blast
    qed
    finally show ?thesis .
  next
    case False
    then show ?thesis by (auto simp: check_coverage_def outcome_ok ok_or_eq_Ok usize_try_from_def split: if_splits)
  qed
qed

lemma validate_common_Ok:
  "validate_common a path = Ok () \<longleftrightarrow> 0 \<le> sint (fa_length a) \<and> 0 \<le> sint (fa_offset a) \<and>
     - 1 \<le> sint (fa_null_count a) \<and> sint (fa_null_count a) \<le> sint (fa_length a) \<and>
     0 \<le> sint (fa_n_buffers a) \<and> 0 \<le> sint (fa_n_children a)"
  unfolding validate_common_def reject_if_eq_Ok by auto

text \<open>A list array that arrow-rs may import as \<open>n\<close>-element lists of floats.\<close>

definition usable_list :: "ffi_array \<Rightarrow> ffi_array \<Rightarrow> i32 \<Rightarrow> bool" where
  "usable_list a child n \<longleftrightarrow>
     fa_children a = Some (Some child) \<and> \<not> fa_released a \<and> \<not> fa_released child \<and>
     fa_n_buffers a = 1 \<and> fa_n_children a = 1 \<and> \<not> fa_dictionary a \<and>
     fa_n_buffers child = 2 \<and> fa_n_children child = 0 \<and> \<not> fa_dictionary child \<and>
     (0 < sint (fa_null_count a) \<longrightarrow> buffer_at a 0 \<noteq> 0) \<and> (0 < sint (fa_null_count child) \<longrightarrow> buffer_at child 0 \<noteq> 0) \<and>
     (0 < sint (fa_length child) \<longrightarrow> buffer_at child 1 \<noteq> 0) \<and>
     0 \<le> sint (fa_length a) \<and> 0 \<le> sint (fa_offset a) \<and> 0 \<le> sint (fa_length child) \<and> 0 \<le> sint (fa_offset child) \<and>
     (sint (fa_offset a) + sint (fa_length a)) * sint n \<le> sint (fa_offset child) + sint (fa_length child)"

lemma check_list_layer_Ok:
  "check_list_layer a name = Ok child \<longleftrightarrow> \<not> fa_released a \<and> validate_common a name = Ok () \<and> fa_n_buffers a = 1 \<and>
     fa_buffers a \<noteq> None \<and> fa_n_children a = 1 \<and> fa_children a = Some (Some child) \<and> \<not> fa_dictionary a \<and>
     (0 < sint (fa_null_count a) \<longrightarrow> buffer_at a 0 \<noteq> 0)"
  unfolding check_list_layer_def reject_if_eq_Ok obind_eq_Ok ok_or_eq_Ok by (auto simp: bind_eq_Some_conv)

lemma check_values_layer_Ok:
  "check_values_layer child name = Ok () \<longleftrightarrow> \<not> fa_released child \<and> validate_common child (name @ ''.children[0]'') = Ok () \<and>
     fa_n_buffers child = 2 \<and> fa_buffers child \<noteq> None \<and> fa_n_children child = 0 \<and> \<not> fa_dictionary child \<and>
     (0 < sint (fa_null_count child) \<longrightarrow> buffer_at child 0 \<noteq> 0) \<and> (0 < sint (fa_length child) \<longrightarrow> buffer_at child 1 \<noteq> 0)"
  unfolding check_values_layer_def reject_if_eq_Ok obind_eq_Ok by auto

lemma check_model_type_Ok:
  "check_model_type show_type ty name = Ok n \<longleftrightarrow> ty = FixedSizeListT (PrimT Float32) n \<and> 0 < sint n"
  by (cases ty) (auto simp: check_model_type_def reject_if_eq_Ok)

text \<open>A successful import: what was checked, and what the caller's slot holds afterwards.\<close>

lemma borrow_model_array_Ok:
  assumes "borrow_model_array aa mem array schema name = (Ok imported, slot)"
  obtains a child n field replacement where "array = Some a" "validate_model_schema (aa_schema aa) mem schema name = Ok field"
    "mo_type field = FixedSizeListT (PrimT Float32) n" "0 < sint n" "usable_list a child n"
    "import_model_array aa a mem schema name = Ok imported" "aa_to_ffi aa imported = Ok replacement" "slot = Some replacement"
proof -
  from assms obtain a where c: "obind (ok_or array (invalid_input (name @ '' must not be NULL''))) (\<lambda>a.
           obind (validate_model_schema (aa_schema aa) mem schema name) (\<lambda>field.
           obind (check_model_type (aa_show_type aa) (mo_type field) name) (\<lambda>list_size.
           obind (check_list_layer a name) (\<lambda>child.
           obind (check_values_layer child name) (\<lambda>_.
           obind (check_coverage a child list_size name) (\<lambda>_. Ok a)))))) = Ok a"
    and i: "obind (import_model_array aa a mem schema name) (\<lambda>imported.
                obind (aa_to_ffi aa imported) (\<lambda>replacement. Ok (imported, replacement))) = Ok (imported, the slot)"
    and s: "slot = Some (the slot)"
    unfolding borrow_model_array_def by (auto split: outcome.splits)
  from c obtain field n child where "array = Some a" "validate_model_schema (aa_schema aa) mem schema name = Ok field"
      "check_model_type (aa_show_type aa) (mo_type field) name = Ok n" "check_list_layer a name = Ok child"
      "check_values_layer child name = Ok ()" "check_coverage a child n name = Ok ()"
    unfolding obind_eq_Ok ok_or_eq_Ok by auto
  moreover from i obtain r where "import_model_array aa a mem schema name = Ok imported" "aa_to_ffi aa imported = Ok r" "the slot = r"
    unfolding obind_eq_Ok by auto
  ultimately show ?thesis using s that [of a field n child r]
    unfolding check_model_type_Ok check_list_layer_Ok check_values_layer_Ok check_coverage_Ok validate_common_Ok usable_list_def
    by metis
qed

text \<open>A rejected array stays where it was; one that arrow-rs refuses is gone, and the slot is empty.\<close>

lemma borrow_model_array_slot:
  "borrow_model_array aa mem array schema name = (res, slot) \<Longrightarrow> \<forall>v. res \<noteq> Ok v \<Longrightarrow> slot = array \<or> slot = Some ffi_array_empty"
  by (auto simp: borrow_model_array_def split: outcome.splits)

lemma fixed_size_list_model_Ok:
  "fixed_size_list_model aa array name = Ok m \<longleftrightarrow> (\<exists>model offset len values1.
     aa_downcast aa array = Some model \<and> fl_null_count model = 0 \<and> 0 \<le> sint (fl_value_length model) \<and>
     checked_mul (fl_offset model) (word_of_int (sint (fl_value_length model))) = Some offset \<and>
     checked_mul (fl_len model) (word_of_int (sint (fl_value_length model))) = Some len \<and>
     aa_slice aa (fl_values model) offset len = Ok values1 \<and> aa_null_count aa values1 = 0 \<and>
     map_err_text (\<lambda>e. ''invalid '' @ name @ '': '' @ e) (aa_try_new aa (fl_field model) (fl_value_length model) values1) = Ok m)"
  unfolding fixed_size_list_model_def reject_if_eq_Ok obind_eq_Ok ok_or_eq_Ok usize_try_from_def
  by (auto split: if_splits)

text \<open>The check counts the child's offset as if it were elements: with an offset of four, a child of four floats
  passes for a parent that needs eight.\<close>

definition demo_child :: ffi_array where
  "demo_child = FfiArray False 4 0 4 2 0 (Some (\<lambda>_. 64)) None False"

definition demo_list :: ffi_array where
  "demo_list = FfiArray False 2 0 0 1 1 (Some (\<lambda>_. 0)) (Some (Some demo_child)) False"

theorem coverage_admits_short_child:
  "check_list_layer demo_list ''ivf_centroids'' = Ok demo_child \<and> check_values_layer demo_child ''ivf_centroids'' = Ok () \<and>
     check_coverage demo_list demo_child 4 ''ivf_centroids'' = Ok () \<and>
     sint (fa_length demo_child) < (sint (fa_offset demo_list) + sint (fa_length demo_list)) * sint (4 :: i32)"
  unfolding check_coverage_Ok
  by (simp add: check_list_layer_def check_values_layer_def validate_common_def demo_list_def demo_child_def buffer_at_def)

end
