(* ===== verification/Segment_Builder.thy ===== *)
theory Segment_Builder
  imports Index_Params Model_Arrays
begin

text \<open>
  Model of the construction of index segment builders in \<open>src/index_segment.rs\<close>: the options shared by the
  two kinds, the scalar builder, and the vector builder with the checks of the precomputed models it may
  carry. The dataset's fragments, version and vector columns are the record \<open>segment_api\<close>.
\<close>

subsection \<open>Options\<close>

record segment_build_options =
  so_fragment_ids :: "u32 list ptr"
  so_fragment_count :: usize
  so_index_uuid :: "uuid ptr"
  so_ivf_centroids :: "ffi_array ptr"
  so_ivf_centroids_schema :: addr
  so_pq_codebook :: "ffi_array ptr"
  so_pq_codebook_schema :: addr
  so_mode :: i32

record segment_params_arg =
  sg_index_type :: i32
  sg_metric :: i32
  sg_num_partitions :: u32
  sg_num_sub_vectors :: u32
  sg_num_bits :: u32
  sg_max_iterations :: u32
  sg_hnsw_m :: u32
  sg_hnsw_ef_construction :: u32
  sg_sample_rate :: u32

definition parse_segment_params :: "segment_params_arg \<Rightarrow> vector_index_params outcome" where
  "parse_segment_params a =
     obind (vector_type_from_c (sg_index_type a)) (\<lambda>ty.
     obind (metric_from_c (sg_metric a)) (\<lambda>metric.
     Ok \<lparr>vp_index_type = ty, vp_metric = metric, vp_num_partitions = sg_num_partitions a,
         vp_num_sub_vectors = sg_num_sub_vectors a, vp_num_bits = sg_num_bits a,
         vp_max_iterations = sg_max_iterations a, vp_hnsw_m = sg_hnsw_m a,
         vp_hnsw_ef_construction = sg_hnsw_ef_construction a, vp_sample_rate = sg_sample_rate a\<rparr>))"

datatype build_mode = Auto | LocalTrain | Precomputed

definition build_mode_from_c :: "i32 \<Rightarrow> build_mode outcome" where
  "build_mode_from_c v =
     (if v = 0 then Ok Auto else if v = 1 then Ok LocalTrain else if v = 2 then Ok Precomputed
      else Err (invalid_input (''mode must be 0 (AUTO), 1 (LOCAL_TRAIN), or 2 (PRECOMPUTED); got '' @ show_i v)))"

fun build_mode_debug :: "build_mode \<Rightarrow> string" where
  "build_mode_debug Auto = ''Auto''"
| "build_mode_debug LocalTrain = ''LocalTrain''"
| "build_mode_debug Precomputed = ''Precomputed''"

record parsed_options =
  po_fragment_ids :: "u32 list option"
  po_index_uuid :: "uuid option"
  po_mode :: build_mode

record 'ds segment_api =
  sx_fragment_ids :: "'ds \<Rightarrow> u64 list"
  sx_version :: "'ds \<Rightarrow> u64"
  sx_vector_dim :: "'ds \<Rightarrow> string \<Rightarrow> usize outcome"

text \<open>The ids of the dataset's fragments that fit 32 bits.\<close>

definition existing_fragments :: "'ds segment_api \<Rightarrow> 'ds \<Rightarrow> u32 list" where
  "existing_fragments sg d = List.map_filter u32_try_from (sx_fragment_ids sg d)"

definition fragment_entry :: "nat \<Rightarrow> string" where
  "fragment_entry i = ''fragment_ids['' @ show_nat i @ '']''"

fun check_unique :: "nat \<Rightarrow> u32 list \<Rightarrow> u32 list \<Rightarrow> unit outcome" where
  "check_unique i [] seen = Ok ()"
| "check_unique i (f # fs) seen =
     (if f \<in> set seen then Err (invalid_input (fragment_entry i @ '' is duplicate fragment id '' @ show_u f))
      else check_unique (Suc i) fs (f # seen))"

fun check_existing :: "u64 \<Rightarrow> u32 list \<Rightarrow> nat \<Rightarrow> u32 list \<Rightarrow> unit outcome" where
  "check_existing version existing i [] = Ok ()"
| "check_existing version existing i (f # fs) =
     (if f \<notin> set existing then
        Err (invalid_input (fragment_entry i @ ''='' @ show_u f @ '' does not exist in dataset version '' @ show_u version))
      else check_existing version existing (Suc i) fs)"

text \<open>\<open>isize::MAX as usize / size_of::<u32>()\<close>.\<close>

definition max_u32_slice :: nat where
  "max_u32_slice = (2 ^ 63 - 1) div 4"

definition fragment_list_of :: "u32 list ptr \<Rightarrow> usize \<Rightarrow> u32 list option outcome" where
  "fragment_list_of ids count =
     (case ids of
        None \<Rightarrow>
          if count = 0 then Ok None
          else Err (invalid_input (''fragment_ids is NULL but fragment_count is '' @ show_u count))
      | Some fs \<Rightarrow>
          reject_if (count = 0) (invalid_input ''fragment_ids is non-NULL but fragment_count is 0'') (
          reject_if (max_u32_slice < unat count)
            (invalid_input (''fragment_count '' @ show_u count @ '' exceeds the maximum addressable u32 slice length''))
            (Ok (Some (take (unat count) fs)))))"

definition parse_options :: "'ds segment_api \<Rightarrow> segment_build_options ptr \<Rightarrow> 'ds \<Rightarrow> bool \<Rightarrow> parsed_options outcome" where
  "parse_options sg options d scalar =
     (case options of
        None \<Rightarrow> Ok \<lparr>po_fragment_ids = None, po_index_uuid = None, po_mode = Auto\<rparr>
      | Some o1 \<Rightarrow>
          obind (obind (fragment_list_of (so_fragment_ids o1) (so_fragment_count o1)) (\<lambda>ids.
                 case ids of
                   None \<Rightarrow> Ok None
                 | Some fs \<Rightarrow>
                     obind (check_unique 0 fs []) (\<lambda>_.
                     obind (check_existing (sx_version sg d) (existing_fragments sg d) 0 fs) (\<lambda>_. Ok (Some fs))))) (\<lambda>ids.
          reject_if (is_null (so_ivf_centroids o1) \<noteq> (so_ivf_centroids_schema o1 = 0))
            (invalid_input ''ivf_centroids and ivf_centroids_schema must both be NULL or both be non-NULL'') (
          reject_if (is_null (so_pq_codebook o1) \<noteq> (so_pq_codebook_schema o1 = 0))
            (invalid_input ''pq_codebook and pq_codebook_schema must both be NULL or both be non-NULL'') (
          reject_if (scalar \<and> (\<not> is_null (so_ivf_centroids o1) \<or> \<not> is_null (so_pq_codebook o1)))
            (invalid_input ''ivf_centroids and pq_codebook are not valid for a scalar index segment'') (
          obind (build_mode_from_c (so_mode o1)) (\<lambda>mode.
          reject_if (scalar \<and> mode = Precomputed)
            (invalid_input ''mode PRECOMPUTED is not valid for a scalar index segment'') (
          Ok \<lparr>po_fragment_ids = ids, po_index_uuid = map_option (take 16) (so_index_uuid o1), po_mode = mode\<rparr>)))))))"

subsection \<open>Builders\<close>

datatype ('fld, 'arr) segment_kind =
    ScalarSegment scalar_index_type "string option"
  | VectorSegment vector_index_params "('fld, 'arr) fixed_size_list option" "'arr option"

text \<open>An installed progress callback and whether its gate has been retired.\<close>

record 'cb progress_handle =
  ph_callback :: 'cb
  ph_retired :: bool

record ('ds, 'fld, 'arr, 'cb) segment_builder =
  sb_dataset :: 'ds
  sb_column :: string
  sb_index_name :: "string option"
  sb_kind :: "('fld, 'arr) segment_kind"
  sb_fragment_ids :: "u32 list option"
  sb_index_uuid :: "uuid option"
  sb_progress :: "'cb progress_handle option"
  sb_executed :: bool

definition new_builder ::
  "'ds \<Rightarrow> string \<Rightarrow> string option \<Rightarrow> ('fld, 'arr) segment_kind \<Rightarrow> parsed_options \<Rightarrow> ('ds, 'fld, 'arr, 'cb) segment_builder" where
  "new_builder d column index_name kind parsed1 =
     \<lparr>sb_dataset = d, sb_column = column, sb_index_name = index_name, sb_kind = kind,
      sb_fragment_ids = po_fragment_ids parsed1, sb_index_uuid = po_index_uuid parsed1, sb_progress = None, sb_executed = False\<rparr>"

definition new_scalar_builder_inner ::
  "'ds segment_api \<Rightarrow> 'ds lance_dataset ptr \<Rightarrow> string ptr \<Rightarrow> string ptr \<Rightarrow> i32 \<Rightarrow> string ptr \<Rightarrow> segment_build_options ptr \<Rightarrow>
     ('ds, 'fld, 'arr, 'cb) segment_builder outcome" where
  "new_scalar_builder_inner sg dataset column index_name index_type params_json options =
     (case (dataset, column) of
        (Some h, Some _) \<Rightarrow>
          obind (required_string column (invalid_input ''column must not be NULL or empty'')) (\<lambda>col.
          obind (parse_c_string index_name) (\<lambda>name.
          obind (parse_c_string params_json) (\<lambda>json.
          obind (scalar_type_from_c index_type) (\<lambda>ty.
          let d = arc_val (snapshot h) in
          obind (parse_options sg options d True) (\<lambda>p.
          Ok (new_builder d col name (ScalarSegment ty json) p))))))
      | _ \<Rightarrow> Err (invalid_input ''dataset and column must not be NULL''))"

definition lance_index_segment_builder_new_scalar where
  "lance_index_segment_builder_new_scalar sg dataset column index_name index_type params_json options t =
     ffi_try (obind (new_scalar_builder_inner sg dataset column index_name index_type params_json options)
       (\<lambda>b. Ok (Some b))) None t"

subsection \<open>The vector builder\<close>

text \<open>One model of the options: absent, or its array in normal form with its provenance; and the caller's slot.\<close>

definition load_model ::
  "('m, 'fld, 'arr) arrow_api \<Rightarrow> 'm schema_memory \<Rightarrow> ffi_array ptr \<Rightarrow> addr \<Rightarrow> string \<Rightarrow>
     (('fld, 'arr) fixed_size_list \<times> model_provenance) option outcome \<times> ffi_array ptr" where
  "load_model aa mem array schema name =
     (if array = None then (Ok None, array)
      else case model_provenance_of (aa_schema aa) (aa_parse_uuid aa) mem schema name of
          Err e \<Rightarrow> (Err e, array)
        | Panic p \<Rightarrow> (Panic p, array)
        | Ok provenance \<Rightarrow>
            (let (borrowed, slot) = borrow_model_array aa mem array schema name
             in (obind borrowed (\<lambda>arr. obind (fixed_size_list_model aa arr name) (\<lambda>model. Ok (Some (model, provenance)))), slot)))"

definition load_models ::
  "('m, 'fld, 'arr) arrow_api \<Rightarrow> 'm schema_memory \<Rightarrow> segment_build_options ptr \<Rightarrow>
     ((('fld, 'arr) fixed_size_list \<times> model_provenance) option \<times>
      (('fld, 'arr) fixed_size_list \<times> model_provenance) option) outcome \<times> segment_build_options ptr" where
  "load_models aa mem options =
     (case options of
        None \<Rightarrow> (Ok (None, None), options)
      | Some o1 \<Rightarrow>
          (let (c, c_slot) = load_model aa mem (so_ivf_centroids o1) (so_ivf_centroids_schema o1) ''ivf_centroids'';
               o2 = o1\<lparr>so_ivf_centroids := c_slot\<rparr>
           in case c of
                Err e \<Rightarrow> (Err e, Some o2)
              | Panic p \<Rightarrow> (Panic p, Some o2)
              | Ok centroids \<Rightarrow>
                  (let (b, b_slot) = load_model aa mem (so_pq_codebook o1) (so_pq_codebook_schema o1) ''pq_codebook''
                   in (obind b (\<lambda>codebook. Ok (centroids, codebook)), Some (o2\<lparr>so_pq_codebook := b_slot\<rparr>)))))"

text \<open>The provenance must be of the right kind, for the metric and dimension, and for a codebook also for the
  subvectors, the bits and the centroids.\<close>

definition check_centroid_provenance :: "vector_index_params \<Rightarrow> usize \<Rightarrow> model_provenance option \<Rightarrow> unit outcome" where
  "check_centroid_provenance params dim provenance =
     (case provenance of
        None \<Rightarrow> Ok ()
      | Some v \<Rightarrow>
          reject_if (mp_kind v \<noteq> ''ivf'' \<or> mp_metric v \<noteq> metric_value (vp_metric params) \<or> mp_dimension v \<noteq> dim)
            (invalid_input (''ivf_centroids provenance must be kind=ivf, metric='' @ show_i (metric_value (vp_metric params)) @
               '', dimension='' @ show_u dim @ ''; got kind='' @ mp_kind v @ '', metric='' @ show_i (mp_metric v) @
               '', dimension='' @ show_u (mp_dimension v)))
            (Ok ()))"

definition check_codebook_provenance ::
  "vector_index_params \<Rightarrow> usize \<Rightarrow> model_provenance option \<Rightarrow> model_provenance option \<Rightarrow> unit outcome" where
  "check_codebook_provenance params dim centroid_provenance codebook_provenance =
     (case codebook_provenance of
        None \<Rightarrow> Ok ()
      | Some v \<Rightarrow>
          (let expected_bits = (if vp_num_bits params = 0 then 8 else vp_num_bits params) in
           reject_if (mp_kind v \<noteq> ''pq'' \<or> mp_metric v \<noteq> metric_value (vp_metric params) \<or> mp_dimension v \<noteq> dim \<or>
               mp_num_sub_vectors v \<noteq> Some (vp_num_sub_vectors params) \<or> mp_num_bits v \<noteq> Some expected_bits)
             (invalid_input (''pq_codebook provenance does not match metric '' @ show_i (metric_value (vp_metric params)) @
                '', dimension '' @ show_u dim @ '', num_sub_vectors '' @ show_u (vp_num_sub_vectors params) @
                '', num_bits '' @ show_u expected_bits)) (
           reject_if (map_option mp_ivf_id centroid_provenance \<noteq> Some (mp_ivf_id v))
             (invalid_input ''pq_codebook was not trained with the supplied ivf_centroids'')
             (Ok ()))))"

definition check_centroids ::
  "('m, 'fld, 'arr) arrow_api \<Rightarrow> vector_index_params \<Rightarrow> usize \<Rightarrow> ('fld, 'arr) fixed_size_list option \<Rightarrow> unit outcome" where
  "check_centroids aa params dim centroids =
     (case centroids of
        None \<Rightarrow> Ok ()
      | Some c \<Rightarrow>
          reject_if (fl_value_length c \<noteq> ucast dim \<or> aa_data_type aa (fl_values c) \<noteq> PrimT Float32)
            (invalid_input (''ivf_centroids must have type FixedSizeList<Float32>['' @ show_u dim @ ''], got '' @
               aa_show_type aa (aa_list_type aa c))) (
          reject_if (fl_len c \<noteq> ucast (vp_num_partitions params))
            (invalid_input (''ivf_centroids length '' @ show_u (fl_len c) @ '' does not match num_partitions '' @
               show_u (vp_num_partitions params)))
            (Ok ())))"

definition check_model_presence :: "vector_index_params \<Rightarrow> bool \<Rightarrow> bool \<Rightarrow> build_mode \<Rightarrow> unit outcome" where
  "check_model_presence params has_centroids has_codebook mode =
     (let pq = vp_index_type params = IvfPq \<or> vp_index_type params = IvfHnswPq;
          bits = (if vp_num_bits params = 0 then 8 else vp_num_bits params)
      in reject_if (pq \<and> bits \<notin> {4, 8})
           (invalid_input (''num_bits must be 4 or 8 for Lance PQ indexes, got '' @ show_u bits)) (
         reject_if (\<not> pq \<and> has_codebook)
           (invalid_input (''pq_codebook is not valid for vector index type '' @ vector_type_debug (vp_index_type params))) (
         reject_if (pq \<and> has_centroids \<noteq> has_codebook)
           (invalid_input ''precomputed PQ segment builds require both ivf_centroids and pq_codebook'') (
         reject_if (mode = LocalTrain \<and> (has_centroids \<or> has_codebook))
           (invalid_input ''mode LOCAL_TRAIN does not accept precomputed model arrays'') (
         reject_if (mode = Precomputed \<and> \<not> (has_centroids \<or> has_codebook))
           (invalid_input ''mode PRECOMPUTED requires precomputed model arrays'')
           (Ok ()))))))"

text \<open>\<open>checked_shl\<close>: none when the shift is not less than the width.\<close>

definition checked_shl :: "usize \<Rightarrow> u32 \<Rightarrow> usize option" where
  "checked_shl v n = (if unat n < 64 then Some (push_bit (unat n) v) else None)"

definition check_codebook ::
  "('m, 'fld, 'arr) arrow_api \<Rightarrow> vector_index_params \<Rightarrow> usize \<Rightarrow> ('fld, 'arr) fixed_size_list option \<Rightarrow> 'arr option outcome" where
  "check_codebook aa params dim codebook =
     (case codebook of
        None \<Rightarrow> Ok None
      | Some c \<Rightarrow>
          (let subs = ucast (vp_num_sub_vectors params); bits = (if vp_num_bits params = 0 then 8 else vp_num_bits params) in
           reject_if (subs = 0 \<or> dim mod subs \<noteq> 0)
             (invalid_input (''dimension '' @ show_u dim @ '' must be divisible by num_sub_vectors '' @ show_u subs)) (
           reject_if (bits \<notin> {4, 8})
             (invalid_input (''num_bits must be 4 or 8 for Lance PQ indexes, got '' @ show_u bits)) (
           obind (ok_or (checked_shl 1 bits) (invalid_input (''1 << num_bits ('' @ show_u bits @ '') overflows usize''))) (\<lambda>codewords.
           obind (ok_or (checked_mul subs codewords)
             (invalid_input (''num_sub_vectors '' @ show_u subs @ '' * codewords '' @ show_u codewords @ '' overflows usize''))) (\<lambda>expected.
           let subvector_dim = dim div subs in
           reject_if (fl_len c \<noteq> expected \<or> fl_value_length c \<noteq> ucast subvector_dim \<or> aa_data_type aa (fl_values c) \<noteq> PrimT Float32)
             (invalid_input (''pq_codebook must be FixedSizeList<Float32> with length '' @ show_u expected @ '' and list_size '' @
                show_u subvector_dim @ '', got length '' @ show_u (fl_len c) @ '', type '' @ aa_show_type aa (aa_list_type aa c)))
             (Ok (Some (fl_values c)))))))))"

text \<open>The refusal of a DOT codebook over part of the dataset.\<close>

definition check_dot_subset ::
  "'ds segment_api \<Rightarrow> 'ds \<Rightarrow> vector_index_params \<Rightarrow> 'arr option \<Rightarrow> parsed_options \<Rightarrow> unit outcome" where
  "check_dot_subset sg d params codebook parsed1 =
     (case po_fragment_ids parsed1 of
        None \<Rightarrow> Ok ()
      | Some fragment_ids \<Rightarrow>
          if (vp_index_type params = IvfPq \<or> vp_index_type params = IvfHnswPq) \<and> vp_metric params = Dot \<and> codebook \<noteq> None then
            (let all_ids = remdups (existing_fragments sg d); selected = remdups fragment_ids in
             reject_if (set selected \<noteq> set all_ids)
               (invalid_input (''pq_codebook is supplied for metric=DOT, index_type='' @ vector_type_debug (vp_index_type params) @
                  '', mode='' @ build_mode_debug (po_mode parsed1) @ '', and an effective strict fragment subset ('' @
                  show_nat (length selected) @ '' of '' @ show_nat (length all_ids) @
                  '' fragments): pinned Lance revision ab6b5bbe reconstructs the supplied codebook with a DOT ProductQuantizer in the distributed build path (make_global_pq), silently breaking the L2 PQ-assignment contract; cover the full dataset in one segment (pass NULL fragment_ids or list every fragment) or wait for upstream Lance DOT support''))
               (Ok ()))
          else Ok ())"

definition list_defaults ::
  "(('fld, 'arr) fixed_size_list, 'arr, 'r) build_defaults \<Rightarrow> (('fld, 'arr) fixed_size_list, 'arr, 'r) build_defaults" where
  "list_defaults bd = bd\<lparr>bd_centroids_len := fl_len\<rparr>"

definition check_models ::
  "'ds segment_api \<Rightarrow> ('m, 'fld, 'arr) arrow_api \<Rightarrow> (('fld, 'arr) fixed_size_list, 'arr, 'r) build_defaults \<Rightarrow> 'ds \<Rightarrow> string \<Rightarrow>
     vector_index_params \<Rightarrow> parsed_options \<Rightarrow>
     (('fld, 'arr) fixed_size_list \<times> model_provenance) option \<Rightarrow> (('fld, 'arr) fixed_size_list \<times> model_provenance) option \<Rightarrow>
     (('fld, 'arr) fixed_size_list option \<times> 'arr option) outcome" where
  "check_models sg aa bd d column params parsed1 c b =
     (let centroids = map_option fst c; codebook = map_option fst b in
      obind (sx_vector_dim sg d column) (\<lambda>dim.
      obind (check_centroid_provenance params dim (map_option snd c)) (\<lambda>_.
      obind (check_codebook_provenance params dim (map_option snd c) (map_option snd b)) (\<lambda>_.
      obind (check_centroids aa params dim centroids) (\<lambda>_.
      obind (check_model_presence params (centroids \<noteq> None) (codebook \<noteq> None) (po_mode parsed1)) (\<lambda>_.
      obind (check_codebook aa params dim codebook) (\<lambda>values1.
      obind (build_vector_params_with_models (list_defaults bd) params centroids values1) (\<lambda>_.
      obind (check_dot_subset sg d params values1 parsed1) (\<lambda>_.
      Ok (centroids, values1))))))))))"

definition new_vector_builder_inner ::
  "'ds segment_api \<Rightarrow> ('m, 'fld, 'arr) arrow_api \<Rightarrow> (('fld, 'arr) fixed_size_list, 'arr, 'r) build_defaults \<Rightarrow> 'm schema_memory \<Rightarrow>
     'ds lance_dataset ptr \<Rightarrow> string ptr \<Rightarrow> string ptr \<Rightarrow> segment_params_arg ptr \<Rightarrow> segment_build_options ptr \<Rightarrow>
     ('ds, 'fld, 'arr, 'cb) segment_builder outcome \<times> segment_build_options ptr" where
  "new_vector_builder_inner sg aa bd mem dataset column index_name params options =
     (case (case (dataset, column, params) of
              (Some h, Some _, Some arg) \<Rightarrow>
                obind (required_string column (invalid_input ''column must not be NULL or empty'')) (\<lambda>col.
                obind (parse_c_string index_name) (\<lambda>name.
                obind (parse_segment_params arg) (\<lambda>p.
                let d = arc_val (snapshot h) in
                obind (parse_options sg options d False) (\<lambda>parsed1. Ok (d, col, name, p, parsed1)))))
            | _ \<Rightarrow> Err (invalid_input ''dataset, column, and params must not be NULL'')) of
        Err e \<Rightarrow> (Err e, options)
      | Panic q \<Rightarrow> (Panic q, options)
      | Ok (d, col, name, p, parsed1) \<Rightarrow>
          (let (models, options1) = load_models aa mem options
           in (obind models (\<lambda>(c, b).
               obind (check_models sg aa bd d col p parsed1 c b) (\<lambda>(centroids, codebook).
               Ok (new_builder d col name (VectorSegment p centroids codebook) parsed1))), options1)))"

definition lance_index_segment_builder_new_vector where
  "lance_index_segment_builder_new_vector sg aa bd mem dataset column index_name params options t =
     (let (res, options1) = new_vector_builder_inner sg aa bd mem dataset column index_name params options;
          (b, t1) = ffi_try (obind res (\<lambda>b. Ok (Some b))) None t
      in (b, t1, options1))"

subsection \<open>Lemmas\<close>

lemma check_unique_Ok: "check_unique i fs seen = Ok () \<longleftrightarrow> distinct fs \<and> set fs \<inter> set seen = {}"
  by (induction i fs seen rule: check_unique.induct) auto

lemma check_existing_Ok: "check_existing version existing i fs = Ok () \<longleftrightarrow> set fs \<subseteq> set existing"
  by (induction version existing i fs rule: check_existing.induct) auto

text \<open>A fragment list the options may carry: from the snapshot, without repetition.\<close>

definition fragments_of_snapshot :: "'ds segment_api \<Rightarrow> 'ds \<Rightarrow> u32 list option \<Rightarrow> bool" where
  "fragments_of_snapshot sg d ids =
     (case ids of None \<Rightarrow> True | Some fs \<Rightarrow> distinct fs \<and> set fs \<subseteq> set (existing_fragments sg d))"

lemma fragment_list_of_Ok:
  "fragment_list_of ids count = Ok r \<longleftrightarrow>
     (case ids of
        None \<Rightarrow> count = 0 \<and> r = None
      | Some fs \<Rightarrow> count \<noteq> 0 \<and> unat count \<le> max_u32_slice \<and> r = Some (take (unat count) fs))"
  by (auto simp: fragment_list_of_def reject_if_eq_Ok split: option.splits)

lemma parse_options_Ok:
  "parse_options sg (Some o1) d scalar = Ok r \<longleftrightarrow>
     fragment_list_of (so_fragment_ids o1) (so_fragment_count o1) = Ok (po_fragment_ids r) \<and>
     fragments_of_snapshot sg d (po_fragment_ids r) \<and>
     (so_ivf_centroids o1 = None \<longleftrightarrow> so_ivf_centroids_schema o1 = 0) \<and>
     (so_pq_codebook o1 = None \<longleftrightarrow> so_pq_codebook_schema o1 = 0) \<and>
     build_mode_from_c (so_mode o1) = Ok (po_mode r) \<and> po_index_uuid r = map_option (take 16) (so_index_uuid o1) \<and>
     (scalar \<longrightarrow> so_ivf_centroids o1 = None \<and> so_pq_codebook o1 = None \<and> po_mode r \<noteq> Precomputed)"
proof -
  have ids: "obind (fragment_list_of (so_fragment_ids o1) (so_fragment_count o1)) (\<lambda>ids.
      case ids of
        None \<Rightarrow> Ok None
      | Some fs \<Rightarrow>
          obind (check_unique 0 fs []) (\<lambda>_.
          obind (check_existing (sx_version sg d) (existing_fragments sg d) 0 fs) (\<lambda>_. Ok (Some fs)))) = Ok ids \<longleftrightarrow>
     fragment_list_of (so_fragment_ids o1) (so_fragment_count o1) = Ok ids \<and> fragments_of_snapshot sg d ids" for ids
    by (auto simp: obind_eq_Ok check_unique_Ok check_existing_Ok fragments_of_snapshot_def split: option.splits)
  show ?thesis
    unfolding parse_options_def option.case obind_eq_Ok [of "obind _ _"] ids reject_if_eq_Ok obind_eq_Ok [of "build_mode_from_c _"]
    by (cases r) (auto simp: is_null_def)
qed

lemma parse_options_fragments: "parse_options sg options d scalar = Ok r \<Longrightarrow> fragments_of_snapshot sg d (po_fragment_ids r)"
  by (cases options) (auto simp: parse_options_Ok parse_options_def [of sg None] fragments_of_snapshot_def)

lemma parse_segment_params_Ok:
  "parse_segment_params a = Ok p \<longleftrightarrow> sg_index_type a = vector_type_value (vp_index_type p) \<and>
     sg_metric a = metric_value (vp_metric p) \<and> vp_num_partitions p = sg_num_partitions a \<and>
     vp_num_sub_vectors p = sg_num_sub_vectors a \<and> vp_num_bits p = sg_num_bits a \<and> vp_max_iterations p = sg_max_iterations a \<and>
     vp_hnsw_m p = sg_hnsw_m a \<and> vp_hnsw_ef_construction p = sg_hnsw_ef_construction a \<and> vp_sample_rate p = sg_sample_rate a"
  by (cases p) (auto simp: parse_segment_params_def obind_eq_Ok from_c_Ok)

subsection \<open>What the checks of the models leave\<close>

lemma check_centroid_provenance_Ok:
  "check_centroid_provenance params dim (Some v) = Ok () \<longleftrightarrow>
     mp_kind v = ''ivf'' \<and> mp_metric v = metric_value (vp_metric params) \<and> mp_dimension v = dim"
  unfolding check_centroid_provenance_def by (auto simp: reject_if_eq_Ok)

lemma check_codebook_provenance_Ok:
  "check_codebook_provenance params dim c (Some v) = Ok () \<longleftrightarrow>
     mp_kind v = ''pq'' \<and> mp_metric v = metric_value (vp_metric params) \<and> mp_dimension v = dim \<and>
     mp_num_sub_vectors v = Some (vp_num_sub_vectors params) \<and> mp_num_bits v = Some (effective_bits params) \<and>
     map_option mp_ivf_id c = Some (mp_ivf_id v)"
  unfolding check_codebook_provenance_def Let_def effective_bits_def by (auto simp: reject_if_eq_Ok)

lemma check_centroids_Ok:
  "check_centroids aa params dim (Some c) = Ok () \<longleftrightarrow>
     fl_value_length c = ucast dim \<and> aa_data_type aa (fl_values c) = PrimT Float32 \<and> fl_len c = ucast (vp_num_partitions params)"
  unfolding check_centroids_def by (auto simp: reject_if_eq_Ok)

lemma check_model_presence_Ok:
  "check_model_presence params has_centroids has_codebook mode = Ok () \<longleftrightarrow>
     (is_pq (vp_index_type params) \<longrightarrow> effective_bits params \<in> {4, 8} \<and> has_centroids = has_codebook) \<and>
     (has_codebook \<longrightarrow> is_pq (vp_index_type params)) \<and>
     (mode = LocalTrain \<longrightarrow> \<not> has_centroids \<and> \<not> has_codebook) \<and> (mode = Precomputed \<longrightarrow> has_centroids \<or> has_codebook)"
  unfolding check_model_presence_def Let_def effective_bits_def reject_if_eq_Ok is_pq_def by auto

text \<open>The number of code words of a codebook.\<close>

definition codewords :: "vector_index_params \<Rightarrow> nat" where
  "codewords params = 2 ^ unat (effective_bits params)"

lemma check_codebook_Ok:
  "check_codebook aa params dim (Some c) = Ok v \<longleftrightarrow>
     v = Some (fl_values c) \<and> vp_num_sub_vectors params \<noteq> 0 \<and> dim mod ucast (vp_num_sub_vectors params) = 0 \<and>
     effective_bits params \<in> {4, 8} \<and> unat (fl_len c) = unat (vp_num_sub_vectors params) * codewords params \<and>
     fl_value_length c = ucast (dim div ucast (vp_num_sub_vectors params)) \<and> aa_data_type aa (fl_values c) = PrimT Float32"
proof -
  let ?subs = "ucast (vp_num_sub_vectors params) :: usize" and ?bits = "effective_bits params"
  have subs: "?subs = 0 \<longleftrightarrow> vp_num_sub_vectors params = 0"
    by (metis unat_ucast_u32 unat_eq_zero)
  show ?thesis
  proof (cases "?bits \<in> {4, 8}")
    case True
    then obtain cw where cw: "checked_shl 1 ?bits = Some cw" "unat cw = codewords params"
      by (auto simp: checked_shl_def codewords_def push_bit_eq_mult)
    have "unat (vp_num_sub_vectors params) < 2 ^ 32" using unsigned_less [of "vp_num_sub_vectors params", where ?'a = nat] by simp
    moreover have "codewords params < 2 ^ 9" using True by (auto simp: codewords_def)
    ultimately have "unat (vp_num_sub_vectors params) * codewords params < 2 ^ 32 * 2 ^ 9"
      by (intro mult_strict_mono') simp_all
    then have "checked_mul ?subs cw = Some e \<longleftrightarrow> unat e = unat (vp_num_sub_vectors params) * codewords params" for e
      by (simp add: checked_mul_Some cw)
    moreover define whole where "whole \<longleftrightarrow> dim mod ?subs = 0"
    ultimately show ?thesis using True cw(1)
      unfolding check_codebook_def option.case Let_def effective_bits_def [symmetric] reject_if_eq_Ok obind_eq_Ok ok_or_eq_Ok subs
        whole_def [symmetric]
      by auto
  next
    case False
    then show ?thesis
      unfolding check_codebook_def option.case Let_def effective_bits_def [symmetric] reject_if_eq_Ok by blast
  qed
qed

text \<open>A vector segment whose models fit its parameters and the snapshot: the lengths, the list sizes and the types of
  both models, a codebook only for a PQ index and with the centroids it was trained on, parameters that
  Lance's builder accepts, and no DOT codebook over a part of the fragments.\<close>

definition models_fit ::
  "'ds segment_api \<Rightarrow> ('m, 'fld, 'arr) arrow_api \<Rightarrow> (('fld, 'arr) fixed_size_list, 'arr, 'r) build_defaults \<Rightarrow> 'ds \<Rightarrow> string \<Rightarrow>
     vector_index_params \<Rightarrow> u32 list option \<Rightarrow> ('fld, 'arr) fixed_size_list option \<Rightarrow> 'arr option \<Rightarrow> bool" where
  "models_fit sg aa bd d column params ids centroids codebook \<longleftrightarrow>
     (\<exists>dim. sx_vector_dim sg d column = Ok dim \<and>
       (case centroids of None \<Rightarrow> True | Some c \<Rightarrow>
          fl_len c = ucast (vp_num_partitions params) \<and> fl_value_length c = ucast dim \<and> aa_data_type aa (fl_values c) = PrimT Float32) \<and>
       (case codebook of None \<Rightarrow> True | Some v \<Rightarrow>
          is_pq (vp_index_type params) \<and> centroids \<noteq> None \<and> aa_data_type aa v = PrimT Float32 \<and>
          dim mod ucast (vp_num_sub_vectors params) = 0 \<and>
          (vp_metric params = Dot \<longrightarrow> (case ids of None \<Rightarrow> True | Some fs \<Rightarrow> set fs = set (existing_fragments sg d))))) \<and>
     (\<exists>core. build_vector_params_with_models (list_defaults bd) params centroids codebook = Ok core)"

lemma check_dot_subset_Ok:
  "check_dot_subset sg d params codebook parsed1 = Ok () \<longleftrightarrow>
     (is_pq (vp_index_type params) \<and> vp_metric params = Dot \<and> codebook \<noteq> None \<longrightarrow>
        (case po_fragment_ids parsed1 of None \<Rightarrow> True | Some fs \<Rightarrow> set fs = set (existing_fragments sg d)))"
  unfolding check_dot_subset_def is_pq_def Let_def by (auto simp: reject_if_eq_Ok split: option.split)

lemma check_models_fit:
  assumes "check_models sg aa bd d column params parsed1 c b = Ok (centroids, codebook)"
  shows "models_fit sg aa bd d column params (po_fragment_ids parsed1) centroids codebook"
    and "centroids = map_option fst c" and "codebook = map_option (fl_values \<circ> fst) b"
    and "(case b of None \<Rightarrow> True | Some (m, v) \<Rightarrow> map_option (mp_ivf_id \<circ> snd) c = Some (mp_ivf_id v))"
proof -
  from assms obtain dim core where dim: "sx_vector_dim sg d column = Ok dim"
    and cent: "centroids = map_option fst c"
    and prov: "check_codebook_provenance params dim (map_option snd c) (map_option snd b) = Ok ()"
    and shape: "check_centroids aa params dim centroids = Ok ()"
    and presence: "check_model_presence params (centroids \<noteq> None) (b \<noteq> None) (po_mode parsed1) = Ok ()"
    and book: "check_codebook aa params dim (map_option fst b) = Ok codebook"
    and core: "build_vector_params_with_models (list_defaults bd) params centroids codebook = Ok core"
    and dot: "check_dot_subset sg d params codebook parsed1 = Ok ()"
    unfolding check_models_def Let_def obind_eq_Ok by auto
  show "centroids = map_option fst c" by (rule cent)
  show b: "codebook = map_option (fl_values \<circ> fst) b"
    using book by (cases b) (simp add: check_codebook_def, auto simp: check_codebook_Ok)
  show "case b of None \<Rightarrow> True | Some (m, v) \<Rightarrow> map_option (mp_ivf_id \<circ> snd) c = Some (mp_ivf_id v)"
    using prov by (auto simp: check_codebook_provenance_Ok option.map_comp split: option.split)
  have c: "case centroids of None \<Rightarrow> True | Some m \<Rightarrow> fl_len m = ucast (vp_num_partitions params) \<and>
      fl_value_length m = ucast dim \<and> aa_data_type aa (fl_values m) = PrimT Float32"
    using shape by (auto simp: check_centroids_Ok split: option.split)
  have "case codebook of None \<Rightarrow> True | Some v \<Rightarrow>
      is_pq (vp_index_type params) \<and> centroids \<noteq> None \<and> aa_data_type aa v = PrimT Float32 \<and>
      dim mod ucast (vp_num_sub_vectors params) = 0 \<and>
      (vp_metric params = Dot \<longrightarrow>
         (case po_fragment_ids parsed1 of None \<Rightarrow> True | Some fs \<Rightarrow> set fs = set (existing_fragments sg d)))"
  proof (cases b)
    case (Some mv)
    with book have book: "check_codebook aa params dim (Some (fst mv)) = Ok codebook" by simp
    from presence Some have "is_pq (vp_index_type params)" "centroids \<noteq> None" unfolding check_model_presence_Ok by auto
    with book [unfolded check_codebook_Ok] dot [unfolded check_dot_subset_Ok] show ?thesis by simp
  qed (simp add: b)
  with dim c core show "models_fit sg aa bd d column params (po_fragment_ids parsed1) centroids codebook"
    unfolding models_fit_def by blast
qed

text \<open>A vector builder as its constructor leaves it.\<close>

lemma new_vector_builder_Ok:
  assumes "new_vector_builder_inner sg aa bd mem dataset column index_name params options = (Ok b, options')"
  obtains h p centroids codebook where "dataset = Some h" "column = Some (sb_column b)" "sb_column b \<noteq> []"
    "sb_dataset b = arc_val (snapshot h)" "sb_index_name b = index_name" "sb_kind b = VectorSegment p centroids codebook"
    "fragments_of_snapshot sg (sb_dataset b) (sb_fragment_ids b)"
    "models_fit sg aa bd (sb_dataset b) (sb_column b) p (sb_fragment_ids b) centroids codebook"
    "sb_progress b = None" "\<not> sb_executed b"
proof -
  from assms obtain h c arg where a: "dataset = Some h" "column = Some c" "params = Some arg"
    unfolding new_vector_builder_inner_def by (cases dataset; cases column; cases params) auto
  let ?d = "arc_val (snapshot h)"
  obtain col name p parsed1 where v: "required_string (Some c) (invalid_input ''column must not be NULL or empty'') = Ok col"
      "parse_c_string index_name = Ok name" "parse_segment_params arg = Ok p" "parse_options sg options ?d False = Ok parsed1"
    and r: "(Ok b, options') =
      (let (models, options1) = load_models aa mem options
           in (obind models (\<lambda>(cs, bs).
               obind (check_models sg aa bd ?d col p parsed1 cs bs) (\<lambda>(centroids, codebook).
               Ok (new_builder ?d col name (VectorSegment p centroids codebook) parsed1))), options1))"
    using assms unfolding a new_vector_builder_inner_def Let_def
    by (auto split: outcome.splits simp: obind_eq_Ok)
  from r have "obind (fst (load_models aa mem options)) (\<lambda>ms.
      obind (check_models sg aa bd ?d col p parsed1 (fst ms) (snd ms)) (\<lambda>v.
      Ok (new_builder ?d col name (VectorSegment p (fst v) (snd v)) parsed1))) = Ok b" by (simp add: case_prod_unfold Let_def)
  then obtain cs bs centroids codebook where
    m: "check_models sg aa bd ?d col p parsed1 cs bs = Ok (centroids, codebook)"
    and b: "b = new_builder ?d col name (VectorSegment p centroids codebook) parsed1"
    unfolding obind_eq_Ok by (metis outcome.inject(1) prod.collapse)
  from v(1) have "col = c" "c \<noteq> []" by (auto simp: required_string_eq_Ok)
  moreover from v(2) have "name = index_name" by (simp add: parse_c_string_eq_Ok)
  ultimately show ?thesis
    using that [of h p centroids codebook] a check_models_fit(1) [OF m] parse_options_fragments [OF v(4)]
    by (simp add: b new_builder_def)
qed

end
