(* ===== verification/Segment_Metadata.thy ===== *)
theory Segment_Metadata
  imports Index_Params Fts_Query
begin

text \<open>
  Model of the index segment metadata of \<open>src/index_segment.rs\<close>: decoding the protobuf bytes, the parsed handle,
  and its accessors. The protobuf decoders, chrono's range and the conversion to Lance's \<open>IndexMetadata\<close>
  are the record \<open>decode_api\<close>.
\<close>

subsection \<open>Types\<close>

text \<open>The decoded message: the fields that are checked, and the rest.\<close>

record 'x index_metadata_proto =
  px_created_at :: "u64 option"
  px_index_version :: "i32 option"
  px_fields :: "i32 list"
  px_rest :: 'x

text \<open>Lance's metadata with the version fields, the protobuf \<open>Any\<close> of its details and its time of creation in
  milliseconds.\<close>

record segment_metadata = index_metadata +
  sm_dataset_version :: u64
  sm_index_version :: i32
  sm_details :: "(string \<times> u8 list) option"
  sm_created_at :: "i64 option"

datatype compression = CompressionFlat | CompressionSq | CompressionPq | CompressionRq

record 'x decode_api =
  da_decode :: "u8 list \<Rightarrow> 'x index_metadata_proto outcome"
  da_timestamp_in_range :: "i64 \<Rightarrow> bool"
  da_try_from :: "'x index_metadata_proto \<Rightarrow> segment_metadata outcome"
  da_vector_details :: "u8 list \<Rightarrow> (bool \<times> compression option) outcome"

record metadata_handle =
  mh_metadata :: segment_metadata
  mh_name :: string
  mh_type_url :: "string option"
  mh_fragment_ids :: "u32 list"

text \<open>A pointer with its address, as \<open>{:p}\<close> prints it.\<close>

fun show_hex :: "nat \<Rightarrow> string" where
  "show_hex n = (if n < 16 then [hex_digit n] else show_hex (n div 16) @ [hex_digit (n mod 16)])"

declare show_hex.simps [simp del]

definition show_pointer :: "(usize \<times> 'a) ptr \<Rightarrow> string" where
  "show_pointer p = ''0x'' @ show_hex (case p of Some (a, _) \<Rightarrow> unat a | None \<Rightarrow> 0)"

subsection \<open>Decoding\<close>

fun find_negative :: "nat \<Rightarrow> i32 list \<Rightarrow> (nat \<times> i32) option" where
  "find_negative i [] = None"
| "find_negative i (f # fs) = (if sint f < 0 then Some (i, f) else find_negative (Suc i) fs)"

definition decode_segment_metadata :: "'x decode_api \<Rightarrow> u8 list \<Rightarrow> segment_metadata outcome" where
  "decode_segment_metadata da bytes =
     obind (map_err_text (\<lambda>e. ''invalid IndexMetadata protobuf: '' @ e) (da_decode da bytes)) (\<lambda>proto.
     obind (case px_created_at proto of
              None \<Rightarrow> Ok ()
            | Some t \<Rightarrow>
                reject_if (2 ^ 63 \<le> unat t)
                  (invalid_input (''IndexMetadata created_at '' @ show_u t @ '' exceeds i64::MAX milliseconds'')) (
                reject_if (\<not> da_timestamp_in_range da t)
                  (invalid_input (''IndexMetadata created_at '' @ show_i t @ '' is outside chrono's supported range''))
                  (Ok ()))) (\<lambda>_.
     obind (case px_index_version proto of
              None \<Rightarrow> Ok ()
            | Some v \<Rightarrow> reject_if (sint v < 0) (invalid_input (''IndexMetadata index_version must be >= 0, got '' @ show_i v)) (Ok ()))
       (\<lambda>_.
     case find_negative 0 (px_fields proto) of
       Some (i, f) \<Rightarrow> Err (invalid_input (''IndexMetadata fields['' @ show_nat i @ ''] must be >= 0, got '' @ show_i f))
     | None \<Rightarrow> da_try_from da proto)))"

text \<open>The handle of decoded metadata: its strings must be C strings.\<close>

definition handle_of :: "segment_metadata \<Rightarrow> metadata_handle outcome" where
  "handle_of metadata =
     obind (ok_or (cstring_new (im_name metadata)) (invalid_input ''index metadata name contains an embedded NUL byte'')) (\<lambda>name.
     obind (case sm_details metadata of
              None \<Rightarrow> Ok None
            | Some (url, _) \<Rightarrow>
                obind (ok_or (cstring_new url) (invalid_input ''index details type_url contains an embedded NUL byte''))
                  (\<lambda>u. Ok (Some u))) (\<lambda>type_url.
     Ok \<lparr>mh_metadata = metadata, mh_name = name, mh_type_url = type_url,
         mh_fragment_ids = (case im_fragment_bitmap metadata of Some b \<Rightarrow> b | None \<Rightarrow> [])\<rparr>))"

definition parse_metadata_inner ::
  "'x decode_api \<Rightarrow> (usize \<times> u8 list) ptr \<Rightarrow> usize \<Rightarrow> (usize \<times> metadata_handle ptr) ptr \<Rightarrow> metadata_handle outcome" where
  "parse_metadata_inner da bytes len out =
     (case (bytes, out) of
        (Some (_, bs), Some _) \<Rightarrow>
          if len = 0 then
            Err (invalid_input (''bytes must be non-NULL, len must be > 0, and out_metadata must be non-NULL; bytes='' @
              show_pointer bytes @ '', len='' @ show_u len @ '', out_metadata='' @ show_pointer out))
          else
            reject_if (isize_max < unat len)
              (invalid_input (''len '' @ show_u len @ '' exceeds the maximum addressable byte slice length'')) (
            obind (decode_segment_metadata da (take (unat len) bs)) handle_of)
      | _ \<Rightarrow>
          Err (invalid_input (''bytes must be non-NULL, len must be > 0, and out_metadata must be non-NULL; bytes='' @
            show_pointer bytes @ '', len='' @ show_u len @ '', out_metadata='' @ show_pointer out)))"

definition lance_index_segment_metadata_parse where
  "lance_index_segment_metadata_parse da bytes len out t =
     (let body = parse_metadata_inner da bytes len out;
          (rc, t1) = ffi_try (obind body (\<lambda>_. Ok 0)) (- 1) t
      in (rc, t1, (case body of Ok h \<Rightarrow> map_option (\<lambda>(a, _). (a, Some h)) out | _ \<Rightarrow> out)))"

subsection \<open>Accessors\<close>

text \<open>What a function that only reads the handle needs.\<close>

definition with_metadata :: "metadata_handle ptr \<Rightarrow> string \<Rightarrow> (metadata_handle \<Rightarrow> 'a outcome) \<Rightarrow> 'a outcome" where
  "with_metadata metadata message f = (case metadata of None \<Rightarrow> Err (invalid_input message) | Some h \<Rightarrow> f h)"

definition metadata_uuid_inner :: "metadata_handle ptr \<Rightarrow> uuid ptr \<Rightarrow> uuid outcome" where
  "metadata_uuid_inner metadata out_uuid =
     (case (metadata, out_uuid) of
        (Some h, Some _) \<Rightarrow> Ok (im_uuid (mh_metadata h))
      | _ \<Rightarrow> Err (invalid_input ''metadata and out_uuid must not be NULL''))"

definition lance_index_segment_metadata_uuid where
  "lance_index_segment_metadata_uuid metadata out_uuid t = store_out (metadata_uuid_inner metadata out_uuid) out_uuid t"

definition lance_index_segment_metadata_name :: "metadata_handle ptr \<Rightarrow> tls \<Rightarrow> string ptr \<times> tls" where
  "lance_index_segment_metadata_name metadata t =
     ffi_try (with_metadata metadata ''metadata is NULL'' (\<lambda>h. Ok (Some (mh_name h)))) None t"

definition lance_index_segment_metadata_dataset_version :: "metadata_handle ptr \<Rightarrow> tls \<Rightarrow> u64 \<times> tls" where
  "lance_index_segment_metadata_dataset_version metadata t =
     ffi_try (with_metadata metadata ''metadata is NULL'' (\<lambda>h. Ok (sm_dataset_version (mh_metadata h)))) 0 t"

definition lance_index_segment_metadata_index_version :: "metadata_handle ptr \<Rightarrow> tls \<Rightarrow> i32 \<times> tls" where
  "lance_index_segment_metadata_index_version metadata t =
     ffi_try (with_metadata metadata ''metadata is NULL'' (\<lambda>h. Ok (sm_index_version (mh_metadata h)))) (- 1) t"

text \<open>\<open>str::ends_with\<close>.\<close>

definition ends_with :: "string \<Rightarrow> string \<Rightarrow> bool" where
  "ends_with s suffix1 \<longleftrightarrow> length suffix1 \<le> length s \<and> drop (length s - length suffix1) s = suffix1"

definition not_supported :: "string \<Rightarrow> lance_error" where
  "not_supported m = LanceError NotSupported (Returned m)"

definition vector_details_type :: "bool \<Rightarrow> compression option \<Rightarrow> i32 outcome" where
  "vector_details_type hnsw compression =
     (case (hnsw, compression) of
        (False, None) \<Rightarrow> Ok 101
      | (False, Some CompressionFlat) \<Rightarrow> Ok 101
      | (False, Some CompressionSq) \<Rightarrow> Ok 102
      | (False, Some CompressionPq) \<Rightarrow> Ok 103
      | (True, Some CompressionSq) \<Rightarrow> Ok 104
      | (True, Some CompressionPq) \<Rightarrow> Ok 105
      | (True, None) \<Rightarrow> Ok 106
      | (True, Some CompressionFlat) \<Rightarrow> Ok 106
      | (_, Some CompressionRq) \<Rightarrow>
          Err (not_supported ''Rabit-quantized vector metadata has no LanceVectorIndexType value''))"

definition metadata_index_type_inner :: "'x decode_api \<Rightarrow> metadata_handle ptr \<Rightarrow> i32 outcome" where
  "metadata_index_type_inner da metadata =
     with_metadata metadata ''metadata must not be NULL'' (\<lambda>h.
     obind (ok_or (sm_details (mh_metadata h)) (invalid_input ''index metadata does not contain index_details'')) (\<lambda>(type_url, value1).
     if ends_with type_url ''BTreeIndexDetails'' then Ok 1
     else if ends_with type_url ''BitmapIndexDetails'' then Ok 2
     else if ends_with type_url ''LabelListIndexDetails'' then Ok 3
     else if ends_with type_url ''InvertedIndexDetails'' then Ok 4
     else if ends_with type_url ''VectorIndexDetails'' then
       obind (map_err_text (\<lambda>e. ''invalid VectorIndexDetails protobuf: '' @ e) (da_vector_details da value1))
         (\<lambda>(hnsw, compression). vector_details_type hnsw compression)
     else Err (not_supported (''unsupported index_details type_url '' @ quoted type_url))))"

definition lance_index_segment_metadata_index_type where
  "lance_index_segment_metadata_index_type da metadata t = ffi_try (metadata_index_type_inner da metadata) (- 1) t"

definition lance_index_segment_metadata_index_details_type_url :: "metadata_handle ptr \<Rightarrow> tls \<Rightarrow> string ptr \<times> tls" where
  "lance_index_segment_metadata_index_details_type_url metadata t =
     ffi_try (with_metadata metadata ''metadata is NULL'' (\<lambda>h.
       obind (ok_or (mh_type_url h)
         (LanceError IndexNotFound (Returned ''index metadata does not contain index_details''))) (\<lambda>u. Ok (Some u)))) None t"

text \<open>Counting and copying: the field ids and the fragment ids.\<close>

definition lance_index_segment_metadata_field_count :: "metadata_handle ptr \<Rightarrow> tls \<Rightarrow> usize \<times> tls" where
  "lance_index_segment_metadata_field_count metadata t =
     ffi_try (with_metadata metadata ''metadata is NULL'' (\<lambda>h. Ok (of_nat (length (im_fields (mh_metadata h)))))) 0 t"

definition lance_index_segment_metadata_fragment_count :: "metadata_handle ptr \<Rightarrow> tls \<Rightarrow> usize \<times> tls" where
  "lance_index_segment_metadata_fragment_count metadata t =
     ffi_try (with_metadata metadata ''metadata is NULL'' (\<lambda>h. Ok (of_nat (length (mh_fragment_ids h))))) 0 t"

text \<open>The copy writes the ids over the start of the caller's buffer and stores their number.\<close>

definition copy_ids ::
  "string \<Rightarrow> string \<Rightarrow> 'a list \<Rightarrow> 'a list ptr \<Rightarrow> usize \<Rightarrow> ('a list ptr \<times> usize) outcome" where
  "copy_ids out_name count_name ids out_ids capacity =
     reject_if (unat capacity < length ids)
       (invalid_input (''capacity '' @ show_u capacity @ '' is smaller than '' @ count_name @ '' '' @ show_nat (length ids))) (
     reject_if (ids \<noteq> [] \<and> out_ids = None)
       (invalid_input (out_name @ '' is NULL but '' @ count_name @ '' is '' @ show_nat (length ids)))
       (Ok (if ids = [] then out_ids else map_option (\<lambda>old. ids @ drop (length ids) old) out_ids, of_nat (length ids))))"

definition metadata_field_ids_inner ::
  "metadata_handle ptr \<Rightarrow> i32 list ptr \<Rightarrow> usize \<Rightarrow> usize ptr \<Rightarrow> (i32 list ptr \<times> usize) outcome" where
  "metadata_field_ids_inner metadata out_field_ids capacity out_count =
     (case (metadata, out_count) of
        (Some h, Some _) \<Rightarrow> copy_ids ''out_field_ids'' ''field_count'' (im_fields (mh_metadata h)) out_field_ids capacity
      | _ \<Rightarrow> Err (invalid_input ''metadata and out_count must not be NULL''))"

definition metadata_fragment_ids_inner ::
  "metadata_handle ptr \<Rightarrow> u32 list ptr \<Rightarrow> usize \<Rightarrow> usize ptr \<Rightarrow> (u32 list ptr \<times> usize) outcome" where
  "metadata_fragment_ids_inner metadata out_fragment_ids capacity out_count =
     (case (metadata, out_count) of
        (Some h, Some _) \<Rightarrow> copy_ids ''out_fragment_ids'' ''fragment_count'' (mh_fragment_ids h) out_fragment_ids capacity
      | _ \<Rightarrow> Err (invalid_input ''metadata and out_count must not be NULL''))"

definition copy_entry :: "('a list ptr \<times> usize) outcome \<Rightarrow> 'a list ptr \<Rightarrow> usize ptr \<Rightarrow> tls \<Rightarrow> int \<times> tls \<times> 'a list ptr \<times> usize ptr" where
  "copy_entry body out_ids out_count t =
     (let (rc, t1) = ffi_try (obind body (\<lambda>_. Ok 0)) (- 1) t
      in case body of Ok (ids, n) \<Rightarrow> (rc, t1, ids, Some n) | _ \<Rightarrow> (rc, t1, out_ids, out_count))"

definition lance_index_segment_metadata_field_ids where
  "lance_index_segment_metadata_field_ids metadata out_field_ids capacity out_count t =
     copy_entry (metadata_field_ids_inner metadata out_field_ids capacity out_count) out_field_ids out_count t"

definition lance_index_segment_metadata_fragment_ids where
  "lance_index_segment_metadata_fragment_ids metadata out_fragment_ids capacity out_count t =
     copy_entry (metadata_fragment_ids_inner metadata out_fragment_ids capacity out_count) out_fragment_ids out_count t"

definition lance_index_segment_metadata_free ::
  "(metadata_handle \<Rightarrow> unit unwind) \<Rightarrow> metadata_handle ptr \<Rightarrow> tls \<Rightarrow> bool \<times> tls" where
  "lance_index_segment_metadata_free drop_fn metadata t =
     (case metadata of None \<Rightarrow> (True, t) | Some h \<Rightarrow> swallow_unwind (drop_fn h) t)"

subsection \<open>Lemmas\<close>

lemma find_negative_None: "find_negative i fs = None \<longleftrightarrow> list_all (\<lambda>f. 0 \<le> sint f) fs"
  by (induction i fs rule: find_negative.induct) auto

text \<open>What decoded metadata has passed.\<close>

lemma decode_segment_metadata_Ok:
  "decode_segment_metadata da bytes = Ok m \<longleftrightarrow> (\<exists>proto. da_decode da bytes = Ok proto \<and> da_try_from da proto = Ok m \<and>
     (case px_created_at proto of None \<Rightarrow> True | Some t \<Rightarrow> unat t < 2 ^ 63 \<and> da_timestamp_in_range da t) \<and>
     (case px_index_version proto of None \<Rightarrow> True | Some v \<Rightarrow> 0 \<le> sint v) \<and> list_all (\<lambda>f. 0 \<le> sint f) (px_fields proto))"
proof (cases "da_decode da bytes")
  case (Ok proto)
  then have "decode_segment_metadata da bytes = Ok m \<longleftrightarrow> da_try_from da proto = Ok m \<and>
     (case px_created_at proto of None \<Rightarrow> True | Some t \<Rightarrow> unat t < 2 ^ 63 \<and> da_timestamp_in_range da t) \<and>
     (case px_index_version proto of None \<Rightarrow> True | Some v \<Rightarrow> 0 \<le> sint v) \<and> find_negative 0 (px_fields proto) = None"
    by (auto simp: decode_segment_metadata_def map_err_text_def obind_eq_Ok reject_if_eq_Ok not_le not_less split: option.splits)
  with Ok show ?thesis by (simp add: find_negative_None)
qed (auto simp: decode_segment_metadata_def map_err_text_def split: unwind.split)

text \<open>Metadata as Lance writes it: the message carries its fields, its version and its time of creation (a negative time
  as a large unsigned number), and Lance converts the message back.\<close>

definition carries :: "'x decode_api \<Rightarrow> u8 list \<Rightarrow> segment_metadata \<Rightarrow> bool" where
  "carries da bytes m \<longleftrightarrow> (\<exists>proto. da_decode da bytes = Ok proto \<and> da_try_from da proto = Ok m \<and>
     px_fields proto = im_fields m \<and> px_index_version proto = Some (sm_index_version m) \<and> px_created_at proto = sm_created_at m)"

text \<open>Metadata in the ranges that the decoder lets pass.\<close>

definition representable :: "'x decode_api \<Rightarrow> segment_metadata \<Rightarrow> bool" where
  "representable da m \<longleftrightarrow> list_all (\<lambda>f. 0 \<le> sint f) (im_fields m) \<and> 0 \<le> sint (sm_index_version m) \<and>
     (case sm_created_at m of None \<Rightarrow> True | Some t \<Rightarrow> 0 \<le> sint t \<and> da_timestamp_in_range da t)"

lemma unsigned_above_half: "2 ^ 63 \<le> unat (t :: i64) \<longleftrightarrow> sint t < 0"
proof -
  have b: "sint t < 2 ^ 63" "- (2 ^ 63) \<le> sint t" using sint_lt [of t] sint_ge [of t] by simp_all
  have u: "uint t = sint t mod 2 ^ 64" using uint_sint [of t] by (simp add: take_bit_eq_mod)
  have n: "2 ^ 63 \<le> unat t \<longleftrightarrow> 2 ^ 63 \<le> uint t" using of_nat_le_iff [of "2 ^ 63" "unat t", where 'a = int] by simp
  show ?thesis
  proof (cases "0 \<le> sint t")
    case True
    with b u have "uint t = sint t" by simp
    with b n True show ?thesis by simp
  next
    case False
    have "sint t mod 2 ^ 64 = (sint t + 2 ^ 64) mod 2 ^ 64" by simp
    also have "\<dots> = sint t + 2 ^ 64" using False b by (intro mod_pos_pos_trivial) simp_all
    finally show ?thesis using u n b False by simp
  qed
qed

lemmas unsigned_half = unsigned_above_half unsigned_above_half [simplified]

lemma unsigned_below_half: "unat (t :: i64) < 2 ^ 63 \<longleftrightarrow> 0 \<le> sint t"
  using unsigned_above_half [of t] by linarith

lemma decode_carried:
  assumes "carries da bytes m"
  shows "representable da m \<Longrightarrow> decode_segment_metadata da bytes = Ok m"
    and "\<not> representable da m \<Longrightarrow> \<exists>text1. decode_segment_metadata da bytes = Err (invalid_input text1)"
proof -
  from assms obtain proto where p: "da_decode da bytes = Ok proto" "da_try_from da proto = Ok m"
    "px_fields proto = im_fields m" "px_index_version proto = Some (sm_index_version m)" "px_created_at proto = sm_created_at m"
    by (auto simp: carries_def)
  show "decode_segment_metadata da bytes = Ok m" if "representable da m"
    using that p by (auto simp: decode_segment_metadata_Ok representable_def unsigned_below_half [simplified] split: option.splits)
  show "\<exists>text1. decode_segment_metadata da bytes = Err (invalid_input text1)" if "\<not> representable da m"
  proof (cases "find_negative 0 (im_fields m)")
    case None
    with that p show ?thesis
      by (auto simp: decode_segment_metadata_def map_err_text_def reject_if_def representable_def find_negative_None
          unsigned_half split: option.splits)
  next
    case (Some x)
    with p show ?thesis
      by (cases x) (auto simp: decode_segment_metadata_def map_err_text_def reject_if_def split: option.splits)
  qed
qed

text \<open>A handle as parsing leaves it: its strings are C strings of the metadata's.\<close>

definition handle_ok :: "metadata_handle \<Rightarrow> bool" where
  "handle_ok h \<longleftrightarrow> mh_name h = im_name (mh_metadata h) \<and> CHR 0x00 \<notin> set (mh_name h) \<and>
     mh_type_url h = map_option fst (sm_details (mh_metadata h)) \<and>
     (case mh_type_url h of None \<Rightarrow> True | Some u \<Rightarrow> CHR 0x00 \<notin> set u) \<and>
     mh_fragment_ids h = (case im_fragment_bitmap (mh_metadata h) of Some b \<Rightarrow> b | None \<Rightarrow> [])"

lemma handle_of_ok: "handle_of m = Ok h \<Longrightarrow> handle_ok h"
  by (cases "sm_details m") (auto simp: handle_of_def handle_ok_def obind_eq_Ok ok_or_eq_Ok cstring_new_def split: if_splits)

lemma parse_metadata_handle_ok: "parse_metadata_inner da bytes len out = Ok h \<Longrightarrow> handle_ok h"
  unfolding parse_metadata_inner_def
  by (auto simp: obind_eq_Ok reject_if_eq_Ok split: option.splits if_splits dest: handle_of_ok)

lemma vector_details_type_Ok:
  "vector_details_type hnsw c = Ok v \<longleftrightarrow> (\<exists>ty. v = vector_type_value ty \<and> c \<noteq> Some CompressionRq \<and>
     is_hnsw ty = hnsw \<and> is_pq ty = (c = Some CompressionPq) \<and> is_sq ty = (c = Some CompressionSq))"
    (is "_ \<longleftrightarrow> (\<exists>ty. ?fits ty)")
proof -
  have t: "(\<exists>ty. P ty) \<longleftrightarrow> P IvfFlat \<or> P IvfSq \<or> P IvfPq \<or> P IvfHnswSq \<or> P IvfHnswPq \<or> P IvfHnswFlat" for P
    by (metis vector_index_type.exhaust)
  show ?thesis unfolding t
    by (cases hnsw; cases c; (cases "the c")?)
      (auto simp: vector_details_type_def is_hnsw_def is_pq_def is_sq_def)
qed

text \<open>Copying ids: all of them when the capacity allows it, else nothing.\<close>

lemma copy_ids_entry:
  assumes "body = copy_ids out_name count_name ids (Some buf) capacity"
  shows "length ids \<le> unat capacity \<Longrightarrow>
      copy_entry body (Some buf) (Some n) t = (0, None, Some (ids @ drop (length ids) buf), Some (of_nat (length ids)))"
    and "unat capacity < length ids \<Longrightarrow>
      copy_entry body (Some buf) (Some n) t = (- 1, Some \<lparr>le_code = CInvalidArgument,
        le_message = replace_nul (''capacity '' @ show_u capacity @ '' is smaller than '' @ count_name @ '' '' @ show_nat (length ids))\<rparr>,
        Some buf, Some n)"
  unfolding assms
  by (cases "ids = []"; simp add: copy_entry_def copy_ids_def clear_last_error_def)
    (simp add: copy_entry_def copy_ids_def ffi_try_Err set_last_error_eq)

subsection \<open>Properties\<close>

text \<open>C33. The type that segment metadata reports is one the builders accept, and the right one: when a type is
  reported for metadata whose details are those of a vector index, \<open>LanceVectorIndexType\<close> reads it back as the
  kind with the graph and the quantizer the details describe, and otherwise
  \<open>LanceScalarIndexType\<close> reads it back as the scalar kind the type URL ends in.\<close>

theorem reported_index_type_roundtrip:
  assumes "metadata_index_type_inner da (Some h) = Ok v"
  shows "\<exists>url value1. sm_details (mh_metadata h) = Some (url, value1) \<and>
    ((\<exists>ty. scalar_type_from_c v = Ok ty \<and>
        ends_with url (case ty of ScalarBTree \<Rightarrow> ''BTreeIndexDetails'' | ScalarBitmap \<Rightarrow> ''BitmapIndexDetails''
          | ScalarLabelList \<Rightarrow> ''LabelListIndexDetails'' | ScalarInverted \<Rightarrow> ''InvertedIndexDetails'')) \<or>
     (\<exists>ty hnsw c. vector_type_from_c v = Ok ty \<and> ends_with url ''VectorIndexDetails'' \<and>
        da_vector_details da value1 = Ok (hnsw, c) \<and> is_hnsw ty = hnsw \<and> is_pq ty = (c = Some CompressionPq) \<and>
        is_sq ty = (c = Some CompressionSq)))"
proof -
  from assms obtain url value1 where d: "sm_details (mh_metadata h) = Some (url, value1)"
    unfolding metadata_index_type_inner_def with_metadata_def by (auto simp: obind_eq_Ok ok_or_eq_Ok)
  consider (btree) "ends_with url ''BTreeIndexDetails''" "v = 1" | (bitmap) "ends_with url ''BitmapIndexDetails''" "v = 2"
    | (labels) "ends_with url ''LabelListIndexDetails''" "v = 3" | (inverted) "ends_with url ''InvertedIndexDetails''" "v = 4"
    | (vector) hnsw c where "ends_with url ''VectorIndexDetails''" "da_vector_details da value1 = Ok (hnsw, c)"
        "vector_details_type hnsw c = Ok v"
    using assms d unfolding metadata_index_type_inner_def with_metadata_def
    by (auto simp: obind_eq_Ok ok_or_eq_Ok map_err_text_eq_Ok split: if_splits)
  then show ?thesis
  proof cases
    case btree
    then show ?thesis by (intro exI [of _ url] exI [of _ value1] conjI d disjI1 exI [of _ ScalarBTree]) (simp_all add: scalar_type_from_c_def)
  next
    case bitmap
    then show ?thesis by (intro exI [of _ url] exI [of _ value1] conjI d disjI1 exI [of _ ScalarBitmap]) (simp_all add: scalar_type_from_c_def)
  next
    case labels
    then show ?thesis by (intro exI [of _ url] exI [of _ value1] conjI d disjI1 exI [of _ ScalarLabelList]) (simp_all add: scalar_type_from_c_def)
  next
    case inverted
    then show ?thesis by (intro exI [of _ url] exI [of _ value1] conjI d disjI1 exI [of _ ScalarInverted]) (simp_all add: scalar_type_from_c_def)
  next
    case vector
    then show ?thesis using d by (auto simp: vector_details_type_Ok from_c_Ok)
  qed
qed

definition demo_decode_api :: "unit decode_api" where
  "demo_decode_api =
     \<lparr>da_decode = (\<lambda>_. Ok \<lparr>px_created_at = None, px_index_version = Some 1, px_fields = [2], px_rest = ()\<rparr>),
      da_timestamp_in_range = (\<lambda>_. True), da_try_from = (\<lambda>_. Err (invalid_input ''unused'')),
      da_vector_details = (\<lambda>_. Ok (True, Some CompressionPq))\<rparr>"

definition demo_metadata :: segment_metadata where
  "demo_metadata =
     \<lparr>im_uuid = replicate 16 7, im_fields = [2], im_fragment_bitmap = Some [0, 1], im_name = ''vec_idx'', im_files = None,
      sm_dataset_version = 3, sm_index_version = 1, sm_details = Some (''/lance.index.pb.VectorIndexDetails'', []),
      sm_created_at = None\<rparr>"

theorem reported_index_type_roundtrip_witness:
  "\<exists>ty. metadata_index_type_inner demo_decode_api
        (Some \<lparr>mh_metadata = demo_metadata, mh_name = ''vec_idx'',
               mh_type_url = Some ''/lance.index.pb.VectorIndexDetails'', mh_fragment_ids = [0, 1]\<rparr>) = Ok 105 \<and>
     vector_type_from_c 105 = Ok ty \<and> is_pq ty \<and> is_hnsw ty"
proof -
  let ?h = "\<lparr>mh_metadata = demo_metadata, mh_name = ''vec_idx'',
      mh_type_url = Some ''/lance.index.pb.VectorIndexDetails'', mh_fragment_ids = [0, 1]\<rparr>"
  have "metadata_index_type_inner demo_decode_api (Some ?h) = Ok 105"
    by (simp add: metadata_index_type_inner_def with_metadata_def demo_metadata_def demo_decode_api_def ends_with_def
        map_err_text_def vector_details_type_def)
  from reported_index_type_roundtrip [OF this] this show ?thesis
    by (auto simp: demo_metadata_def demo_decode_api_def scalar_type_from_c_def split: if_splits)
qed

end
