(* ===== verification/Segment_Build.thy ===== *)
theory Segment_Build
  imports Segment_Builder Segment_Metadata
begin

text \<open>
  Model of what is done with an index segment builder in \<open>src/index_segment.rs\<close>: installing a progress callback,
  the single uncommitted build, and the commit of built segments to a dataset. Lance's builder is given as
  the request it is configured with; its run, the protobuf encoder and the allocator are the record
  \<open>build_api\<close>.
\<close>

subsection \<open>Requests\<close>

text \<open>\<open>to_builtin\<close> and \<open>to_index_type\<close>: Lance's enumerations have the same four members.\<close>

definition to_builtin :: "scalar_index_type \<Rightarrow> scalar_index_type" where
  "to_builtin ty = ty"

definition to_index_type :: "scalar_index_type \<Rightarrow> scalar_index_type" where
  "to_index_type ty = ty"

datatype ('c, 'b, 'r) build_params =
    BuildScalar scalar_index_type scalar_index_type "string option"
  | BuildVector "('c, 'b, 'r) core_params" bool

record ('c, 'b, 'r, 'cb) build_request =
  br_columns :: "string list"
  br_params :: "('c, 'b, 'r) build_params"
  br_name :: "string option"
  br_fragments :: "u32 list option"
  br_index_uuid :: "uuid option"
  br_progress :: "'cb option"

record ('ds, 'c, 'b, 'r, 'cb) build_api =
  ba_execute :: "'ds \<Rightarrow> ('c, 'b, 'r, 'cb) build_request \<Rightarrow> segment_metadata outcome"
  ba_encode :: "segment_metadata \<Rightarrow> u8 list"
  ba_malloc :: "nat \<Rightarrow> bool"

subsection \<open>Executing\<close>

definition build_params_of ::
  "(('fld, 'arr) fixed_size_list, 'arr, 'r) build_defaults \<Rightarrow> ('fld, 'arr) segment_kind \<Rightarrow>
     (('fld, 'arr) fixed_size_list, 'arr, 'r) build_params outcome" where
  "build_params_of bd kind =
     (case kind of
        ScalarSegment ty json \<Rightarrow> Ok (BuildScalar (to_builtin ty) (to_index_type ty) json)
      | VectorSegment params centroids codebook \<Rightarrow>
          obind (build_vector_params_with_models (list_defaults bd) params centroids codebook)
            (\<lambda>core. Ok (BuildVector core True)))"

definition build_request_of ::
  "(('fld, 'arr) fixed_size_list, 'arr, 'r) build_defaults \<Rightarrow> ('ds, 'fld, 'arr, 'cb) segment_builder \<Rightarrow>
     (('fld, 'arr) fixed_size_list, 'arr, 'r, 'cb) build_request outcome" where
  "build_request_of bd b =
     obind (build_params_of bd (sb_kind b)) (\<lambda>params.
     Ok \<lparr>br_columns = [sb_column b], br_params = params, br_name = sb_index_name b, br_fragments = sb_fragment_ids b,
         br_index_uuid = sb_index_uuid b, br_progress = map_option ph_callback (sb_progress b)\<rparr>)"

text \<open>The drop of the \<open>ProgressRetireGuard\<close> on every way out.\<close>

definition retire_progress :: "('ds, 'fld, 'arr, 'cb) segment_builder \<Rightarrow> ('ds, 'fld, 'arr, 'cb) segment_builder" where
  "retire_progress b = b\<lparr>sb_progress := map_option (\<lambda>p. p\<lparr>ph_retired := True\<rparr>) (sb_progress b)\<rparr>"

definition execute_uncommitted_inner ::
  "('ds, ('fld, 'arr) fixed_size_list, 'arr, 'r, 'cb) build_api \<Rightarrow> (('fld, 'arr) fixed_size_list, 'arr, 'r) build_defaults \<Rightarrow>
     ('ds, 'fld, 'arr, 'cb) segment_builder ptr \<Rightarrow> u8 list ptr ptr \<Rightarrow> usize ptr \<Rightarrow>
     u8 list outcome \<times> ('ds, 'fld, 'arr, 'cb) segment_builder ptr" where
  "execute_uncommitted_inner ba bd builder out_bytes out_len =
     (case builder of
        None \<Rightarrow> (Err (invalid_input ''builder must not be NULL''), builder)
      | Some b \<Rightarrow>
          if sb_executed b then
            (Err (invalid_input ''index segment builder is single-use and has already been executed''), builder)
          else
            (let b1 = b\<lparr>sb_executed := True\<rparr>
             in if out_bytes = None \<or> out_len = None
                then (Err (invalid_input ''out_bytes and out_len must not be NULL''), Some b1)
                else
                  (obind (obind (build_request_of bd b1) (ba_execute ba (sb_dataset b1))) (\<lambda>metadata.
                   let bytes = ba_encode ba metadata
                   in if ba_malloc ba (length bytes) then Ok bytes
                      else Err (internal_error (''failed to allocate '' @ show_nat (length bytes) @ '' metadata bytes''))),
                   Some (retire_progress b1))))"

definition lance_index_segment_builder_execute_uncommitted where
  "lance_index_segment_builder_execute_uncommitted ba bd builder out_bytes out_len t =
     (let (body, builder1) = execute_uncommitted_inner ba bd builder out_bytes out_len;
          (rc, t1) = ffi_try (obind body (\<lambda>_. Ok 0)) (- 1) t
      in (rc, t1, builder1,
          (case body of Ok bytes \<Rightarrow> (Some (Some bytes), Some (of_nat (length bytes))) | _ \<Rightarrow> (out_bytes, out_len))))"

subsection \<open>The progress callback\<close>

definition set_progress_callback_inner ::
  "('ds, 'fld, 'arr, 'cb) segment_builder ptr \<Rightarrow> 'cb ptr \<Rightarrow> ('ds, 'fld, 'arr, 'cb) segment_builder outcome" where
  "set_progress_callback_inner builder callback =
     obind (ok_or builder (invalid_input ''builder must not be NULL'')) (\<lambda>b.
     obind (ok_or callback (invalid_input ''progress callback must not be NULL'')) (\<lambda>cb.
     reject_if (sb_executed b) (invalid_input ''progress callback must be set before the builder is executed'')
       (Ok (b\<lparr>sb_progress := Some \<lparr>ph_callback = cb, ph_retired = False\<rparr>\<rparr>))))"

definition lance_index_segment_builder_set_progress_callback where
  "lance_index_segment_builder_set_progress_callback builder callback t =
     (let body = set_progress_callback_inner builder callback;
          (rc, t1) = ffi_try (obind body (\<lambda>_. Ok 0)) (- 1) t
      in (rc, t1, (case body of Ok b \<Rightarrow> Some b | _ \<Rightarrow> builder)))"

definition lance_index_segment_builder_free where
  "lance_index_segment_builder_free drop_fn builder t =
     (case builder of None \<Rightarrow> (True, t) | Some b \<Rightarrow> swallow_unwind (drop_fn b) t)"

subsection \<open>Committing segments\<close>

fun decode_segments ::
  "'x decode_api \<Rightarrow> nat \<Rightarrow> (usize \<times> u8 list) ptr list \<Rightarrow> usize list \<Rightarrow> segment_metadata list outcome" where
  "decode_segments da i (bytes # bs) (len # ls) =
     (case bytes of
        None \<Rightarrow>
          Err (invalid_input (''segment_metadata_bytes['' @ show_nat i @ ''] must be non-NULL and segment_metadata_lens['' @
            show_nat i @ ''] must be > 0; bytes='' @ show_pointer bytes @ '', len='' @ show_u len))
      | Some (_, content) \<Rightarrow>
          reject_if (len = 0)
            (invalid_input (''segment_metadata_bytes['' @ show_nat i @ ''] must be non-NULL and segment_metadata_lens['' @
              show_nat i @ ''] must be > 0; bytes='' @ show_pointer bytes @ '', len='' @ show_u len)) (
          reject_if (isize_max < unat len)
            (invalid_input (''segment_metadata_lens['' @ show_nat i @ '']='' @ show_u len @
              '' exceeds the maximum addressable byte slice length'')) (
          obind (map_err_text (\<lambda>e. ''segment_metadata_bytes['' @ show_nat i @ '']: '' @ e)
                   (decode_segment_metadata da (take (unat len) content))) (\<lambda>m.
          obind (decode_segments da (Suc i) bs ls) (\<lambda>ms. Ok (m # ms))))))"
| "decode_segments da i _ _ = Ok []"

definition commit_segments_args ::
  "'x decode_api \<Rightarrow> 'ds lance_dataset ptr \<Rightarrow> string ptr \<Rightarrow> string ptr \<Rightarrow> (usize \<times> u8 list) ptr list ptr \<Rightarrow> usize list ptr \<Rightarrow>
     usize \<Rightarrow> ('ds lance_dataset \<times> string \<times> string \<times> segment_metadata list) outcome" where
  "commit_segments_args da dataset index_name column bytes lens count =
     (case (dataset, index_name, column) of
        (Some h, Some _, Some _) \<Rightarrow>
          obind (required_string index_name (invalid_input ''index_name must not be NULL or empty'')) (\<lambda>name.
          obind (required_string column (invalid_input ''column must not be NULL or empty'')) (\<lambda>col.
          reject_if (count = 0)
            (invalid_input ''segment_count must be > 0; at least one index segment is required to commit an index'') (
          case (bytes, lens) of
            (Some bs, Some ls) \<Rightarrow>
              reject_if (max_pointer_slice < unat count)
                (invalid_input (''segment_count '' @ show_u count @ '' exceeds the maximum addressable pointer slice length'')) (
              obind (decode_segments da 0 (take (unat count) bs) (take (unat count) ls)) (\<lambda>segments. Ok (h, name, col, segments)))
          | _ \<Rightarrow>
              Err (invalid_input (''segment_metadata_bytes and segment_metadata_lens must not be NULL when segment_count is '' @
                show_u count)))))
      | _ \<Rightarrow> Err (invalid_input ''dataset, index_name, and column must not be NULL''))"

text \<open>Lance's commit is a parameter.\<close>

definition commit_index_segments_inner where
  "commit_index_segments_inner da commit a dataset index_name column bytes lens count =
     mutate a dataset (commit_segments_args da dataset index_name column bytes lens count)
       (\<lambda>(name, col, segments) d. commit d name col segments)"

definition lance_dataset_commit_index_segments where
  "lance_dataset_commit_index_segments da commit a dataset index_name column bytes lens count t =
     mutation_entry (commit_index_segments_inner da commit a dataset index_name column bytes lens count) None t"

subsection \<open>Calls on a builder\<close>

datatype 'cb builder_call = SetProgressCall "'cb ptr" | ExecuteCall bool

text \<open>One call: its result, the builder, and the requests handed to Lance.\<close>

fun run_builder_call ::
  "('ds, ('fld, 'arr) fixed_size_list, 'arr, 'r, 'cb) build_api \<Rightarrow> (('fld, 'arr) fixed_size_list, 'arr, 'r) build_defaults \<Rightarrow>
     'cb builder_call \<Rightarrow> ('ds, 'fld, 'arr, 'cb) segment_builder \<Rightarrow>
     unit outcome \<times> ('ds, 'fld, 'arr, 'cb) segment_builder \<times> (('fld, 'arr) fixed_size_list, 'arr, 'r, 'cb) build_request list" where
  "run_builder_call ba bd (SetProgressCall cb) b =
     (case set_progress_callback_inner (Some b) cb of
        Ok b1 \<Rightarrow> (Ok (), b1, []) | Err e \<Rightarrow> (Err e, b, []) | Panic p \<Rightarrow> (Panic p, b, []))"
| "run_builder_call ba bd (ExecuteCall outs) b =
     (let out = (if outs then Some None else None);
          (body, b1) = execute_uncommitted_inner ba bd (Some b) out (if outs then Some 0 else None)
      in (obind body (\<lambda>_. Ok ()), the b1,
          if sb_executed b \<or> \<not> outs then []
          else (case build_request_of bd b of Ok r \<Rightarrow> [r] | _ \<Rightarrow> [])))"

fun builder_run where
  "builder_run ba bd [] b = ([], b, [])"
| "builder_run ba bd (c # cs) b =
     (let (r, b1, q) = run_builder_call ba bd c b; (rs, b2, qs) = builder_run ba bd cs b1 in (r # rs, b2, q @ qs))"

subsection \<open>Lemmas\<close>

definition rejected :: "'a outcome \<Rightarrow> bool" where
  "rejected r \<longleftrightarrow> (\<exists>m. r = Err (invalid_input m))"

lemma executed_builder_rejects:
  "sb_executed b \<Longrightarrow> builder_run ba bd calls b = (rs, b', reqs) \<Longrightarrow> list_all rejected rs \<and> b' = b \<and> reqs = []"
proof (induction calls arbitrary: rs b' reqs)
  case (Cons c cs)
  have "snd (run_builder_call ba bd c b) = (b, []) \<and> rejected (fst (run_builder_call ba bd c b))"
  proof (cases c)
    case (SetProgressCall cb)
    with Cons.prems(1) show ?thesis by (cases cb) (auto simp: set_progress_callback_inner_def rejected_def)
  next
    case (ExecuteCall outs)
    with Cons.prems(1) show ?thesis by (auto simp: execute_uncommitted_inner_def rejected_def)
  qed
  then obtain r where c: "run_builder_call ba bd c b = (r, b, [])" "rejected r" by (metis prod.collapse)
  obtain rs1 b1 q1 where r: "builder_run ba bd cs b = (rs1, b1, q1)" by (metis surj_pair)
  from Cons.IH [OF Cons.prems(1) r] Cons.prems(2) c r show ?case by auto
qed simp

text \<open>The progress handle after a number of installations, the last one that named a callback winning.\<close>

definition installed :: "'cb ptr list \<Rightarrow> 'cb progress_handle option \<Rightarrow> 'cb progress_handle option" where
  "installed cbs p = foldl (\<lambda>p cb. case cb of Some c \<Rightarrow> Some \<lparr>ph_callback = c, ph_retired = False\<rparr> | None \<Rightarrow> p) p cbs"

lemma installed_simps [simp]:
  "installed [] p = p"
  "installed (cb # cbs) p = installed cbs (case cb of Some c \<Rightarrow> Some \<lparr>ph_callback = c, ph_retired = False\<rparr> | None \<Rightarrow> p)"
  by (simp_all add: installed_def)

lemma set_progress_run:
  "\<not> sb_executed b \<Longrightarrow> builder_run ba bd (map SetProgressCall cbs @ calls) b = (rs, b', reqs) \<Longrightarrow>
     builder_run ba bd calls (b\<lparr>sb_progress := installed cbs (sb_progress b)\<rparr>) = (drop (length cbs) rs, b', reqs)"
proof (induction cbs arbitrary: b rs b' reqs)
  case Nil
  then show ?case by simp
next
  case (Cons cb cbs)
  let ?b = "b\<lparr>sb_progress := (case cb of Some c \<Rightarrow> Some \<lparr>ph_callback = c, ph_retired = False\<rparr> | None \<Rightarrow> sb_progress b)\<rparr>"
  obtain r where c: "run_builder_call ba bd (SetProgressCall cb) b = (r, ?b, [])"
    using Cons.prems(1) by (cases cb) (simp_all add: set_progress_callback_inner_def)
  obtain rs1 b1 q1 where r: "builder_run ba bd (map SetProgressCall cbs @ calls) ?b = (rs1, b1, q1)" by (metis surj_pair)
  with Cons.prems(2) c have "rs = r # rs1" "b1 = b'" "q1 = reqs" by auto
  moreover from Cons.IH [of ?b, OF _ r] Cons.prems(1) have
    "builder_run ba bd calls (?b\<lparr>sb_progress := installed cbs (sb_progress ?b)\<rparr>) = (drop (length cbs) rs1, b1, q1)" by simp
  ultimately show ?case by simp
qed

lemma execute_run:
  assumes "\<not> sb_executed b" "build_request_of bd b = Ok request"
    and "builder_run ba bd (ExecuteCall True # rest) b = (rs, b', reqs)"
  shows "reqs = [request]" and "list_all rejected (tl rs)" and "sb_executed b'"
    and "sb_progress b' = map_option (\<lambda>p. p\<lparr>ph_retired := True\<rparr>) (sb_progress b)"
proof -
  let ?b = "retire_progress (b\<lparr>sb_executed := True\<rparr>)"
  have "build_request_of bd (b\<lparr>sb_executed := True\<rparr>) = build_request_of bd b" by (simp add: build_request_of_def)
  then obtain r where c: "run_builder_call ba bd (ExecuteCall True) b = (r, ?b, [request])"
    using assms(1,2) by (simp add: execute_uncommitted_inner_def Let_def)
  obtain rs1 b1 q1 where r: "builder_run ba bd rest ?b = (rs1, b1, q1)" by (metis surj_pair)
  have "sb_executed ?b" by (simp add: retire_progress_def)
  from executed_builder_rejects [OF this r] c r assms(3)
  show "reqs = [request]" "list_all rejected (tl rs)" "sb_executed b'"
    "sb_progress b' = map_option (\<lambda>p. p\<lparr>ph_retired := True\<rparr>) (sb_progress b)"
    by (auto simp: retire_progress_def)
qed

text \<open>Segments decode all together and in order.\<close>

definition decodes_to :: "'x decode_api \<Rightarrow> (usize \<times> u8 list) ptr \<times> usize \<Rightarrow> segment_metadata \<Rightarrow> bool" where
  "decodes_to da entry m \<longleftrightarrow>
     (\<exists>a content. fst entry = Some (a, content) \<and> snd entry \<noteq> 0 \<and> unat (snd entry) \<le> isize_max \<and>
        decode_segment_metadata da (take (unat (snd entry)) content) = Ok m)"

lemma decode_segments_Ok: "decode_segments da i bs ls = Ok ms \<longleftrightarrow> list_all2 (decodes_to da) (zip bs ls) ms"
  by (induction da i bs ls arbitrary: ms rule: decode_segments.induct)
    (auto simp: obind_eq_Ok reject_if_eq_Ok map_err_text_eq_Ok decodes_to_def list_all2_Cons1 not_less split: option.splits)

text \<open>A commit works on all segments or not at all.\<close>

lemma commit_index_segments_Ok:
  assumes "commit_index_segments_inner da commit a dataset index_name column bytes lens count = (Ok r, dataset')"
  obtains h name col bs ls ms where "dataset = Some h" "index_name = Some name" "name \<noteq> []" "column = Some col" "col \<noteq> []"
    "bytes = Some bs" "lens = Some ls" "count \<noteq> 0"
    "list_all2 (decodes_to da) (zip (take (unat count) bs) (take (unat count) ls)) ms"
    "fst (commit (arc_val (ds_inner h)) name col ms) = Ok r"
    "dataset' = Some (h\<lparr>ds_inner := Arc a (snd (commit (arc_val (ds_inner h)) name col ms))\<rparr>)"
proof -
  from assms obtain h name col ms where args: "commit_segments_args da dataset index_name column bytes lens count = Ok (h, name, col, ms)"
    and run: "with_mut a (\<lambda>d. commit d name col ms) h = (Ok r, the dataset')" "dataset' = Some (the dataset')"
    by (auto simp: commit_index_segments_inner_def mutate_def Let_def split: outcome.splits prod.splits)
  from args have "dataset = Some h" "index_name = Some name" "name \<noteq> []" "column = Some col" "col \<noteq> []" "count \<noteq> 0"
    "\<exists>bs ls. bytes = Some bs \<and> lens = Some ls \<and> list_all2 (decodes_to da) (zip (take (unat count) bs) (take (unat count) ls)) ms"
    by (auto simp: commit_segments_args_def obind_eq_Ok reject_if_eq_Ok required_string_eq_Ok decode_segments_Ok split: option.splits)
  moreover from run have "fst (commit (arc_val (ds_inner h)) name col ms) = Ok r"
    "dataset' = Some (h\<lparr>ds_inner := Arc a (snd (commit (arc_val (ds_inner h)) name col ms))\<rparr>)"
    by (auto simp: with_mut_def Let_def split: outcome.splits prod.splits)
  ultimately show ?thesis using that by blast
qed

subsection \<open>Properties\<close>


text \<open>A small arrow-rs: arrays of floats known by their number, and lists of them known by their list size.\<close>

datatype demo_array = DemoFloats usize | DemoLists i32 usize

definition demo_list_array :: "i32 \<Rightarrow> usize \<Rightarrow> (unit, demo_array) fixed_size_list" where
  "demo_list_array n count =
     \<lparr>fl_field = (), fl_value_length = n, fl_offset = 0, fl_len = count, fl_null_count = 0,
      fl_values = DemoFloats (count * word_of_int (sint n))\<rparr>"

definition demo_ffi_list :: "i32 \<Rightarrow> usize \<Rightarrow> ffi_array" where
  "demo_ffi_list n count =
     FfiArray False count 0 0 1 1 (Some (\<lambda>_. 64))
       (Some (Some (FfiArray False (count * word_of_int (sint n)) 0 0 2 0 (Some (\<lambda>_. 64)) None False))) False"

definition demo_arrow_api :: "i32 \<Rightarrow> (string \<rightharpoonup> string) \<Rightarrow> (unit, unit, demo_array) arrow_api" where
  "demo_arrow_api n metadata =
     \<lparr>aa_schema = \<lparr>sa_data_type = (\<lambda>_ _. Ok ()),
        sa_field = (\<lambda>_ _. Ok \<lparr>mo_type = FixedSizeListT (PrimT Float32) n, mo_metadata = metadata\<rparr>)\<rparr>,
      aa_parse_uuid = (\<lambda>_. Ok (replicate 16 7)), aa_show_type = (\<lambda>_. ''type''),
      aa_from_ffi = (\<lambda>a _ _. Ok (DemoLists n (fa_length a))), aa_make_array = Ok,
      aa_to_ffi = (\<lambda>a. case a of DemoLists n count \<Rightarrow> Ok (demo_ffi_list n count) | DemoFloats k \<Rightarrow> Ok ffi_array_empty),
      aa_data_type = (\<lambda>a. case a of DemoLists n count \<Rightarrow> FixedSizeListT (PrimT Float32) n | DemoFloats k \<Rightarrow> PrimT Float32),
      aa_list_type = (\<lambda>m. FixedSizeListT (PrimT Float32) (fl_value_length m)),
      aa_downcast = (\<lambda>a. case a of DemoLists n count \<Rightarrow> Some (demo_list_array n count) | DemoFloats k \<Rightarrow> None),
      aa_slice = (\<lambda>a off len. Ok (DemoFloats len)), aa_null_count = (\<lambda>_. 0),
      aa_try_new = (\<lambda>f n a. case a of DemoFloats k \<Rightarrow> Ok (demo_list_array n (k div word_of_int (sint n)))
        | DemoLists m count \<Rightarrow> Err (invalid_input ''not floats''))\<rparr>"

definition demo_sx_api :: "unit segment_api" where
  "demo_sx_api = \<lparr>sx_fragment_ids = (\<lambda>_. [0, 1, 2]), sx_version = (\<lambda>_. 5), sx_vector_dim = (\<lambda>_ _. Ok 4)\<rparr>"

definition demo_defaults :: "((unit, demo_array) fixed_size_list, demo_array, unit) build_defaults" where
  "demo_defaults =
     \<lparr>bd_ivf_new = (\<lambda>n. \<lparr>iv_centroids = None, iv_max_iters = 50, iv_sample_rate = 256, iv_rest = ()\<rparr>),
      bd_pq_default = \<lparr>pq_num_sub_vectors = 16, pq_num_bits = 8, pq_max_iters = 50, pq_codebook = None, pq_rest = ()\<rparr>,
      bd_sq_default = \<lparr>sq_num_bits = 8, sq_sample_rate = 256, sq_rest = ()\<rparr>,
      bd_hnsw_default = \<lparr>hn_m = 20, hn_ef_construction = 150, hn_rest = ()\<rparr>, bd_centroids_len = fl_len\<rparr>"

definition demo_params :: segment_params_arg where
  "demo_params = \<lparr>sg_index_type = 101, sg_metric = 0, sg_num_partitions = 2, sg_num_sub_vectors = 0, sg_num_bits = 0,
     sg_max_iterations = 0, sg_hnsw_m = 0, sg_hnsw_ef_construction = 0, sg_sample_rate = 0\<rparr>"

definition demo_options :: segment_build_options where
  "demo_options = \<lparr>so_fragment_ids = Some [2, 0], so_fragment_count = 2, so_index_uuid = None, so_ivf_centroids = None,
     so_ivf_centroids_schema = 0, so_pq_codebook = None, so_pq_codebook_schema = 0, so_mode = 1\<rparr>"

definition demo_build_api :: "(unit, (unit, demo_array) fixed_size_list, demo_array, unit, nat) build_api" where
  "demo_build_api = \<lparr>ba_execute = (\<lambda>_ _. Ok demo_metadata), ba_encode = (\<lambda>_. [1, 2]), ba_malloc = (\<lambda>_. True)\<rparr>"

lemma demo_vector_builder:
  "\<exists>b :: (unit, unit, demo_array, nat) segment_builder.
     new_vector_builder_inner demo_sx_api (demo_arrow_api 4 Map.empty) demo_defaults demo_memory
       (Some \<lparr>ds_inner = Arc 1 (), ds_lock_poisoned = False\<rparr>) (Some ''vec'') (Some ''vec_idx'') (Some demo_params) (Some demo_options) =
     (Ok b, Some demo_options) \<and> sb_column b = ''vec'' \<and> sb_fragment_ids b = Some [2, 0]"
  by (simp add: new_vector_builder_inner_def demo_options_def demo_params_def parse_segment_params_def vector_type_from_c_def
      metric_from_c_def required_string_def to_str_ok_def snapshot_def parse_options_def fragment_list_of_def max_u32_slice_def
      existing_fragments_def demo_sx_api_def u32_try_from_def List.map_filter_def build_mode_from_c_def load_models_def
      load_model_def check_models_def check_centroid_provenance_def check_codebook_provenance_def check_centroids_def
      check_model_presence_def check_codebook_def build_vector_params_with_models_def build_ivf_def require_field_def
      demo_defaults_def list_defaults_def check_dot_subset_def new_builder_def Let_def)


end
