(* ===== verification/Index_Lifecycle.thy ===== *)
theory Index_Lifecycle
  imports Segment_Build "HOL-Library.Multiset"
begin

text \<open>
  Model of the index lifecycle in \<open>src/index.rs\<close>: creating and dropping indexes, counting and listing the segments
  of a logical index, the JSON listing, and prewarming, whose segments are opened and warmed concurrently.
  Lance's index operations are the records \<open>index_api\<close> and \<open>prewarm_api\<close>.
\<close>

subsection \<open>Creating and dropping\<close>

datatype ('c, 'b, 'r) create_params = CreateScalar scalar_index_type "string option" | CreateVector "('c, 'b, 'r) core_params"

datatype index_kind = ScalarKind scalar_index_type | VectorKind

record ('ds, 'c, 'b, 'r) index_api =
  ix_create :: "'ds \<Rightarrow> string list \<Rightarrow> index_kind \<Rightarrow> string option \<Rightarrow> ('c, 'b, 'r) create_params \<Rightarrow> bool \<Rightarrow> unit outcome \<times> 'ds"
  ix_drop :: "'ds \<Rightarrow> string \<Rightarrow> unit outcome \<times> 'ds"
  ix_load :: "'ds \<Rightarrow> segment_metadata list outcome"
  ix_is_system :: "segment_metadata \<Rightarrow> bool"
  ix_field_by_id :: "'ds \<Rightarrow> i32 \<Rightarrow> string option"
  ix_describe :: "'ds \<Rightarrow> (string \<times> string) list outcome"

definition create_scalar_args ::
  "'ds lance_dataset ptr \<Rightarrow> string ptr \<Rightarrow> string ptr \<Rightarrow> i32 \<Rightarrow> string ptr \<Rightarrow>
     ('ds lance_dataset \<times> string \<times> string option \<times> scalar_index_type \<times> string option) outcome" where
  "create_scalar_args dataset column index_name index_type params_json =
     (case (dataset, column) of
        (Some h, Some _) \<Rightarrow>
          obind (parse_c_string column) (\<lambda>c.
          obind (ok_or c (invalid_input ''column must not be empty'')) (\<lambda>column_str.
          obind (parse_c_string index_name) (\<lambda>name.
          obind (parse_c_string params_json) (\<lambda>params_str.
          obind (scalar_type_from_c index_type) (\<lambda>scalar_type.
          Ok (h, column_str, name, scalar_type, params_str))))))
      | _ \<Rightarrow> Err (invalid_input ''dataset and column must not be NULL''))"

definition create_scalar_index_inner ::
  "('ds, 'c, 'b, 'r) index_api \<Rightarrow> nat \<Rightarrow> 'ds lance_dataset ptr \<Rightarrow> string ptr \<Rightarrow> string ptr \<Rightarrow> i32 \<Rightarrow> string ptr \<Rightarrow> bool \<Rightarrow>
     unit outcome \<times> 'ds lance_dataset ptr" where
  "create_scalar_index_inner ix a dataset column index_name index_type params_json replace1 =
     mutate a dataset (create_scalar_args dataset column index_name index_type params_json)
       (\<lambda>(column_str, name, scalar_type, params_str) d.
          ix_create ix d [column_str] (ScalarKind (to_index_type scalar_type)) name
            (CreateScalar (to_builtin scalar_type) params_str) replace1)"

definition lance_dataset_create_scalar_index where
  "lance_dataset_create_scalar_index ix a dataset column index_name index_type params_json replace1 t =
     mutation_entry (create_scalar_index_inner ix a dataset column index_name index_type params_json replace1) None t"

definition create_vector_args ::
  "('c, 'b, 'r) build_defaults \<Rightarrow> 'ds lance_dataset ptr \<Rightarrow> string ptr \<Rightarrow> string ptr \<Rightarrow> vector_index_params ptr \<Rightarrow>
     ('ds lance_dataset \<times> string \<times> string option \<times> ('c, 'b, 'r) core_params) outcome" where
  "create_vector_args bd dataset column index_name params =
     (case (dataset, column, params) of
        (Some h, Some _, Some p) \<Rightarrow>
          obind (parse_c_string column) (\<lambda>c.
          obind (ok_or c (invalid_input ''column must not be empty'')) (\<lambda>column_str.
          obind (parse_c_string index_name) (\<lambda>name.
          obind (build_vector_params bd p) (\<lambda>core_params.
          Ok (h, column_str, name, core_params)))))
      | _ \<Rightarrow> Err (invalid_input ''dataset, column, and params must not be NULL''))"

definition create_vector_index_inner ::
  "('ds, 'c, 'b, 'r) index_api \<Rightarrow> ('c, 'b, 'r) build_defaults \<Rightarrow> nat \<Rightarrow> 'ds lance_dataset ptr \<Rightarrow> string ptr \<Rightarrow> string ptr \<Rightarrow>
     vector_index_params ptr \<Rightarrow> bool \<Rightarrow> unit outcome \<times> 'ds lance_dataset ptr" where
  "create_vector_index_inner ix bd a dataset column index_name params replace1 =
     mutate a dataset (create_vector_args bd dataset column index_name params)
       (\<lambda>(column_str, name, core_params) d. ix_create ix d [column_str] VectorKind name (CreateVector core_params) replace1)"

definition lance_dataset_create_vector_index where
  "lance_dataset_create_vector_index ix bd a dataset column index_name params replace1 t =
     mutation_entry (create_vector_index_inner ix bd a dataset column index_name params replace1) None t"

text \<open>The \<open>unwrap\<close> of a name that is not NULL.\<close>

definition drop_index_args :: "'ds lance_dataset ptr \<Rightarrow> string ptr \<Rightarrow> ('ds lance_dataset \<times> string) outcome" where
  "drop_index_args dataset name =
     (case (dataset, name) of
        (Some h, Some _) \<Rightarrow>
          obind (parse_c_string name) (\<lambda>n.
          case n of
            Some s \<Rightarrow> Ok (h, s)
          | None \<Rightarrow> Panic (StrPayload ''called `Option::unwrap()` on a `None` value''))
      | _ \<Rightarrow> Err (invalid_input ''dataset and name must not be NULL''))"

definition drop_index_inner ::
  "('ds, 'c, 'b, 'r) index_api \<Rightarrow> nat \<Rightarrow> 'ds lance_dataset ptr \<Rightarrow> string ptr \<Rightarrow> unit outcome \<times> 'ds lance_dataset ptr" where
  "drop_index_inner ix a dataset name = mutate a dataset (drop_index_args dataset name) (\<lambda>s d. ix_drop ix d s)"

definition lance_dataset_drop_index where
  "lance_dataset_drop_index ix a dataset name t = mutation_entry (drop_index_inner ix a dataset name) None t"

subsection \<open>Counting\<close>

definition index_count_inner :: "('ds, 'c, 'b, 'r) index_api \<Rightarrow> 'ds lance_dataset ptr \<Rightarrow> u64 outcome" where
  "index_count_inner ix dataset =
     (case dataset of
        None \<Rightarrow> Err (invalid_input ''dataset is NULL'')
      | Some h \<Rightarrow>
          obind (ix_load ix (arc_val (snapshot h))) (\<lambda>indices.
          Ok (of_nat (length (filter (\<lambda>i. \<not> ix_is_system ix i) indices)))))"

definition lance_dataset_index_count where
  "lance_dataset_index_count ix dataset t = ffi_try (index_count_inner ix dataset) 0 t"

definition index_not_found :: "string \<Rightarrow> lance_error" where
  "index_not_found name = LanceError IndexNotFound (Returned (''name='' @ quoted name))"

text \<open>The segments of a logical index, by its name.\<close>

definition user_segments :: "('ds, 'c, 'b, 'r) index_api \<Rightarrow> string \<Rightarrow> segment_metadata list \<Rightarrow> segment_metadata list" where
  "user_segments ix name indices = filter (\<lambda>i. \<not> ix_is_system ix i \<and> im_name i = name) indices"

definition index_segment_count_inner ::
  "('ds, 'c, 'b, 'r) index_api \<Rightarrow> 'ds lance_dataset ptr \<Rightarrow> string ptr \<Rightarrow> u64 outcome" where
  "index_segment_count_inner ix dataset index_name =
     (case (dataset, index_name) of
        (Some h, Some _) \<Rightarrow>
          obind (parse_c_string index_name) (\<lambda>n.
          obind (ok_or n (invalid_input ''index_name must not be empty'')) (\<lambda>name.
          obind (ix_load ix (arc_val (snapshot h))) (\<lambda>indices.
          let count = length (user_segments ix name indices) in
          reject_if (count = 0) (index_not_found name) (Ok (of_nat count)))))
      | _ \<Rightarrow> Err (invalid_input ''dataset and index_name must not be NULL''))"

definition lance_dataset_index_segment_count where
  "lance_dataset_index_segment_count ix dataset index_name t = ffi_try (index_segment_count_inner ix dataset index_name) 0 t"

text \<open>The loop that writes each UUID at its place in the caller's buffer.\<close>

fun copy_uuids :: "nat \<Rightarrow> uuid list \<Rightarrow> u8 list \<Rightarrow> u8 list" where
  "copy_uuids i [] buf = buf"
| "copy_uuids i (u # us) buf = copy_uuids (Suc i) us (take (i * 16) buf @ take 16 u @ drop (i * 16 + 16) buf)"

definition dataset_index_segments_inner ::
  "('ds, 'c, 'b, 'r) index_api \<Rightarrow> 'ds lance_dataset ptr \<Rightarrow> string ptr \<Rightarrow> u8 list ptr \<Rightarrow> usize \<Rightarrow> u64 ptr \<Rightarrow>
     (u8 list \<times> u64 ptr) outcome" where
  "dataset_index_segments_inner ix dataset index_name out_uuids capacity out_count =
     (case (dataset, index_name, out_uuids) of
        (Some h, Some _, Some buf) \<Rightarrow>
          obind (parse_c_string index_name) (\<lambda>n.
          obind (ok_or n (invalid_input ''index_name must not be empty'')) (\<lambda>name.
          obind (ix_load ix (arc_val (snapshot h))) (\<lambda>indices.
          let segments = user_segments ix name indices in
          reject_if (segments = []) (index_not_found name) (
          reject_if (unat capacity < length segments)
            (invalid_input (''out_uuids capacity ('' @ show_u capacity @ '') too small for '' @ show_nat (length segments) @
               '' segments'')) (
          Ok (copy_uuids 0 (map im_uuid segments) buf, map_option (\<lambda>_. of_nat (length segments)) out_count))))))
      | _ \<Rightarrow> Err (invalid_input ''dataset, index_name, and out_uuids must not be NULL''))"

definition lance_dataset_index_segments where
  "lance_dataset_index_segments ix dataset index_name out_uuids capacity out_count t =
     (let body = dataset_index_segments_inner ix dataset index_name out_uuids capacity out_count;
          (rc, t1) = ffi_try (obind body (\<lambda>_. Ok 0)) (- 1) t
      in case body of Ok (buf, n) \<Rightarrow> (rc, t1, Some buf, n) | _ \<Rightarrow> (rc, t1, out_uuids, out_count))"

subsection \<open>The JSON listing\<close>

text \<open>\<open>str::replace\<close> of a double quote.\<close>

definition escape_quotes :: "string \<Rightarrow> string" where
  "escape_quotes s = concat (map (\<lambda>c. if c = CHR 0x22 then [CHR 0x5C, CHR 0x22] else [c]) s)"

fun join_strings :: "string \<Rightarrow> string list \<Rightarrow> string" where
  "join_strings sep [] = []"
| "join_strings sep [s] = s"
| "join_strings sep (s # t # ss) = s @ sep @ join_strings sep (t # ss)"

definition in_quotes :: "string \<Rightarrow> string" where
  "in_quotes s = [CHR 0x22] @ s @ [CHR 0x22]"

definition json_entry ::
  "('ds, 'c, 'b, 'r) index_api \<Rightarrow> 'ds \<Rightarrow> (string \<times> string) list \<Rightarrow> segment_metadata \<Rightarrow> string" where
  "json_entry ix d descriptions idx =
     (let columns = List.map_filter (ix_field_by_id ix d) (im_fields idx);
          type_str = (case map_of (rev descriptions) (im_name idx) of Some ty \<Rightarrow> ty | None \<Rightarrow> ''Unknown'');
          cols_json = join_strings '','' (map (\<lambda>c. in_quotes (escape_quotes c)) columns)
      in ''{'' @ in_quotes ''name'' @ '':'' @ in_quotes (escape_quotes (im_name idx)) @
         '','' @ in_quotes ''uuid'' @ '':'' @ in_quotes (show_uuid (im_uuid idx)) @
         '','' @ in_quotes ''columns'' @ '':['' @ cols_json @
         ''],'' @ in_quotes ''type'' @ '':'' @ in_quotes type_str @
         '','' @ in_quotes ''dataset_version'' @ '':'' @ show_u (sm_dataset_version idx) @ ''}'')"

definition index_list_json_inner :: "('ds, 'c, 'b, 'r) index_api \<Rightarrow> 'ds lance_dataset ptr \<Rightarrow> string ptr outcome" where
  "index_list_json_inner ix dataset =
     (case dataset of
        None \<Rightarrow> Err (invalid_input ''dataset is NULL'')
      | Some h \<Rightarrow>
          (let d = arc_val (snapshot h) in
           obind (ix_load ix d) (\<lambda>indices.
           obind (ix_describe ix d) (\<lambda>descriptions.
           let entries = map (json_entry ix d descriptions) (filter (\<lambda>i. \<not> ix_is_system ix i) indices);
               json = ''['' @ join_strings '','' entries @ '']''
           in Ok (cstring_new json)))))"

definition lance_dataset_index_list_json where
  "lance_dataset_index_list_json ix dataset t = ffi_try (index_list_json_inner ix dataset) None t"

subsection \<open>Prewarming\<close>

record ('ds, 'h) prewarm_api =
  pw_field_id :: "'ds \<Rightarrow> string \<Rightarrow> i32 option"
  pw_load_by_name :: "'ds \<Rightarrow> string \<Rightarrow> segment_metadata list outcome"
  pw_index :: "'ds \<Rightarrow> string \<Rightarrow> unit outcome"
  pw_segments :: "'ds \<Rightarrow> string \<Rightarrow> uuid list \<Rightarrow> unit outcome"
  pw_field_path :: "'ds \<Rightarrow> i32 \<Rightarrow> string outcome"
  pw_open :: "'ds \<Rightarrow> string \<Rightarrow> uuid \<Rightarrow> 'h outcome"
  pw_is_vector :: "'h \<Rightarrow> bool"
  pw_warm :: "'h \<Rightarrow> unit outcome"

datatype prewarm_call = OpenCall string uuid | WarmCall uuid | SdkIndex string | SdkSegments string "uuid list"

text \<open>The future of one segment, between its awaits.\<close>

datatype 'h warm_task =
    Starting segment_metadata
  | Opening segment_metadata string
  | Warming segment_metadata 'h
  | Finished segment_metadata "uuid option"

fun task_step ::
  "('ds, 'h) prewarm_api \<Rightarrow> 'ds \<Rightarrow> i32 \<Rightarrow> 'h warm_task \<Rightarrow> 'h warm_task outcome \<times> prewarm_call list" where
  "task_step pw d named (Starting m) =
     (case im_fields m of
        [] \<Rightarrow> (Ok (Finished m (Some (im_uuid m))), [])
      | field_id # _ \<Rightarrow>
          if field_id = named then (Ok (Finished m (Some (im_uuid m))), [])
          else (obind (pw_field_path pw d field_id) (\<lambda>path1. Ok (Opening m path1)), []))"
| "task_step pw d named (Opening m path1) =
     (obind (pw_open pw d path1 (im_uuid m)) (\<lambda>h.
      Ok (if pw_is_vector pw h then Warming m h else Finished m (Some (im_uuid m)))),
      [OpenCall path1 (im_uuid m)])"
| "task_step pw d named (Warming m h) =
     (obind (pw_warm pw h) (\<lambda>_. Ok (Finished m None)), [WarmCall (im_uuid m)])"
| "task_step pw d named (Finished m r) = (Ok (Finished m r), [])"

text \<open>\<open>try_join_all\<close>: the schedule says whose future makes progress next; the first error ends them all.\<close>

fun join_run ::
  "('ds, 'h) prewarm_api \<Rightarrow> 'ds \<Rightarrow> i32 \<Rightarrow> nat list \<Rightarrow> 'h warm_task list \<Rightarrow> 'h warm_task list outcome \<times> prewarm_call list" where
  "join_run pw d named [] tasks = (Ok tasks, [])"
| "join_run pw d named (i # is) tasks =
     (if i < length tasks then
        (case task_step pw d named (tasks ! i) of
           (Ok task, cs) \<Rightarrow> (let (r, cs') = join_run pw d named is (tasks[i := task]) in (r, cs @ cs'))
         | (Err e, cs) \<Rightarrow> (Err e, cs)
         | (Panic p, cs) \<Rightarrow> (Panic p, cs))
      else join_run pw d named is tasks)"

fun task_result :: "'h warm_task \<Rightarrow> uuid option option" where
  "task_result (Finished m r) = Some r"
| "task_result _ = None"

text \<open>None while some future is pending.\<close>

definition prewarm_colliding_segments ::
  "('ds, 'h) prewarm_api \<Rightarrow> 'ds \<Rightarrow> nat list \<Rightarrow> segment_metadata list \<Rightarrow> i32 \<Rightarrow> uuid list outcome option \<times> prewarm_call list" where
  "prewarm_colliding_segments pw d schedule indices named =
     (case join_run pw d named schedule (map Starting indices) of
        (Ok tasks, cs) \<Rightarrow>
          (if list_all (\<lambda>t. task_result t \<noteq> None) tasks
           then (Some (Ok (List.map_filter (\<lambda>t. the (task_result t)) tasks)), cs) else (None, cs))
      | (Err e, cs) \<Rightarrow> (Some (Err e), cs)
      | (Panic p, cs) \<Rightarrow> (Some (Panic p), cs))"

definition prewarm_index_by_name ::
  "('ds, 'h) prewarm_api \<Rightarrow> 'ds \<Rightarrow> nat list \<Rightarrow> string \<Rightarrow> unit outcome option \<times> prewarm_call list" where
  "prewarm_index_by_name pw d schedule index_name =
     (case pw_field_id pw d index_name of
        None \<Rightarrow> (Some (pw_index pw d index_name), [SdkIndex index_name])
      | Some named \<Rightarrow>
          (case pw_load_by_name pw d index_name of
             Err e \<Rightarrow> (Some (Err e), [])
           | Panic p \<Rightarrow> (Some (Panic p), [])
           | Ok indices \<Rightarrow>
               if indices = [] then (Some (pw_index pw d index_name), [SdkIndex index_name])
               else
                 (case prewarm_colliding_segments pw d schedule indices named of
                    (None, cs) \<Rightarrow> (None, cs)
                  | (Some (Err e), cs) \<Rightarrow> (Some (Err e), cs)
                  | (Some (Panic p), cs) \<Rightarrow> (Some (Panic p), cs)
                  | (Some (Ok sdk_segments), cs) \<Rightarrow>
                      if sdk_segments = [] then (Some (Ok ()), cs)
                      else (Some (pw_segments pw d index_name sdk_segments), cs @ [SdkSegments index_name sdk_segments]))))"

text \<open>\<open>block_on\<close> runs the futures until the result is there; the schedule it takes is an argument.\<close>

definition prewarm_index_inner ::
  "('ds, 'h) prewarm_api \<Rightarrow> 'ds lance_dataset ptr \<Rightarrow> string ptr \<Rightarrow> nat list \<Rightarrow> unit outcome option \<times> prewarm_call list" where
  "prewarm_index_inner pw dataset index_name schedule =
     (case dataset of
        None \<Rightarrow> (Some (Err (invalid_input ''dataset must not be NULL'')), [])
      | Some h \<Rightarrow>
          (case required_string index_name (invalid_input ''index_name must not be NULL or empty'') of
             Err e \<Rightarrow> (Some (Err e), [])
           | Panic p \<Rightarrow> (Some (Panic p), [])
           | Ok name \<Rightarrow> prewarm_index_by_name pw (arc_val (snapshot h)) schedule name))"

definition lance_dataset_prewarm_index where
  "lance_dataset_prewarm_index pw dataset index_name schedule t =
     (case prewarm_index_inner pw dataset index_name schedule of
        (None, cs) \<Rightarrow> None
      | (Some r, cs) \<Rightarrow> Some (ffi_try (obind r (\<lambda>_. Ok (0 :: int))) (- 1) t, cs))"

subsection \<open>Lemmas on copying\<close>

lemma copy_uuids_concat:
  "list_all (\<lambda>u. length u = 16) us \<Longrightarrow> (i + length us) * 16 \<le> length buf \<Longrightarrow>
     copy_uuids i us buf = take (i * 16) buf @ concat us @ drop ((i + length us) * 16) buf"
proof (induction us arbitrary: i buf)
  case (Cons u us)
  define buf' where "buf' = take (i * 16) buf @ u @ drop (i * 16 + 16) buf"
  have u: "length u = 16" "take 16 u = u" "list_all (\<lambda>u. length u = 16) us" using Cons.prems(1) by simp_all
  have le: "i * 16 + 16 \<le> length buf" "(Suc i + length us) * 16 \<le> length buf" using Cons.prems(2) by simp_all
  then have len: "length buf' = length buf" using u(1) by (simp add: buf'_def)
  have "take (Suc i * 16) buf' = take (i * 16) buf @ u" using le u(1) by (simp add: buf'_def)
  moreover have "drop ((Suc i + length us) * 16) buf' = drop ((Suc i + length us) * 16) buf"
    using le u(1) by (simp add: buf'_def ac_simps)
  moreover have "copy_uuids i (u # us) buf = copy_uuids (Suc i) us buf'" by (simp add: buf'_def u(2))
  ultimately show ?case using Cons.IH [OF u(3), of "Suc i" buf'] le len by simp
qed simp

subsection \<open>Lemmas on prewarming\<close>

text \<open>A segment that is opened and warmed directly: it is a vector index on another field than the one with the
  name of the index.\<close>

definition warmed_directly :: "('ds, 'h) prewarm_api \<Rightarrow> 'ds \<Rightarrow> i32 \<Rightarrow> segment_metadata \<Rightarrow> bool" where
  "warmed_directly pw d named m \<longleftrightarrow>
     (case im_fields m of
        [] \<Rightarrow> False
      | f # _ \<Rightarrow> f \<noteq> named \<and>
          (case pw_field_path pw d f of
             Ok path1 \<Rightarrow> (case pw_open pw d path1 (im_uuid m) of Ok h \<Rightarrow> pw_is_vector pw h | _ \<Rightarrow> False)
           | _ \<Rightarrow> False))"

fun task_of :: "('ds, 'h) prewarm_api \<Rightarrow> 'ds \<Rightarrow> i32 \<Rightarrow> segment_metadata \<Rightarrow> 'h warm_task \<Rightarrow> bool" where
  "task_of pw d named m (Starting m') \<longleftrightarrow> m' = m"
| "task_of pw d named m (Opening m' path1) \<longleftrightarrow>
     m' = m \<and> (\<exists>f fs. im_fields m = f # fs \<and> f \<noteq> named \<and> pw_field_path pw d f = Ok path1)"
| "task_of pw d named m (Warming m' h) \<longleftrightarrow> m' = m \<and> warmed_directly pw d named m"
| "task_of pw d named m (Finished m' r) \<longleftrightarrow>
     m' = m \<and> r = (if warmed_directly pw d named m then None else Some (im_uuid m))"

fun warmed_uuids :: "prewarm_call list \<Rightarrow> uuid list" where
  "warmed_uuids [] = []"
| "warmed_uuids (WarmCall u # cs) = u # warmed_uuids cs"
| "warmed_uuids (c # cs) = warmed_uuids cs"

fun sdk_uuids :: "prewarm_call list \<Rightarrow> uuid list" where
  "sdk_uuids [] = []"
| "sdk_uuids (SdkSegments name us # cs) = us @ sdk_uuids cs"
| "sdk_uuids (c # cs) = sdk_uuids cs"

lemma warmed_uuids_append [simp]: "warmed_uuids (cs @ cs') = warmed_uuids cs @ warmed_uuids cs'"
  by (induction cs rule: warmed_uuids.induct) simp_all

lemma sdk_uuids_append [simp]: "sdk_uuids (cs @ cs') = sdk_uuids cs @ sdk_uuids cs'"
  by (induction cs rule: sdk_uuids.induct) simp_all

text \<open>What a finished task has warmed, and how many steps a task has left.\<close>

fun task_warmed :: "'h warm_task \<Rightarrow> uuid multiset" where
  "task_warmed (Finished m None) = {#im_uuid m#}"
| "task_warmed _ = {#}"

fun steps_left :: "'h warm_task \<Rightarrow> nat" where
  "steps_left (Starting m) = 3"
| "steps_left (Opening m p) = 2"
| "steps_left (Warming m h) = 1"
| "steps_left (Finished m r) = 0"

lemma task_step_Ok:
  assumes "task_step pw d named t = (Ok t', cs)" "task_of pw d named m t"
  shows "task_of pw d named m t'" "mset (warmed_uuids cs) + task_warmed t = task_warmed t'" "steps_left t' \<le> steps_left t - 1"
    "sdk_uuids cs = []"
  using assms
  by (cases t; auto simp: obind_eq_Ok warmed_directly_def split: list.splits if_splits)+

lemma sum_list_map_update:
  "i < length xs \<Longrightarrow> sum_list (map f (xs[i := y])) + f (xs ! i) = sum_list (map f xs) + f y"
  for f :: "'a \<Rightarrow> 'b::comm_monoid_add"
proof (induction xs arbitrary: i)
  case (Cons x xs)
  then show ?case by (cases i) (simp_all add: ac_simps)
qed simp

lemma multiset_shuffle: "c + x = t \<Longrightarrow> u + x = s + t \<Longrightarrow> w + u = r \<Longrightarrow> c + w + s = r" for c :: "'a multiset"
proof -
  assume a: "c + x = t" "u + x = s + t" "w + u = r"
  have "c + w + s + x = w + (s + (c + x))" by (simp add: ac_simps)
  also have "\<dots> = w + u + x" by (simp only: a(1) a(2) [symmetric] add.assoc)
  finally show ?thesis using a(3) by simp
qed

lemma join_run_Ok:
  assumes "join_run pw d named schedule tasks = (Ok tasks', cs)" "list_all2 (task_of pw d named) indices tasks"
  shows "list_all2 (task_of pw d named) indices tasks' \<and> sdk_uuids cs = [] \<and>
    mset (warmed_uuids cs) + sum_list (map task_warmed tasks) = sum_list (map task_warmed tasks') \<and>
    (\<forall>i<length tasks. steps_left (tasks' ! i) \<le> steps_left (tasks ! i) - count_list schedule i)"
  using assms
proof (induction schedule arbitrary: tasks tasks' cs)
  case (Cons i schedule)
  show ?case
  proof (cases "i < length tasks")
    case True
    then obtain t c cs' where t: "task_step pw d named (tasks ! i) = (Ok t, c)"
        and run: "join_run pw d named schedule (tasks[i := t]) = (Ok tasks', cs')" and cs: "cs = c @ cs'"
      using Cons.prems(1) by (auto split: outcome.splits prod.splits)
    have m: "task_of pw d named (indices ! i) (tasks ! i)" "length indices = length tasks"
      using Cons.prems(2) True by (auto dest: list_all2_nthD2 list_all2_lengthD)
    note step = task_step_Ok [OF t m(1)]
    have rel: "list_all2 (task_of pw d named) indices (tasks[i := t])"
      using Cons.prems(2) step(1) m(2) True by (metis list_all2_update_cong list_update_id)
    note IH = Cons.IH [OF run rel]
    have "mset (warmed_uuids cs') + sum_list (map task_warmed (tasks[i := t])) = sum_list (map task_warmed tasks')" using IH by simp
    from multiset_shuffle [OF step(2) sum_list_map_update [OF True] this]
    have "mset (warmed_uuids cs) + sum_list (map task_warmed tasks) = sum_list (map task_warmed tasks')" by (simp add: cs)
    moreover have "steps_left (tasks' ! j) \<le> steps_left (tasks ! j) - count_list (i # schedule) j" if "j < length tasks" for j
    proof -
      have "steps_left (tasks' ! j) \<le> steps_left (tasks[i := t] ! j) - count_list schedule j" using IH that by simp
      then show ?thesis using step(3) True by (cases "i = j") auto
    qed
    ultimately show ?thesis using IH step(4) by (simp add: cs)
  next
    case False
    with Cons show ?thesis by (auto simp del: count_list.simps(1)) 
  qed
qed simp

lemma finished_tasks:
  "list_all2 (task_of pw d named) indices tasks \<Longrightarrow> list_all (\<lambda>t. task_result t \<noteq> None) tasks \<Longrightarrow>
     List.map_filter (\<lambda>t. the (task_result t)) tasks = map im_uuid (filter (\<lambda>m. \<not> warmed_directly pw d named m) indices) \<and>
     sum_list (map task_warmed tasks) = mset (map im_uuid (filter (warmed_directly pw d named) indices))"
proof (induction rule: list_all2_induct)
  case (Cons m indices t tasks)
  then obtain r where "t = Finished m r" "r = (if warmed_directly pw d named m then None else Some (im_uuid m))"
    by (cases t) auto
  with Cons show ?case by (simp add: List.map_filter_simps)
qed (simp add: List.map_filter_simps)

lemma starting_tasks: "list_all2 (task_of pw d named) indices (map Starting indices)"
  by (induction indices) simp_all

lemma starting_warmed [simp]: "sum_list (map (task_warmed \<circ> Starting) indices) = {#}"
  by (induction indices) simp_all

lemma prewarm_colliding_Ok:
  assumes "prewarm_colliding_segments pw d schedule indices named = (Some (Ok sdk), cs)"
  shows "sdk = map im_uuid (filter (\<lambda>m. \<not> warmed_directly pw d named m) indices)"
    and "mset (warmed_uuids cs) = mset (map im_uuid (filter (warmed_directly pw d named) indices))" and "sdk_uuids cs = []"
proof -
  from assms obtain tasks where run: "join_run pw d named schedule (map Starting indices) = (Ok tasks, cs)"
    and fin: "list_all (\<lambda>t. task_result t \<noteq> None) tasks" and sdk: "sdk = List.map_filter (\<lambda>t. the (task_result t)) tasks"
    unfolding prewarm_colliding_segments_def by (auto split: prod.splits outcome.splits if_splits)
  have rel: "list_all2 (task_of pw d named) indices tasks" using join_run_Ok [OF run starting_tasks] by blast
  then show "sdk = map im_uuid (filter (\<lambda>m. \<not> warmed_directly pw d named m) indices)"
    "mset (warmed_uuids cs) = mset (map im_uuid (filter (warmed_directly pw d named) indices))" "sdk_uuids cs = []"
    using join_run_Ok [OF run starting_tasks] finished_tasks [OF rel fin] sdk by auto
qed

lemma steps_left_0: "steps_left t = 0 \<Longrightarrow> task_result t \<noteq> None"
  by (cases t) auto

text \<open>A schedule that serves every future three times leaves none pending.\<close>

lemma prewarm_colliding_ends:
  assumes "\<forall>i<length indices. 3 \<le> count_list schedule i"
  shows "fst (prewarm_colliding_segments pw d schedule indices named) \<noteq> None"
proof (cases "join_run pw d named schedule (map Starting indices)")
  case (Pair r cs)
  show ?thesis
  proof (cases r)
    case (Ok tasks)
    note run = join_run_Ok [OF Pair [unfolded Ok] starting_tasks]
    have "length tasks = length indices" using run by (auto dest: list_all2_lengthD)
    moreover have "steps_left (tasks ! i) = 0" if "i < length indices" for i
    proof -
      have "3 \<le> count_list schedule i" "steps_left (tasks ! i) \<le> 3 - count_list schedule i" using run assms that by auto
      then show ?thesis by simp
    qed
    ultimately have "list_all (\<lambda>t. task_result t \<noteq> None) tasks"
      using steps_left_0 by (auto simp: list_all_length)
    then show ?thesis using Pair Ok by (simp add: prewarm_colliding_segments_def)
  qed (use Pair in \<open>simp_all add: prewarm_colliding_segments_def\<close>)
qed

subsection \<open>Properties\<close>

text \<open>C35. Prewarming an index that shares its name with a column: whatever order the concurrent futures make progress in,
  if the call succeeds every segment of the index has been warmed exactly once, the vector segments of
  another column directly and the remaining ones, in the order of the index, by Lance; and no schedule that
  serves every segment three times leaves the call pending.\<close>

theorem prewarm_covers_index:
  assumes "pw_field_id pw d name = Some named" "pw_load_by_name pw d name = Ok indices" "indices \<noteq> []"
  shows "(prewarm_index_by_name pw d schedule name = (Some (Ok ()), calls) \<longrightarrow>
      mset (warmed_uuids calls @ sdk_uuids calls) = mset (map im_uuid indices) \<and>
      sdk_uuids calls = map im_uuid (filter (\<lambda>m. \<not> warmed_directly pw d named m) indices)) \<and>
    ((\<forall>i<length indices. 3 \<le> count_list schedule i) \<longrightarrow> fst (prewarm_index_by_name pw d schedule name) \<noteq> None)"
proof (intro conjI impI)
  assume ok: "prewarm_index_by_name pw d schedule name = (Some (Ok ()), calls)"
  then obtain sdk cs where c: "prewarm_colliding_segments pw d schedule indices named = (Some (Ok sdk), cs)"
    and calls: "calls = (if sdk = [] then cs else cs @ [SdkSegments name sdk])"
    using assms unfolding prewarm_index_by_name_def by (auto split: prod.splits option.splits outcome.splits if_splits)
  note facts = prewarm_colliding_Ok [OF c]
  have "sdk_uuids calls = sdk" "warmed_uuids calls = warmed_uuids cs" using facts(3) by (simp_all add: calls)
  moreover have "mset (filter (warmed_directly pw d named) indices) + mset (filter (\<lambda>m. \<not> warmed_directly pw d named m) indices) =
      mset indices" by (simp flip: multiset_partition)
  then have "mset (map im_uuid indices) = mset (map im_uuid (filter (warmed_directly pw d named) indices)) +
      mset (map im_uuid (filter (\<lambda>m. \<not> warmed_directly pw d named m) indices))" by (simp flip: image_mset_union)
  ultimately show "mset (warmed_uuids calls @ sdk_uuids calls) = mset (map im_uuid indices)"
    "sdk_uuids calls = map im_uuid (filter (\<lambda>m. \<not> warmed_directly pw d named m) indices)" using facts by simp_all
next
  assume "\<forall>i<length indices. 3 \<le> count_list schedule i"
  then have "fst (prewarm_colliding_segments pw d schedule indices named) \<noteq> None" by (rule prewarm_colliding_ends)
  with assms show "fst (prewarm_index_by_name pw d schedule name) \<noteq> None"
    unfolding prewarm_index_by_name_def by (auto split: prod.splits option.splits outcome.splits)
qed

definition demo_segment :: "i32 list \<Rightarrow> u8 \<Rightarrow> segment_metadata" where
  "demo_segment fids b = demo_metadata\<lparr>im_fields := fids, im_uuid := replicate 16 b\<rparr>"

definition demo_prewarm_api :: "(unit, u8) prewarm_api" where
  "demo_prewarm_api =
     \<lparr>pw_field_id = (\<lambda>_ n. if n = ''vec'' then Some 5 else None),
      pw_load_by_name = (\<lambda>_ _. Ok [demo_segment [2] 1, demo_segment [5] 2, demo_segment [] 3, demo_segment [4] 4]),
      pw_index = (\<lambda>_ _. Ok ()), pw_segments = (\<lambda>_ _ _. Ok ()), pw_field_path = (\<lambda>_ f. Ok (show_i f)),
      pw_open = (\<lambda>_ _ u. Ok (hd u)), pw_is_vector = (\<lambda>b. b = 1), pw_warm = (\<lambda>_. Ok ())\<rparr>"

theorem prewarm_covers_index_witness:
  "\<exists>calls. prewarm_index_by_name demo_prewarm_api () [3, 0, 1, 0, 2, 3, 0] ''vec'' = (Some (Ok ()), calls) \<and>
     mset (warmed_uuids calls @ sdk_uuids calls) = mset [replicate 16 1, replicate 16 2, replicate 16 3, replicate 16 4] \<and>
     sdk_uuids calls = [replicate 16 2, replicate 16 3, replicate 16 4]"
proof -
  let ?segs = "[demo_segment [2] 1, demo_segment [5] 2, demo_segment [] 3, demo_segment [4] 4]"
  have api: "pw_field_id demo_prewarm_api () ''vec'' = Some 5" "pw_load_by_name demo_prewarm_api () ''vec'' = Ok ?segs" "?segs \<noteq> []"
    by (simp_all add: demo_prewarm_api_def)
  have "\<exists>calls. prewarm_index_by_name demo_prewarm_api () [3, 0, 1, 0, 2, 3, 0] ''vec'' = (Some (Ok ()), calls)"
    by (simp add: prewarm_index_by_name_def prewarm_colliding_segments_def demo_prewarm_api_def demo_segment_def demo_metadata_def
        List.map_filter_simps numeral_3_eq_3)
  then obtain calls where run: "prewarm_index_by_name demo_prewarm_api () [3, 0, 1, 0, 2, 3, 0] ''vec'' = (Some (Ok ()), calls)" ..
  have "mset (warmed_uuids calls @ sdk_uuids calls) = mset (map im_uuid ?segs) \<and>
      sdk_uuids calls = map im_uuid (filter (\<lambda>m. \<not> warmed_directly demo_prewarm_api () 5 m) ?segs)"
    using prewarm_covers_index [OF api, of "[3, 0, 1, 0, 2, 3, 0]" calls] run by blast
  moreover have "map im_uuid (filter (\<lambda>m. \<not> warmed_directly demo_prewarm_api () 5 m) ?segs) =
      [replicate 16 2, replicate 16 3, replicate 16 4]" "map im_uuid ?segs = [replicate 16 1, replicate 16 2, replicate 16 3, replicate 16 4]"
    by (simp_all add: demo_segment_def demo_metadata_def demo_prewarm_api_def warmed_directly_def)
  ultimately show ?thesis using run by metis
qed

text \<open>C36. The segment count and the segment list agree: once the count of an index is known, the list call succeeds exactly
  when the caller's buffer has that capacity; it then writes the 16 bytes of each segment's UUID in the
  order of the index, leaves the rest of the buffer alone and reports the number, and otherwise fails
  without writing.\<close>

theorem segments_listed_as_counted:
  assumes "index_segment_count_inner ix (Some h) index_name = Ok n"
    and "ix_load ix (arc_val (snapshot h)) = Ok indices" "length indices < 2 ^ 64" "list_all (\<lambda>i. length (im_uuid i) = 16) indices"
    and "unat capacity * 16 \<le> length buf"
  shows "\<exists>us. us = map im_uuid (user_segments ix (the index_name) indices) \<and> length us = unat n \<and> us \<noteq> [] \<and>
    dataset_index_segments_inner ix (Some h) index_name (Some buf) capacity out_count =
      (if unat n \<le> unat capacity then Ok (concat us @ drop (unat n * 16) buf, map_option (\<lambda>_. n) out_count)
       else Err (invalid_input (''out_uuids capacity ('' @ show_u capacity @ '') too small for '' @ show_nat (unat n) @ '' segments'')))"
proof -
  from assms(1,2) obtain name where name: "index_name = Some name" "to_str_ok name" "user_segments ix name indices \<noteq> []"
    and n: "n = of_nat (length (user_segments ix name indices))"
    by (auto simp: index_segment_count_inner_def parse_c_string_def obind_eq_Ok Let_def reject_if_eq_Ok split: option.splits if_splits)
  let ?segs = "user_segments ix name indices" and ?us = "map im_uuid (user_segments ix name indices)"
  have "length ?segs \<le> length indices" by (simp add: user_segments_def)
  then have len: "unat n = length ?segs" using assms(3) by (simp add: n unat_of_nat)
  have "list_all (\<lambda>u. length u = 16) ?us" using assms(4) by (auto simp: user_segments_def list_all_iff)
  then have "copy_uuids 0 ?us buf = concat ?us @ drop (unat n * 16) buf" if "unat n \<le> unat capacity"
    using copy_uuids_concat [of ?us 0 buf] assms(5) len that by simp
  then have "dataset_index_segments_inner ix (Some h) index_name (Some buf) capacity out_count =
      (if unat n \<le> unat capacity then Ok (concat ?us @ drop (unat n * 16) buf, map_option (\<lambda>_. n) out_count)
       else Err (invalid_input (''out_uuids capacity ('' @ show_u capacity @ '') too small for '' @ show_nat (unat n) @ '' segments'')))"
    using name assms(2) len n by (simp add: dataset_index_segments_inner_def parse_c_string_def Let_def)
  then show ?thesis using name len by (intro exI [of _ ?us]) simp
qed


definition demo_index_api :: "(unit, unit, unit, unit) index_api" where
  "demo_index_api =
     \<lparr>ix_create = (\<lambda>d _ _ _ _ _. (Ok (), d)), ix_drop = (\<lambda>d _. (Ok (), d)),
      ix_load = (\<lambda>_. Ok [demo_segment [2] 1, (demo_segment [3] 9)\<lparr>im_name := ''other''\<rparr>, demo_segment [2] 2]),
      ix_is_system = (\<lambda>_. False), ix_field_by_id = (\<lambda>_ _. Some ''vec''), ix_describe = (\<lambda>_. Ok [])\<rparr>"

theorem segments_listed_as_counted_witness:
  "dataset_index_segments_inner demo_index_api (Some \<lparr>ds_inner = Arc 1 (), ds_lock_poisoned = False\<rparr>) (Some ''vec_idx'')
     (Some (replicate 40 0)) 2 (Some 0) = Ok (replicate 16 1 @ replicate 16 2 @ replicate 8 0, Some 2)"
proof -
  let ?h = "\<lparr>ds_inner = Arc 1 (), ds_lock_poisoned = False\<rparr> :: unit lance_dataset"
  let ?segs = "[demo_segment [2] 1, (demo_segment [3] 9)\<lparr>im_name := ''other''\<rparr>, demo_segment [2] 2]"
  have load: "ix_load demo_index_api d = Ok ?segs" for d by (simp add: demo_index_api_def)
  have segs: "user_segments demo_index_api ''vec_idx'' ?segs = [demo_segment [2] 1, demo_segment [2] 2]"
    by (simp add: user_segments_def demo_index_api_def demo_segment_def demo_metadata_def)
  have n: "index_segment_count_inner demo_index_api (Some ?h) (Some ''vec_idx'') = Ok 2"
    by (simp add: index_segment_count_inner_def parse_c_string_def to_str_ok_def load segs Let_def)
  have "\<exists>us. us = map im_uuid (user_segments demo_index_api ''vec_idx'' ?segs) \<and> length us = 2 \<and> us \<noteq> [] \<and>
      dataset_index_segments_inner demo_index_api (Some ?h) (Some ''vec_idx'') (Some (replicate 40 0)) 2 (Some 0) =
        Ok (concat us @ drop 32 (replicate 40 0), Some 2)"
    using segments_listed_as_counted [OF n load, where buf = "replicate 40 0" and capacity = 2 and out_count = "Some 0"]
    by (simp add: demo_segment_def demo_metadata_def)
  then show ?thesis by (simp add: segs) (simp add: demo_segment_def)
qed

end
