(* ===== verification/Handle_Contract.thy ===== *)
theory Handle_Contract
  imports Mutation_Contract Index_Lifecycle
begin

text \<open>
  What every entry point that changes a dataset through a handle promises: the data mutations, the creation and the
  removal of indexes, and the commit of index segments. They share one contract, the locale
  \<open>transactional_calls\<close>, of which the calls below are an instance.
\<close>

subsection \<open>Calls\<close>

datatype ('f, 'raw) handle_call =
    MutationCall "('f, 'raw) mutation_call"
  | CreateScalarIndexCall "string ptr" "string ptr" i32 "string ptr" bool
  | CreateVectorIndexCall "string ptr" "string ptr" "vector_index_params ptr" bool
  | DropIndexCall "string ptr"
  | CommitSegmentsCall "string ptr" "string ptr" "(usize \<times> u8 list) ptr list ptr" "usize list ptr" usize

text \<open>What Lance does for these calls.\<close>

record ('ds, 'f, 'ty, 'sch, 'raw, 'rd, 'q, 'n, 'c, 'b, 'r, 'x) handle_api =
  ha_mutation :: "('ds, 'f, 'ty, 'sch, 'raw, 'rd, 'q, 'n) mutation_api"
  ha_index :: "('ds, 'c, 'b, 'r) index_api"
  ha_defaults :: "('c, 'b, 'r) build_defaults"
  ha_decode :: "'x decode_api"
  ha_commit :: "'ds \<Rightarrow> string \<Rightarrow> string \<Rightarrow> segment_metadata list \<Rightarrow> unit outcome \<times> 'ds"

fun handle_call_inner ::
  "('ds, 'f, 'ty, 'sch, 'raw, 'rd, 'q, ('w::len) word, 'c, 'b, 'r, 'x) handle_api \<Rightarrow> nat \<Rightarrow> ('f, 'raw) handle_call \<Rightarrow>
     'ds lance_dataset ptr \<Rightarrow> unit outcome \<times> 'ds lance_dataset ptr" where
  "handle_call_inner api a (MutationCall call) ds = mutation_call_inner (ha_mutation api) a call ds"
| "handle_call_inner api a (CreateScalarIndexCall col name ty json replace1) ds =
     create_scalar_index_inner (ha_index api) a ds col name ty json replace1"
| "handle_call_inner api a (CreateVectorIndexCall col name params replace1) ds =
     create_vector_index_inner (ha_index api) (ha_defaults api) a ds col name params replace1"
| "handle_call_inner api a (DropIndexCall name) ds = drop_index_inner (ha_index api) a ds name"
| "handle_call_inner api a (CommitSegmentsCall name col bytes lens n) ds =
     commit_index_segments_inner (ha_decode api) (ha_commit api) a ds name col bytes lens n"

fun handle_operation ::
  "('ds, 'f, 'ty, 'sch, 'raw, 'rd, 'q, ('w::len) word, 'c, 'b, 'r, 'x) handle_api \<Rightarrow> ('f, 'raw) handle_call \<Rightarrow>
     'ds lance_dataset \<Rightarrow> ('ds \<Rightarrow> unit outcome \<times> 'ds) outcome" where
  "handle_operation api (MutationCall call) h = call_operation (ha_mutation api) call h"
| "handle_operation api (CreateScalarIndexCall col name ty json replace1) h =
     operation_of (create_scalar_args (Some h) col name ty json)
       (\<lambda>(c, n, t, p) d. ix_create (ha_index api) d [c] (ScalarKind t) n (CreateScalar t p) replace1)"
| "handle_operation api (CreateVectorIndexCall col name params replace1) h =
     operation_of (create_vector_args (ha_defaults api) (Some h) col name params)
       (\<lambda>(c, n, p) d. ix_create (ha_index api) d [c] VectorKind n (CreateVector p) replace1)"
| "handle_operation api (DropIndexCall name) h = operation_of (drop_index_args (Some h) name) (\<lambda>s d. ix_drop (ha_index api) d s)"
| "handle_operation api (CommitSegmentsCall name col bytes lens n) h =
     operation_of (commit_segments_args (ha_decode api) (Some h) name col bytes lens n)
       (\<lambda>(nm, c, segments) d. ha_commit api d nm c segments)"

subsection \<open>The contract\<close>

lemma index_args_hand_through:
  "hands_through h (create_scalar_args (Some h) col name ty json)"
  "hands_through h (create_vector_args bd (Some h) col name params)"
  "hands_through h (drop_index_args (Some h) name)"
  "hands_through h (commit_segments_args da (Some h) name col bytes lens n)"
  by (auto simp: hands_through_def create_scalar_args_def create_vector_args_def drop_index_args_def
      commit_segments_args_def outcome_ok split: option.splits)

lemma forget_unit: "forget (x :: unit outcome \<times> 'h) = x"
  by (cases x; cases "fst x") (auto simp: forget_def)

lemma mutate_operation:
  assumes "hands_through h args"
  shows "mutate a (Some h) args f =
    (case operation_of args f of
       Ok g \<Rightarrow> (let (r, h') = with_mut a g h in (r, Some h'))
     | Err e \<Rightarrow> (Err e, Some h)
     | Panic p \<Rightarrow> (Panic p, Some h))"
  using forget_mutate_operation [OF assms, of a f] by (simp add: forget_unit)

lemma handle_call_operation:
  "handle_call_inner api a call (Some h) =
     (case handle_operation api call h of
        Ok g \<Rightarrow> (let (r, h') = with_mut a g h in (r, Some h'))
      | Err e \<Rightarrow> (Err e, Some h)
      | Panic p \<Rightarrow> (Panic p, Some h))"
  by (cases call) (simp_all add: mutation_call_operation mutate_operation index_args_hand_through to_builtin_def
      to_index_type_def create_scalar_index_inner_def create_vector_index_inner_def drop_index_inner_def
      commit_index_segments_inner_def)

lemma commit_operation_handle:
  "operation_of (commit_segments_args da (Some h) name col bytes lens n) f =
   operation_of (commit_segments_args da (Some h') name col bytes lens n) f"
  by (cases name; cases col; cases bytes; cases lens)
    (auto simp: operation_of_def commit_segments_args_def obind_assoc obind_reject_if)

lemma drop_operation_handle:
  "operation_of (drop_index_args (Some h) name) f = operation_of (drop_index_args (Some h') name) f"
  by (cases name; cases "parse_c_string name") (auto simp: operation_of_def drop_index_args_def split: option.split)

lemma handle_operation_handle: "handle_operation api call h = handle_operation api call h'"
proof (cases call)
  case (MutationCall call)
  then show ?thesis using call_operation_handle by (metis handle_operation.simps(1))
next
  case (CommitSegmentsCall name col bytes lens n)
  then show ?thesis using commit_operation_handle by (metis handle_operation.simps(5))
next
  case (DropIndexCall name)
  then show ?thesis using drop_operation_handle by (metis handle_operation.simps(4))
qed (auto simp: operation_of_def create_scalar_args_def create_vector_args_def obind_assoc split: option.split)

interpretation handle_calls: transactional_calls "handle_call_inner api" "handle_operation api" for api
  using handle_call_operation handle_operation_handle by unfold_locales

subsection \<open>Properties\<close>

text \<open>C2. Any sequence of calls that change a dataset through a handle, its data or its indexes, valid or not, gives the
  results and the dataset of the sequence of their transactions: a rejected call and a panicking one change
  nothing, and every other one leaves exactly what its operation on the dataset leaves; the handle stays
  usable throughout.\<close>

theorem handle_calls_refine_transactions:
  "\<exists>h'. run_calls (handle_call_inner api) calls (Some h) =
      (fst (run_transactions (map (\<lambda>c. transaction_of (handle_operation api) (snd c)) calls) (arc_val (snapshot h))), Some h') \<and>
    arc_val (snapshot h') =
      snd (run_transactions (map (\<lambda>c. transaction_of (handle_operation api) (snd c)) calls) (arc_val (snapshot h)))"
  by (rule handle_calls.run_refines)

text \<open>C30. A call cuts the handle off from the text-search contexts prepared on its snapshot exactly when its operation
  ran and returned, with a value or with an error: then the handle rejects the context, and after a
  rejected call or a panic it still accepts it. Creating, dropping or committing an index counts as much
  as changing rows.\<close>

theorem handle_calls_invalidate_contexts:
  fixes ctx :: "('ds, 'sc) fts_query_context"
  assumes "arc_ptr_eq (fc_dataset ctx) (snapshot h)" "a \<noteq> arc_addr (snapshot h)"
    and "handle_call_inner api a call (Some h) = (res, Some h')"
  shows "validate_dataset_identity fts ctx (snapshot h') = Ok () \<longleftrightarrow>
    (\<forall>g. handle_operation api call h \<noteq> Ok g) \<or> (\<exists>p. res = Panic p)"
  using assms by (rule handle_calls.call_invalidates)

definition demo_handle_api ::
  "(nat, unit, unit, unit, unit, unit, unit, 64 word, (unit, demo_array) fixed_size_list, demo_array, unit, unit) handle_api" where
  "demo_handle_api =
     \<lparr>ha_mutation = demo_mutation_api,
      ha_index = \<lparr>ix_create = (\<lambda>d _ _ _ _ _. (Ok (), Suc d)), ix_drop = (\<lambda>d _. (Ok (), Suc d)), ix_load = (\<lambda>_. Ok []),
        ix_is_system = (\<lambda>_. False), ix_field_by_id = (\<lambda>_ _. None), ix_describe = (\<lambda>_. Ok [])\<rparr>,
      ha_defaults = demo_defaults, ha_decode = demo_decode_api, ha_commit = (\<lambda>d _ _ _. (Ok (), Suc d))\<rparr>"

lemma demo_drop_index:
  "handle_call_inner demo_handle_api 2 (DropIndexCall (Some ''fts_idx'')) (Some \<lparr>ds_inner = Arc 1 5, ds_lock_poisoned = False\<rparr>) =
     (Ok (), Some \<lparr>ds_inner = Arc 2 6, ds_lock_poisoned = False\<rparr>)"
  by (simp add: drop_index_inner_def mutate_def drop_index_args_def parse_c_string_def to_str_ok_def with_mut_def
      demo_handle_api_def)

theorem handle_calls_invalidate_contexts_witness:
  "validate_dataset_identity demo_fts_api
     \<lparr>fc_dataset = Arc 1 5, fc_query = FtsMatch ''fox'' (Some ''body'') OpOr None, fc_segments = [Fts_Query.demo_segment],
      fc_prepared = PreparedMatch (Suc 0)\<rparr> (Arc 2 6) \<noteq> Ok ()"
proof -
  let ?c = "\<lparr>fc_dataset = Arc 1 5, fc_query = FtsMatch ''fox'' (Some ''body'') OpOr None, fc_segments = [Fts_Query.demo_segment],
      fc_prepared = PreparedMatch (Suc 0)\<rparr>"
  have "\<exists>g. handle_operation demo_handle_api (DropIndexCall (Some ''fts_idx'')) \<lparr>ds_inner = Arc 1 5, ds_lock_poisoned = False\<rparr> = Ok g"
    by (simp add: operation_of_def drop_index_args_def parse_c_string_def to_str_ok_def)
  with handle_calls_invalidate_contexts [OF _ _ demo_drop_index, of ?c demo_fts_api] show ?thesis
    by (auto simp: arc_ptr_eq_def snapshot_def)
qed

end
