(* ===== verification/Progress_Gate.thy ===== *)
theory Progress_Gate
  imports Errors Step_Systems "HOL-Library.Multiset"
begin

text \<open>
  Model of the progress callback of \<open>src/index_segment.rs\<close>: the retirement gate
  \<open>ProgressCallbackGate\<close> with its atomic counter and flag, the threads that report progress through it,
  and the thread that retires it when an index build returns. Every atomic access is one step of the
  relation \<open>gate_step\<close>, and so is the call into C, which a thread makes some time after it was admitted; all
  interleavings of the sequentially consistent accesses and the calls are covered.
\<close>

subsection \<open>Texts for the callback\<close>

text \<open>\<open>progress_c_string\<close> strips NUL bytes before it makes a C string.\<close>

definition progress_c_string :: "string \<Rightarrow> string outcome" where
  "progress_c_string value1 =
     (let cleaned = (if CHR 0x00 \<in> set value1 then filter (\<lambda>c. c \<noteq> CHR 0x00) value1 else value1)
      in ok_or (cstring_new cleaned) (internal_error ''index build progress stage/unit contained an interior NUL''))"

datatype progress_event = StageStart | StageProgress | StageComplete

fun progress_event_value :: "progress_event \<Rightarrow> int" where
  "progress_event_value StageStart = 0"
| "progress_event_value StageProgress = 1"
| "progress_event_value StageComplete = 2"

text \<open>What the C function is called with.\<close>

record progress_call =
  pg_event :: progress_event
  pg_stage :: string
  pg_total :: u64
  pg_unit :: string
  pg_completed :: u64

definition stage_start :: "string \<Rightarrow> u64 option \<Rightarrow> string \<Rightarrow> progress_call outcome" where
  "stage_start stage total1 unit1 =
     obind (progress_c_string stage) (\<lambda>s.
     obind (progress_c_string unit1) (\<lambda>u.
     Ok \<lparr>pg_event = StageStart, pg_stage = s, pg_total = (case total1 of Some n \<Rightarrow> n | None \<Rightarrow> 0), pg_unit = u,
         pg_completed = 0\<rparr>))"

definition stage_progress :: "string \<Rightarrow> u64 \<Rightarrow> progress_call outcome" where
  "stage_progress stage completed =
     obind (progress_c_string stage) (\<lambda>s.
     Ok \<lparr>pg_event = StageProgress, pg_stage = s, pg_total = 0, pg_unit = '''', pg_completed = completed\<rparr>)"

definition stage_complete :: "string \<Rightarrow> progress_call outcome" where
  "stage_complete stage =
     obind (progress_c_string stage) (\<lambda>s.
     Ok \<lparr>pg_event = StageComplete, pg_stage = s, pg_total = 0, pg_unit = '''', pg_completed = 0\<rparr>)"

text \<open>The three methods of the progress trait, as values.\<close>

datatype report = Start_Stage string "u64 option" string | Progress_Stage string u64 | Complete_Stage string

fun report_call :: "report \<Rightarrow> progress_call outcome" where
  "report_call (Start_Stage stage total1 unit1) = stage_start stage total1 unit1"
| "report_call (Progress_Stage stage completed) = stage_progress stage completed"
| "report_call (Complete_Stage stage) = stage_complete stage"

lemma progress_c_string_ok: "progress_c_string value1 = Ok (filter (\<lambda>c. c \<noteq> CHR 0x00) value1)"
  by (auto simp: progress_c_string_def cstring_new_def ok_or_def intro!: filter_True [symmetric])

text \<open>A report never fails, so the gate is entered and left in pairs.\<close>

lemma report_call_ok: "\<exists>call. report_call r = Ok call"
  by (cases r) (simp_all add: stage_start_def stage_progress_def stage_complete_def progress_c_string_ok)

lemma report_call_texts: "report_call r = Ok call \<Longrightarrow> CHR 0x00 \<notin> set (pg_stage call) \<and> CHR 0x00 \<notin> set (pg_unit call)"
  by (cases r) (auto simp: stage_start_def stage_progress_def stage_complete_def progress_c_string_ok)

subsection \<open>The gate\<close>

text \<open>Where a reporting thread is: outside; counted, with the flag still to be read; about to undo its count; admitted
  by \<open>enter\<close>, with the callback still to be called; or inside the callback. And where the retiring thread is in
  \<open>retire\<close>.\<close>

datatype reporter = Outside | Counted progress_call | BackingOut | Admitted progress_call | InCallback progress_call

datatype retirer = Building | Draining | Retired

record gate_system =
  gs_retired :: bool
  gs_in_flight :: usize
  gs_reporters :: "reporter list"
  gs_retirer :: retirer
  gs_calls :: "progress_call list"

definition gate_default :: gate_system where
  "gate_default = \<lparr>gs_retired = False, gs_in_flight = 0, gs_reporters = [], gs_retirer = Building, gs_calls = []\<rparr>"

text \<open>\<open>enter\<close>: \<open>fetch_add\<close>; the load of the flag, which admits the call or not; \<open>fetch_sub\<close> if not.\<close>

definition enter_count :: "nat \<Rightarrow> progress_call \<Rightarrow> gate_system \<Rightarrow> gate_system" where
  "enter_count i call s = s\<lparr>gs_in_flight := gs_in_flight s + 1, gs_reporters := (gs_reporters s)[i := Counted call]\<rparr>"

definition enter_check :: "nat \<Rightarrow> progress_call \<Rightarrow> gate_system \<Rightarrow> gate_system" where
  "enter_check i call s =
     (if gs_retired s then s\<lparr>gs_reporters := (gs_reporters s)[i := BackingOut]\<rparr>
      else s\<lparr>gs_reporters := (gs_reporters s)[i := Admitted call]\<rparr>)"

text \<open>The call that an admitted report makes into C, after \<open>enter\<close> has returned.\<close>

definition call_callback :: "nat \<Rightarrow> progress_call \<Rightarrow> gate_system \<Rightarrow> gate_system" where
  "call_callback i call s =
     s\<lparr>gs_reporters := (gs_reporters s)[i := InCallback call], gs_calls := gs_calls s @ [call]\<rparr>"

text \<open>The \<open>fetch_sub\<close> of \<open>exit\<close> and of a refused \<open>enter\<close>.\<close>

definition leave_gate :: "nat \<Rightarrow> gate_system \<Rightarrow> gate_system" where
  "leave_gate i s = s\<lparr>gs_in_flight := gs_in_flight s - 1, gs_reporters := (gs_reporters s)[i := Outside]\<rparr>"

text \<open>\<open>retire\<close>: the store, and then one turn of the draining loop a step; a turn that finds calls in flight yields
  and changes nothing.\<close>

fun retire_step :: "gate_system \<Rightarrow> gate_system option" where
  "retire_step s =
     (case gs_retirer s of
        Building \<Rightarrow> Some (s\<lparr>gs_retired := True, gs_retirer := Draining\<rparr>)
      | Draining \<Rightarrow> if gs_in_flight s = 0 then Some (s\<lparr>gs_retirer := Retired\<rparr>) else None
      | Retired \<Rightarrow> None)"

declare retire_step.simps [simp del]

inductive gate_step :: "gate_system \<Rightarrow> gate_system \<Rightarrow> bool" where
  spawn_reporter: "length (gs_reporters s) < 2 ^ 64 - 1 \<Longrightarrow> gate_step s (s\<lparr>gs_reporters := gs_reporters s @ [Outside]\<rparr>)"
| count: "i < length (gs_reporters s) \<Longrightarrow> gs_reporters s ! i = Outside \<Longrightarrow> report_call r = Ok call \<Longrightarrow>
    gate_step s (enter_count i call s)"
| check: "i < length (gs_reporters s) \<Longrightarrow> gs_reporters s ! i = Counted call \<Longrightarrow> gate_step s (enter_check i call s)"
| call_c: "i < length (gs_reporters s) \<Longrightarrow> gs_reporters s ! i = Admitted call \<Longrightarrow> gate_step s (call_callback i call s)"
| back_out: "i < length (gs_reporters s) \<Longrightarrow> gs_reporters s ! i = BackingOut \<Longrightarrow> gate_step s (leave_gate i s)"
| exit_gate: "i < length (gs_reporters s) \<Longrightarrow> gs_reporters s ! i = InCallback call \<Longrightarrow> gate_step s (leave_gate i s)"
| retire: "retire_step s = Some s' \<Longrightarrow> gate_step s s'"

inductive_cases gate_stepE: "gate_step s s'"

abbreviation gate_steps :: "gate_system \<Rightarrow> gate_system \<Rightarrow> bool" where
  "gate_steps \<equiv> runs gate_step"

abbreviation reachable_gate :: "gate_system \<Rightarrow> bool" where
  "reachable_gate \<equiv> gate_steps gate_default"

subsection \<open>The invariant\<close>

definition counted :: "reporter list \<Rightarrow> nat" where
  "counted rs = length (filter (\<lambda>r. r \<noteq> Outside) rs)"

fun in_callback :: "reporter \<Rightarrow> bool" where
  "in_callback (Admitted _) = True"
| "in_callback (InCallback _) = True"
| "in_callback _ = False"

text \<open>The counter counts the threads between \<open>fetch_add\<close> and \<open>fetch_sub\<close>, without wrapping; the flag is set when
  retirement starts; and when it has ended no thread is admitted to the callback or inside it.\<close>

definition gate_ok :: "gate_system \<Rightarrow> bool" where
  "gate_ok s \<longleftrightarrow> length (gs_reporters s) < 2 ^ 64 \<and> gs_in_flight s = of_nat (counted (gs_reporters s)) \<and>
     (gs_retirer s \<noteq> Building \<longrightarrow> gs_retired s) \<and>
     (gs_retirer s = Retired \<longrightarrow> list_all (\<lambda>r. \<not> in_callback r) (gs_reporters s))"

lemma counted_append [simp]: "counted (rs @ [Outside]) = counted rs"
  by (simp add: counted_def)

lemma counted_update:
  "i < length rs \<Longrightarrow> counted (rs[i := r]) + (if rs ! i = Outside then 0 else 1) = counted rs + (if r = Outside then 0 else 1)"
proof (induction rs arbitrary: i)
  case (Cons q rs)
  then show ?case by (cases i) (fastforce simp: counted_def)+
qed simp

lemma counted_enter:
  "i < length rs \<Longrightarrow> rs ! i = Outside \<Longrightarrow> r \<noteq> Outside \<Longrightarrow>
     (of_nat (counted (rs[i := r])) :: usize) = of_nat (counted rs) + 1"
  using counted_update [of i rs r] by simp

lemma counted_leave:
  "i < length rs \<Longrightarrow> rs ! i \<noteq> Outside \<Longrightarrow> (of_nat (counted (rs[i := Outside])) :: usize) = of_nat (counted rs) - 1"
  using counted_update [of i rs Outside, symmetric] by simp

lemma counted_stay: "i < length rs \<Longrightarrow> rs ! i \<noteq> Outside \<Longrightarrow> r \<noteq> Outside \<Longrightarrow> counted (rs[i := r]) = counted rs"
  using counted_update [of i rs r] by simp

lemma counted_zero: "counted rs = 0 \<Longrightarrow> r \<in> set rs \<Longrightarrow> r = Outside"
  by (auto simp: counted_def filter_empty_conv)

lemma counted_le: "counted rs \<le> length rs"
  by (simp add: counted_def)

lemma not_in_callback_update:
  "list_all (\<lambda>r. \<not> in_callback r) rs \<Longrightarrow> \<not> in_callback r \<Longrightarrow> list_all (\<lambda>r. \<not> in_callback r) (rs[i := r])"
  by (auto simp: list_all_iff dest: set_update_subset_insert [THEN subsetD])

lemma gate_ok_step:
  assumes "gate_step s s'" "gate_ok s"
  shows "gate_ok s'"
  using assms(1)
proof (cases rule: gate_step.cases)
  case (count i r call)
  with assms(2) show ?thesis
    by (auto simp: gate_ok_def enter_count_def not_in_callback_update counted_enter)
next
  case (check i call)
  with assms(2) show ?thesis by (auto simp: gate_ok_def enter_check_def not_in_callback_update counted_stay)
next
  case (call_c i call)
  with assms(2) show ?thesis
    by (cases "gs_retirer s = Retired") (auto simp: gate_ok_def call_callback_def list_all_length counted_stay)
next
  case (back_out i)
  with assms(2) show ?thesis by (auto simp: gate_ok_def leave_gate_def not_in_callback_update counted_leave)
next
  case (exit_gate i call)
  with assms(2) show ?thesis by (auto simp: gate_ok_def leave_gate_def not_in_callback_update counted_leave)
next
  case retire
  show ?thesis
  proof (cases "gs_retirer s = Draining \<and> gs_in_flight s = 0")
    case True
    with assms(2) have "of_nat (counted (gs_reporters s)) = (0 :: usize)" "counted (gs_reporters s) < 2 ^ 64"
      using counted_le [of "gs_reporters s"] by (auto simp: gate_ok_def)
    then have "counted (gs_reporters s) = 0" using of_nat_inverse [of "counted (gs_reporters s)" "0 :: usize"] by simp
    then have "list_all (\<lambda>r. \<not> in_callback r) (gs_reporters s)" by (auto simp: list_all_iff dest: counted_zero)
    with retire True assms(2) show ?thesis by (auto simp: gate_ok_def retire_step.simps)
  qed (use retire assms(2) in \<open>auto simp: gate_ok_def retire_step.simps split: retirer.splits if_splits\<close>)
qed (use assms(2) in \<open>auto simp: gate_ok_def\<close>)

subsection \<open>Retirement\<close>

text \<open>The calls that threads have been admitted to and have yet to make.\<close>

fun admitted_call :: "reporter \<Rightarrow> progress_call multiset" where
  "admitted_call (Admitted call) = {#call#}"
| "admitted_call _ = {#}"

definition admitted_calls :: "gate_system \<Rightarrow> progress_call multiset" where
  "admitted_calls s = (\<Sum>r\<leftarrow>gs_reporters s. admitted_call r)"

lemma admitted_update:
  "i < length rs \<Longrightarrow>
     (\<Sum>q\<leftarrow>rs[i := r]. admitted_call q) + admitted_call (rs ! i) = (\<Sum>q\<leftarrow>rs. admitted_call q) + admitted_call r"
proof (induction rs arbitrary: i)
  case (Cons q rs)
  then show ?case by (cases i) (fastforce simp: ac_simps)+
qed simp

lemma admitted_calls_update:
  assumes "i < length (gs_reporters s)"
  shows "admitted_calls (s\<lparr>gs_reporters := (gs_reporters s)[i := r]\<rparr>) + admitted_call (gs_reporters s ! i) =
    admitted_calls s + admitted_call r"
  using admitted_update [OF assms, of r] by (simp add: admitted_calls_def)

lemmas gate_operations = enter_count_def enter_check_def call_callback_def leave_gate_def

text \<open>With the flag set, a step only makes a call that was admitted before.\<close>

lemma flagged_step:
  assumes "gate_step s s'" "gs_retired s"
  shows "gs_retired s' \<and> (\<exists>late. gs_calls s' = gs_calls s @ late \<and> mset late + admitted_calls s' = admitted_calls s)"
  using assms(1)
proof (cases rule: gate_step.cases)
  case (count i r call)
  with assms(2) admitted_calls_update [of i s "Counted call"] show ?thesis
    by (simp add: enter_count_def admitted_calls_def)
next
  case (check i call)
  with assms(2) admitted_calls_update [of i s BackingOut] show ?thesis
    by (simp add: enter_check_def admitted_calls_def)
next
  case (call_c i call)
  with assms(2) admitted_calls_update [of i s "InCallback call"] show ?thesis
    by (simp add: call_callback_def admitted_calls_def)
next
  case (back_out i)
  with assms(2) admitted_calls_update [of i s Outside] show ?thesis
    by (simp add: leave_gate_def admitted_calls_def)
next
  case (exit_gate i call)
  with assms(2) admitted_calls_update [of i s Outside] show ?thesis
    by (simp add: leave_gate_def admitted_calls_def)
next
  case retire
  then show ?thesis
    using assms(2) by (auto simp: retire_step.simps admitted_calls_def split: retirer.splits if_splits)
qed (use assms(2) in \<open>simp add: admitted_calls_def\<close>)

lemma flagged_runs:
  "gate_steps s s' \<Longrightarrow> gs_retired s \<Longrightarrow>
     gs_retired s' \<and> (\<exists>late. gs_calls s' = gs_calls s @ late \<and> mset late + admitted_calls s' = admitted_calls s)"
proof (induction rule: runs.induct)
  case (more s s' s'')
  then obtain late where a: "gs_retired s'" "gs_calls s' = gs_calls s @ late" "mset late + admitted_calls s' = admitted_calls s"
    by blast
  from flagged_step [OF more.hyps(2) a(1)] obtain late' where
    b: "gs_retired s''" "gs_calls s'' = gs_calls s' @ late'" "mset late' + admitted_calls s'' = admitted_calls s'" by blast
  have "mset (late @ late') + admitted_calls s'' = mset late + (mset late' + admitted_calls s'')" by simp
  also have "\<dots> = admitted_calls s" unfolding b(3) by (rule a(3))
  finally have "mset (late @ late') + admitted_calls s'' = admitted_calls s" .
  moreover have "gs_calls s'' = gs_calls s @ (late @ late')" using a(2) b(2) by simp
  ultimately show ?case using b(1) by blast
qed simp

text \<open>Once \<open>retire\<close> has returned, nobody is admitted any more and no step makes a call.\<close>

lemma retired_flag: "gate_ok s \<Longrightarrow> gs_retirer s = Retired \<Longrightarrow> gs_retired s \<and> list_all (\<lambda>r. \<not> in_callback r) (gs_reporters s)"
  by (simp add: gate_ok_def)

lemma retired_step:
  assumes "gate_ok s" "gs_retirer s = Retired" "gate_step s s'"
  shows "gs_retirer s' = Retired \<and> gs_calls s' = gs_calls s"
  using assms(3) retired_flag [OF assms(1,2)] assms(2)
  by (cases rule: gate_step.cases)
    (auto simp: enter_count_def enter_check_def leave_gate_def retire_step.simps list_all_length)

lemma gate_ok_default: "gate_ok gate_default"
  by (simp add: gate_ok_def gate_default_def counted_def)

text \<open>The boundary is the return of \<open>retire\<close>.\<close>

interpretation gate_done: callback_boundary gate_step gate_default gate_ok "\<lambda>s. gs_retirer s = Retired" gs_calls
    "\<lambda>s. list_all (\<lambda>r. \<not> in_callback r) (gs_reporters s)"
  by unfold_locales (auto simp: gate_ok_default intro: gate_ok_step dest: retired_step retired_flag)

text \<open>C10. The retirement boundary of the progress callback. Once \<open>retire\<close> has returned, which is before
  \<open>execute_uncommitted\<close> returns to the caller, no further call is ever made into the C callback and no thread is
  admitted to it or inside it, then or at any later time, whatever the worker threads do with their clones of the
  handle. From the moment \<open>retire\<close> has stored its flag, only the reports that had passed the check by then
  can still make their call, each of them once: a report that checks later makes none.\<close>

theorem retired_progress_is_silent:
  assumes "reachable_gate s" "gate_steps s s'"
  shows "(gs_retirer s = Retired \<longrightarrow> gs_calls s' = gs_calls s \<and> list_all (\<lambda>r. \<not> in_callback r) (gs_reporters s')) \<and>
    (gs_retired s \<longrightarrow> (\<exists>late. gs_calls s' = gs_calls s @ late \<and> mset late + admitted_calls s' = admitted_calls s))"
  using gate_done.closed_silent [OF assms(1) _ assms(2)] flagged_runs [OF assms(2)] by blast

text \<open>A worker that reports after retirement: it is counted, refused, and calls nothing.\<close>

definition demo_call :: progress_call where
  "demo_call = \<lparr>pg_event = StageComplete, pg_stage = ''train'', pg_total = 0, pg_unit = '''', pg_completed = 0\<rparr>"

definition demo_retired :: gate_system where
  "demo_retired = gate_default\<lparr>gs_retired := True, gs_retirer := Retired, gs_reporters := [Outside]\<rparr>"

lemma demo_retired_reachable: "reachable_gate demo_retired"
proof -
  let ?a = "gate_default\<lparr>gs_reporters := [Outside]\<rparr>"
  let ?b = "?a\<lparr>gs_retired := True, gs_retirer := Draining\<rparr>"
  have "reachable_gate ?a"
    using runs_one [of gate_step, OF spawn_reporter [of gate_default]] by (simp add: gate_default_def)
  then have "reachable_gate ?b"
    by (rule runs.more) (auto simp: retire_step.simps gate_default_def intro!: gate_step.retire)
  then show ?thesis
    by (rule runs.more) (auto simp: retire_step.simps gate_default_def demo_retired_def intro!: gate_step.retire)
qed

lemma demo_late_report: "gate_steps demo_retired (demo_retired\<lparr>gs_in_flight := 1, gs_reporters := [BackingOut]\<rparr>)"
proof -
  have "report_call (Complete_Stage ''train'') = Ok demo_call"
    by (simp add: stage_complete_def progress_c_string_ok demo_call_def)
  then have "gate_step demo_retired (enter_count 0 demo_call demo_retired)"
    using gate_step.count [of 0 demo_retired "Complete_Stage ''train''" demo_call] by (simp add: demo_retired_def)
  moreover have "gate_step (enter_count 0 demo_call demo_retired) (enter_check 0 demo_call (enter_count 0 demo_call demo_retired))"
    by (intro gate_step.check) (simp_all add: enter_count_def demo_retired_def)
  moreover have "enter_check 0 demo_call (enter_count 0 demo_call demo_retired) =
      demo_retired\<lparr>gs_in_flight := 1, gs_reporters := [BackingOut]\<rparr>"
    by (simp add: enter_check_def enter_count_def demo_retired_def gate_default_def)
  ultimately show ?thesis by (metis runs.more runs_one)
qed

text \<open>A worker that is admitted before the flag is stored and calls after it, and is waited for.\<close>

definition demo_racing :: gate_system where
  "demo_racing = gate_default\<lparr>gs_retired := True, gs_in_flight := 1, gs_reporters := [Admitted demo_call], gs_retirer := Draining\<rparr>"

lemma demo_racing_reachable: "reachable_gate demo_racing"
proof -
  let ?a = "gate_default\<lparr>gs_reporters := [Outside]\<rparr>"
  have "report_call (Complete_Stage ''train'') = Ok demo_call"
    by (simp add: stage_complete_def progress_c_string_ok demo_call_def)
  then have c: "gate_step ?a (enter_count 0 demo_call ?a)"
    using gate_step.count [of 0 ?a "Complete_Stage ''train''" demo_call] by simp
  have d: "gate_step (enter_count 0 demo_call ?a) (enter_check 0 demo_call (enter_count 0 demo_call ?a))"
    by (intro gate_step.check) (simp_all add: enter_count_def)
  have e: "gate_step (enter_check 0 demo_call (enter_count 0 demo_call ?a)) demo_racing"
    by (rule gate_step.retire) (simp add: retire_step.simps gate_default_def enter_count_def enter_check_def demo_racing_def)
  have "reachable_gate ?a"
    using runs_one [of gate_step, OF spawn_reporter [of gate_default]] by (simp add: gate_default_def)
  from runs.more [OF runs.more [OF runs.more [OF this c] d] e] show ?thesis .
qed

theorem retired_progress_is_silent_witness:
  "(gs_calls (demo_retired\<lparr>gs_in_flight := 1, gs_reporters := [BackingOut]\<rparr>) = gs_calls demo_retired \<and>
     list_all (\<lambda>r. \<not> in_callback r) (gs_reporters (demo_retired\<lparr>gs_in_flight := 1, gs_reporters := [BackingOut]\<rparr>))) \<and>
   (\<exists>late. gs_calls (call_callback 0 demo_call demo_racing) = gs_calls demo_racing @ late \<and>
     mset late + admitted_calls (call_callback 0 demo_call demo_racing) = {#demo_call#})"
proof
  show "gs_calls (demo_retired\<lparr>gs_in_flight := 1, gs_reporters := [BackingOut]\<rparr>) = gs_calls demo_retired \<and>
     list_all (\<lambda>r. \<not> in_callback r) (gs_reporters (demo_retired\<lparr>gs_in_flight := 1, gs_reporters := [BackingOut]\<rparr>))"
    using retired_progress_is_silent [OF demo_retired_reachable demo_late_report] by (simp add: demo_retired_def)
  have "gate_steps demo_racing (call_callback 0 demo_call demo_racing)"
    by (rule runs_one, rule call_c) (simp_all add: demo_racing_def)
  from retired_progress_is_silent [OF demo_racing_reachable this]
  show "\<exists>late. gs_calls (call_callback 0 demo_call demo_racing) = gs_calls demo_racing @ late \<and>
     mset late + admitted_calls (call_callback 0 demo_call demo_racing) = {#demo_call#}"
    by (simp add: demo_racing_def admitted_calls_def)
qed

end
