(* ===== verification/Index_Model.thy ===== *)
theory Index_Model
  imports Segment_Build
begin

text \<open>
  Model of \<open>src/index_model.rs\<close>: the standalone training of IVF centroids and PQ codebooks, and the export of the
  trained model with the provenance in its schema's metadata. The trainers and arrow-rs's export are the
  record \<open>train_api\<close>; an exported schema is the field it describes.
\<close>

subsection \<open>Inputs\<close>

record ('ds, 'fld, 'arr) train_api =
  ta_element_type :: "'ds \<Rightarrow> string \<Rightarrow> data_type outcome"
  ta_validate_distance :: "metric_type \<Rightarrow> data_type \<Rightarrow> unit outcome"
  ta_build_ivf :: "'ds \<Rightarrow> string \<Rightarrow> usize \<Rightarrow> metric_type \<Rightarrow> usize \<Rightarrow> u32 list option \<Rightarrow>
                     ('fld, 'arr) fixed_size_list option outcome"
  ta_build_pq :: "'ds \<Rightarrow> string \<Rightarrow> usize \<Rightarrow> metric_type \<Rightarrow> usize \<Rightarrow> usize \<Rightarrow> ('fld, 'arr) fixed_size_list option \<Rightarrow>
                    u32 list option \<Rightarrow> ('fld, 'arr) fixed_size_list outcome"
  ta_item_field :: "data_type \<Rightarrow> 'fld"
  ta_into_ffi :: "('fld, 'arr) fixed_size_list \<Rightarrow> ffi_array outcome"
  ta_schema_try_from :: "model_field \<Rightarrow> unit outcome"
  ta_show_type :: "data_type \<Rightarrow> string"

text \<open>The loop over the fragments: each id is new and exists.\<close>

fun check_fragments :: "u64 \<Rightarrow> u32 list \<Rightarrow> nat \<Rightarrow> u32 list \<Rightarrow> u32 list \<Rightarrow> unit outcome" where
  "check_fragments version existing i [] seen = Ok ()"
| "check_fragments version existing i (f # fs) seen =
     (if f \<in> set seen then Err (invalid_input (fragment_entry i @ '' is duplicate fragment id '' @ show_u f))
      else if f \<notin> set existing then
        Err (invalid_input (fragment_entry i @ ''='' @ show_u f @ '' does not exist in dataset version '' @ show_u version))
      else check_fragments version existing (Suc i) fs (f # seen))"

definition parse_fragments :: "'ds segment_api \<Rightarrow> 'ds \<Rightarrow> u32 list ptr \<Rightarrow> usize \<Rightarrow> u32 list option outcome" where
  "parse_fragments sg d ids count =
     obind (fragment_list_of ids count) (\<lambda>fragment_ids.
     case fragment_ids of
       None \<Rightarrow> Ok None
     | Some fs \<Rightarrow> obind (check_fragments (sx_version sg d) (existing_fragments sg d) 0 fs []) (\<lambda>_. Ok (Some fs)))"

text \<open>The out structs are NULL, empty (released), or live.\<close>

definition parse_common ::
  "'ds segment_api \<Rightarrow> ('ds, 'fld, 'arr) train_api \<Rightarrow> 'ds lance_dataset ptr \<Rightarrow> string ptr \<Rightarrow> i32 \<Rightarrow> u32 list ptr \<Rightarrow> usize \<Rightarrow>
     ffi_array ptr \<Rightarrow> model_field option ptr \<Rightarrow> ('ds \<times> string \<times> usize \<times> metric_type \<times> u32 list option) outcome" where
  "parse_common sg ta dataset column metric ids count out_array out_schema =
     (case (dataset, column, out_array, out_schema) of
        (Some h, Some _, Some arr, Some sch) \<Rightarrow>
          reject_if (\<not> fa_released arr \<or> sch \<noteq> None)
            (invalid_input ''out_array and out_schema must be empty (release callbacks must be NULL)'') (
          obind (metric_from_c metric) (\<lambda>m.
          obind (required_string column (invalid_input ''column must not be NULL or empty'')) (\<lambda>col.
          let d = arc_val (snapshot h) in
          obind (sx_vector_dim sg d col) (\<lambda>dim.
          obind (ta_element_type ta d col) (\<lambda>element_type.
          reject_if (element_type \<noteq> PrimT Float32)
            (invalid_input (''column '' @ quoted col @ '' must have Float32 vector elements, got '' @ ta_show_type ta element_type)) (
          obind (ta_validate_distance ta (to_distance m) element_type) (\<lambda>_.
          obind (parse_fragments sg d ids count) (\<lambda>fragments.
          Ok (d, col, dim, m, fragments)))))))))
      | _ \<Rightarrow> Err (invalid_input ''dataset, column, out_array, and out_schema must not be NULL''))"

subsection \<open>Export\<close>

definition export_model ::
  "('ds, 'fld, 'arr) train_api \<Rightarrow> data_type \<Rightarrow> ('fld, 'arr) fixed_size_list \<Rightarrow> (string \<rightharpoonup> string) \<Rightarrow>
     (ffi_array \<times> model_field) outcome" where
  "export_model ta list_type model metadata =
     obind (ta_into_ffi ta model) (\<lambda>array.
     let field = \<lparr>mo_type = list_type, mo_metadata = metadata\<rparr> in
     obind (ta_schema_try_from ta field) (\<lambda>_. Ok (array, field)))"

definition ivf_metadata :: "metric_type \<Rightarrow> usize \<Rightarrow> uuid \<Rightarrow> string \<rightharpoonup> string" where
  "ivf_metadata metric dim id1 =
     Map.empty(MODEL_KIND_KEY \<mapsto> ''ivf'', MODEL_METRIC_KEY \<mapsto> show_i (metric_value metric),
       MODEL_DIMENSION_KEY \<mapsto> show_u dim, IVF_MODEL_ID_KEY \<mapsto> show_uuid id1)"

definition pq_metadata :: "metric_type \<Rightarrow> usize \<Rightarrow> uuid \<Rightarrow> usize \<Rightarrow> u32 \<Rightarrow> string \<rightharpoonup> string" where
  "pq_metadata metric dim id1 subs bits =
     Map.empty(MODEL_KIND_KEY \<mapsto> ''pq'', MODEL_METRIC_KEY \<mapsto> show_i (metric_value metric),
       MODEL_DIMENSION_KEY \<mapsto> show_u dim, IVF_MODEL_ID_KEY \<mapsto> show_uuid id1,
       PQ_SUB_VECTORS_KEY \<mapsto> show_u subs, PQ_BITS_KEY \<mapsto> show_u bits)"

subsection \<open>Training\<close>

text \<open>\<open>Uuid::new_v4\<close> gives \<open>new_id\<close>. The list type of a model is that of its values and list size.\<close>

definition list_type_of :: "('m, 'fld, 'arr) arrow_api \<Rightarrow> ('fld, 'arr) fixed_size_list \<Rightarrow> data_type" where
  "list_type_of aa m = FixedSizeListT (aa_data_type aa (fl_values m)) (fl_value_length m)"

definition train_ivf_model_inner ::
  "'ds segment_api \<Rightarrow> ('ds, 'fld, 'arr) train_api \<Rightarrow> ('m, 'fld, 'arr) arrow_api \<Rightarrow> uuid \<Rightarrow> 'ds lance_dataset ptr \<Rightarrow> string ptr \<Rightarrow>
     u32 \<Rightarrow> i32 \<Rightarrow> u32 list ptr \<Rightarrow> usize \<Rightarrow> ffi_array ptr \<Rightarrow> model_field option ptr \<Rightarrow> (ffi_array \<times> model_field) outcome" where
  "train_ivf_model_inner sg ta aa new_id dataset column num_partitions metric ids count out_array out_schema =
     reject_if (num_partitions = 0) (invalid_input ''num_partitions must be > 0, got 0'') (
     obind (parse_common sg ta dataset column metric ids count out_array out_schema) (\<lambda>(d, col, dim, m, fragments).
     obind (ta_build_ivf ta d col dim (to_distance m) (ucast num_partitions) fragments) (\<lambda>model.
     obind (ok_or model (internal_error ''IVF trainer returned no centroids'')) (\<lambda>centroids.
     reject_if (fl_len centroids \<noteq> ucast num_partitions \<or> fl_value_length centroids \<noteq> ucast dim)
       (internal_error (''IVF trainer returned length '' @ show_u (fl_len centroids) @ '', list_size '' @
          show_i (fl_value_length centroids) @ ''; expected length '' @ show_u num_partitions @ '', list_size '' @ show_u dim))
       (export_model ta (list_type_of aa centroids) centroids (ivf_metadata m dim new_id))))))"

text \<open>PQ training: what is checked before the centroids are imported, and what follows.\<close>

definition pq_train_inputs ::
  "'ds segment_api \<Rightarrow> ('ds, 'fld, 'arr) train_api \<Rightarrow> ('m, 'fld, 'arr) arrow_api \<Rightarrow> 'm schema_memory \<Rightarrow> 'ds lance_dataset ptr \<Rightarrow>
     string ptr \<Rightarrow> u32 \<Rightarrow> u32 \<Rightarrow> i32 \<Rightarrow> u32 list ptr \<Rightarrow> usize \<Rightarrow> addr \<Rightarrow> ffi_array ptr \<Rightarrow> model_field option ptr \<Rightarrow>
     ('ds \<times> string \<times> usize \<times> metric_type \<times> u32 list option \<times> model_provenance) outcome" where
  "pq_train_inputs sg ta aa mem dataset column num_sub_vectors num_bits metric ids count ivf_schema out_array out_schema =
     reject_if (num_sub_vectors = 0) (invalid_input ''num_sub_vectors must be > 0, got 0'') (
     reject_if (num_bits \<notin> {4, 8})
       (invalid_input (''num_bits must be 4 or 8 for Lance PQ indexes, got '' @ show_u num_bits)) (
     obind (parse_common sg ta dataset column metric ids count out_array out_schema) (\<lambda>(d, col, dim, m, fragments).
     let subs = ucast num_sub_vectors in
     reject_if (dim mod subs \<noteq> 0)
       (invalid_input (''dimension '' @ show_u dim @ '' must be divisible by num_sub_vectors '' @ show_u subs)) (
     obind (model_provenance_of (aa_schema aa) (aa_parse_uuid aa) mem ivf_schema ''ivf_centroids'') (\<lambda>provenance.
     reject_if (mp_kind provenance \<noteq> ''ivf'' \<or> mp_metric provenance \<noteq> metric_value m \<or> mp_dimension provenance \<noteq> dim)
       (invalid_input (''ivf_centroids provenance must be kind=ivf, metric='' @ show_i (metric_value m) @ '', dimension='' @
          show_u dim @ ''; got kind='' @ mp_kind provenance @ '', metric='' @ show_i (mp_metric provenance) @
          '', dimension='' @ show_u (mp_dimension provenance)))
       (Ok (d, col, dim, m, fragments, provenance)))))))"

definition train_codebook ::
  "('ds, 'fld, 'arr) train_api \<Rightarrow> ('m, 'fld, 'arr) arrow_api \<Rightarrow> 'ds \<Rightarrow> string \<Rightarrow> usize \<Rightarrow> metric_type \<Rightarrow> u32 list option \<Rightarrow>
     uuid \<Rightarrow> usize \<Rightarrow> u32 \<Rightarrow> ('fld, 'arr) fixed_size_list \<Rightarrow> (ffi_array \<times> model_field) outcome" where
  "train_codebook ta aa d col dim m fragments ivf_id subs num_bits centroids =
     reject_if (fl_len centroids = 0 \<or> fl_value_length centroids \<noteq> ucast dim \<or>
         aa_data_type aa (fl_values centroids) \<noteq> PrimT Float32)
       (invalid_input (''ivf_centroids must be a non-empty FixedSizeList<Float32> with list_size '' @ show_u dim @
          '', got length '' @ show_u (fl_len centroids) @ '', type '' @ aa_show_type aa (aa_list_type aa centroids))) (
     let residual = (case m of L2 \<Rightarrow> Some centroids | Cosine \<Rightarrow> Some centroids | Dot \<Rightarrow> None | Hamming \<Rightarrow> None) in
     obind (ta_build_pq ta d col dim (to_distance m) subs (ucast num_bits) residual fragments) (\<lambda>model.
     let values1 = fl_values model in
     obind (aa_try_new aa (ta_item_field ta (aa_data_type aa values1)) (ucast (dim div subs)) values1) (\<lambda>codebook.
     obind (ok_or (checked_shl 1 num_bits) (invalid_input (''1 << num_bits ('' @ show_u num_bits @ '') overflows usize''))) (\<lambda>codewords.
     obind (ok_or (checked_mul subs codewords)
       (invalid_input (''num_sub_vectors '' @ show_u subs @ '' * codewords '' @ show_u codewords @ '' overflows usize''))) (\<lambda>expected.
     reject_if (fl_len codebook \<noteq> expected)
       (internal_error (''PQ trainer returned length '' @ show_u (fl_len codebook) @ ''; expected '' @ show_u expected))
       (export_model ta (list_type_of aa codebook) codebook (pq_metadata m dim ivf_id subs num_bits)))))))"

definition train_pq_model_inner ::
  "'ds segment_api \<Rightarrow> ('ds, 'fld, 'arr) train_api \<Rightarrow> ('m, 'fld, 'arr) arrow_api \<Rightarrow> 'm schema_memory \<Rightarrow> 'ds lance_dataset ptr \<Rightarrow>
     string ptr \<Rightarrow> u32 \<Rightarrow> u32 \<Rightarrow> i32 \<Rightarrow> u32 list ptr \<Rightarrow> usize \<Rightarrow> ffi_array ptr \<Rightarrow> addr \<Rightarrow> ffi_array ptr \<Rightarrow> model_field option ptr \<Rightarrow>
     (ffi_array \<times> model_field) outcome \<times> ffi_array ptr" where
  "train_pq_model_inner sg ta aa mem dataset column num_sub_vectors num_bits metric ids count ivf_centroids ivf_schema
       out_array out_schema =
     (case pq_train_inputs sg ta aa mem dataset column num_sub_vectors num_bits metric ids count ivf_schema out_array out_schema of
        Err e \<Rightarrow> (Err e, ivf_centroids)
      | Panic p \<Rightarrow> (Panic p, ivf_centroids)
      | Ok (d, col, dim, m, fragments, provenance) \<Rightarrow>
          (let (borrowed, slot) = borrow_model_array aa mem ivf_centroids ivf_schema ''ivf_centroids''
           in (obind borrowed (\<lambda>arr.
               obind (fixed_size_list_model aa arr ''ivf_centroids'')
                 (train_codebook ta aa d col dim m fragments (mp_ivf_id provenance) (ucast num_sub_vectors) num_bits)), slot)))"

text \<open>The C functions: the out structs are written on success.\<close>

definition train_entry where
  "train_entry body out_array out_schema t =
     (let (rc, t1) = ffi_try (obind body (\<lambda>_. Ok (0 :: int))) (- 1) t
      in case body of
           Ok (array, field) \<Rightarrow> (rc, t1, Some array, Some (Some field))
         | _ \<Rightarrow> (rc, t1, out_array, out_schema))"

definition lance_index_train_ivf_model where
  "lance_index_train_ivf_model sg ta aa new_id dataset column num_partitions metric ids count out_array out_schema t =
     train_entry (train_ivf_model_inner sg ta aa new_id dataset column num_partitions metric ids count out_array out_schema)
       out_array out_schema t"

definition lance_index_train_pq_model where
  "lance_index_train_pq_model sg ta aa mem dataset column num_sub_vectors num_bits metric ids count ivf_centroids ivf_schema
       out_array out_schema t =
     (let (body, slot) = train_pq_model_inner sg ta aa mem dataset column num_sub_vectors num_bits metric ids count
            ivf_centroids ivf_schema out_array out_schema
      in (train_entry body out_array out_schema t, slot))"

subsection \<open>Printing and parsing integers\<close>

text \<open>The printer's digits, read back.\<close>

definition digits_int :: "int \<Rightarrow> string \<Rightarrow> int" where
  "digits_int r s = foldl (\<lambda>r c. r * 10 + (int (of_char c) - 48)) r s"

lemma parse_digits_Inr:
  assumes "list_all is_digit s" "0 \<le> r" "lo \<le> 0"
  shows "parse_digits False lo hi s r = Inr v \<longleftrightarrow> v = digits_int r s \<and> (s = [] \<or> digits_int r s \<le> hi)"
  using assms
proof (induction s arbitrary: r)
  case (Cons c s)
  let ?n = "r * 10 + (int (of_char c) - 48)"
  have d: "is_digit c" "list_all is_digit s" using Cons.prems by simp_all
  then have "0 \<le> ?n" using Cons.prems by (simp add: is_digit_def)
  have mono: "n \<le> digits_int n s" if "0 \<le> n" for n using that d(2)
  proof (induction s arbitrary: n)
    case (Cons x xs)
    then have "n \<le> n * 10 + (int (of_char x) - 48)" "0 \<le> n * 10 + (int (of_char x) - 48)" by (simp_all add: is_digit_def)
    with Cons show ?case by (fastforce simp: digits_int_def)
  qed (simp add: digits_int_def)
  have step: "digits_int r (c # s) = digits_int ?n s" by (simp add: digits_int_def)
  show ?case
    using Cons.IH [OF d(2) \<open>0 \<le> ?n\<close> Cons.prems(3)] d(1) Cons.prems(3) \<open>0 \<le> ?n\<close> mono [OF \<open>0 \<le> ?n\<close>]
    by (auto simp: Let_def step)
qed (auto simp: digits_int_def)

lemma digit_char_is_digit: "is_digit (digit_char n) \<and> (of_char (digit_char n) :: nat) = 48 + n mod 10"
proof -
  have "n mod 10 < 10" by simp
  then have "(of_char (char_of (48 + n mod 10) :: char) :: nat) = 48 + n mod 10" by simp
  with \<open>n mod 10 < 10\<close> show ?thesis by (simp add: is_digit_def)
qed

lemma show_nat_digits: "list_all is_digit (show_nat n) \<and> digits_int 0 (show_nat n) = int n \<and> show_nat n \<noteq> []"
proof (induction n rule: show_nat.induct)
  case (1 n)
  have c: "is_digit (digit_char n)" "(of_char (digit_char n) :: nat) = 48 + n mod 10"
    using digit_char_is_digit [of n] by blast+
  have app: "digits_int 0 (s @ [c]) = digits_int 0 s * 10 + (int (of_char c) - 48)" for s c by (simp add: digits_int_def)
  show ?case
  proof (cases "n < 10")
    case True
    then have "show_nat n = [] @ [digit_char n]" by (simp add: show_nat.simps del: digit_char.simps)
    with True c show ?thesis by (simp add: digits_int_def del: digit_char.simps)
  next
    case False
    then have "show_nat n = show_nat (n div 10) @ [digit_char n]" by (simp add: show_nat.simps [of n] del: digit_char.simps)
    moreover have "int n = int (n div 10) * 10 + int (n mod 10)" by (metis div_mult_mod_eq of_nat_add of_nat_mult of_nat_numeral)
    ultimately show ?thesis using False 1 c app by (simp del: digit_char.simps)
  qed
qed

lemma parse_int_show_nat: "lo \<le> 0 \<Longrightarrow> int n \<le> hi \<Longrightarrow> parse_int lo hi (show_nat n) = Inr (int n)"
proof -
  assume a: "lo \<le> 0" "int n \<le> hi"
  obtain c s where s: "show_nat n = c # s" using show_nat_digits [of n] by (cases "show_nat n") auto
  have "is_digit c" using show_nat_digits [of n] by (simp add: s)
  then have "c \<noteq> CHR 0x2B" "c \<noteq> CHR 0x2D" by (auto simp: is_digit_def)
  moreover have "parse_digits False lo hi (show_nat n) 0 = Inr (int n)"
    using parse_digits_Inr [of "show_nat n" 0 lo hi "int n"] show_nat_digits [of n] a by simp
  ultimately show ?thesis by (simp add: parse_int_def s)
qed

lemma parse_unsigned_show_u [simp]: "parse_unsigned (show_u w) = Inr w"
proof -
  have "int (unat w) \<le> 2 ^ LENGTH('a) - 1" using uint_bounded [of w] by simp
  then show ?thesis unfolding parse_unsigned_def show_u_def by (subst parse_int_show_nat) simp_all
qed

lemma parse_metric_show [simp]: "parse_signed (show_i (metric_value m)) = Inr (metric_value m)"
proof -
  have "0 \<le> sint (metric_value m)" "sint (metric_value m) \<le> 3" by (cases m; simp)+
  then show ?thesis unfolding parse_signed_def show_i_def by (subst if_not_P, simp, subst parse_int_show_nat) simp_all
qed

lemma parsed_Inr [simp]: "parsed f (Inr v) = Ok v"
  by (simp add: parsed_def)

subsection \<open>What training returns\<close>

lemma parse_common_Ok:
  assumes "parse_common sg ta dataset column metric ids count out_array out_schema = Ok (d, col, dim, m, fs)"
  obtains h where "dataset = Some h" "d = arc_val (snapshot h)" "column = Some col" "col \<noteq> []" "metric_from_c metric = Ok m"
    "sx_vector_dim sg d col = Ok dim" "ta_element_type ta d col = Ok (PrimT Float32)"
  using assms unfolding parse_common_def
  by (auto split: option.splits simp: reject_if_eq_Ok obind_eq_Ok Let_def required_string_eq_Ok)

lemma export_model_Ok:
  "export_model ta ty model metadata = Ok (array, field) \<longleftrightarrow>
     ta_into_ffi ta model = Ok array \<and> field = \<lparr>mo_type = ty, mo_metadata = metadata\<rparr> \<and> ta_schema_try_from ta field = Ok ()"
  unfolding export_model_def Let_def obind_eq_Ok by auto

lemma train_ivf_model_Ok:
  assumes "train_ivf_model_inner sg ta aa new_id dataset column k metric ids count out_array out_schema = Ok (array, field)"
  obtains h col m dim centroids where "dataset = Some h" "column = Some col" "metric_from_c metric = Ok m"
    "sx_vector_dim sg (arc_val (snapshot h)) col = Ok dim" "k \<noteq> 0"
    "fl_len centroids = ucast k" "fl_value_length centroids = ucast dim" "ta_into_ffi ta centroids = Ok array"
    "field = \<lparr>mo_type = list_type_of aa centroids, mo_metadata = ivf_metadata m dim new_id\<rparr>"
  using assms unfolding train_ivf_model_inner_def
  by (auto simp: reject_if_eq_Ok obind_eq_Ok ok_or_eq_Ok export_model_Ok elim!: parse_common_Ok)

lemma pq_train_inputs_Ok:
  assumes "pq_train_inputs sg ta aa mem dataset column subs bits metric ids count schema out_array out_schema =
    Ok (d, col, dim, m, fs, provenance)"
  obtains h where "dataset = Some h" "d = arc_val (snapshot h)" "column = Some col" "metric_from_c metric = Ok m"
    "sx_vector_dim sg d col = Ok dim" "subs \<noteq> 0" "bits \<in> {4, 8}"
    "model_provenance_of (aa_schema aa) (aa_parse_uuid aa) mem schema ''ivf_centroids'' = Ok provenance"
    "mp_kind provenance = ''ivf''" "mp_metric provenance = metric_value m" "mp_dimension provenance = dim"
proof -
  from assms have "subs \<noteq> 0" "bits \<in> {4, 8}" "mp_kind provenance = ''ivf''" "mp_metric provenance = metric_value m"
    "mp_dimension provenance = dim" "parse_common sg ta dataset column metric ids count out_array out_schema = Ok (d, col, dim, m, fs)"
    "model_provenance_of (aa_schema aa) (aa_parse_uuid aa) mem schema ''ivf_centroids'' = Ok provenance"
    unfolding pq_train_inputs_def Let_def reject_if_eq_Ok obind_eq_Ok by (auto simp: reject_if_eq_Ok obind_eq_Ok)
  with that show ?thesis by (elim parse_common_Ok) blast
qed

lemma train_codebook_Ok:
  "train_codebook ta aa d col dim m fs ivf_id subs bits centroids = Ok (array, field) \<Longrightarrow>
     \<exists>codebook. ta_into_ffi ta codebook = Ok array \<and>
       field = \<lparr>mo_type = list_type_of aa codebook, mo_metadata = pq_metadata m dim ivf_id subs bits\<rparr>"
  unfolding train_codebook_def Let_def reject_if_eq_Ok obind_eq_Ok export_model_Ok by blast

lemmas model_keys = MODEL_KIND_KEY_def MODEL_METRIC_KEY_def MODEL_DIMENSION_KEY_def IVF_MODEL_ID_KEY_def
  PQ_SUB_VECTORS_KEY_def PQ_BITS_KEY_def

lemma ivf_metadata_keys:
  "ivf_metadata m dim i MODEL_KIND_KEY = Some ''ivf''" "ivf_metadata m dim i MODEL_METRIC_KEY = Some (show_i (metric_value m))"
  "ivf_metadata m dim i MODEL_DIMENSION_KEY = Some (show_u dim)" "ivf_metadata m dim i IVF_MODEL_ID_KEY = Some (show_uuid i)"
  "ivf_metadata m dim i PQ_SUB_VECTORS_KEY = None" "ivf_metadata m dim i PQ_BITS_KEY = None"
  unfolding ivf_metadata_def by (simp_all add: model_keys)

lemma pq_metadata_keys:
  "pq_metadata m dim i s b MODEL_KIND_KEY = Some ''pq''" "pq_metadata m dim i s b MODEL_METRIC_KEY = Some (show_i (metric_value m))"
  "pq_metadata m dim i s b MODEL_DIMENSION_KEY = Some (show_u dim)" "pq_metadata m dim i s b IVF_MODEL_ID_KEY = Some (show_uuid i)"
  "pq_metadata m dim i s b PQ_SUB_VECTORS_KEY = Some (show_u s)" "pq_metadata m dim i s b PQ_BITS_KEY = Some (show_u b)"
  unfolding pq_metadata_def by (simp_all add: model_keys)

lemma map_err_text_Ok [simp]: "map_err_text f (Ok v) = Ok v"
  by (simp add: map_err_text_eq_Ok)

text \<open>A subvector count is printed from a \<open>usize\<close> and parsed as a \<open>u32\<close>.\<close>

lemma parse_widened: "parse_unsigned (show_u (ucast w :: usize)) = Inr w" for w :: u32
proof -
  have "show_u (ucast w :: usize) = show_u w" by (simp add: show_u_def unat_ucast_u32)
  then show ?thesis by simp
qed

lemma ivf_provenance:
  "parse (show_uuid i) = Ok i \<Longrightarrow> provenance_of parse (ivf_metadata m dim i) name =
     Ok \<lparr>mp_kind = ''ivf'', mp_metric = metric_value m, mp_dimension = dim, mp_ivf_id = i,
         mp_num_sub_vectors = None, mp_num_bits = None\<rparr>"
  unfolding provenance_of_def required_key_def optional_u32_def ivf_metadata_keys by simp

lemma pq_provenance:
  "parse (show_uuid i) = Ok i \<Longrightarrow> provenance_of parse (pq_metadata m dim i (ucast subs) bits) name =
     Ok \<lparr>mp_kind = ''pq'', mp_metric = metric_value m, mp_dimension = dim, mp_ivf_id = i,
         mp_num_sub_vectors = Some subs, mp_num_bits = Some bits\<rparr>"
  unfolding provenance_of_def required_key_def optional_u32_def pq_metadata_keys by (simp add: parse_widened)

text \<open>C34. Models that the library trained pass its own provenance checks: take centroids trained for a column, hand
  them to the PQ trainer (their schema validates back to the exported field), and give both exported
  schemas to a vector segment builder with the trained metric, subvectors and bits. The metadata parse
  back, and neither the check of the centroids nor that of the codebook rejects them; in particular the
  codebook is recognised as trained on these centroids. What the uuid crate prints it reads back.\<close>

theorem trained_models_match:
  assumes "aa_parse_uuid aa (show_uuid new_id) = Ok new_id"
    and "train_ivf_model_inner sg ta aa new_id (Some h) column k metric ids count out_array out_schema = Ok (centroids, ivf)"
    and "validate_model_schema (aa_schema aa) mem schema ''ivf_centroids'' = Ok ivf"
    and "train_pq_model_inner sg ta aa mem (Some h) column (vp_num_sub_vectors params) (effective_bits params) metric ids' count'
      slot schema out_array' out_schema' = (Ok (codebook, pq), slot')"
    and "metric_from_c metric = Ok (vp_metric params)"
  shows "\<exists>col dim v w. column = Some col \<and> sx_vector_dim sg (arc_val (snapshot h)) col = Ok dim \<and>
    provenance_of (aa_parse_uuid aa) (mo_metadata ivf) ''ivf_centroids'' = Ok v \<and>
    provenance_of (aa_parse_uuid aa) (mo_metadata pq) ''pq_codebook'' = Ok w \<and>
    check_centroid_provenance params dim (Some v) = Ok () \<and> check_codebook_provenance params dim (Some v) (Some w) = Ok ()"
proof -
  from train_ivf_model_Ok [OF assms(2)] assms(5) obtain col dim where c: "column = Some col"
      "sx_vector_dim sg (arc_val (snapshot h)) col = Ok dim" and ivf: "mo_metadata ivf = ivf_metadata (vp_metric params) dim new_id"
    by (metis model_field.select_convs(2) option.inject outcome.inject(1))
  from assms(4) obtain d col' dim' m fs provenance where
    inputs: "pq_train_inputs sg ta aa mem (Some h) column (vp_num_sub_vectors params) (effective_bits params) metric ids' count' schema
      out_array' out_schema' = Ok (d, col', dim', m, fs, provenance)"
    and pq: "mo_metadata pq = pq_metadata m dim' (mp_ivf_id provenance) (ucast (vp_num_sub_vectors params)) (effective_bits params)"
    unfolding train_pq_model_inner_def Let_def
    by (auto split: outcome.splits prod.splits simp: obind_eq_Ok dest!: train_codebook_Ok)
  from inputs have "m = vp_metric params" "dim' = dim" "provenance_of (aa_parse_uuid aa) (mo_metadata ivf) ''ivf_centroids'' = Ok provenance"
    using c assms(3,5) by (auto elim!: pq_train_inputs_Ok simp: model_provenance_of_def)
  note prov = ivf_provenance [where parse = "aa_parse_uuid aa" and i = new_id, OF assms(1)]
    pq_provenance [where parse = "aa_parse_uuid aa" and i = new_id, OF assms(1)]
  have "provenance = \<lparr>mp_kind = ''ivf'', mp_metric = metric_value (vp_metric params), mp_dimension = dim, mp_ivf_id = new_id,
      mp_num_sub_vectors = None, mp_num_bits = None\<rparr>"
    using \<open>_ = Ok provenance\<close> ivf by (simp add: prov)
  with \<open>m = _\<close> \<open>dim' = dim\<close> pq ivf c show ?thesis
    by (simp add: prov check_centroid_provenance_Ok check_codebook_provenance_Ok)
qed

definition demo_train_api :: "(unit, unit, demo_array) train_api" where
  "demo_train_api =
     \<lparr>ta_element_type = (\<lambda>_ _. Ok (PrimT Float32)), ta_validate_distance = (\<lambda>_ _. Ok ()),
      ta_build_ivf = (\<lambda>_ _ dim m k fs. Ok (Some (demo_list_array (ucast dim) k))),
      ta_build_pq = (\<lambda>_ _ dim m subs bits c fs. Ok (demo_list_array 4 16)),
      ta_item_field = (\<lambda>_. ()), ta_into_ffi = (\<lambda>m. Ok (demo_ffi_list (fl_value_length m) (fl_len m))),
      ta_schema_try_from = (\<lambda>_. Ok ()), ta_show_type = (\<lambda>_. ''type'')\<rparr>"

definition demo_pq_params :: vector_index_params where
  "demo_pq_params = \<lparr>vp_index_type = IvfPq, vp_metric = L2, vp_num_partitions = 2, vp_num_sub_vectors = 1, vp_num_bits = 4,
     vp_max_iterations = 0, vp_hnsw_m = 0, vp_hnsw_ef_construction = 0, vp_sample_rate = 0\<rparr>"

definition demo_ivf_field :: model_field where
  "demo_ivf_field = \<lparr>mo_type = FixedSizeListT (PrimT Float32) 4, mo_metadata = ivf_metadata L2 4 (replicate 16 7)\<rparr>"

definition demo_handle :: "unit lance_dataset" where
  "demo_handle = \<lparr>ds_inner = Arc 1 (), ds_lock_poisoned = False\<rparr>"

abbreviation demo_arrow :: "(unit, unit, demo_array) arrow_api" where
  "demo_arrow \<equiv> demo_arrow_api 4 (ivf_metadata L2 4 (replicate 16 7))"

lemma demo_parse_common:
  "parse_common demo_sx_api demo_train_api (Some demo_handle) (Some ''vec'') 0 None 0 (Some ffi_array_empty) (Some None) =
     Ok ((), ''vec'', 4, L2, None)"
  by (simp add: parse_common_def ffi_array_empty_def metric_from_c_def required_string_def to_str_ok_def demo_sx_api_def
      demo_train_api_def parse_fragments_def fragment_list_of_def Let_def)

lemma demo_train_ivf:
  "train_ivf_model_inner demo_sx_api demo_train_api demo_arrow (replicate 16 7) (Some demo_handle) (Some ''vec'') 2 0 None 0
     (Some ffi_array_empty) (Some None) = Ok (demo_ffi_list 4 2, demo_ivf_field)"
  by (simp add: train_ivf_model_inner_def demo_parse_common)
    (simp add: demo_train_api_def demo_list_array_def export_model_def list_type_of_def demo_arrow_api_def demo_ivf_field_def)

lemma demo_schema: "validate_model_schema (aa_schema demo_arrow) demo_memory 16 name = Ok demo_ivf_field"
  by (simp add: demo_preflight validate_model_schema_def demo_arrow_api_def demo_ivf_field_def)

lemma demo_borrow:
  "borrow_model_array demo_arrow demo_memory (Some (demo_ffi_list 4 2)) 16 name = (Ok (DemoLists 4 2), Some (demo_ffi_list 4 2))"
proof -
  let ?child = "FfiArray False 8 0 0 2 0 (Some (\<lambda>_. 64)) None False"
  have "check_list_layer (demo_ffi_list 4 2) name = Ok ?child" "check_values_layer ?child name = Ok ()"
    by (simp_all add: check_list_layer_def check_values_layer_def validate_common_def demo_ffi_list_def buffer_at_def)
  moreover have "check_coverage (demo_ffi_list 4 2) ?child 4 name = Ok ()"
    unfolding check_coverage_Ok by (simp add: demo_ffi_list_def)
  moreover have "check_model_type show_type (mo_type demo_ivf_field) name = Ok 4" for show_type
    by (simp add: check_model_type_def demo_ivf_field_def)
  moreover have "import_model_array demo_arrow (demo_ffi_list 4 2) demo_memory 16 name = Ok (DemoLists 4 2)"
    by (simp add: import_model_array_def demo_schema demo_arrow_api_def demo_ffi_list_def)
      (simp add: validate_model_schema_def demo_preflight)
  ultimately show ?thesis unfolding borrow_model_array_def by (simp add: demo_schema) (simp add: demo_arrow_api_def)
qed

lemma demo_centroids: "fixed_size_list_model demo_arrow (DemoLists 4 2) name = Ok (demo_list_array 4 2)"
  by (simp add: fixed_size_list_model_def demo_arrow_api_def demo_list_array_def usize_try_from_def checked_mul_def)

lemma demo_train_pq:
  "\<exists>codebook pq. train_pq_model_inner demo_sx_api demo_train_api demo_arrow demo_memory (Some demo_handle) (Some ''vec'') 1 4 0 None 0
     (Some (demo_ffi_list 4 2)) 16 (Some ffi_array_empty) (Some None) = (Ok (codebook, pq), Some (demo_ffi_list 4 2))"
proof -
  have u: "aa_parse_uuid demo_arrow (show_uuid (replicate 16 7)) = Ok (replicate 16 7)" by (simp add: demo_arrow_api_def)
  have m: "mo_metadata demo_ivf_field = ivf_metadata L2 4 (replicate 16 7)" by (simp add: demo_ivf_field_def)
  have "pq_train_inputs demo_sx_api demo_train_api demo_arrow demo_memory (Some demo_handle) (Some ''vec'') 1 4 0 None 0 16
      (Some ffi_array_empty) (Some None) =
    Ok ((), ''vec'', 4, L2, None, \<lparr>mp_kind = ''ivf'', mp_metric = 0, mp_dimension = 4, mp_ivf_id = replicate 16 7,
      mp_num_sub_vectors = None, mp_num_bits = None\<rparr>)"
    unfolding pq_train_inputs_def model_provenance_of_def demo_schema demo_parse_common
    by (simp add: m ivf_provenance [where parse = "aa_parse_uuid demo_arrow", OF u])
  moreover have "\<exists>codebook pq. train_codebook demo_train_api demo_arrow () ''vec'' 4 L2 None i 1 4 (demo_list_array 4 2) =
      Ok (codebook, pq)" for i
    by (simp add: train_codebook_def demo_train_api_def demo_list_array_def demo_arrow_api_def checked_shl_def checked_mul_def
        export_model_def)
  ultimately show ?thesis unfolding train_pq_model_inner_def by (simp add: demo_borrow demo_centroids)
qed

theorem trained_models_match_witness:
  "\<exists>codebook pq v w. train_pq_model_inner demo_sx_api demo_train_api demo_arrow demo_memory (Some demo_handle) (Some ''vec'') 1 4 0
       None 0 (Some (demo_ffi_list 4 2)) 16 (Some ffi_array_empty) (Some None) = (Ok (codebook, pq), Some (demo_ffi_list 4 2)) \<and>
     check_centroid_provenance demo_pq_params 4 (Some v) = Ok () \<and> check_codebook_provenance demo_pq_params 4 (Some v) (Some w) = Ok ()"
proof -
  have p: "vp_num_sub_vectors demo_pq_params = 1" "effective_bits demo_pq_params = 4" "metric_from_c 0 = Ok (vp_metric demo_pq_params)"
    by (simp_all add: demo_pq_params_def effective_bits_def metric_from_c_def)
  have u: "aa_parse_uuid demo_arrow (show_uuid (replicate 16 7)) = Ok (replicate 16 7)" by (simp add: demo_arrow_api_def)
  obtain codebook pq where t: "train_pq_model_inner demo_sx_api demo_train_api demo_arrow demo_memory (Some demo_handle) (Some ''vec'')
      1 4 0 None 0 (Some (demo_ffi_list 4 2)) 16 (Some ffi_array_empty) (Some None) = (Ok (codebook, pq), Some (demo_ffi_list 4 2))"
    using demo_train_pq by blast
  have "sx_vector_dim demo_sx_api d col = Ok 4" for d col by (simp add: demo_sx_api_def)
  with trained_models_match [OF u demo_train_ivf demo_schema, where params = demo_pq_params, unfolded p, OF t refl] t
  show ?thesis by (auto simp: p)
qed

end
