(* ===== verification/Index_Json.thy ===== *)
theory Index_Json
  imports Index_Lifecycle Index_Model
begin

text \<open>
  The JSON listing of \<open>lance_dataset_index_list_json\<close> (\<open>src/index.rs\<close>) against a reader of JSON arrays of index
  objects. The reader knows strings with the escapes of quotes, backslashes and slashes, rejects control
  characters in them as JSON does, and demands the keys in the order the listing has them.
\<close>

subsection \<open>The reader\<close>

fun read_string :: "string \<Rightarrow> (string \<times> string) option" where
  "read_string [] = None"
| "read_string (c # cs) =
     (if c = CHR 0x22 then Some ([], cs)
      else if c = CHR 0x5C then
        (case cs of
           e # es \<Rightarrow> if e \<in> {CHR 0x22, CHR 0x5C, CHR 0x2F} then map_option (apfst ((#) e)) (read_string es) else None
         | [] \<Rightarrow> None)
      else if (of_char c :: nat) < 32 then None
      else map_option (apfst ((#) c)) (read_string cs))"

fun expect :: "string \<Rightarrow> string \<Rightarrow> string option" where
  "expect [] s = Some s"
| "expect (p # ps) (c # cs) = (if p = c then expect ps cs else None)"
| "expect (p # ps) [] = None"

definition read_quoted :: "string \<Rightarrow> (string \<times> string) option" where
  "read_quoted s = Option.bind (expect [CHR 0x22] s) read_string"

definition read_number :: "string \<Rightarrow> (int \<times> string) option" where
  "read_number s =
     (let ds = takeWhile is_digit s in if ds = [] then None else Some (digits_int 0 ds, dropWhile is_digit s))"

fun read_items :: "nat \<Rightarrow> (string \<Rightarrow> ('a \<times> string) option) \<Rightarrow> string \<Rightarrow> ('a list \<times> string) option" where
  "read_items 0 f s = None"
| "read_items (Suc n) f s =
     (case f s of
        Some (x, c # r) \<Rightarrow>
          if c = CHR '','' then map_option (apfst ((#) x)) (read_items n f r)
          else if c = CHR '']'' then Some ([x], r) else None
      | _ \<Rightarrow> None)"

definition read_array :: "(string \<Rightarrow> ('a \<times> string) option) \<Rightarrow> string \<Rightarrow> ('a list \<times> string) option" where
  "read_array f s =
     Option.bind (expect ''['' s) (\<lambda>r. case r of
       c # r' \<Rightarrow> if c = CHR '']'' then Some ([], r') else read_items (length r) f r
     | [] \<Rightarrow> None)"

record listed_index =
  li_name :: string
  li_uuid :: string
  li_columns :: "string list"
  li_type :: string
  li_version :: int

definition read_key :: "string \<Rightarrow> string \<Rightarrow> string option" where
  "read_key k s = expect (in_quotes k @ '':'') s"

definition read_entry :: "string \<Rightarrow> (listed_index \<times> string) option" where
  "read_entry s =
     Option.bind (expect ''{'' s) (\<lambda>s.
     Option.bind (read_key ''name'' s) (\<lambda>s. Option.bind (read_quoted s) (\<lambda>(name, s).
     Option.bind (expect '','' s) (\<lambda>s. Option.bind (read_key ''uuid'' s) (\<lambda>s. Option.bind (read_quoted s) (\<lambda>(uuid, s).
     Option.bind (expect '','' s) (\<lambda>s. Option.bind (read_key ''columns'' s) (\<lambda>s.
     Option.bind (read_array read_quoted s) (\<lambda>(columns, s).
     Option.bind (expect '','' s) (\<lambda>s. Option.bind (read_key ''type'' s) (\<lambda>s. Option.bind (read_quoted s) (\<lambda>(ty, s).
     Option.bind (expect '','' s) (\<lambda>s. Option.bind (read_key ''dataset_version'' s) (\<lambda>s.
     Option.bind (read_number s) (\<lambda>(version, s).
     Option.bind (expect ''}'' s) (\<lambda>s.
     Some (\<lparr>li_name = name, li_uuid = uuid, li_columns = columns, li_type = ty, li_version = version\<rparr>, s)))))))))))))))))"

definition read_listing :: "string \<Rightarrow> listed_index list option" where
  "read_listing s = (case read_array read_entry s of Some (xs, []) \<Rightarrow> Some xs | _ \<Rightarrow> None)"

subsection \<open>Reading what was printed\<close>

definition json_clean :: "string \<Rightarrow> bool" where
  "json_clean s \<longleftrightarrow> list_all (\<lambda>c. c \<noteq> CHR 0x5C \<and> 32 \<le> (of_char c :: nat)) s"

lemma expect_append [simp]: "expect p (p @ s) = Some s"
  by (induction p) simp_all

lemma expect_more: "expect (p @ q) (p @ s) = expect q s"
  by (induction p) simp_all

lemma read_string_escaped: "json_clean s \<Longrightarrow> read_string (escape_quotes s @ CHR 0x22 # r) = Some (s, r)"
  by (induction s) (auto simp: escape_quotes_def json_clean_def)

lemma read_quoted_escaped: "json_clean s \<Longrightarrow> read_quoted (in_quotes (escape_quotes s) @ r) = Some (s, r)"
  by (simp add: read_quoted_def in_quotes_def read_string_escaped)

lemma escape_quotes_id: "CHR 0x22 \<notin> set s \<Longrightarrow> escape_quotes s = s"
  by (induction s) (auto simp: escape_quotes_def)

lemma read_quoted_plain: "json_clean s \<Longrightarrow> CHR 0x22 \<notin> set s \<Longrightarrow> read_quoted (in_quotes s @ r) = Some (s, r)"
  using read_quoted_escaped [of s r] by (simp add: escape_quotes_id)

lemma read_items_join:
  assumes "\<And>x r. x \<in> set xs \<Longrightarrow> f (show1 x @ r) = Some (val1 x, r)" "xs \<noteq> []" "length xs \<le> n"
  shows "read_items n f (join_strings '','' (map show1 xs) @ '']'' @ r) = Some (map val1 xs, r)"
  using assms
proof (induction xs arbitrary: n)
  case (Cons x xs)
  then obtain k where n: "n = Suc k" by (cases n) auto
  show ?case
  proof (cases xs)
    case Nil
    then show ?thesis using Cons.prems(1) by (simp add: n)
  next
    case (Cons y ys)
    have "join_strings '','' (map show1 (x # xs)) @ '']'' @ r = show1 x @ '','' @ (join_strings '','' (map show1 xs) @ '']'' @ r)"
      by (simp add: Cons)
    then show ?thesis using Cons.prems Cons.IH [of k] n by (simp add: local.Cons)
  qed
qed simp

lemma length_join: "length xs \<le> Suc (length (join_strings '','' xs))"
  by (induction "'',''" xs rule: join_strings.induct) auto

lemma join_strings_head: "xs \<noteq> [] \<Longrightarrow> show1 (hd xs) = c # t \<Longrightarrow> \<exists>t. join_strings sep (map show1 xs) = c # t"
  by (cases xs rule: remdups_adj.cases) auto

lemma read_array_join:
  assumes "\<And>x r. x \<in> set xs \<Longrightarrow> f (show1 x @ r) = Some (val1 x, r)" "\<And>x. x \<in> set xs \<Longrightarrow> \<exists>c t. show1 x = c # t \<and> c \<noteq> CHR '']''"
  shows "read_array f (CHR ''['' # join_strings '','' (map show1 xs) @ CHR '']'' # r) = Some (map val1 xs, r)"
proof (cases "xs = []")
  case False
  then obtain c t where c: "show1 (hd xs) = c # t" "c \<noteq> CHR '']''" using assms(2) [of "hd xs"] by auto
  let ?s = "join_strings '','' (map show1 xs) @ CHR '']'' # r"
  obtain t0 where "join_strings '','' (map show1 xs) = c # t0" using join_strings_head [of xs show1 c t, OF False c(1)] by blast
  then obtain t' where "?s = c # t'" by simp
  moreover have "length xs \<le> length ?s" using length_join [of "map show1 xs"] by simp
  then have "read_items (length ?s) f ?s = Some (map val1 xs, r)"
    using read_items_join [of xs f show1 val1 "length ?s" r] assms(1) False by simp
  ultimately show ?thesis using c(2) by (simp add: read_array_def)
qed (simp add: read_array_def)

lemma in_quotes_head: "\<exists>c t. in_quotes s = c # t \<and> c \<noteq> CHR '']''"
  by (simp add: in_quotes_def)

lemma read_key_printed: "read_key k (in_quotes k @ CHR '':'' # s) = Some s"
  using expect_append [of "in_quotes k @ '':''" s] by (simp add: read_key_def del: expect_append)

lemma read_number_printed: "\<not> is_digit c \<Longrightarrow> read_number (show_u w @ c # r) = Some (uint w, c # r)"
  using show_nat_digits [of "unat w"]
  by (simp add: read_number_def show_u_def list_all_iff takeWhile_append2 dropWhile_append2)

lemma hex_digit_plain: "n < 16 \<Longrightarrow> hex_digit n \<noteq> CHR 0x22 \<and> hex_digit n \<noteq> CHR 0x5C \<and> 32 \<le> (of_char (hex_digit n) :: nat)"
proof -
  assume "n < 16"
  then have "(of_char (hex_digit n) :: nat) = (if n < 10 then 48 + n else 87 + n)" by (simp add: hex_digit_def)
  then show ?thesis using \<open>n < 16\<close> by (auto split: if_splits)
qed

lemma show_uuid_plain: "json_clean (show_uuid u) \<and> CHR 0x22 \<notin> set (show_uuid u)"
proof -
  have "json_clean (show_uuid_from i u) \<and> CHR 0x22 \<notin> set (show_uuid_from i u)" for i
  proof (induction i u rule: show_uuid_from.induct)
    case (2 i b bs)
    have "unat b < 256" using unsigned_less [of b, where ?'a = nat] by simp
    then have "unat b div 16 < 16" "unat b mod 16 < 16" by simp_all
    with 2 hex_digit_plain [of "unat b div 16"] hex_digit_plain [of "unat b mod 16"] show ?case
      by (auto simp: json_clean_def)
  qed (simp add: json_clean_def)
  then show ?thesis by (simp add: show_uuid_def)
qed

text \<open>What the listing says of an index.\<close>

definition listing_of :: "('ds, 'c, 'b, 'r) index_api \<Rightarrow> 'ds \<Rightarrow> (string \<times> string) list \<Rightarrow> segment_metadata \<Rightarrow> listed_index" where
  "listing_of ix d descriptions idx =
     \<lparr>li_name = im_name idx, li_uuid = show_uuid (im_uuid idx), li_columns = List.map_filter (ix_field_by_id ix d) (im_fields idx),
      li_type = (case map_of (rev descriptions) (im_name idx) of Some ty \<Rightarrow> ty | None \<Rightarrow> ''Unknown''),
      li_version = uint (sm_dataset_version idx)\<rparr>"

definition listing_clean :: "listed_index \<Rightarrow> bool" where
  "listing_clean l \<longleftrightarrow> json_clean (li_name l) \<and> list_all json_clean (li_columns l) \<and> json_clean (li_type l) \<and> CHR 0x22 \<notin> set (li_type l)"

lemma read_entry_printed:
  assumes "listing_clean (listing_of ix d descriptions idx)"
  shows "read_entry (json_entry ix d descriptions idx @ r) = Some (listing_of ix d descriptions idx, r)"
proof -
  define columns where "columns = List.map_filter (ix_field_by_id ix d) (im_fields idx)"
  define ty where "ty = (case map_of (rev descriptions) (im_name idx) of Some ty \<Rightarrow> ty | None \<Rightarrow> ''Unknown'')"
  have clean: "json_clean (im_name idx)" "list_all json_clean columns" "json_clean ty" "CHR 0x22 \<notin> set ty"
    using assms by (simp_all add: listing_clean_def listing_of_def columns_def ty_def)
  have "read_array read_quoted (CHR ''['' # join_strings '','' (map (\<lambda>c. in_quotes (escape_quotes c)) columns) @ CHR '']'' # r) =
      Some (columns, r)" for r
    using read_array_join [of columns read_quoted "\<lambda>c. in_quotes (escape_quotes c)" "\<lambda>x. x" r, OF _ in_quotes_head] clean(2)
    by (simp add: read_quoted_escaped list_all_iff)
  moreover have "\<not> is_digit CHR ''}''" by (simp add: is_digit_def)
  ultimately show ?thesis
    unfolding json_entry_def Let_def columns_def [symmetric] ty_def [symmetric] read_entry_def listing_of_def
    using clean show_uuid_plain [of "im_uuid idx"]
    by (simp add: read_key_printed read_quoted_escaped read_quoted_plain read_number_printed)
qed

lemma json_entry_head: "\<exists>c t. json_entry ix d descriptions idx = c # t \<and> c \<noteq> CHR '']''"
  by (simp add: json_entry_def Let_def)

subsection \<open>Properties\<close>

text \<open>C37. The JSON listing round-trips: if the names, columns and types of the user indexes hold no backslash and no
  control character (and the types no quote), a JSON reader gives back exactly the user indexes, in order,
  with their names, UUIDs, columns, types and dataset versions; quotes in names are escaped correctly.\<close>

theorem index_list_json_roundtrip:
  assumes "index_list_json_inner ix (Some h) = Ok (Some json)"
    and "ix_load ix (arc_val (snapshot h)) = Ok indices" "ix_describe ix (arc_val (snapshot h)) = Ok descriptions"
    and "\<forall>idx\<in>set indices. listing_clean (listing_of ix (arc_val (snapshot h)) descriptions idx)"
  shows "read_listing json =
    Some (map (listing_of ix (arc_val (snapshot h)) descriptions) (filter (\<lambda>i. \<not> ix_is_system ix i) indices))"
proof -
  let ?d = "arc_val (snapshot h)" and ?users = "filter (\<lambda>i. \<not> ix_is_system ix i) indices"
  have json: "json = ''['' @ join_strings '','' (map (json_entry ix ?d descriptions) ?users) @ '']''"
    using assms(1-3) by (auto simp: index_list_json_inner_def Let_def cstring_new_def split: if_splits)
  have "read_array read_entry (CHR ''['' # join_strings '','' (map (json_entry ix ?d descriptions) ?users) @ CHR '']'' # []) =
      Some (map (listing_of ix ?d descriptions) ?users, [])"
    using assms(4) by (intro read_array_join json_entry_head read_entry_printed) simp
  then show ?thesis by (simp add: json read_listing_def)
qed

theorem index_list_json_roundtrip_witness:
  "\<exists>json. index_list_json_inner demo_index_api (Some \<lparr>ds_inner = Arc 1 (), ds_lock_poisoned = False\<rparr>) = Ok (Some json) \<and>
     map_option (map li_name) (read_listing json) = Some [''vec_idx'', ''other'', ''vec_idx'']"
proof -
  let ?h = "\<lparr>ds_inner = Arc 1 (), ds_lock_poisoned = False\<rparr> :: unit lance_dataset"
  let ?segs = "[demo_segment [2] 1, (demo_segment [3] 9)\<lparr>im_name := ''other''\<rparr>, demo_segment [2] 2]"
  have load: "ix_load demo_index_api (arc_val (snapshot ?h)) = Ok ?segs"
    and desc: "ix_describe demo_index_api (arc_val (snapshot ?h)) = Ok []"
    and system: "\<not> ix_is_system demo_index_api i" for i by (simp_all add: demo_index_api_def)
  have clean: "\<forall>idx\<in>set ?segs. listing_clean (listing_of demo_index_api (arc_val (snapshot ?h)) [] idx)"
    by (simp add: listing_clean_def listing_of_def json_clean_def demo_segment_def demo_metadata_def demo_index_api_def List.map_filter_simps)
  let ?json = "''['' @ join_strings '','' (map (json_entry demo_index_api () []) ?segs) @ '']''"
  have "CHR 0x00 \<notin> set ?json"
    by code_simp
  then have "index_list_json_inner demo_index_api (Some ?h) = Ok (Some ?json)"
    by (simp add: index_list_json_inner_def load [simplified] desc [simplified] system cstring_new_def)
  from index_list_json_roundtrip [OF this load desc clean] this show ?thesis
    by (intro exI [of _ ?json]) (simp add: listing_of_def demo_index_api_def demo_segment_def demo_metadata_def)
qed

text \<open>A name that ends with a backslash: its closing quote reads as escaped, and the listing is not JSON.\<close>

theorem backslash_breaks_listing:
  "read_quoted (in_quotes (escape_quotes [CHR ''a'', CHR 0x5C]) @ '','' @ in_quotes ''uuid'' @ '':1}'') = Some ([CHR ''a'', CHR 0x22, CHR '',''], ''uuid'' @ [CHR 0x22] @ '':1}'')"
  by (simp add: read_quoted_def in_quotes_def escape_quotes_def)

end
