(* ===== verification/Blob_File.thy ===== *)
theory Blob_File
  imports Dataset
begin

text \<open>
  Model of \<open>src/blob.rs\<close>: taking per-row blob handles and reading their bytes through a cursor. Upstream's
  \<open>BlobFile\<close> is the record \<open>blob_api\<close> over a type of blob states; an operation that moves the cursor returns
  the state after it.
\<close>

subsection \<open>Blobs\<close>

record ('ds, 'b) blob_api =
  bl_has_field :: "'ds \<Rightarrow> string \<Rightarrow> bool"
  bl_take_blobs :: "'ds \<Rightarrow> u64 list \<Rightarrow> string \<Rightarrow> 'b option list outcome"
  bl_take_blobs_by_indices :: "'ds \<Rightarrow> u64 list \<Rightarrow> string \<Rightarrow> 'b option list outcome"
  bl_size :: "'b \<Rightarrow> u64"
  bl_tell :: "'b \<Rightarrow> u64 outcome"
  bl_read :: "'b \<Rightarrow> u8 list outcome \<times> 'b"
  bl_read_up_to :: "'b \<Rightarrow> usize \<Rightarrow> u8 list outcome \<times> 'b"
  bl_read_range :: "'b \<Rightarrow> u64 \<Rightarrow> u64 \<Rightarrow> u8 list outcome"
  bl_seek :: "'b \<Rightarrow> u64 \<Rightarrow> unit outcome \<times> 'b"

datatype take_by = RowIds | Indices

fun param_names :: "take_by \<Rightarrow> string \<times> string" where
  "param_names RowIds = (''row_ids'', ''num_row_ids'')"
| "param_names Indices = (''indices'', ''num_indices'')"

subsection \<open>Taking blob handles\<close>

text \<open>The out array holds handle pointers; the result is the array with its first entries written.\<close>

definition dataset_take_blobs_inner ::
  "('ds, 'b) blob_api \<Rightarrow> 'ds lance_dataset ptr \<Rightarrow> u64 list ptr \<Rightarrow> usize \<Rightarrow> string ptr \<Rightarrow> 'b ptr list ptr \<Rightarrow> take_by \<Rightarrow>
     'b ptr list outcome" where
  "dataset_take_blobs_inner api dataset ids num_ids column out take_by =
     obind (ok_or dataset (invalid_input ''dataset must not be NULL'')) (\<lambda>ds.
     obind (ok_or out (invalid_input ''out must not be NULL'')) (\<lambda>slots.
     obind (ok_or column (invalid_input ''column must not be NULL'')) (\<lambda>_.
     let (ids_param, count_param) = param_names take_by in
     reject_if (num_ids \<noteq> 0 \<and> ids = None)
       (invalid_input (ids_param @ '' must not be NULL when '' @ count_param @ '' = '' @ show_u num_ids)) (
     obind (parse_c_string column) (\<lambda>c.
     case c of
       None \<Rightarrow> Panic (StrPayload ''column was checked for NULL above'')
     | Some col \<Rightarrow>
         if num_ids = 0 then Ok slots
         else
           (let id_slice = take (unat num_ids) (the ids); snap = arc_val (snapshot ds) in
            reject_if (\<not> bl_has_field api snap col)
              (invalid_input (''column '' @ quoted col @ '' does not exist in the dataset schema'')) (
            obind (case take_by of
                     RowIds \<Rightarrow> bl_take_blobs api snap id_slice col
                   | Indices \<Rightarrow> bl_take_blobs_by_indices api snap id_slice col) (\<lambda>blobs.
            reject_if (length blobs \<noteq> unat num_ids)
              (internal_error (''expected '' @ show_u num_ids @ '' blob handles, got '' @ show_nat (length blobs)))
              (Ok (blobs @ drop (length blobs) slots))))))))))"

definition lance_dataset_take_blobs where
  "lance_dataset_take_blobs api dataset row_ids num_row_ids column out t =
     store_out (dataset_take_blobs_inner api dataset row_ids num_row_ids column out RowIds) out t"

definition lance_dataset_take_blobs_by_indices where
  "lance_dataset_take_blobs_by_indices api dataset indices num_indices column out t =
     store_out (dataset_take_blobs_inner api dataset indices num_indices column out Indices) out t"

subsection \<open>Reading\<close>

definition blob_ref :: "'b ptr \<Rightarrow> 'b outcome" where
  "blob_ref blob = ok_or blob (invalid_input ''blob must not be NULL'')"

definition blob_file_size_inner :: "('ds, 'b) blob_api \<Rightarrow> 'b ptr \<Rightarrow> u64 outcome" where
  "blob_file_size_inner api blob = obind (blob_ref blob) (\<lambda>b. Ok (bl_size api b))"

definition lance_blob_file_size where
  "lance_blob_file_size api blob t = ffi_try (blob_file_size_inner api blob) 0 t"

text \<open>\<open>copy_from_slice\<close> into the start of the caller's buffer.\<close>

definition write_prefix :: "u8 list \<Rightarrow> u8 list ptr \<Rightarrow> u8 list ptr" where
  "write_prefix bytes dst = map_option (\<lambda>buf. bytes @ drop (length bytes) buf) dst"

text \<open>The buffer must have room for what remains.\<close>

definition remaining_at :: "u64 \<Rightarrow> u64 \<Rightarrow> u64" where
  "remaining_at size1 cursor = (if cursor \<le> size1 then size1 - cursor else 0)"

definition check_room :: "('ds, 'b) blob_api \<Rightarrow> 'b \<Rightarrow> u8 list ptr \<Rightarrow> usize \<Rightarrow> unit outcome" where
  "check_room api b dst dst_len =
     (let size1 = bl_size api b in
      obind (bl_tell api b) (\<lambda>cursor.
      let remaining = remaining_at size1 cursor in
      reject_if ((ucast dst_len :: u64) < remaining)
        (invalid_input (''dst_len '' @ show_u dst_len @ '' is smaller than the '' @ show_u remaining @
           '' bytes remaining from cursor '' @ show_u cursor @ '' (blob size '' @ show_u size1 @ '')'')) (
      reject_if (dst = None \<and> remaining \<noteq> 0)
        (invalid_input (''dst must not be NULL when '' @ show_u remaining @ '' bytes remain from cursor '' @
           show_u cursor @ '' (blob size '' @ show_u size1 @ '')''))
        (Ok ()))))"

text \<open>A body gives its result, the handle after it, and the caller's buffer.\<close>

definition blob_file_read_inner ::
  "('ds, 'b) blob_api \<Rightarrow> 'b ptr \<Rightarrow> u8 list ptr \<Rightarrow> usize \<Rightarrow> u8 list ptr outcome \<times> 'b ptr" where
  "blob_file_read_inner api blob dst dst_len =
     (case obind (blob_ref blob) (\<lambda>b. obind (check_room api b dst dst_len) (\<lambda>_. Ok b)) of
        Ok b \<Rightarrow>
          (let (bytes, b') = bl_read api b in (obind bytes (\<lambda>bs. Ok (if bs = [] then dst else write_prefix bs dst)), Some b'))
      | Err e \<Rightarrow> (Err e, blob)
      | Panic p \<Rightarrow> (Panic p, blob))"

text \<open>The C function: the buffer changes on success only.\<close>

definition lance_blob_file_read where
  "lance_blob_file_read api blob dst dst_len t =
     (let (body, blob') = blob_file_read_inner api blob dst dst_len;
          (rc, t') = ffi_try (obind body (\<lambda>_. Ok (0 :: int))) (- 1) t
      in (rc, t', blob', (case body of Ok buf \<Rightarrow> buf | _ \<Rightarrow> dst)))"

definition blob_file_read_up_to_inner ::
  "('ds, 'b) blob_api \<Rightarrow> 'b ptr \<Rightarrow> u8 list ptr \<Rightarrow> usize \<Rightarrow> usize ptr \<Rightarrow> (u8 list ptr \<times> usize) outcome \<times> 'b ptr" where
  "blob_file_read_up_to_inner api blob dst len bytes_read =
     (case obind (blob_ref blob) (\<lambda>b.
           reject_if (bytes_read = None) (invalid_input ''bytes_read must not be NULL'') (
           reject_if (dst = None \<and> len \<noteq> 0) (invalid_input (''dst must not be NULL when len = '' @ show_u len))
             (Ok b))) of
        Ok b \<Rightarrow>
          (let (bytes, b') = bl_read_up_to api b len
           in (obind bytes (\<lambda>bs. Ok (if bs = [] then dst else write_prefix bs dst, of_nat (length bs))), Some b'))
      | Err e \<Rightarrow> (Err e, blob)
      | Panic p \<Rightarrow> (Panic p, blob))"

definition lance_blob_file_read_up_to where
  "lance_blob_file_read_up_to api blob dst len bytes_read t =
     (let (body, blob') = blob_file_read_up_to_inner api blob dst len bytes_read;
          (rc, t') = ffi_try (obind body (\<lambda>_. Ok (0 :: int))) (- 1) t
      in (rc, t', blob', (case body of Ok (buf, n) \<Rightarrow> (buf, Some n) | _ \<Rightarrow> (dst, bytes_read))))"

text \<open>\<open>copy_from_slice\<close> panics when the lengths differ.\<close>

definition blob_file_read_range_inner ::
  "('ds, 'b) blob_api \<Rightarrow> 'b ptr \<Rightarrow> u64 \<Rightarrow> u8 list ptr \<Rightarrow> usize \<Rightarrow> u8 list ptr outcome" where
  "blob_file_read_range_inner api blob offset dst len =
     obind (blob_ref blob) (\<lambda>b.
     obind (ok_or (checked_add offset (ucast len))
       (invalid_input (''offset '' @ show_u offset @ '' plus len '' @ show_u len @ '' overflows a 64-bit byte range''))) (\<lambda>end1.
     if len = 0 then Ok dst
     else
       reject_if (dst = None) (invalid_input (''dst must not be NULL when len = '' @ show_u len)) (
       obind (bl_read_range api b offset end1) (\<lambda>bytes.
       if length bytes = unat len then Ok (write_prefix bytes dst)
       else Panic (StringPayload (''copy_from_slice: source slice length ('' @ show_nat (length bytes) @
              '') does not match destination slice length ('' @ show_u len @ '')''))))))"

definition lance_blob_file_read_range where
  "lance_blob_file_read_range api blob offset dst len t =
     (let body = blob_file_read_range_inner api blob offset dst len;
          (rc, t') = ffi_try (obind body (\<lambda>_. Ok (0 :: int))) (- 1) t
      in (rc, t', (case body of Ok buf \<Rightarrow> buf | _ \<Rightarrow> dst)))"

subsection \<open>The cursor\<close>

definition blob_file_seek_inner :: "('ds, 'b) blob_api \<Rightarrow> 'b ptr \<Rightarrow> u64 \<Rightarrow> unit outcome \<times> 'b ptr" where
  "blob_file_seek_inner api blob pos =
     (case blob_ref blob of
        Ok b \<Rightarrow> (let (r, b') = bl_seek api b pos in (r, Some b'))
      | Err e \<Rightarrow> (Err e, blob)
      | Panic p \<Rightarrow> (Panic p, blob))"

definition lance_blob_file_seek where
  "lance_blob_file_seek api blob pos t =
     (let (body, blob') = blob_file_seek_inner api blob pos;
          (rc, t') = ffi_try (obind body (\<lambda>_. Ok (0 :: int))) (- 1) t
      in (rc, t', blob'))"

definition blob_file_tell_inner :: "('ds, 'b) blob_api \<Rightarrow> 'b ptr \<Rightarrow> u64 ptr \<Rightarrow> u64 outcome" where
  "blob_file_tell_inner api blob pos =
     obind (blob_ref blob) (\<lambda>b.
     reject_if (pos = None) (invalid_input ''pos must not be NULL'') (bl_tell api b))"

definition lance_blob_file_tell where
  "lance_blob_file_tell api blob pos t = store_out (blob_file_tell_inner api blob pos) pos t"

definition lance_blob_file_close :: "('b \<Rightarrow> unit unwind) \<Rightarrow> 'b ptr \<Rightarrow> tls \<Rightarrow> bool \<times> tls" where
  "lance_blob_file_close drop_fn blob t = (case blob of None \<Rightarrow> (True, t) | Some b \<Rightarrow> swallow_unwind (drop_fn b) t)"

subsection \<open>Reading in pieces\<close>

text \<open>A host that reads a blob piece by piece, with a buffer of its own for each piece, until a call fails.\<close>

fun read_pieces :: "('ds, 'b) blob_api \<Rightarrow> usize list \<Rightarrow> 'b \<Rightarrow> u8 list list outcome \<times> 'b" where
  "read_pieces api [] b = (Ok [], b)"
| "read_pieces api (n # ns) b =
     (case blob_file_read_up_to_inner api (Some b) (Some (replicate (unat n) 0)) n (Some 0) of
        (Ok (buf, k), b') \<Rightarrow>
          (let (r, b'') = read_pieces api ns (the b') in (obind r (\<lambda>ps. Ok (take (unat k) (the buf) # ps)), b''))
      | (Err e, b') \<Rightarrow> (Err e, the b')
      | (Panic p, b') \<Rightarrow> (Panic p, the b'))"

text \<open>What \<open>BlobFile\<close> documents: the bytes of the value do not change; a read delivers what is there from the cursor
  on and moves the cursor behind it, or fails and leaves the cursor.\<close>

definition blob_documented :: "('ds, 'b) blob_api \<Rightarrow> ('b \<Rightarrow> u8 list) \<Rightarrow> ('b \<Rightarrow> nat) \<Rightarrow> bool" where
  "blob_documented api content cursor \<longleftrightarrow>
     (\<forall>b. length (content b) < 2 ^ 64 \<and> cursor b < 2 ^ 64 \<and> unat (bl_size api b) = length (content b) \<and>
        (\<forall>c. bl_tell api b = Ok c \<longrightarrow> unat c = cursor b) \<and>
        (\<forall>r b'. bl_read api b = (r, b') \<longrightarrow> content b' = content b \<and>
           (case r of Ok bs \<Rightarrow> bs = drop (cursor b) (content b) \<and> cursor b' = max (cursor b) (length (content b))
            | _ \<Rightarrow> cursor b' = cursor b)) \<and>
        (\<forall>n r b'. bl_read_up_to api b n = (r, b') \<longrightarrow> content b' = content b \<and>
           (case r of Ok bs \<Rightarrow> bs = take (unat n) (drop (cursor b) (content b)) \<and> cursor b' = cursor b + length bs
            | _ \<Rightarrow> cursor b' = cursor b)))"

subsection \<open>Lemmas\<close>

lemma documented_read:
  assumes "blob_documented api content cursor" "bl_read api b = (r, b')"
  shows "content b' = content b"
    and "r = Ok bs \<Longrightarrow> bs = drop (cursor b) (content b) \<and> cursor b' = max (cursor b) (length (content b))"
    and "\<forall>bs. r \<noteq> Ok bs \<Longrightarrow> cursor b' = cursor b"
proof -
  have "content b' = content b \<and> (case r of
      Ok bs \<Rightarrow> bs = drop (cursor b) (content b) \<and> cursor b' = max (cursor b) (length (content b)) | _ \<Rightarrow> cursor b' = cursor b)"
    using assms unfolding blob_documented_def by blast
  then show "content b' = content b"
    and "r = Ok bs \<Longrightarrow> bs = drop (cursor b) (content b) \<and> cursor b' = max (cursor b) (length (content b))"
    and "\<forall>bs. r \<noteq> Ok bs \<Longrightarrow> cursor b' = cursor b"
    by (cases r; simp)+
qed

lemma documented_read_up_to:
  assumes "blob_documented api content cursor" "bl_read_up_to api b n = (r, b')"
  shows "content b' = content b"
    and "r = Ok bs \<Longrightarrow> bs = take (unat n) (drop (cursor b) (content b)) \<and> cursor b' = cursor b + length bs"
proof -
  have "content b' = content b \<and> (case r of
      Ok bs \<Rightarrow> bs = take (unat n) (drop (cursor b) (content b)) \<and> cursor b' = cursor b + length bs | _ \<Rightarrow> cursor b' = cursor b)"
    using assms unfolding blob_documented_def by blast
  then show "content b' = content b"
    and "r = Ok bs \<Longrightarrow> bs = take (unat n) (drop (cursor b) (content b)) \<and> cursor b' = cursor b + length bs"
    by (cases r; simp)+
qed

text \<open>One piece: the bytes at the cursor, as many as asked for and there.\<close>

lemma read_piece_Ok:
  assumes doc: "blob_documented api content cursor"
    and call: "blob_file_read_up_to_inner api (Some b) (Some (replicate (unat n) 0)) n (Some 0) = (Ok (buf, k), b')"
  shows "content (the b') = content b" "take (unat k) (the buf) @ drop (cursor (the b')) (content b) = drop (cursor b) (content b)"
proof -
  obtain r c where up: "bl_read_up_to api b n = (r, c)" by (metis surj_pair)
  with call obtain bs where r: "r = Ok bs" and b': "b' = Some c" and k: "k = of_nat (length bs)"
    and buf: "buf = (if bs = [] then Some (replicate (unat n) 0) else write_prefix bs (Some (replicate (unat n) 0)))"
    by (auto simp: blob_file_read_up_to_inner_def blob_ref_def obind_eq_Ok)
  note docs = documented_read_up_to [OF doc up]
  from docs(2) [OF r] have bs: "bs = take (unat n) (drop (cursor b) (content b))" "cursor c = cursor b + length bs" by simp_all
  then have "length bs \<le> unat n" by simp
  also have "unat n < 2 ^ 64" using unsigned_less [of n, where ?'a = nat] by simp
  finally have "unat k = length bs" by (simp add: k unat_of_nat)
  then have "take (unat k) (the buf) = bs" by (simp add: buf write_prefix_def)
  moreover have "bs @ drop (cursor b + length bs) (content b) = drop (cursor b) (content b)"
  proof -
    have "drop (cursor b + length bs) (content b) = drop (length bs) (drop (cursor b) (content b))" by (simp add: add.commute)
    also have "\<dots> = drop (unat n) (drop (cursor b) (content b))"
      unfolding bs(1) by (cases "unat n \<le> length (drop (cursor b) (content b))") simp_all
    finally show ?thesis unfolding bs(1) by (metis append_take_drop_id)
  qed
  ultimately show "take (unat k) (the buf) @ drop (cursor (the b')) (content b) = drop (cursor b) (content b)"
    by (simp add: b' bs(2))
  show "content (the b') = content b" using docs(1) by (simp add: b')
qed

lemma read_pieces_Ok:
  assumes doc: "blob_documented api content cursor"
  shows "read_pieces api ns b = (Ok ps, b') \<Longrightarrow>
    content b' = content b \<and> concat ps @ drop (cursor b') (content b) = drop (cursor b) (content b)"
proof (induction ns arbitrary: b ps)
  case (Cons n ns)
  from Cons.prems obtain buf k c where call: "blob_file_read_up_to_inner api (Some b) (Some (replicate (unat n) 0)) n (Some 0) =
      (Ok (buf, k), c)"
    by (auto split: prod.splits outcome.splits)
  obtain r d where rest: "read_pieces api ns (the c) = (r, d)" by (metis surj_pair)
  from Cons.prems call rest obtain qs where "r = Ok qs" "ps = take (unat k) (the buf) # qs" "d = b'"
    by (auto simp: obind_eq_Ok)
  with Cons.IH [of "the c" qs] rest read_piece_Ok [OF doc call] show ?case by simp
qed simp

lemma check_room_Ok:
  "check_room api b (Some buf) n = Ok () \<longleftrightarrow> (\<exists>p. bl_tell api b = Ok p \<and> unat (remaining_at (bl_size api b) p) \<le> unat n)"
  by (simp add: check_room_def obind_eq_Ok reject_if_eq_Ok Let_def not_less word_le_nat_alt)

subsection \<open>Properties\<close>

text \<open>C38. Whatever pieces a host reads a blob in, they and one final read give the bytes of the value from the cursor on,
  each exactly once and in order: the pieces joined with what \<open>lance_blob_file_read\<close> writes are those bytes,
  the buffer behind them is untouched, and a buffer too small for the rest is refused without moving the cursor.\<close>

theorem blob_pieces_then_rest:
  assumes "blob_documented api content cursor" "read_pieces api ns b = (Ok ps, b1)"
    and "blob_file_read_inner api (Some b1) (Some buf) dst_len = (res, b2)"
  shows "\<exists>rest. concat ps @ rest = drop (cursor b) (content b) \<and> content (the b2) = content b \<and>
    (case res of
       Ok buf' \<Rightarrow> length rest \<le> unat dst_len \<and> buf' = Some (rest @ drop (length rest) buf)
     | _ \<Rightarrow> cursor (the b2) = cursor b1) \<and>
    (unat dst_len < length rest \<longrightarrow> b2 = Some b1 \<and> (\<forall>buf'. res \<noteq> Ok buf'))"
proof -
  note doc = assms(1)
  define rest where "rest = drop (cursor b1) (content b)"
  from read_pieces_Ok [OF doc assms(2)] have pieces: "content b1 = content b" "concat ps @ rest = drop (cursor b) (content b)"
    by (simp_all add: rest_def)
  obtain r c where rd: "bl_read api b1 = (r, c)" by (metis surj_pair)
  have size: "unat (bl_size api b1) = length (content b)" using doc pieces by (simp add: blob_documented_def)
  have remaining: "unat (remaining_at (bl_size api b1) p) = length rest" if "bl_tell api b1 = Ok p" for p
  proof -
    have "unat p = cursor b1" using doc that by (simp add: blob_documented_def)
    then show ?thesis using size by (auto simp: remaining_at_def rest_def unat_sub word_le_nat_alt)
  qed
  show ?thesis
  proof (cases "check_room api b1 (Some buf) dst_len")
    case (Ok u)
    then have room: "length rest \<le> unat dst_len" using check_room_Ok [of api b1 buf dst_len] remaining by auto
    from assms(3) rd Ok have res: "b2 = Some c" "res = obind r (\<lambda>bs. Ok (if bs = [] then Some buf else write_prefix bs (Some buf)))"
      by (simp_all add: blob_file_read_inner_def blob_ref_def)
    have "case res of Ok buf' \<Rightarrow> buf' = Some (rest @ drop (length rest) buf) | _ \<Rightarrow> cursor c = cursor b1"
    proof (cases r)
      case (Ok bs)
      with documented_read(2) [OF doc rd] have "bs = rest" by (simp add: pieces rest_def)
      then show ?thesis by (simp add: res Ok write_prefix_def)
    qed (use documented_read(3) [OF doc rd] in \<open>simp_all add: res\<close>)
    then show ?thesis using room pieces documented_read(1) [OF doc rd] res(1)
      by (intro exI [of _ rest]) (auto split: outcome.splits)
  qed (use assms(3) pieces in \<open>auto simp: blob_file_read_inner_def blob_ref_def\<close>)
qed

text \<open>A blob of five bytes, known by its cursor.\<close>

definition demo_bytes :: "u8 list" where
  "demo_bytes = [10, 20, 30, 40, 50]"

definition demo_blob_api :: "(unit, u64) blob_api" where
  "demo_blob_api =
     \<lparr>bl_has_field = (\<lambda>_ _. True), bl_take_blobs = (\<lambda>_ ids _. Ok (map Some ids)),
      bl_take_blobs_by_indices = (\<lambda>_ ids _. Ok (map Some ids)), bl_size = (\<lambda>_. 5), bl_tell = Ok,
      bl_read = (\<lambda>c. (Ok (drop (unat c) demo_bytes), max c 5)),
      bl_read_up_to = (\<lambda>c n. let bs = take (unat n) (drop (unat c) demo_bytes) in (Ok bs, c + of_nat (length bs))),
      bl_read_range = (\<lambda>c s e. Ok (take (unat (e - s)) (drop (unat s) demo_bytes))), bl_seek = (\<lambda>_ p. (Ok (), p))\<rparr>"

lemma demo_blob_documented: "blob_documented demo_blob_api (\<lambda>_. demo_bytes) unat"
proof -
  have "unat (c + of_nat (length (take n (drop (unat c) demo_bytes)))) = unat c + length (take n (drop (unat c) demo_bytes))"
    for c :: u64 and n
  proof (cases "unat c < 5")
    case True
    then have "unat c + length (take n (drop (unat c) demo_bytes)) < 2 ^ 64" by (simp add: demo_bytes_def)
    then show ?thesis by (simp add: unat_word_ariths unat_of_nat)
  qed (simp add: demo_bytes_def)
  moreover have "unat (max c 5) = max (unat c) 5" for c :: u64 by (simp add: max_def word_le_nat_alt)
  moreover have "unat c < 2 ^ 64" for c :: u64 using unsigned_less [of c, where ?'a = nat] by simp
  ultimately show ?thesis
    unfolding blob_documented_def by (auto simp: demo_blob_api_def Let_def) (auto simp: demo_bytes_def)
qed

theorem blob_pieces_then_rest_witness:
  "\<exists>b1 b2. read_pieces demo_blob_api [2, 1] 0 = (Ok [[10, 20], [30]], b1) \<and>
     blob_file_read_inner demo_blob_api (Some b1) (Some [0, 0, 0, 0]) 4 = (Ok (Some [40, 50, 0, 0]), b2)"
proof -
  have pieces: "read_pieces demo_blob_api [2, 1] 0 = (Ok [[10, 20], [30]], 3)"
    by (simp add: blob_file_read_up_to_inner_def blob_ref_def demo_blob_api_def demo_bytes_def write_prefix_def)
  obtain v b2 where r: "blob_file_read_inner demo_blob_api (Some 3) (Some [0, 0, 0, 0]) 4 = (Ok v, b2)"
    by (simp add: blob_file_read_inner_def blob_ref_def check_room_def demo_blob_api_def remaining_at_def)
  from blob_pieces_then_rest [OF demo_blob_documented pieces r] obtain rest where
    "concat [[10, 20], [30 :: u8]] @ rest = demo_bytes" "v = Some (rest @ drop (length rest) [0, 0, 0, 0])"
    by auto
  moreover from this(1) have "rest = [40, 50]" by (simp add: demo_bytes_def)
  ultimately show ?thesis using pieces r by auto
qed

end
