(* ===== verification/Snapshots.thy ===== *)
theory Snapshots
  imports Mutations
begin

text \<open>
  Model of the small handles: the version list (\<open>src/versions.rs\<close>), the storage statistics
  (\<open>src/data_statistics.rs\<close>), the shared session (\<open>src/session.rs\<close>) and the exported batch (\<open>src/batch.rs\<close>). The two
  lists promise their readers the same, which is the locale \<open>indexed_handle\<close>.
\<close>

subsection \<open>Handles read by index\<close>

locale indexed_handle =
  fixes entries1 :: "'h \<Rightarrow> 'e list"
    and count :: "'h ptr \<Rightarrow> u64 outcome"
    and entry_at :: "'h ptr \<Rightarrow> usize \<Rightarrow> 'e outcome"
  assumes count_live: "count (Some h) = Ok (of_nat (length (entries1 h)))"
    and entry_within: "unat i < length (entries1 h) \<Longrightarrow> entry_at (Some h) i = Ok (entries1 h ! unat i)"
    and entry_beyond: "length (entries1 h) \<le> unat i \<Longrightarrow> \<exists>m. entry_at (Some h) i = Err (invalid_input m)"
    and entry_null: "\<exists>m. entry_at None i = Err (invalid_input m)"
begin

text \<open>A host that reads index after index up to the count.\<close>

definition read_all :: "'h ptr \<Rightarrow> 'e list outcome" where
  "read_all p = obind (count p) (\<lambda>n. otraverse (\<lambda>i. entry_at p (of_nat i)) [0..<unat n])"

lemma read_all_entries: "length (entries1 h) < 2 ^ 64 \<Longrightarrow> read_all (Some h) = Ok (entries1 h)"
proof -
  assume len: "length (entries1 h) < 2 ^ 64"
  then have "entry_at (Some h) (of_nat i) = Ok (entries1 h ! i)" if "i < length (entries1 h)" for i
    using that entry_within [of "of_nat i" h] by (simp add: unat_of_nat)
  then have "otraverse (\<lambda>i. entry_at (Some h) (of_nat i)) [0..<length (entries1 h)] = Ok (map (\<lambda>i. entries1 h ! i) [0..<length (entries1 h)])"
    by (auto simp: otraverse_eq_Ok list_all2_conv_all_nth)
  then show ?thesis using len by (simp add: read_all_def count_live unat_of_nat map_nth)
qed

lemma entry_ok_iff: "(\<exists>e. entry_at p i = Ok e) \<longleftrightarrow> (\<exists>h. p = Some h \<and> unat i < length (entries1 h))"
  using entry_within entry_beyond entry_null by (cases p) (metis not_le outcome.distinct(1) option.distinct(1) option.inject)+

end

subsection \<open>Versions\<close>

record version_entry =
  ve_id :: u64
  ve_timestamp_ms :: i64

record lance_versions =
  lv_entries :: "version_entry list"

text \<open>Lance's \<open>versions\<close>: version numbers with their timestamps in milliseconds.\<close>

definition versions_inner :: "('ds \<Rightarrow> (u64 \<times> i64) list outcome) \<Rightarrow> 'ds lance_dataset ptr \<Rightarrow> lance_versions outcome" where
  "versions_inner api_versions dataset =
     obind (ok_or dataset (invalid_input ''dataset must not be NULL'')) (\<lambda>ds.
     obind (api_versions (arc_val (snapshot ds))) (\<lambda>versions.
     Ok \<lparr>lv_entries = map (\<lambda>(id1, ms). \<lparr>ve_id = id1, ve_timestamp_ms = ms\<rparr>) versions\<rparr>))"

definition lance_dataset_versions where
  "lance_dataset_versions api_versions dataset t =
     ffi_try (obind (versions_inner api_versions dataset) (\<lambda>v. Ok (Some v))) None t"

definition versions_count_inner :: "lance_versions ptr \<Rightarrow> u64 outcome" where
  "versions_count_inner versions =
     obind (ok_or versions (invalid_input ''versions is NULL'')) (\<lambda>v. Ok (of_nat (length (lv_entries v))))"

definition lance_versions_count where
  "lance_versions_count versions t = ffi_try (versions_count_inner versions) 0 t"

definition version_entry_at :: "lance_versions ptr \<Rightarrow> usize \<Rightarrow> version_entry outcome" where
  "version_entry_at versions index =
     obind (ok_or versions (invalid_input ''versions is NULL'')) (\<lambda>v.
     ok_or (if unat index < length (lv_entries v) then Some (lv_entries v ! unat index) else None)
       (invalid_input (''version index '' @ show_u index @ '' out of range; count = '' @ show_nat (length (lv_entries v)))))"

definition id_at_inner :: "lance_versions ptr \<Rightarrow> usize \<Rightarrow> u64 outcome" where
  "id_at_inner versions index = obind (version_entry_at versions index) (\<lambda>e. Ok (ve_id e))"

definition lance_versions_id_at where
  "lance_versions_id_at versions index t = ffi_try (id_at_inner versions index) 0 t"

definition timestamp_ms_at_inner :: "lance_versions ptr \<Rightarrow> usize \<Rightarrow> i64 outcome" where
  "timestamp_ms_at_inner versions index = obind (version_entry_at versions index) (\<lambda>e. Ok (ve_timestamp_ms e))"

definition lance_versions_timestamp_ms_at where
  "lance_versions_timestamp_ms_at versions index t = ffi_try (timestamp_ms_at_inner versions index) 0 t"

definition lance_versions_close :: "(lance_versions \<Rightarrow> unit unwind) \<Rightarrow> lance_versions ptr \<Rightarrow> tls \<Rightarrow> bool \<times> tls" where
  "lance_versions_close drop_fn versions t =
     (case versions of None \<Rightarrow> (True, t) | Some v \<Rightarrow> swallow_unwind (drop_fn v) t)"

interpretation versions: indexed_handle lv_entries versions_count_inner version_entry_at
  by unfold_locales (auto simp: versions_count_inner_def version_entry_at_def)

subsection \<open>Data statistics\<close>

record field_stat =
  fs_id :: u32
  fs_bytes_on_disk :: u64

record lance_data_statistics =
  ls_fields :: "field_stat list"

definition calculate_inner :: "('ds \<Rightarrow> (u32 \<times> u64) list outcome) \<Rightarrow> 'ds lance_dataset ptr \<Rightarrow> lance_data_statistics outcome" where
  "calculate_inner api_stats dataset =
     obind (ok_or dataset (invalid_input ''dataset must not be NULL'')) (\<lambda>ds.
     obind (api_stats (arc_val (snapshot ds))) (\<lambda>stats.
     Ok \<lparr>ls_fields = map (\<lambda>(id1, bytes). \<lparr>fs_id = id1, fs_bytes_on_disk = bytes\<rparr>) stats\<rparr>))"

definition lance_dataset_calculate_data_stats where
  "lance_dataset_calculate_data_stats api_stats dataset t =
     ffi_try (obind (calculate_inner api_stats dataset) (\<lambda>s. Ok (Some s))) None t"

definition statistics_count_inner :: "lance_data_statistics ptr \<Rightarrow> u64 outcome" where
  "statistics_count_inner stats =
     obind (ok_or stats (invalid_input ''stats is NULL'')) (\<lambda>s. Ok (of_nat (length (ls_fields s))))"

definition lance_data_statistics_count where
  "lance_data_statistics_count stats t = ffi_try (statistics_count_inner stats) 0 t"

definition stat_entry_at :: "lance_data_statistics ptr \<Rightarrow> usize \<Rightarrow> field_stat outcome" where
  "stat_entry_at stats index =
     obind (ok_or stats (invalid_input ''stats is NULL'')) (\<lambda>s.
     ok_or (if unat index < length (ls_fields s) then Some (ls_fields s ! unat index) else None)
       (invalid_input (''field statistics index '' @ show_u index @ '' out of range; count = '' @ show_nat (length (ls_fields s)))))"

definition field_id_at_inner :: "lance_data_statistics ptr \<Rightarrow> usize \<Rightarrow> u32 outcome" where
  "field_id_at_inner stats index = obind (stat_entry_at stats index) (\<lambda>e. Ok (fs_id e))"

definition lance_data_statistics_field_id_at where
  "lance_data_statistics_field_id_at stats index t = ffi_try (field_id_at_inner stats index) 0 t"

definition bytes_on_disk_at_inner :: "lance_data_statistics ptr \<Rightarrow> usize \<Rightarrow> u64 outcome" where
  "bytes_on_disk_at_inner stats index = obind (stat_entry_at stats index) (\<lambda>e. Ok (fs_bytes_on_disk e))"

definition lance_data_statistics_bytes_on_disk_at where
  "lance_data_statistics_bytes_on_disk_at stats index t = ffi_try (bytes_on_disk_at_inner stats index) 0 t"

definition lance_data_statistics_close ::
  "(lance_data_statistics \<Rightarrow> unit unwind) \<Rightarrow> lance_data_statistics ptr \<Rightarrow> tls \<Rightarrow> bool \<times> tls" where
  "lance_data_statistics_close drop_fn stats t =
     (case stats of None \<Rightarrow> (True, t) | Some s \<Rightarrow> swallow_unwind (drop_fn s) t)"

interpretation statistics: indexed_handle ls_fields statistics_count_inner stat_entry_at
  by unfold_locales (auto simp: statistics_count_inner_def stat_entry_at_def)

subsection \<open>Sessions\<close>

record cache_stats =
  ck_hits :: u64
  ck_misses :: u64
  ck_num_entries :: usize
  ck_size_bytes :: usize

record session_cache_stats =
  sc_index_cache_hits :: u64
  sc_index_cache_misses :: u64
  sc_index_cache_entries :: u64
  sc_index_cache_size_bytes :: u64
  sc_metadata_cache_hits :: u64
  sc_metadata_cache_misses :: u64
  sc_metadata_cache_entries :: u64
  sc_metadata_cache_size_bytes :: u64

record 'ss session_api =
  se_new :: "usize \<Rightarrow> usize \<Rightarrow> 'ss"
  se_index_stats :: "'ss \<Rightarrow> cache_stats"
  se_metadata_stats :: "'ss \<Rightarrow> cache_stats"

definition session_new_inner :: "'ss session_api \<Rightarrow> u64 \<Rightarrow> u64 \<Rightarrow> 'ss outcome" where
  "session_new_inner se index_cache_size_bytes metadata_cache_size_bytes =
     obind (u64_to_usize index_cache_size_bytes ''index_cache_size_bytes'') (\<lambda>i.
     obind (u64_to_usize metadata_cache_size_bytes ''metadata_cache_size_bytes'') (\<lambda>m. Ok (se_new se i m)))"

definition lance_session_new where
  "lance_session_new se index_size metadata_size t =
     ffi_try (obind (session_new_inner se index_size metadata_size) (\<lambda>s. Ok (Some s))) None t"

definition lance_session_close :: "('ss \<Rightarrow> unit unwind) \<Rightarrow> 'ss ptr \<Rightarrow> tls \<Rightarrow> bool \<times> tls" where
  "lance_session_close drop_fn session t =
     (case session of None \<Rightarrow> (True, t) | Some s \<Rightarrow> swallow_unwind (drop_fn s) t)"

definition session_get_cache_stats_inner ::
  "'ss session_api \<Rightarrow> 'ss ptr \<Rightarrow> session_cache_stats ptr \<Rightarrow> session_cache_stats outcome" where
  "session_get_cache_stats_inner se session out_stats =
     (case (session, out_stats) of
        (Some s, Some _) \<Rightarrow>
          (let index = se_index_stats se s; metadata = se_metadata_stats se s
           in Ok \<lparr>sc_index_cache_hits = ck_hits index, sc_index_cache_misses = ck_misses index,
                  sc_index_cache_entries = ucast (ck_num_entries index), sc_index_cache_size_bytes = ucast (ck_size_bytes index),
                  sc_metadata_cache_hits = ck_hits metadata, sc_metadata_cache_misses = ck_misses metadata,
                  sc_metadata_cache_entries = ucast (ck_num_entries metadata),
                  sc_metadata_cache_size_bytes = ucast (ck_size_bytes metadata)\<rparr>)
      | _ \<Rightarrow> Err (invalid_input ''session and out_stats must not be NULL''))"

definition lance_session_get_cache_stats where
  "lance_session_get_cache_stats se session out_stats t =
     store_out (session_get_cache_stats_inner se session out_stats) out_stats t"

subsection \<open>Batches\<close>

definition batch_to_arrow_inner :: "('batch \<Rightarrow> ('arr \<times> 'sch) outcome) \<Rightarrow> 'batch ptr \<Rightarrow> 'arr ptr \<Rightarrow> 'sch ptr \<Rightarrow> ('arr \<times> 'sch) outcome" where
  "batch_to_arrow_inner to_ffi batch out_array out_schema =
     (case (batch, out_array, out_schema) of
        (Some b, Some _, Some _) \<Rightarrow> to_ffi b
      | _ \<Rightarrow> Err (invalid_input ''batch, out_array, and out_schema must not be NULL''))"

definition lance_batch_to_arrow where
  "lance_batch_to_arrow to_ffi batch out_array out_schema t =
     (let body = batch_to_arrow_inner to_ffi batch out_array out_schema;
          (rc, t') = ffi_try (obind body (\<lambda>_. Ok (0 :: int))) (- 1) t
      in case body of
           Ok (array, schema) \<Rightarrow> (rc, t', Some array, Some schema)
         | _ \<Rightarrow> (rc, t', out_array, out_schema))"

definition lance_batch_free :: "('batch \<Rightarrow> unit unwind) \<Rightarrow> 'batch ptr \<Rightarrow> tls \<Rightarrow> bool \<times> tls" where
  "lance_batch_free drop_fn batch t = (case batch of None \<Rightarrow> (True, t) | Some b \<Rightarrow> swallow_unwind (drop_fn b) t)"

subsection \<open>Lemmas\<close>

text \<open>Both lists are read back whole by their indexes; an index at or beyond the count is an error, not the sentinel
  of an entry.\<close>

lemma versions_read_back:
  assumes "versions_inner api_versions (Some ds) = Ok v" "api_versions (arc_val (snapshot ds)) = Ok vs" "length vs < 2 ^ 64"
  shows "obind (versions_count_inner (Some v)) (\<lambda>n. otraverse (\<lambda>i. version_entry_at (Some v) (of_nat i)) [0..<unat n]) =
    Ok (map (\<lambda>(id1, ms). \<lparr>ve_id = id1, ve_timestamp_ms = ms\<rparr>) vs)"
proof -
  from assms(1,2) have "lv_entries v = map (\<lambda>(id1, ms). \<lparr>ve_id = id1, ve_timestamp_ms = ms\<rparr>) vs"
    by (auto simp: versions_inner_def)
  with versions.read_all_entries [of v] assms(3) show ?thesis by (simp add: versions.read_all_def)
qed

lemma statistics_read_back:
  assumes "calculate_inner api_stats (Some ds) = Ok s" "api_stats (arc_val (snapshot ds)) = Ok fs" "length fs < 2 ^ 64"
  shows "obind (statistics_count_inner (Some s)) (\<lambda>n. otraverse (\<lambda>i. stat_entry_at (Some s) (of_nat i)) [0..<unat n]) =
    Ok (map (\<lambda>(id1, bytes). \<lparr>fs_id = id1, fs_bytes_on_disk = bytes\<rparr>) fs)"
proof -
  from assms(1,2) have "ls_fields s = map (\<lambda>(id1, bytes). \<lparr>fs_id = id1, fs_bytes_on_disk = bytes\<rparr>) fs"
    by (auto simp: calculate_inner_def)
  with statistics.read_all_entries [of s] assms(3) show ?thesis by (simp add: statistics.read_all_def)
qed

end
