(* ===== verification/Writer.thy ===== *)
theory Writer
  imports Mutations
begin

text \<open>
  Model of the writers: \<open>src/writer.rs\<close>, which writes a stream to a dataset and commits it, and
  \<open>src/fragment_writer.rs\<close>, which writes fragment files only. Arrow's stream reader and schemas and Lance's write
  operations are the record \<open>write_api\<close>.
\<close>

subsection \<open>Modes and parameters\<close>

datatype write_mode = Create | Append | Overwrite

definition write_mode_from_raw :: "i32 \<Rightarrow> write_mode outcome" where
  "write_mode_from_raw raw =
     (if raw = 0 then Ok Create else if raw = 1 then Ok Append else if raw = 2 then Ok Overwrite
      else Err (invalid_input (''invalid write mode '' @ show_i raw @ ''; expected 0 (create), 1 (append), or 2 (overwrite)'')))"

fun write_mode_value :: "write_mode \<Rightarrow> i32" where
  "write_mode_value Create = 0"
| "write_mode_value Append = 1"
| "write_mode_value Overwrite = 2"

record write_params_arg =
  wa_max_rows_per_file :: u64
  wa_max_rows_per_group :: u64
  wa_max_bytes_per_file :: u64
  wa_data_storage_version :: "string ptr"
  wa_enable_stable_row_ids :: bool

text \<open>Lance's \<open>WriteParams\<close>: what is set here, and the rest. A cleanup policy is an interval in versions and an age in days.\<close>

record ('ver, 'r) write_params =
  wp_mode :: write_mode
  wp_store_options :: "(string \<times> string) list option"
  wp_auto_cleanup :: "(nat \<times> nat) option"
  wp_max_rows_per_file :: usize
  wp_max_rows_per_group :: usize
  wp_max_bytes_per_file :: usize
  wp_data_storage_version :: "'ver option"
  wp_enable_stable_row_ids :: bool
  wp_rest :: 'r

record ('ds, 'f, 'sch, 'raw, 'rd, 'ver, 'r) write_api =
  wr_from_raw :: "'raw c_stream \<Rightarrow> 'rd outcome"
  wr_reader_schema :: "'rd \<Rightarrow> 'sch"
  wr_arrow_schema :: "'f ffi_schema \<Rightarrow> 'sch outcome"
  wr_fields_eq :: "'sch \<Rightarrow> 'sch \<Rightarrow> bool"
  wr_show_schema :: "'sch \<Rightarrow> string"
  wr_version_from_str :: "string \<Rightarrow> 'ver outcome"
  wr_default :: "('ver, 'r) write_params"
  wr_write :: "'rd \<Rightarrow> string \<Rightarrow> ('ver, 'r) write_params \<Rightarrow> 'ds outcome"
  wr_write_fragments :: "'rd \<Rightarrow> string \<Rightarrow> ('ver, 'r) write_params \<Rightarrow> unit outcome"

text \<open>An override of a size: zero keeps the default.\<close>

definition size_override :: "u64 \<Rightarrow> string \<Rightarrow> usize \<Rightarrow> usize outcome" where
  "size_override v field default1 = (if v \<noteq> 0 then u64_to_usize v field else Ok default1)"

definition apply_write_params ::
  "('ds, 'f, 'sch, 'raw, 'rd, 'ver, 'r) write_api \<Rightarrow> ('ver, 'r) write_params \<Rightarrow> write_params_arg \<Rightarrow> ('ver, 'r) write_params outcome" where
  "apply_write_params wr target params =
     obind (size_override (wa_max_rows_per_file params) ''max_rows_per_file'' (wp_max_rows_per_file target)) (\<lambda>rows.
     obind (size_override (wa_max_rows_per_group params) ''max_rows_per_group'' (wp_max_rows_per_group target)) (\<lambda>group.
     obind (size_override (wa_max_bytes_per_file params) ''max_bytes_per_file'' (wp_max_bytes_per_file target)) (\<lambda>bytes.
     obind (case wa_data_storage_version params of
              None \<Rightarrow> Ok (wp_data_storage_version target)
            | Some _ \<Rightarrow>
                obind (required_string (wa_data_storage_version params)
                         (invalid_input ''data_storage_version must not be an empty string'')) (\<lambda>s.
                obind (map_err_text (\<lambda>e. ''invalid data_storage_version '' @ debug_string s @ '': '' @ e) (wr_version_from_str wr s))
                  (\<lambda>v. Ok (Some v)))) (\<lambda>version.
     Ok (target\<lparr>wp_max_rows_per_file := rows, wp_max_rows_per_group := group, wp_max_bytes_per_file := bytes,
           wp_data_storage_version := version, wp_enable_stable_row_ids := wa_enable_stable_row_ids params\<rparr>)))))"

subsection \<open>Writing a dataset\<close>

definition stream_reader :: "('ds, 'f, 'sch, 'raw, 'rd, 'ver, 'r) write_api \<Rightarrow> 'raw c_stream \<Rightarrow> 'rd outcome" where
  "stream_reader wr s = map_err_text (\<lambda>e. e) (wr_from_raw wr s)"

definition import_schema :: "('ds, 'f, 'sch, 'raw, 'rd, 'ver, 'r) write_api \<Rightarrow> 'f ffi_schema \<Rightarrow> 'sch outcome" where
  "import_schema wr f = map_err_text (\<lambda>e. ''invalid schema: '' @ e) (wr_arrow_schema wr f)"

definition schemas_match :: "('ds, 'f, 'sch, 'raw, 'rd, 'ver, 'r) write_api \<Rightarrow> 'rd \<Rightarrow> 'sch \<Rightarrow> unit outcome" where
  "schemas_match wr reader expected =
     (let stream_schema = wr_reader_schema wr reader in
      reject_if (\<not> wr_fields_eq wr stream_schema expected)
        (invalid_input (''stream schema does not match the provided schema.'' @ [CHR 0x0A] @ ''  expected: '' @
           wr_show_schema wr expected @ [CHR 0x0A] @ ''  got:      '' @ wr_show_schema wr stream_schema))
        (Ok ()))"

definition base_params ::
  "('ds, 'f, 'sch, 'raw, 'rd, 'ver, 'r) write_api \<Rightarrow> write_mode \<Rightarrow> (string \<times> string) list \<Rightarrow> ('ver, 'r) write_params" where
  "base_params wr mode opts =
     (wr_default wr)\<lparr>wp_mode := mode, wp_store_options := (if opts = [] then None else Some opts),
        wp_auto_cleanup := Some (20, 14)\<rparr>"

text \<open>What is left once the stream has become a reader.\<close>

definition write_reader ::
  "('ds, 'f, 'sch, 'raw, 'rd, 'ver, 'r) write_api \<Rightarrow> 'rd \<Rightarrow> string ptr \<Rightarrow> 'f ffi_schema ptr \<Rightarrow> i32 \<Rightarrow> write_params_arg ptr \<Rightarrow>
     string list ptr \<Rightarrow> 'ds outcome" where
  "write_reader wr reader uri schema mode params storage_opts =
     obind (ok_or uri (invalid_input ''uri must not be NULL'')) (\<lambda>_.
     obind (ok_or schema (invalid_input ''schema must not be NULL'')) (\<lambda>f.
     obind (write_mode_from_raw mode) (\<lambda>m.
     obind (required_string uri (invalid_input ''uri must not be empty'')) (\<lambda>uri_str.
     obind (import_schema wr f) (\<lambda>expected.
     obind (parse_storage_options storage_opts) (\<lambda>opts.
     obind (schemas_match wr reader expected) (\<lambda>_.
     obind (case params of
              None \<Rightarrow> Ok (base_params wr m opts)
            | Some p \<Rightarrow> apply_write_params wr (base_params wr m opts) p) (\<lambda>write_params.
     wr_write wr reader uri_str write_params))))))))"

text \<open>The handle is made only for a caller that wants it; \<open>a\<close> is the address of its new Arc. The last result is the
  caller's stream.\<close>

definition write_dataset_inner ::
  "('ds, 'f, 'sch, 'raw, 'rd, 'ver, 'r) write_api \<Rightarrow> nat \<Rightarrow> string ptr \<Rightarrow> 'f ffi_schema ptr \<Rightarrow> 'raw c_stream ptr \<Rightarrow> i32 \<Rightarrow>
     write_params_arg ptr \<Rightarrow> string list ptr \<Rightarrow> 'ds lance_dataset ptr ptr \<Rightarrow> 'ds lance_dataset ptr ptr outcome \<times> 'raw c_stream ptr" where
  "write_dataset_inner wr a uri schema stream mode params storage_opts out_dataset =
     (case stream of
        None \<Rightarrow> (Err (invalid_input ''stream must not be NULL''), stream)
      | Some s \<Rightarrow>
          (obind (stream_reader wr s) (\<lambda>reader.
           obind (write_reader wr reader uri schema mode params storage_opts) (\<lambda>d.
           Ok (map_option (\<lambda>_. Some \<lparr>ds_inner = Arc a d, ds_lock_poisoned = False\<rparr>) out_dataset))),
           taken stream))"

definition write_entry where
  "write_entry body out_dataset t =
     (let (rc, t') = ffi_try (obind (fst body) (\<lambda>_. Ok (0 :: int))) (- 1) t
      in (rc, t', snd body, (case fst body of Ok out \<Rightarrow> out | _ \<Rightarrow> out_dataset)))"

definition lance_dataset_write where
  "lance_dataset_write wr a uri schema stream mode storage_opts out_dataset t =
     write_entry (write_dataset_inner wr a uri schema stream mode None storage_opts out_dataset) out_dataset t"

definition lance_dataset_write_with_params where
  "lance_dataset_write_with_params wr a uri schema stream mode params storage_opts out_dataset t =
     write_entry (write_dataset_inner wr a uri schema stream mode params storage_opts out_dataset) out_dataset t"

subsection \<open>Writing fragments\<close>

text \<open>What is checked before the stream is taken.\<close>

definition fragment_args ::
  "('ds, 'f, 'sch, 'raw, 'rd, 'ver, 'r) write_api \<Rightarrow> string ptr \<Rightarrow> 'f ffi_schema ptr \<Rightarrow> 'raw c_stream ptr \<Rightarrow> string list ptr \<Rightarrow>
     (string \<times> 'sch \<times> (string \<times> string) list \<times> 'raw c_stream) outcome" where
  "fragment_args wr uri schema stream storage_opts =
     (case (uri, schema, stream) of
        (Some _, Some f, Some s) \<Rightarrow>
          obind (parse_c_string uri) (\<lambda>u.
          obind (ok_or u (invalid_input ''uri must not be empty'')) (\<lambda>uri_str.
          obind (import_schema wr f) (\<lambda>expected.
          obind (parse_storage_options storage_opts) (\<lambda>opts.
          Ok (uri_str, expected, opts, s)))))
      | _ \<Rightarrow> Err (invalid_input ''uri, schema, and stream must not be NULL''))"

definition write_fragments_inner ::
  "('ds, 'f, 'sch, 'raw, 'rd, 'ver, 'r) write_api \<Rightarrow> string ptr \<Rightarrow> 'f ffi_schema ptr \<Rightarrow> 'raw c_stream ptr \<Rightarrow> string list ptr \<Rightarrow>
     unit outcome \<times> 'raw c_stream ptr" where
  "write_fragments_inner wr uri schema stream storage_opts =
     (case fragment_args wr uri schema stream storage_opts of
        Err e \<Rightarrow> (Err e, stream)
      | Panic p \<Rightarrow> (Panic p, stream)
      | Ok (uri_str, expected, opts, s) \<Rightarrow>
          (obind (stream_reader wr s) (\<lambda>reader.
           obind (schemas_match wr reader expected) (\<lambda>_.
           wr_write_fragments wr reader uri_str
             ((wr_default wr)\<lparr>wp_store_options := (if opts = [] then wp_store_options (wr_default wr) else Some opts)\<rparr>))),
           taken stream))"

definition lance_write_fragments where
  "lance_write_fragments wr uri schema stream storage_opts t =
     (let (body, stream') = write_fragments_inner wr uri schema stream storage_opts;
          (rc, t') = ffi_try (obind body (\<lambda>_. Ok (0 :: int))) (- 1) t
      in (rc, t', stream'))"

subsection \<open>Lemmas\<close>

lemma size_override_Ok: "size_override v field d = Ok r \<longleftrightarrow> r = (if v = 0 then d else ucast v)"
proof -
  have "unat v < 2 ^ 64" using unsigned_less [of v, where ?'a = nat] by simp
  then show ?thesis by (auto simp: size_override_def u64_to_usize_def)
qed

text \<open>The storage version a caller may ask for.\<close>

definition version_requested ::
  "('ds, 'f, 'sch, 'raw, 'rd, 'ver, 'r) write_api \<Rightarrow> write_params_arg ptr \<Rightarrow> 'ver option \<Rightarrow> bool" where
  "version_requested wr params version \<longleftrightarrow>
     (case Option.bind params wa_data_storage_version of
        None \<Rightarrow> version = wp_data_storage_version (wr_default wr)
      | Some v \<Rightarrow> v \<noteq> [] \<and> to_str_ok v \<and> (\<exists>w. wr_version_from_str wr v = Ok w \<and> version = Some w))"

text \<open>The parameters of a write: the mode, the storage options if there are any, the pinned cleanup policy, and the
  caller's sizes where they are not zero.\<close>

definition write_request ::
  "('ds, 'f, 'sch, 'raw, 'rd, 'ver, 'r) write_api \<Rightarrow> write_mode \<Rightarrow> (string \<times> string) list \<Rightarrow> write_params_arg ptr \<Rightarrow> 'ver option \<Rightarrow>
     ('ver, 'r) write_params" where
  "write_request wr mode opts params version =
     (let d = wr_default wr; size1 = (\<lambda>f default1. case params of Some p \<Rightarrow> (if f p = 0 then default1 else ucast (f p)) | None \<Rightarrow> default1)
      in d\<lparr>wp_mode := mode, wp_store_options := (if opts = [] then None else Some opts), wp_auto_cleanup := Some (20, 14),
           wp_max_rows_per_file := size1 wa_max_rows_per_file (wp_max_rows_per_file d),
           wp_max_rows_per_group := size1 wa_max_rows_per_group (wp_max_rows_per_group d),
           wp_max_bytes_per_file := size1 wa_max_bytes_per_file (wp_max_bytes_per_file d),
           wp_data_storage_version := version,
           wp_enable_stable_row_ids := (case params of Some p \<Rightarrow> wa_enable_stable_row_ids p | None \<Rightarrow> wp_enable_stable_row_ids d)\<rparr>)"

lemma write_params_Ok:
  "(case params of None \<Rightarrow> Ok (base_params wr m opts) | Some p \<Rightarrow> apply_write_params wr (base_params wr m opts) p) = Ok r \<longleftrightarrow>
     (\<exists>version. version_requested wr params version \<and> r = write_request wr m opts params version)"
proof (cases params)
  case None
  then show ?thesis by (auto simp: version_requested_def write_request_def base_params_def)
next
  case (Some p)
  then show ?thesis
    by (cases "wa_data_storage_version p")
      (auto simp: apply_write_params_def obind_eq_Ok size_override_Ok version_requested_def write_request_def base_params_def
        required_string_eq_Ok map_err_text_eq_Ok Let_def)
qed

lemma write_mode_from_raw_Ok: "write_mode_from_raw raw = Ok m \<longleftrightarrow> raw = write_mode_value m"
  by (cases m) (auto simp: write_mode_from_raw_def)

lemma schemas_match_Ok: "schemas_match wr reader expected = Ok () \<longleftrightarrow> wr_fields_eq wr (wr_reader_schema wr reader) expected"
  by (simp add: schemas_match_def Let_def reject_if_eq_Ok)

lemma stream_reader_Ok: "stream_reader wr s = Ok reader \<longleftrightarrow> wr_from_raw wr s = Ok reader"
  by (simp add: stream_reader_def map_err_text_eq_Ok)

lemma import_schema_Ok: "import_schema wr f = Ok sch \<longleftrightarrow> wr_arrow_schema wr f = Ok sch"
  by (simp add: import_schema_def map_err_text_eq_Ok)

lemma write_reader_Ok:
  "write_reader wr reader uri schema mode params storage_opts = Ok d \<longleftrightarrow>
     (\<exists>u f m expected opts version. uri = Some u \<and> u \<noteq> [] \<and> to_str_ok u \<and> schema = Some f \<and> mode = write_mode_value m \<and>
        wr_arrow_schema wr f = Ok expected \<and> parse_storage_options storage_opts = Ok opts \<and>
        wr_fields_eq wr (wr_reader_schema wr reader) expected \<and> version_requested wr params version \<and>
        wr_write wr reader u (write_request wr m opts params version) = Ok d)"
  unfolding write_reader_def obind_eq_Ok ok_or_eq_Ok write_mode_from_raw_Ok required_string_eq_Ok import_schema_Ok write_params_Ok
  using schemas_match_Ok [of wr reader] by (auto simp: unit_eq) metis+

subsection \<open>Properties\<close>

text \<open>C39. Writing a dataset: the stream of the caller is released whatever becomes of the call, and the call succeeds
  exactly when the stream opens, the URI, schema, mode, options and storage version are valid, the stream
  has the schema's fields, and Lance's write succeeds with exactly the request the arguments describe: zero
  sizes keep the defaults, the cleanup policy is every 20 versions older than 14 days, and a handle to the
  new dataset is made only if the caller asked for one.\<close>

theorem dataset_write_exact:
  "snd (write_dataset_inner wr a uri schema (Some s) mode params storage_opts out_dataset) = Some (s\<lparr>cs_release := False\<rparr>) \<and>
   (fst (write_dataset_inner wr a uri schema (Some s) mode params storage_opts out_dataset) = Ok out \<longleftrightarrow>
     (\<exists>reader u f m expected opts version d. wr_from_raw wr s = Ok reader \<and> uri = Some u \<and> u \<noteq> [] \<and> to_str_ok u \<and>
        schema = Some f \<and> mode = write_mode_value m \<and> wr_arrow_schema wr f = Ok expected \<and>
        parse_storage_options storage_opts = Ok opts \<and> wr_fields_eq wr (wr_reader_schema wr reader) expected \<and>
        version_requested wr params version \<and> wr_write wr reader u (write_request wr m opts params version) = Ok d \<and>
        out = map_option (\<lambda>_. Some \<lparr>ds_inner = Arc a d, ds_lock_poisoned = False\<rparr>) out_dataset))"
  by (simp add: write_dataset_inner_def taken_def obind_eq_Ok stream_reader_Ok write_reader_Ok) blast

text \<open>The fragment writer takes the stream only after its other arguments have been validated.\<close>

lemma fragments_take_late:
  "snd (write_fragments_inner wr uri schema (Some s) storage_opts) =
     (if \<exists>u f expected opts. uri = Some u \<and> to_str_ok u \<and> schema = Some f \<and> wr_arrow_schema wr f = Ok expected \<and>
          parse_storage_options storage_opts = Ok opts
      then Some (s\<lparr>cs_release := False\<rparr>) else Some s)"
proof -
  have "(\<exists>v. fragment_args wr uri schema (Some s) storage_opts = Ok v) \<longleftrightarrow>
      (\<exists>u f expected opts. uri = Some u \<and> to_str_ok u \<and> schema = Some f \<and> wr_arrow_schema wr f = Ok expected \<and>
          parse_storage_options storage_opts = Ok opts)"
    by (auto simp: fragment_args_def obind_eq_Ok parse_c_string_eq_Ok import_schema_Ok split: option.splits)
  then show ?thesis by (cases "fragment_args wr uri schema (Some s) storage_opts")
      (auto simp: write_fragments_inner_def taken_def)
qed

end
