(* ===== verification/Query_Typing.thy ===== *)
theory Query_Typing
  imports Scanner_Contract
begin

text \<open>
  Typing of the vector queries that \<open>src/scanner.rs\<close> stores: a batch or multi-vector query always has the element
  type and the dimension of its column in the scanner's snapshot. The typing is a second invariant of the
  guarded calls of \<open>Scanner_Contract\<close>.
\<close>

definition batch_typed :: "('ds, 'ix, 'par, 'sc) scanner_api \<Rightarrow> 'ds \<Rightarrow> string \<Rightarrow> usize \<Rightarrow> query_array \<Rightarrow> bool" where
  "batch_typed api d column dim vals \<longleftrightarrow>
     sp_field api d column = Some (FixedSizeListT (PrimT (array_type vals)) (ucast dim)) \<and>
     sp_field api d ''query_index'' = None \<and> 0 < unat dim \<and> unat dim \<le> i32_max \<and> batch_finite vals"

definition multivector_typed :: "('ds, 'ix, 'par, 'sc) scanner_api \<Rightarrow> 'ds \<Rightarrow> string \<Rightarrow> usize \<Rightarrow> query_array \<Rightarrow> bool" where
  "multivector_typed api d column dim vals \<longleftrightarrow>
     sp_field api d column = Some (ListT False (FixedSizeListT (PrimT (array_type vals)) (ucast dim))) \<and>
     array_type vals \<in> {Float16, Float32, Float64} \<and> 0 < unat dim \<and> unat dim \<le> i32_max \<and>
     unat dim dvd array_length vals \<and> 0 < array_length vals div unat dim \<and>
     array_length vals div unat dim \<le> max_query_vectors \<and> validate_query (sp_execution_error api) vals = Ok ()"

text \<open>A single query is checked by Lance when the scan is built; the other two modes are typed here.\<close>

fun query_value_typed :: "('ds, 'ix, 'par, 'sc) scanner_api \<Rightarrow> 'ds \<Rightarrow> string \<Rightarrow> nearest_mode \<Rightarrow> query_value \<Rightarrow> bool" where
  "query_value_typed api d column Single (QVector vals) = True"
| "query_value_typed api d column (Batch n) (QMatrix dim vals) = batch_typed api d column dim vals"
| "query_value_typed api d column MultiVector (QMatrix dim vals) = multivector_typed api d column dim vals"
| "query_value_typed api d column mode1 value1 = False"

definition query_typed :: "('ds, 'ix, 'par, 'sc) scanner_api \<Rightarrow> ('ds, 'sc, 'cb, 'st) lance_scanner \<Rightarrow> bool" where
  "query_typed api s \<longleftrightarrow>
     (case sc_nearest s of
        Some q \<Rightarrow> query_value_typed api (arc_val (sc_dataset s)) (nq_column q) (nq_mode q) (nq_query q)
      | None \<Rightarrow> True)"

subsection \<open>Lemmas\<close>

text \<open>Only the query setters touch the query, and none touches the snapshot.\<close>

definition same_query :: "('ds, 'sc, 'cb, 'st) lance_scanner \<Rightarrow> ('ds, 'sc, 'cb, 'st) lance_scanner \<Rightarrow> bool" where
  "same_query s s' \<longleftrightarrow> sc_nearest s' = sc_nearest s \<and> sc_dataset s' = sc_dataset s"

lemma same_query_typed: "same_query s s' \<Longrightarrow> query_typed api s \<Longrightarrow> query_typed api s'"
  by (auto simp: same_query_def query_typed_def split: option.split)

lemma setting_same_query:
  "bool_setting_inner fb b (Some s) = Ok s' \<Longrightarrow> same_query s s'"
  "u32_setting_inner fu v (Some s) = Ok s' \<Longrightarrow> same_query s s'"
  "i32_setting_inner fi i (Some s) = Ok s' \<Longrightarrow> same_query s s'"
  "i64_setting_inner fl w (Some s) = Ok s' \<Longrightarrow> same_query s s'"
  "u64_setting_inner fw x (Some s) = Ok s' \<Longrightarrow> same_query s s'"
  "usize_setting_inner fz n (Some s) = Ok s' \<Longrightarrow> same_query s s'"
  "ids_setting_inner fd ids n (Some s) = Ok s' \<Longrightarrow> same_query s s'"
  "bytes_setting_inner fy bytes n (Some s) = Ok s' \<Longrightarrow> same_query s s'"
proof -
  note defs = option_setter_defs knob_setter_defs query_setter_defs setter_defs same_query_def
  show "bool_setting_inner fb b (Some s) = Ok s' \<Longrightarrow> same_query s s'" by (cases fb) (auto simp: defs)
  show "u32_setting_inner fu v (Some s) = Ok s' \<Longrightarrow> same_query s s'"
    by (cases fu) (auto simp: defs split: option.splits nearest_mode.splits)
  show "i32_setting_inner fi i (Some s) = Ok s' \<Longrightarrow> same_query s s'" by (cases fi) (auto simp: defs split: if_splits)
  show "i64_setting_inner fl w (Some s) = Ok s' \<Longrightarrow> same_query s s'" by (cases fl) (auto simp: defs)
  show "u64_setting_inner fw x (Some s) = Ok s' \<Longrightarrow> same_query s s'" by (cases fw) (auto simp: defs)
  show "usize_setting_inner fz n (Some s) = Ok s' \<Longrightarrow> same_query s s'" by (cases fz) (auto simp: defs)
  show "ids_setting_inner fd ids n (Some s) = Ok s' \<Longrightarrow> same_query s s'"
    by (cases fd) (auto simp: defs split: row_addr_list.splits)
  show "bytes_setting_inner fy bytes n (Some s) = Ok s' \<Longrightarrow> same_query s s'"
    by (cases fy) (auto simp: defs split: if_splits)
qed

lemma call_same_query:
  "scanner_set_scalar_index_segment_inner u (Some s) = Ok s' \<Longrightarrow> same_query s s'"
  "scanner_additional_sql_filter_inner f (Some s) = Ok s' \<Longrightarrow> same_query s s'"
  "scanner_set_statistics_callback_inner cb (Some s) = Ok s' \<Longrightarrow> same_query s s'"
  "fts_inner api c cols fz (Some s) = Ok s' \<Longrightarrow> same_query s s'"
  "scanner_set_fts_query_context_inner api ctx (Some s) = Ok s' \<Longrightarrow> same_query s s'"
proof -
  note defs = option_setter_defs knob_setter_defs query_setter_defs setter_defs same_query_def
  show "scanner_set_scalar_index_segment_inner u (Some s) = Ok s' \<Longrightarrow> same_query s s'"
    "scanner_additional_sql_filter_inner f (Some s) = Ok s' \<Longrightarrow> same_query s s'"
    "scanner_set_statistics_callback_inner cb (Some s) = Ok s' \<Longrightarrow> same_query s s'"
    "scanner_set_fts_query_context_inner api ctx (Some s) = Ok s' \<Longrightarrow> same_query s s'" by (auto simp: defs)
  show "fts_inner api c cols fz (Some s) = Ok s' \<Longrightarrow> same_query s s'"
    by (auto simp: defs split: option.split_asm if_split_asm)
qed

lemma nearest_typed:
  "scanner_nearest_inner c q n e k (Some s) = Ok s' \<Longrightarrow> query_typed api s'"
  by (auto simp: scanner_nearest_inner_def outcome_ok query_typed_def split: option.split_asm)

lemma distance_range_typed:
  "query_typed api s \<Longrightarrow> scanner_set_distance_range_inner pars lo hi (Some s) = Ok s' \<Longrightarrow> query_typed api s'"
  by (auto simp: knob_setter_defs setter_defs query_typed_def)

lemma check_batch_column_Ok:
  "check_batch_column api d column dim dtype = Ok () \<longleftrightarrow>
     sp_field api d ''query_index'' = None \<and> sp_field api d column = Some (FixedSizeListT (PrimT dtype) (ucast dim))"
  by (auto simp: check_batch_column_def outcome_ok)

lemma nearest_batch_typed:
  assumes "nearest_batch_inner api c q d m e k (Some s) = Ok s'"
  shows "query_typed api s'"
  using assms by (rule nearest_batch_inner_OkD)
    (auto simp: query_typed_def batch_typed_def check_batch_column_Ok)

lemma check_multivector_column_Ok:
  "check_multivector_column api d column dim dtype = Ok () \<longleftrightarrow>
     sp_field api d column = Some (ListT False (FixedSizeListT (PrimT dtype) (ucast dim)))"
proof (cases "sp_field api d column")
  case (Some ft)
  show ?thesis
  proof (cases ft)
    case (ListT nullable child)
    then show ?thesis by (cases nullable) (auto simp: check_multivector_column_def Some)
  qed (simp_all add: check_multivector_column_def Some)
qed (simp add: check_multivector_column_def)

lemma decode_float_length:
  assumes "decode_query_values buf n e = Ok vals" "array_type vals \<in> {Float16, Float32, Float64}"
  shows "array_length vals = unat n"
proof -
  from decode_query_values_eq_Ok [OF assms(1)] assms show ?thesis
    by (cases "array_type vals") (auto simp: decode_query_values_def outcome_ok Let_def simp del: prim_of_code.simps)
qed

lemma nearest_multivector_inner_OkD:
  assumes "nearest_multivector_inner api c q dim m e k (Some s) = Ok s'"
  obtains buf count column vals where "decode_query_values buf count e = Ok vals" "e \<in> {0, 1, 2}"
    "0 < unat dim" "unat dim \<le> i32_max" "0 < unat m" "unat m \<le> max_query_vectors" "unat count = unat dim * unat m"
    "check_multivector_column api (arc_val (sc_dataset s)) column dim (array_type vals) = Ok ()"
    "validate_query (sp_execution_error api) vals = Ok ()"
    "s' = s\<lparr>sc_nearest := Some \<lparr>nq_mode = MultiVector, nq_column = column, nq_query = QMatrix dim vals, nq_k = k,
            nq_lower_bound = None, nq_upper_bound = None\<rparr>\<rparr>"
proof -
  from assms obtain buf count column dtype vals where a: "decode_query_values buf count e = Ok vals"
    "dim \<noteq> 0" "unat dim \<le> i32_max" "m \<noteq> 0" "unat m \<le> max_query_vectors" "checked_mul dim m = Some count"
    "e \<in> {0, 1, 2}" "prim_of_code e = Some dtype"
    "check_multivector_column api (arc_val (sc_dataset s)) (the column) dim dtype = Ok ()"
    "validate_query (sp_execution_error api) vals = Ok ()"
    "s' = s\<lparr>sc_nearest := Some \<lparr>nq_mode = MultiVector, nq_column = the column, nq_query = QMatrix dim vals, nq_k = k,
            nq_lower_bound = None, nq_upper_bound = None\<rparr>\<rparr>"
    unfolding nearest_multivector_inner_def
    by (auto simp: outcome_ok not_less simp del: prim_of_code.simps split: option.split_asm if_split_asm)
  moreover from a(8) decode_query_values_eq_Ok [OF a(1)] have "dtype = array_type vals" by simp
  ultimately show thesis by (intro that [of buf count vals "the column"]) (simp_all add: unat_gt_0 checked_mul_Some)
qed

lemma nearest_multivector_typed:
  assumes "nearest_multivector_inner api c q dim m e k (Some s) = Ok s'"
  shows "query_typed api s'"
  using assms
proof (rule nearest_multivector_inner_OkD)
  fix buf count column vals
  assume a: "decode_query_values buf count e = Ok vals" "e \<in> {0, 1, 2}"
    "0 < unat dim" "unat dim \<le> i32_max" "0 < unat m" "unat m \<le> max_query_vectors" "unat count = unat dim * unat m"
    "check_multivector_column api (arc_val (sc_dataset s)) column dim (array_type vals) = Ok ()"
    "validate_query (sp_execution_error api) vals = Ok ()"
    "s' = s\<lparr>sc_nearest := Some \<lparr>nq_mode = MultiVector, nq_column = column, nq_query = QMatrix dim vals, nq_k = k,
            nq_lower_bound = None, nq_upper_bound = None\<rparr>\<rparr>"
  from decode_query_values_eq_Ok [OF a(1)] a(2) have ty: "array_type vals \<in> {Float16, Float32, Float64}" by auto
  from decode_float_length [OF a(1) ty] a(3,7) have "array_length vals div unat dim = unat m" "unat dim dvd array_length vals"
    by simp_all
  with a ty show ?thesis by (simp add: query_typed_def multivector_typed_def check_multivector_column_Ok)
qed

lemma query_typed_op:
  assumes "query_typed api s" "scanner_op_inner api op (Some s) = Ok s'"
  shows "query_typed api s'"
proof -
  note same = same_query_typed [OF _ assms(1)]
  from assms(2) show ?thesis
    by (cases op) (auto intro: same dest: setting_same_query call_same_query nearest_typed nearest_batch_typed
        nearest_multivector_typed distance_range_typed [OF assms(1)])
qed

interpretation typed_calls: guarded_handle "scanner_op_inner api" "scanner_op_call api" sc_poisoned poison "query_typed api"
  for api :: "('ds, 'ix, 'par, 'sc) scanner_api"
  using query_typed_op
  by unfold_locales (blast intro: scanner_calls.call_poisoned scanner_calls.call_Ok scanner_calls.call_not_Ok
      scanner_calls.poisoned_mark | simp add: query_typed_def poison_def cong: option.case_cong)+

text \<open>C28. Whatever configuration calls a client makes on a new scanner, a stored batch or multi-vector query has the
  element type and dimension of its column in the scanner's own snapshot: a batch query is a matrix over a
  column of fixed-size lists, finite and without a clash with the reserved result column, and a
  multi-vector query is at most 128 whole vectors of floats, validated, over a column of lists of them.\<close>

theorem stored_query_typed:
  assumes "lance_scanner_new dataset columns filter_ptr t0 = (Some s0, t1)"
  shows "\<exists>s. snd (snd (scanner_run api ops (Some s0) t)) = Some s \<and> query_typed api s"
proof -
  from assms have "query_typed api s0" unfolding lance_scanner_new_def
    by (drule_tac ffi_try_handle) (auto simp: scanner_new_inner_def obind_eq_Ok query_typed_def split: option.splits)
  moreover obtain rcs t' p where r: "scanner_run api ops (Some s0) t = (rcs, t', p)" by (metis surj_pair)
  ultimately show ?thesis using typed_calls.calls_inv [OF _ r [unfolded scanner_run_eq]] by simp
qed

theorem stored_query_typed_witness:
  "\<exists>s :: (unit, unit, nat, unit) lance_scanner.
     snd (snd (scanner_run demo_scanner_api [OpNearestBatch (Some ''vec'') (Some demo_matrix) 2 2 0 10]
       (fst (lance_scanner_new (Some demo_handle) None None None)) None)) = Some s \<and>
     sc_nearest s \<noteq> None \<and> query_typed demo_scanner_api s"
proof -
  let ?op = "OpNearestBatch (Some ''vec'') (Some demo_matrix) 2 2 0 10"
  let ?s0 = "lance_scanner_init (Arc 1 ()) :: (unit, unit, nat, unit) lance_scanner"
  have n: "lance_scanner_new (Some demo_handle) None None None = (Some ?s0, None)"
    by (simp add: lance_scanner_new_def scanner_new_inner_def parse_c_string_array_def clear_last_error_def snapshot_def)
  from demo_batch_call obtain s where s: "nearest_batch_inner demo_scanner_api (Some ''vec'') (Some demo_matrix) 2 2 0 10 (Some ?s0) = Ok s"
    "sc_nearest s \<noteq> None" by (rule that) simp
  have "scanner_op_call demo_scanner_api ?op (Some ?s0) None = (0, clear_last_error None, Some s)"
    using s by (intro scanner_calls.call_Ok) simp_all
  then have "snd (snd (scanner_run demo_scanner_api [?op] (Some ?s0) None)) = Some s" by simp
  with stored_query_typed [OF n, of demo_scanner_api "[?op]" None] s show ?thesis unfolding n fst_conv by auto
qed

end
