(* ===== verification/Scan_End.thy ===== *)
theory Scan_End
  imports Scalar_Segment
begin

text \<open>
  Model of the end of a scan in \<open>src/scanner.rs\<close>: the execution statistics handed to the registered callback when a
  stream has been consumed, and the release of scanners and exported streams. A hash map is enumerated in
  some order, which is an argument.
\<close>

subsection \<open>Statistics\<close>

datatype scan_metric_kind = Count | TimeNanoseconds

fun scan_metric_kind_value :: "scan_metric_kind \<Rightarrow> i32" where
  "scan_metric_kind_value Count = 0"
| "scan_metric_kind_value TimeNanoseconds = 1"

record scan_metric =
  sm_name :: string
  sm_kind :: scan_metric_kind
  sm_value :: u64

record scan_statistics =
  ss_iops :: u64
  ss_requests :: u64
  ss_bytes_read :: u64
  ss_indices_loaded :: u64
  ss_index_partitions_loaded :: u64
  ss_index_comparisons :: u64
  ss_metrics :: "scan_metric list ptr"
  ss_metrics_len :: usize

definition metric_entries :: "scan_metric_kind \<Rightarrow> (string \<times> usize) list \<Rightarrow> scan_metric list" where
  "metric_entries kind entries = map (\<lambda>(name, v). \<lparr>sm_name = name, sm_kind = kind, sm_value = ucast v\<rparr>) entries"

text \<open>What the callback is called with: \<open>reserve\<close> says whether the allocation of that many metrics succeeds.\<close>

definition invoke_statistics ::
  "(usize \<Rightarrow> bool) \<Rightarrow> (string \<times> usize) list \<Rightarrow> (string \<times> usize) list \<Rightarrow> exec_counts \<Rightarrow> scan_statistics" where
  "invoke_statistics reserve1 all_counts all_times counts =
     (let metrics =
            (case checked_add (of_nat (length all_counts)) (of_nat (length all_times)) of
               Some metrics_len \<Rightarrow>
                 if reserve1 metrics_len then metric_entries Count all_counts @ metric_entries TimeNanoseconds all_times else []
             | None \<Rightarrow> [])
      in \<lparr>ss_iops = ucast (ec_iops counts), ss_requests = ucast (ec_requests counts), ss_bytes_read = ucast (ec_bytes_read counts),
          ss_indices_loaded = ucast (ec_indices_loaded counts), ss_index_partitions_loaded = ucast (ec_parts_loaded counts),
          ss_index_comparisons = ucast (ec_index_comparisons counts),
          ss_metrics = (if metrics = [] then None else Some metrics), ss_metrics_len = of_nat (length metrics)\<rparr>)"

subsection \<open>Freeing\<close>

text \<open>Closing retires the poll wakers and then drops the handle; a panic in either is swallowed.\<close>

definition lance_scanner_close :: "('s \<Rightarrow> unit unwind) \<Rightarrow> ('s \<Rightarrow> unit unwind) \<Rightarrow> 's ptr \<Rightarrow> tls \<Rightarrow> bool \<times> tls" where
  "lance_scanner_close retire1 drop_fn scanner t =
     (case scanner of
        None \<Rightarrow> (True, t)
      | Some s \<Rightarrow> swallow_unwind (case retire1 s of Returned _ \<Rightarrow> drop_fn s | Unwound p \<Rightarrow> Unwound p) t)"

definition lance_scanner_async_stream_free :: "('st \<Rightarrow> unit unwind) \<Rightarrow> 'st ptr \<Rightarrow> tls \<Rightarrow> bool \<times> tls" where
  "lance_scanner_async_stream_free drop_fn stream t =
     (case stream of None \<Rightarrow> (True, t) | Some s \<Rightarrow> swallow_unwind (drop_fn s) t)"

subsection \<open>Lemmas\<close>

text \<open>A host that looks a metric up by its kind and name.\<close>

definition metric_value_of :: "scan_statistics \<Rightarrow> scan_metric_kind \<Rightarrow> string \<Rightarrow> u64 option" where
  "metric_value_of s kind name =
     map_option sm_value (List.find (\<lambda>m. sm_kind m = kind \<and> sm_name m = name) (case ss_metrics s of Some ms \<Rightarrow> ms | None \<Rightarrow> []))"

text \<open>The sum of two metrics that may be absent.\<close>

fun sum_of :: "usize option \<Rightarrow> usize option \<Rightarrow> usize option" where
  "sum_of (Some a) (Some b) = Some (a + b)"
| "sum_of None b = b"
| "sum_of a None = a"

lemma add_maps_sum: "add_maps read own name = sum_of (read name) (own name)"
  by (cases "(read name, own name)" rule: sum_of.cases) (auto simp: add_maps_def split: option.splits)

lemma find_metric_entries:
  "List.find (\<lambda>m. sm_kind m = kind \<and> sm_name m = name) (metric_entries k entries) =
     (if k = kind then map_option (\<lambda>v. \<lparr>sm_name = name, sm_kind = kind, sm_value = ucast v\<rparr>) (map_of entries name) else None)"
  by (induction entries) (auto simp: metric_entries_def)

lemma map_option_ucast_id: "map_option (ucast :: 64 word \<Rightarrow> 64 word) x = x"
  by (cases x) simp_all

lemma find_append: "List.find P (xs @ ys) = (case List.find P xs of Some x \<Rightarrow> Some x | None \<Rightarrow> List.find P ys)"
  by (induction xs) auto

text \<open>What the callback gets of the named metrics: all of them when their number fits a machine word and they could be
  allocated, else none.\<close>

lemma invoke_statistics_metrics:
  assumes "length all_counts < 2 ^ 64" "length all_times < 2 ^ 64"
  shows "(case ss_metrics (invoke_statistics reserve1 all_counts all_times c) of Some ms \<Rightarrow> ms | None \<Rightarrow> []) =
      (if length all_counts + length all_times < 2 ^ 64 \<and> reserve1 (of_nat (length all_counts + length all_times))
       then metric_entries Count all_counts @ metric_entries TimeNanoseconds all_times else [])"
proof -
  have "checked_add (of_nat (length all_counts)) (of_nat (length all_times) :: usize) =
      (if length all_counts + length all_times < 2 ^ 64 then Some (of_nat (length all_counts + length all_times)) else None)"
    using assms by (simp add: checked_add_def unat_of_nat)
  then show ?thesis by (simp add: invoke_statistics_def Let_def)
qed

lemma metric_value_of_invoked:
  assumes "length all_counts < 2 ^ 64" "length all_times < 2 ^ 64"
    and "length all_counts + length all_times < 2 ^ 64" "reserve1 (of_nat (length all_counts + length all_times))"
  shows "metric_value_of (invoke_statistics reserve1 all_counts all_times c) kind name =
      map_option ucast (map_of (case kind of Count \<Rightarrow> all_counts | TimeNanoseconds \<Rightarrow> all_times) name)"
  using assms(3,4) unfolding metric_value_of_def invoke_statistics_metrics [OF assms(1,2)]
  by (cases kind) (auto simp: find_append find_metric_entries option.map_comp comp_def map_option_ucast_id option.map_ident split: option.split)

text \<open>C40. The statistics of a scan that used a scalar segment: each of the six fixed totals is the sum of what the read and
  the index search counted. When the named metrics fit and could be allocated, each metric of either is reported, under
  its kind, with the sum of its two values, and their number is the number of counters and timings; otherwise the
  callback gets no named metric, a null pointer and the length 0, and the totals all the same.\<close>

theorem combined_statistics_reported:
  assumes "map_of all_counts = ec_all_counts (combined_counts stats read)" "map_of all_times = ec_all_times (combined_counts stats read)"
    and "length all_counts < 2 ^ 64" "length all_times < 2 ^ 64"
    and "s = invoke_statistics reserve1 all_counts all_times (combined_counts stats read)"
  shows "ss_iops s = ucast (ec_iops read + ec_iops stats) \<and>
    ss_requests s = ucast (ec_requests read + ec_requests stats) \<and>
    ss_bytes_read s = ucast (ec_bytes_read read + ec_bytes_read stats) \<and>
    ss_indices_loaded s = ucast (ec_indices_loaded read + ec_indices_loaded stats) \<and>
    ss_index_partitions_loaded s = ucast (ec_parts_loaded read + ec_parts_loaded stats) \<and>
    ss_index_comparisons s = ucast (ec_index_comparisons read + ec_index_comparisons stats) \<and>
    (if length all_counts + length all_times < 2 ^ 64 \<and> reserve1 (of_nat (length all_counts + length all_times))
     then ss_metrics_len s = of_nat (length all_counts + length all_times) \<and>
       (\<forall>name. metric_value_of s Count name = map_option ucast (sum_of (ec_all_counts read name) (ec_all_counts stats name)) \<and>
          metric_value_of s TimeNanoseconds name = map_option ucast (sum_of (ec_all_times read name) (ec_all_times stats name)))
     else ss_metrics s = None \<and> ss_metrics_len s = 0)"
proof -
  note m = invoke_statistics_metrics [OF assms(3,4), of reserve1 "combined_counts stats read"]
  have "metric_value_of s Count name = map_option ucast (sum_of (ec_all_counts read name) (ec_all_counts stats name)) \<and>
      metric_value_of s TimeNanoseconds name = map_option ucast (sum_of (ec_all_times read name) (ec_all_times stats name))"
    if "length all_counts + length all_times < 2 ^ 64" "reserve1 (of_nat (length all_counts + length all_times))" for name
    using metric_value_of_invoked [of all_counts all_times reserve1, OF assms(3,4) that] assms(1,2)
    by (simp add: assms(5) combined_counts_def add_maps_sum)
  moreover have "ss_metrics_len s = of_nat (length (case ss_metrics s of Some ms \<Rightarrow> ms | None \<Rightarrow> []))"
    "ss_metrics s \<noteq> Some []" by (auto simp: assms(5) invoke_statistics_def Let_def)
  with m [folded assms(5)] have
    "if length all_counts + length all_times < 2 ^ 64 \<and> reserve1 (of_nat (length all_counts + length all_times))
     then ss_metrics_len s = of_nat (length all_counts + length all_times) else ss_metrics s = None \<and> ss_metrics_len s = 0"
    by (cases "ss_metrics s") (auto simp: metric_entries_def split: if_splits)
  moreover have "ss_iops s = ucast (ec_iops read + ec_iops stats)" "ss_requests s = ucast (ec_requests read + ec_requests stats)"
    "ss_bytes_read s = ucast (ec_bytes_read read + ec_bytes_read stats)"
    "ss_indices_loaded s = ucast (ec_indices_loaded read + ec_indices_loaded stats)"
    "ss_index_partitions_loaded s = ucast (ec_parts_loaded read + ec_parts_loaded stats)"
    "ss_index_comparisons s = ucast (ec_index_comparisons read + ec_index_comparisons stats)"
    by (simp_all add: assms(5) invoke_statistics_def Let_def combined_counts_def)
  ultimately show ?thesis by presburger
qed

theorem combined_statistics_reported_witness:
  "\<exists>s. s = invoke_statistics (\<lambda>_. True) [] [(''search_time'', 5)]
       (combined_counts (exec_counts_default\<lparr>ec_iops := 1, ec_bytes_read := 10, ec_all_times := [''search_time'' \<mapsto> 2]\<rparr>)
          (exec_counts_default\<lparr>ec_iops := 4, ec_bytes_read := 90, ec_all_times := [''search_time'' \<mapsto> 3]\<rparr>)) \<and>
     ss_iops s = 5 \<and> ss_bytes_read s = 100 \<and> metric_value_of s TimeNanoseconds ''search_time'' = Some 5 \<and> ss_metrics_len s = 1"
proof -
  let ?stats = "exec_counts_default\<lparr>ec_iops := 1, ec_bytes_read := 10, ec_all_times := [''search_time'' \<mapsto> 2]\<rparr>"
  let ?read = "exec_counts_default\<lparr>ec_iops := 4, ec_bytes_read := 90, ec_all_times := [''search_time'' \<mapsto> 3]\<rparr>"
  have m: "map_of [] = ec_all_counts (combined_counts ?stats ?read)"
    "map_of [(''search_time'', 5)] = ec_all_times (combined_counts ?stats ?read)"
    by (auto simp: combined_counts_def exec_counts_default_def add_maps_def)
  have len: "length ([] :: (string \<times> usize) list) < 2 ^ 64" "length [(''search_time'', 5 :: usize)] < 2 ^ 64" by simp_all
  from combined_statistics_reported [OF m len refl, of "\<lambda>_. True"] show ?thesis
    by (intro exI [of _ "invoke_statistics (\<lambda>_. True) [] [(''search_time'', 5)] (combined_counts ?stats ?read)"])
      (simp add: exec_counts_default_def)
qed

end
