(* ===== verification/Host.thy ===== *)
theory Host
  imports Scan_Async Handle_Contract Query_Typing Writer
begin

text \<open>
  A host process with any number of dataset handles, scanners and text-search contexts, all alive at once: the entry
  points that make, change and close them, in any order and on any handle. A snapshot is an \<open>Arc\<close>, and the code
  compares snapshots by address. The allocator is free to reuse the address of an \<open>Arc\<close> that nobody holds any more,
  so a new one is only known to differ from those that are held.
\<close>

subsection \<open>The process\<close>

text \<open>Closing a handle leaves its slot empty, so that an index names the same handle for ever.\<close>

record ('ds, 'sc, 'cb, 'st) host =
  ho_datasets :: "'ds lance_dataset ptr list"
  ho_scanners :: "('ds, 'sc, 'cb, 'st) lance_scanner ptr list"
  ho_contexts :: "('ds, 'sc) fts_query_context arc ptr list"

definition host_start :: "('ds, 'sc, 'cb, 'st) host" where
  "host_start = \<lparr>ho_datasets = [], ho_scanners = [], ho_contexts = []\<rparr>"

definition scanner_arcs :: "('ds, 'sc, 'cb, 'st) lance_scanner \<Rightarrow> 'ds arc set" where
  "scanner_arcs s = insert (sc_dataset s) ((\<lambda>c. fc_dataset (arc_val c)) ` set_option (sc_fts_context s))"

text \<open>The snapshots that some handle holds.\<close>

definition live_arcs :: "('ds, 'sc, 'cb, 'st) host \<Rightarrow> 'ds arc set" where
  "live_arcs H =
     {ds_inner d |d. Some d \<in> set (ho_datasets H)} \<union> (\<Union>s \<in> {s. Some s \<in> set (ho_scanners H)}. scanner_arcs s) \<union>
     {fc_dataset (arc_val c) |c. Some c \<in> set (ho_contexts H)}"

definition fresh_address :: "nat \<Rightarrow> ('ds, 'sc, 'cb, 'st) host \<Rightarrow> bool" where
  "fresh_address a H \<longleftrightarrow> a \<notin> arc_addr ` live_arcs H"

definition add_dataset :: "'ds lance_dataset \<Rightarrow> ('ds, 'sc, 'cb, 'st) host \<Rightarrow> ('ds, 'sc, 'cb, 'st) host" where
  "add_dataset d H = H\<lparr>ho_datasets := ho_datasets H @ [Some d]\<rparr>"

definition put_dataset :: "nat \<Rightarrow> 'ds lance_dataset ptr \<Rightarrow> ('ds, 'sc, 'cb, 'st) host \<Rightarrow> ('ds, 'sc, 'cb, 'st) host" where
  "put_dataset i d H = H\<lparr>ho_datasets := (ho_datasets H)[i := d]\<rparr>"

definition add_scanner :: "('ds, 'sc, 'cb, 'st) lance_scanner \<Rightarrow> ('ds, 'sc, 'cb, 'st) host \<Rightarrow> ('ds, 'sc, 'cb, 'st) host" where
  "add_scanner s H = H\<lparr>ho_scanners := ho_scanners H @ [Some s]\<rparr>"

definition put_scanner :: "nat \<Rightarrow> ('ds, 'sc, 'cb, 'st) lance_scanner ptr \<Rightarrow> ('ds, 'sc, 'cb, 'st) host \<Rightarrow> ('ds, 'sc, 'cb, 'st) host" where
  "put_scanner j s H = H\<lparr>ho_scanners := (ho_scanners H)[j := s]\<rparr>"

definition add_context :: "('ds, 'sc) fts_query_context arc \<Rightarrow> ('ds, 'sc, 'cb, 'st) host \<Rightarrow> ('ds, 'sc, 'cb, 'st) host" where
  "add_context c H = H\<lparr>ho_contexts := ho_contexts H @ [Some c]\<rparr>"

definition drop_context :: "nat \<Rightarrow> ('ds, 'sc, 'cb, 'st) host \<Rightarrow> ('ds, 'sc, 'cb, 'st) host" where
  "drop_context k H = H\<lparr>ho_contexts := (ho_contexts H)[k := None]\<rparr>"

fun dataset_at :: "('ds, 'sc, 'cb, 'st) host \<Rightarrow> nat \<Rightarrow> 'ds lance_dataset \<Rightarrow> bool" where
  "dataset_at H i d \<longleftrightarrow> i < length (ho_datasets H) \<and> ho_datasets H ! i = Some d"

fun scanner_at :: "('ds, 'sc, 'cb, 'st) host \<Rightarrow> nat \<Rightarrow> ('ds, 'sc, 'cb, 'st) lance_scanner \<Rightarrow> bool" where
  "scanner_at H j s \<longleftrightarrow> j < length (ho_scanners H) \<and> ho_scanners H ! j = Some s"

fun context_at :: "('ds, 'sc, 'cb, 'st) host \<Rightarrow> nat \<Rightarrow> ('ds, 'sc) fts_query_context arc \<Rightarrow> bool" where
  "context_at H k c \<longleftrightarrow> k < length (ho_contexts H) \<and> ho_contexts H ! k = Some c"

declare dataset_at.simps [simp del] scanner_at.simps [simp del] context_at.simps [simp del]

text \<open>A configuration call is passed a context that is alive.\<close>

fun op_context_alive :: "('ds, 'sc, 'cb, 'st) host \<Rightarrow> ('ds, 'sc, 'cb) scanner_op \<Rightarrow> bool" where
  "op_context_alive H (OpFtsQueryContext (Some c)) \<longleftrightarrow> Some c \<in> set (ho_contexts H)"
| "op_context_alive H op \<longleftrightarrow> True"

text \<open>One call of the host.\<close>

inductive host_step for da ha wr sa env poll conv schema_of msg_host where
  open_dataset: "fresh_address a H \<Longrightarrow> lance_dataset_open da a uri opts version t = (Some d, t') \<Longrightarrow>
    host_step da ha wr sa env poll conv schema_of msg_host H (add_dataset d H)"
| open_with_session: "fresh_address a H \<Longrightarrow> lance_dataset_open_with_session da a uri opts version session t = (Some d, t') \<Longrightarrow>
    host_step da ha wr sa env poll conv schema_of msg_host H (add_dataset d H)"
| restore_dataset: "fresh_address a H \<Longrightarrow> dataset_at H i d0 \<Longrightarrow>
    lance_dataset_restore (ha_mutation ha) a (Some d0) version t = (Some d, t') \<Longrightarrow>
    host_step da ha wr sa env poll conv schema_of msg_host H (add_dataset d H)"
| write_dataset: "fresh_address a H \<Longrightarrow>
    lance_dataset_write_with_params wr a uri schema stream mode params opts (Some None) t = (rc, t', stream', Some (Some d)) \<Longrightarrow>
    host_step da ha wr sa env poll conv schema_of msg_host H (add_dataset d H)"
| change_dataset: "fresh_address a H \<Longrightarrow> dataset_at H i d \<Longrightarrow> handle_call_inner ha a call (Some d) = (r, Some d') \<Longrightarrow>
    host_step da ha wr sa env poll conv schema_of msg_host H (put_dataset i (Some d') H)"
| close_dataset: "host_step da ha wr sa env poll conv schema_of msg_host H (put_dataset i None H)"
| new_scanner: "dataset_at H i d \<Longrightarrow> lance_scanner_new (Some d) columns filter_ptr t = (Some s, t') \<Longrightarrow>
    host_step da ha wr sa env poll conv schema_of msg_host H (add_scanner s H)"
| configure: "scanner_at H j s \<Longrightarrow> op_context_alive H op \<Longrightarrow> scanner_op_call sa op (Some s) t = (rc, t', Some s') \<Longrightarrow>
    host_step da ha wr sa env poll conv schema_of msg_host H (put_scanner j (Some s') H)"
| next_batch: "scanner_at H j s \<Longrightarrow> lance_scanner_next env poll (Some s) out t = Some (rc, t', Some s', out') \<Longrightarrow>
    host_step da ha wr sa env poll conv schema_of msg_host H (put_scanner j (Some s') H)"
| poll_batch: "scanner_at H j s \<Longrightarrow> lance_scanner_poll_next env poll c (Some s) wakers waker out t = (status, t', Some s', wakers', out') \<Longrightarrow>
    host_step da ha wr sa env poll conv schema_of msg_host H (put_scanner j (Some s') H)"
| export_stream: "scanner_at H j s \<Longrightarrow> lance_scanner_to_arrow_stream env conv schema_of (Some s) out t = (rc, t', Some s', out') \<Longrightarrow>
    host_step da ha wr sa env poll conv schema_of msg_host H (put_scanner j (Some s') H)"
| scan_async: "scanner_at H j s \<Longrightarrow> lance_scanner_scan_async env msg_host spawn (Some s) callback t p = (task, t', Some s', p') \<Longrightarrow>
    host_step da ha wr sa env poll conv schema_of msg_host H (put_scanner j (Some s') H)"
| task_panics: "scanner_at H j s \<Longrightarrow> host_step da ha wr sa env poll conv schema_of msg_host H (put_scanner j (Some (poison s)) H)"
| close_scanner: "host_step da ha wr sa env poll conv schema_of msg_host H (put_scanner j None H)"
| prepare_match: "dataset_at H i d \<Longrightarrow>
    lance_dataset_prepare_fts_match_query (sp_fts sa) ca (Some d) column query operator fuzzy mode t = (Some c, t') \<Longrightarrow>
    host_step da ha wr sa env poll conv schema_of msg_host H (add_context c H)"
| prepare_query: "dataset_at H i d \<Longrightarrow>
    lance_dataset_prepare_fts_query (sp_fts sa) ca (Some d) column query fuzzy mode t = (Some c, t') \<Longrightarrow>
    host_step da ha wr sa env poll conv schema_of msg_host H (add_context c H)"
| prepare_phrase: "dataset_at H i d \<Longrightarrow>
    lance_dataset_prepare_fts_phrase_query (sp_fts sa) ca (Some d) column query slop mode t = (Some c, t') \<Longrightarrow>
    host_step da ha wr sa env poll conv schema_of msg_host H (add_context c H)"
| close_context: "host_step da ha wr sa env poll conv schema_of msg_host H (drop_context k H)"


subsection \<open>Driving a scanner\<close>

text \<open>Iteration, export and asynchronous scans touch the stream and the two flags of a scanner only.\<close>

definition driven :: "('ds, 'sc, 'cb, 'st) lance_scanner \<Rightarrow> ('ds, 'sc, 'cb, 'st) lance_scanner \<Rightarrow> bool" where
  "driven s s' \<longleftrightarrow> (\<exists>started st poisoned.
     s' = s\<lparr>sc_scan_started := started, sc_stream := st, sc_poisoned := poisoned\<rparr>)"

lemma driven_refl: "driven s s"
  unfolding driven_def by (intro exI [of _ "sc_scan_started s"] exI [of _ "sc_stream s"] exI [of _ "sc_poisoned s"]) simp

lemma driven_trans:
  assumes "driven s s'" "driven s' s''"
  shows "driven s s''"
proof -
  from assms obtain b st p where "s'' = s\<lparr>sc_scan_started := b, sc_stream := st, sc_poisoned := p\<rparr>"
    by (auto simp: driven_def)
  then show ?thesis unfolding driven_def by (intro exI)
qed

lemma driven_updates:
  "driven s (s\<lparr>sc_scan_started := b\<rparr>)" "driven s (s\<lparr>sc_stream := st\<rparr>)" "driven s (poison s)"
proof -
  show "driven s (s\<lparr>sc_scan_started := b\<rparr>)"
    unfolding driven_def by (intro exI [of _ b] exI [of _ "sc_stream s"] exI [of _ "sc_poisoned s"]) simp
  show "driven s (s\<lparr>sc_stream := st\<rparr>)"
    unfolding driven_def by (intro exI [of _ "sc_scan_started s"] exI [of _ st] exI [of _ "sc_poisoned s"]) simp
  show "driven s (poison s)"
    unfolding driven_def poison_def by (intro exI [of _ "sc_scan_started s"] exI [of _ "sc_stream s"] exI [of _ True]) simp
qed

lemma driven_source: "driven s s' \<Longrightarrow> sc_dataset s' = sc_dataset s \<and> sc_fts_context s' = sc_fts_context s"
  by (auto simp: driven_def)

lemma driven_ok: "driven s s' \<Longrightarrow> scanner_ok s' = scanner_ok s"
  by (auto simp: driven_def)

lemma build_scanner_driven: "build_scanner fa pl s = (r, s') \<Longrightarrow> driven s s'"
  by (auto simp: build_scanner_def Let_def driven_updates)

lemma materialize_driven: "materialize_stream env s = (r, s') \<Longrightarrow> driven s s'"
  by (auto simp: materialize_stream_def build_scanner_def Let_def intro: driven_trans [OF driven_updates(1)] driven_updates
      split: outcome.splits)

lemma open_lazily_driven: "open_lazily env s = (r, s') \<Longrightarrow> driven s s'"
  by (auto simp: open_lazily_def driven_refl intro: materialize_driven split: if_splits)

lemma catch_scan_driven: "driven s (snd (snd (catch_scan v r t s)))"
  by (auto simp: catch_scan_def driven_refl driven_updates split: unwind.splits)

lemma next_inner_driven:
  assumes "scanner_next_inner env poll s t = Some (r, t', s')"
  shows "driven s s'"
proof -
  obtain opened s1 where o1: "open_lazily env s = (opened, s1)" by (metis surj_pair)
  have "driven s1 s'"
    using assms o1 by (auto simp: scanner_next_inner_def split_beta Let_def driven_refl driven_updates
        split: outcome.splits option.splits)
  with open_lazily_driven [OF o1] show ?thesis by (rule driven_trans)
qed

lemma lance_scanner_next_driven:
  assumes "lance_scanner_next env poll (Some s) out t = Some (rc, t', Some s', out')"
  shows "driven s s'"
proof (cases "sc_poisoned s \<or> is_null out")
  case False
  with assms obtain r t1 s1 where "scanner_next_inner env poll s t = Some (r, t1, s1)"
    "s' = snd (snd (catch_scan (- 1, null) r t1 s1))"
    by (auto simp: lance_scanner_next_def Let_def split_beta)
  then show ?thesis by (simp add: driven_trans [OF next_inner_driven catch_scan_driven])
qed (use assms in \<open>auto simp: lance_scanner_next_def Let_def driven_refl split: if_splits\<close>)

lemma poll_inner_driven:
  assumes "scanner_poll_next_inner env poll c s wakers t = (r, t', s', wakers')"
  shows "driven s s'"
proof -
  obtain opened s1 where o1: "open_lazily env s = (opened, s1)" by (metis surj_pair)
  have "driven s1 s'"
    using assms o1 by (auto simp: scanner_poll_next_inner_def split_beta Let_def driven_refl driven_updates
        split: outcome.splits option.splits)
  with open_lazily_driven [OF o1] show ?thesis by (rule driven_trans)
qed

lemma lance_scanner_poll_next_driven:
  assumes "lance_scanner_poll_next env poll c (Some s) wakers waker out t = (status, t', Some s', wakers', out')"
  shows "driven s s'"
proof (cases "sc_poisoned s \<or> is_null out \<or> is_null waker")
  case False
  obtain r t1 s1 w1 where i: "scanner_poll_next_inner env poll c s wakers t = (r, t1, s1, w1)" by (metis surj_pair)
  with assms False have "s' = snd (snd (catch_scan (StatusError, null) r t1 s1))"
    by (auto simp: lance_scanner_poll_next_def Let_def split_beta)
  then show ?thesis by (simp add: driven_trans [OF poll_inner_driven [OF i] catch_scan_driven])
qed (use assms in \<open>auto simp: lance_scanner_poll_next_def Let_def split_beta driven_refl split: if_splits\<close>)

lemma lance_scanner_to_arrow_stream_driven:
  assumes "lance_scanner_to_arrow_stream env conv schema_of (Some s) out t = (rc, t', Some s', out')"
  shows "driven s s'"
proof (cases "sc_poisoned s \<or> is_null out")
  case False
  obtain built s1 where b: "build_scanner (se_fts env) (se_planner env) s = (built, s1)" by (metis surj_pair)
  note d = driven_trans [OF build_scanner_driven [OF b] catch_scan_driven]
  from assms False b show ?thesis
    by (auto simp: lance_scanner_to_arrow_stream_def scanner_to_arrow_stream_inner_def Let_def split_beta d)
qed (use assms in \<open>auto simp: lance_scanner_to_arrow_stream_def driven_refl split: if_splits\<close>)

lemma lance_scanner_scan_async_driven:
  assumes "lance_scanner_scan_async env msg_host spawn (Some s) callback t p = (task, t', Some s', p')"
  shows "driven s s'"
proof -
  have "driven s s' \<or> driven (s\<lparr>sc_scan_started := True\<rparr>) s'"
    using assms by (auto simp: lance_scanner_scan_async_def scan_async_guarded_def scan_async_setup_def build_scanner_def
        split_beta Let_def driven_refl driven_updates split: option.splits outcome.splits unwind.splits if_splits)
  then show ?thesis using driven_trans [OF driven_updates(1)] by blast
qed

subsection \<open>Configuring a scanner\<close>

text \<open>No call replaces the snapshot of a scanner, and one call attaches a context, after the identity check.\<close>

definition attaches :: "('ds, 'sc, 'cb) scanner_op \<Rightarrow> ('ds, 'sc) fts_query_context arc \<Rightarrow> bool" where
  "attaches op c \<longleftrightarrow> (case op of OpFtsQueryContext x \<Rightarrow> x = Some c | _ \<Rightarrow> False)"

lemma setting_context:
  "bool_setting_inner fb b (Some s) = Ok s' \<Longrightarrow> sc_fts_context s' = sc_fts_context s"
  "u32_setting_inner fu v (Some s) = Ok s' \<Longrightarrow> sc_fts_context s' = sc_fts_context s"
  "i32_setting_inner fi i (Some s) = Ok s' \<Longrightarrow> sc_fts_context s' = sc_fts_context s"
  "i64_setting_inner fl w (Some s) = Ok s' \<Longrightarrow> sc_fts_context s' = sc_fts_context s"
  "u64_setting_inner fw x (Some s) = Ok s' \<Longrightarrow> sc_fts_context s' = sc_fts_context s"
  "usize_setting_inner fz n (Some s) = Ok s' \<Longrightarrow> sc_fts_context s' = sc_fts_context s"
  "ids_setting_inner fd ids n (Some s) = Ok s' \<Longrightarrow> sc_fts_context s' = sc_fts_context s"
  "bytes_setting_inner fy bytes n (Some s) = Ok s' \<Longrightarrow> sc_fts_context s' = sc_fts_context s"
proof -
  note defs = option_setter_defs knob_setter_defs query_setter_defs setter_defs
  show "bool_setting_inner fb b (Some s) = Ok s' \<Longrightarrow> sc_fts_context s' = sc_fts_context s" by (cases fb) (auto simp: defs)
  show "u32_setting_inner fu v (Some s) = Ok s' \<Longrightarrow> sc_fts_context s' = sc_fts_context s"
    by (cases fu) (auto simp: defs split: option.splits nearest_mode.splits)
  show "i32_setting_inner fi i (Some s) = Ok s' \<Longrightarrow> sc_fts_context s' = sc_fts_context s"
    by (cases fi) (auto simp: defs split: if_splits)
  show "i64_setting_inner fl w (Some s) = Ok s' \<Longrightarrow> sc_fts_context s' = sc_fts_context s" by (cases fl) (auto simp: defs)
  show "u64_setting_inner fw x (Some s) = Ok s' \<Longrightarrow> sc_fts_context s' = sc_fts_context s" by (cases fw) (auto simp: defs)
  show "usize_setting_inner fz n (Some s) = Ok s' \<Longrightarrow> sc_fts_context s' = sc_fts_context s" by (cases fz) (auto simp: defs)
  show "ids_setting_inner fd ids n (Some s) = Ok s' \<Longrightarrow> sc_fts_context s' = sc_fts_context s"
    by (cases fd) (auto simp: defs split: row_addr_list.splits)
  show "bytes_setting_inner fy bytes n (Some s) = Ok s' \<Longrightarrow> sc_fts_context s' = sc_fts_context s"
    by (cases fy) (auto simp: defs split: if_splits)
qed

lemma query_call_context:
  "scanner_set_scalar_index_segment_inner u (Some s) = Ok s' \<Longrightarrow> sc_fts_context s' = sc_fts_context s"
  "scanner_additional_sql_filter_inner f (Some s) = Ok s' \<Longrightarrow> sc_fts_context s' = sc_fts_context s"
  "scanner_set_statistics_callback_inner cb (Some s) = Ok s' \<Longrightarrow> sc_fts_context s' = sc_fts_context s"
  "scanner_set_distance_range_inner api lo hi (Some s) = Ok s' \<Longrightarrow> sc_fts_context s' = sc_fts_context s \<and> sc_dataset s' = sc_dataset s"
  "scanner_nearest_inner cl q n e k (Some s) = Ok s' \<Longrightarrow> sc_fts_context s' = sc_fts_context s \<and> sc_dataset s' = sc_dataset s"
  "nearest_batch_inner api cl q dim m e k (Some s) = Ok s' \<Longrightarrow> sc_fts_context s' = sc_fts_context s \<and> sc_dataset s' = sc_dataset s"
  "nearest_multivector_inner api cl q dim m e k (Some s) = Ok s' \<Longrightarrow> sc_fts_context s' = sc_fts_context s \<and> sc_dataset s' = sc_dataset s"
  "fts_inner api cl cols fz (Some s) = Ok s' \<Longrightarrow> sc_fts_context s' = sc_fts_context s"
proof -
  note defs = option_setter_defs knob_setter_defs query_setter_defs setter_defs
  show "scanner_set_scalar_index_segment_inner u (Some s) = Ok s' \<Longrightarrow> sc_fts_context s' = sc_fts_context s"
    "scanner_additional_sql_filter_inner f (Some s) = Ok s' \<Longrightarrow> sc_fts_context s' = sc_fts_context s"
    "scanner_set_statistics_callback_inner cb (Some s) = Ok s' \<Longrightarrow> sc_fts_context s' = sc_fts_context s"
    "scanner_set_distance_range_inner api lo hi (Some s) = Ok s' \<Longrightarrow> sc_fts_context s' = sc_fts_context s \<and> sc_dataset s' = sc_dataset s"
    by (auto simp: defs)
  show "scanner_nearest_inner cl q n e k (Some s) = Ok s' \<Longrightarrow> sc_fts_context s' = sc_fts_context s \<and> sc_dataset s' = sc_dataset s"
    by (auto simp: defs split: option.split_asm)
  show "nearest_batch_inner api cl q dim m e k (Some s) = Ok s' \<Longrightarrow> sc_fts_context s' = sc_fts_context s \<and> sc_dataset s' = sc_dataset s"
    by (erule nearest_batch_inner_OkD) simp
  show "nearest_multivector_inner api cl q dim m e k (Some s) = Ok s' \<Longrightarrow> sc_fts_context s' = sc_fts_context s \<and> sc_dataset s' = sc_dataset s"
    by (erule nearest_multivector_inner_OkD) simp
  show "fts_inner api cl cols fz (Some s) = Ok s' \<Longrightarrow> sc_fts_context s' = sc_fts_context s"
    by (auto simp: defs split: option.split_asm if_split_asm)
qed

lemma attach_context_Ok:
  assumes "scanner_set_fts_query_context_inner api p (Some s) = Ok s'"
  obtains c where "p = Some c" "s' = s\<lparr>sc_fts_context := Some c\<rparr>" "arc_ptr_eq (fc_dataset (arc_val c)) (sc_dataset s)"
  using assms by (auto simp: scanner_set_fts_query_context_inner_def clone_context_def outcome_ok validate_dataset_identity_def
      reject_if_eq_Ok)

lemma op_source:
  assumes "scanner_op_inner api op (Some s) = Ok s'"
  shows "sc_dataset s' = sc_dataset s \<and>
    (sc_fts_context s' = sc_fts_context s \<or>
     (\<exists>c. attaches op c \<and> sc_fts_context s' = Some c \<and> arc_ptr_eq (fc_dataset (arc_val c)) (sc_dataset s)))"
proof (cases op)
  case (OpFtsQueryContext p)
  with assms have "scanner_set_fts_query_context_inner api p (Some s) = Ok s'" by simp
  then show ?thesis by (rule attach_context_Ok) (simp add: OpFtsQueryContext attaches_def)
qed (use assms in \<open>auto dest: setting_context query_call_context setting_same_query call_same_query simp: same_query_def\<close>)

end
