(* ===== verification/Host_Contract.thy ===== *)
theory Host_Contract
  imports Host
begin

text \<open>
  What holds of a host process in every state that it can reach: snapshots are held under distinct addresses, although
  the allocator reuses them, so that the identity check of \<open>src/fts_query.rs\<close> is exact; an attached context belongs to
  the scanner's own version of the dataset; and open handles keep their snapshot.
\<close>

subsection \<open>The invariant\<close>

text \<open>A context is what preparation gave for some query on its snapshot; a scanner is consistent, and its context was
  prepared on its own snapshot; and no two snapshots that are held have the same address.\<close>

definition prepared_by :: "('ds, 'ix, 'par, 'sc) fts_api \<Rightarrow> ('ds, 'sc) fts_query_context \<Rightarrow> bool" where
  "prepared_by fa ctx \<longleftrightarrow> (\<exists>column query mode1. prepare_fts_query_context fa (fc_dataset ctx) column query mode1 = Ok ctx)"

definition scanner_sound :: "('ds, 'ix, 'par, 'sc) fts_api \<Rightarrow> ('ds, 'sc, 'cb, 'st) lance_scanner \<Rightarrow> bool" where
  "scanner_sound fa s \<longleftrightarrow> scanner_ok s \<and>
     (\<forall>c. sc_fts_context s = Some c \<longrightarrow> fc_dataset (arc_val c) = sc_dataset s \<and> prepared_by fa (arc_val c))"

definition host_ok :: "('ds, 'ix, 'par, 'sc) fts_api \<Rightarrow> ('ds, 'sc, 'cb, 'st) host \<Rightarrow> bool" where
  "host_ok fa H \<longleftrightarrow> inj_on arc_addr (live_arcs H) \<and>
     (\<forall>s. Some s \<in> set (ho_scanners H) \<longrightarrow> scanner_sound fa s) \<and>
     (\<forall>c. Some c \<in> set (ho_contexts H) \<longrightarrow> prepared_by fa (arc_val c))"

lemma inj_on_fresh:
  assumes "inj_on arc_addr L" "x \<in> L \<or> arc_addr x \<notin> arc_addr ` L" "L' \<subseteq> insert x L"
  shows "inj_on arc_addr L'"
proof -
  have "inj_on arc_addr (insert x L)"
  proof (cases "x \<in> L")
    case True
    with assms(1) show ?thesis by (simp add: insert_absorb)
  next
    case False
    with assms(2) have "arc_addr x \<notin> arc_addr ` (L - {x})" by blast
    with assms(1) show ?thesis by (simp add: inj_on_insert)
  qed
  then show ?thesis using assms(3) by (rule inj_on_subset)
qed

lemma live_arcs_add_dataset: "live_arcs (add_dataset d H) = insert (ds_inner d) (live_arcs H)"
  by (auto simp: live_arcs_def add_dataset_def)

lemma live_arcs_put_dataset: "live_arcs (put_dataset i p H) \<subseteq> ds_inner ` set_option p \<union> live_arcs H"
  by (fastforce simp: live_arcs_def put_dataset_def dest: set_update_subset_insert [THEN subsetD])

lemma live_arcs_add_scanner: "live_arcs (add_scanner s H) = scanner_arcs s \<union> live_arcs H"
  by (auto simp: live_arcs_def add_scanner_def)

lemma live_arcs_put_scanner: "live_arcs (put_scanner j p H) \<subseteq> (\<Union>s \<in> set_option p. scanner_arcs s) \<union> live_arcs H"
  by (fastforce simp: live_arcs_def put_scanner_def dest: set_update_subset_insert [THEN subsetD])

lemma live_arcs_add_context: "live_arcs (add_context c H) = insert (fc_dataset (arc_val c)) (live_arcs H)"
  by (auto simp: live_arcs_def add_context_def)

lemma live_arcs_drop_context: "live_arcs (drop_context k H) \<subseteq> live_arcs H"
  by (fastforce simp: live_arcs_def drop_context_def dest: set_update_subset_insert [THEN subsetD])

lemma live_arcsI:
  "dataset_at H i d \<Longrightarrow> ds_inner d \<in> live_arcs H"
  "scanner_at H j s \<Longrightarrow> scanner_arcs s \<subseteq> live_arcs H"
  "Some c \<in> set (ho_contexts H) \<Longrightarrow> fc_dataset (arc_val c) \<in> live_arcs H"
  by (auto simp: live_arcs_def dataset_at.simps scanner_at.simps) (metis nth_mem)+

lemma host_ok_add_dataset:
  "host_ok fa H \<Longrightarrow> fresh_address (arc_addr (ds_inner d)) H \<Longrightarrow> host_ok fa (add_dataset d H)"
  using inj_on_fresh [of "live_arcs H" "ds_inner d" "live_arcs (add_dataset d H)"]
  by (auto simp: host_ok_def live_arcs_add_dataset fresh_address_def) (simp_all add: add_dataset_def)

lemma host_ok_put_dataset:
  assumes "host_ok fa H" "\<And>d. p = Some d \<Longrightarrow> ds_inner d \<in> live_arcs H \<or> fresh_address (arc_addr (ds_inner d)) H"
  shows "host_ok fa (put_dataset i p H)"
proof -
  have "inj_on arc_addr (live_arcs (put_dataset i p H))"
  proof (cases p)
    case None
    with live_arcs_put_dataset [of i p H] assms(1) show ?thesis by (auto simp: host_ok_def intro: inj_on_subset)
  next
    case (Some d)
    have "inj_on arc_addr (live_arcs H)" using assms(1) by (simp add: host_ok_def)
    moreover have "ds_inner d \<in> live_arcs H \<or> arc_addr (ds_inner d) \<notin> arc_addr ` live_arcs H"
      using assms(2) [OF Some] by (simp add: fresh_address_def)
    moreover have "live_arcs (put_dataset i p H) \<subseteq> insert (ds_inner d) (live_arcs H)"
      using live_arcs_put_dataset [of i p H] Some by simp
    ultimately show ?thesis by (rule inj_on_fresh)
  qed
  with assms(1) show ?thesis by (simp add: host_ok_def put_dataset_def)
qed

lemma host_ok_add_scanner:
  assumes "host_ok fa H" "scanner_sound fa s" "scanner_arcs s \<subseteq> live_arcs H"
  shows "host_ok fa (add_scanner s H)"
proof -
  have "live_arcs (add_scanner s H) = live_arcs H" using assms(3) by (auto simp: live_arcs_add_scanner)
  with assms(1,2) show ?thesis by (auto simp: host_ok_def add_scanner_def)
qed

lemma host_ok_put_scanner:
  assumes "host_ok fa H" "\<And>s. p = Some s \<Longrightarrow> scanner_sound fa s \<and> scanner_arcs s \<subseteq> live_arcs H"
  shows "host_ok fa (put_scanner j p H)"
proof -
  have "live_arcs (put_scanner j p H) \<subseteq> live_arcs H"
    using live_arcs_put_scanner [of j p H] assms(2) by (cases p) auto
  then have "inj_on arc_addr (live_arcs (put_scanner j p H))"
    using assms(1) by (auto simp: host_ok_def intro: inj_on_subset)
  moreover have "scanner_sound fa s" if "Some s \<in> set (ho_scanners (put_scanner j p H))" for s
    using that assms set_update_subset_insert [of "ho_scanners H" j p] by (auto simp: host_ok_def put_scanner_def)
  ultimately show ?thesis using assms(1) by (simp add: host_ok_def) (simp add: put_scanner_def)
qed

lemma host_ok_add_context:
  assumes "host_ok fa H" "prepared_by fa (arc_val c)" "fc_dataset (arc_val c) \<in> live_arcs H"
  shows "host_ok fa (add_context c H)"
proof -
  have "live_arcs (add_context c H) = live_arcs H" using assms(3) by (auto simp: live_arcs_add_context)
  with assms(1,2) show ?thesis by (auto simp: host_ok_def add_context_def)
qed

lemma host_ok_drop_context:
  assumes "host_ok fa H"
  shows "host_ok fa (drop_context k H)"
proof -
  have "prepared_by fa (arc_val c)" if "Some c \<in> set (ho_contexts (drop_context k H))" for c
    using that assms set_update_subset_insert [of "ho_contexts H" k None] by (auto simp: host_ok_def drop_context_def)
  moreover have "inj_on arc_addr (live_arcs (drop_context k H))"
    using live_arcs_drop_context assms by (auto simp: host_ok_def intro: inj_on_subset)
  ultimately show ?thesis using assms by (simp add: host_ok_def) (simp add: drop_context_def)
qed

subsection \<open>What the calls give\<close>

lemma opened_address:
  "lance_dataset_open da a uri opts version t = (Some d, t') \<Longrightarrow> arc_addr (ds_inner d) = a"
  "lance_dataset_open_with_session da a uri opts version session t = (Some d, t') \<Longrightarrow> arc_addr (ds_inner d) = a"
  "lance_dataset_restore mu a dataset restored_version t = (Some d, t') \<Longrightarrow> arc_addr (ds_inner d) = a"
  unfolding lance_dataset_open_def lance_dataset_open_with_session_def lance_dataset_restore_def
  by (drule ffi_try_handle, auto simp: open_dataset_inner_def open_dataset_with_session_inner_def restore_inner_def
      outcome_ok Let_def split_beta split: option.splits)+

lemma written_address:
  assumes "lance_dataset_write_with_params wr a uri schema stream mode1 params opts (Some None) t = (rc, t', stream', Some (Some d))"
  shows "arc_addr (ds_inner d) = a"
  using assms
  by (auto simp: lance_dataset_write_with_params_def write_entry_def write_dataset_inner_def Let_def split_beta outcome_ok
      split: outcome.splits option.splits)

lemma changed_dataset:
  assumes "handle_call_inner ha a call (Some d) = (r, Some d')"
  shows "ds_inner d' = ds_inner d \<or> arc_addr (ds_inner d') = a"
  using assms by (auto simp: handle_call_operation with_mut_def Let_def split_beta split: outcome.splits)

lemma lance_scanner_init_dataset: "sc_dataset (lance_scanner_init d) = d"
  by simp

lemma new_scanner_fields:
  assumes "lance_scanner_new (Some d) columns filter_ptr t = (Some s, t')"
  shows "sc_dataset s = ds_inner d \<and> sc_fts_context s = None \<and> scanner_ok s"
  using lance_scanner_new_ok [OF assms] assms unfolding lance_scanner_new_def
  by (drule_tac ffi_try_handle) (auto simp: scanner_new_inner_def outcome_ok snapshot_def)

lemma ffi_try_context: "ffi_try (obind m (\<lambda>c. Ok (Some c))) None t = (Some c, t') \<Longrightarrow> m = Ok c"
  by (cases m) (auto simp: ffi_try_Err ffi_try_Panic)

lemma prepared_byI:
  assumes "prepare_fts_query_context fa dataset column query mode1 = Ok ctx"
  shows "fc_dataset ctx = dataset \<and> prepared_by fa ctx"
proof -
  from assms have "fc_dataset ctx = dataset" by (elim prepare_fts_query_context_OkD) simp
  with assms show ?thesis by (auto simp: prepared_by_def)
qed

lemma prepare_inner_Ok:
  "prepare_fts_match_query_inner fa ca (Some d) column query operator fuzzy mode1 = Ok c \<Longrightarrow>
     fc_dataset (arc_val c) = ds_inner d \<and> prepared_by fa (arc_val c)"
  "prepare_fts_phrase_query_inner fa ca (Some d) column query slop mode1 = Ok c \<Longrightarrow>
     fc_dataset (arc_val c) = ds_inner d \<and> prepared_by fa (arc_val c)"
proof -
  assume "prepare_fts_match_query_inner fa ca (Some d) column query operator fuzzy mode1 = Ok c"
  then obtain col q m where "prepare_fts_query_context fa (ds_inner d) col q m = Ok (arc_val c)"
    by (auto simp: prepare_fts_match_query_inner_def parse_query_inputs_def outcome_ok snapshot_def)
  then show "fc_dataset (arc_val c) = ds_inner d \<and> prepared_by fa (arc_val c)" by (rule prepared_byI)
next
  assume "prepare_fts_phrase_query_inner fa ca (Some d) column query slop mode1 = Ok c"
  then obtain col q m where "prepare_fts_query_context fa (ds_inner d) col q m = Ok (arc_val c)"
    by (auto simp: prepare_fts_phrase_query_inner_def parse_query_inputs_def outcome_ok snapshot_def)
  then show "fc_dataset (arc_val c) = ds_inner d \<and> prepared_by fa (arc_val c)" by (rule prepared_byI)
qed

lemma prepared_context:
  "lance_dataset_prepare_fts_match_query fa ca (Some d) column query operator fuzzy mode1 t = (Some c, t') \<Longrightarrow>
     fc_dataset (arc_val c) = ds_inner d \<and> prepared_by fa (arc_val c)"
  "lance_dataset_prepare_fts_query fa ca (Some d) column query fuzzy mode1 t = (Some c, t') \<Longrightarrow>
     fc_dataset (arc_val c) = ds_inner d \<and> prepared_by fa (arc_val c)"
  "lance_dataset_prepare_fts_phrase_query fa ca (Some d) column query slop mode1 t = (Some c, t') \<Longrightarrow>
     fc_dataset (arc_val c) = ds_inner d \<and> prepared_by fa (arc_val c)"
  unfolding lance_dataset_prepare_fts_match_query_def lance_dataset_prepare_fts_query_def lance_dataset_prepare_fts_phrase_query_def
  by (blast dest: ffi_try_context prepare_inner_Ok)+

subsection \<open>Every call keeps the invariant\<close>

lemma scanner_sound_driven: "driven s s' \<Longrightarrow> scanner_sound fa s \<Longrightarrow> scanner_sound fa s'"
  using driven_source [of s s'] driven_ok [of s s'] by (simp add: scanner_sound_def)

lemma scanner_arcs_driven: "driven s s' \<Longrightarrow> scanner_arcs s' = scanner_arcs s"
  using driven_source [of s s'] by (simp add: scanner_arcs_def)

lemma host_ok_at:
  assumes "host_ok fa H"
  shows "scanner_at H j s \<Longrightarrow> scanner_sound fa s"
    and "Some c \<in> set (ho_contexts H) \<Longrightarrow> prepared_by fa (arc_val c)"
  using assms by (auto simp: host_ok_def scanner_at.simps) (metis nth_mem)

lemma host_ok_same_arc:
  "host_ok fa H \<Longrightarrow> x \<in> live_arcs H \<Longrightarrow> y \<in> live_arcs H \<Longrightarrow> arc_ptr_eq x y \<longleftrightarrow> x = y"
  by (auto simp: host_ok_def arc_ptr_eq_def dest: inj_onD)

lemma host_ok_driven: "host_ok fa H \<Longrightarrow> scanner_at H j s \<Longrightarrow> driven s s' \<Longrightarrow> host_ok fa (put_scanner j (Some s') H)"
  by (rule host_ok_put_scanner) (auto simp: scanner_arcs_driven dest: scanner_sound_driven host_ok_at live_arcsI)

lemma configured_scanner:
  assumes "host_ok fa H" "scanner_at H j s" "op_context_alive H op" "scanner_op_inner sa op (Some s) = Ok s'"
  shows "scanner_sound fa s' \<and> scanner_arcs s' \<subseteq> live_arcs H"
proof -
  from assms(1,2) have s: "scanner_sound fa s" "scanner_arcs s \<subseteq> live_arcs H" by (auto dest: host_ok_at live_arcsI)
  then have ok: "scanner_ok s'" using scanner_op_inner_ok assms(4) by (auto simp: scanner_sound_def)
  from op_source [OF assms(4)] consider "sc_dataset s' = sc_dataset s" "sc_fts_context s' = sc_fts_context s"
    | c where "sc_dataset s' = sc_dataset s" "attaches op c" "sc_fts_context s' = Some c" "arc_ptr_eq (fc_dataset (arc_val c)) (sc_dataset s)"
    by blast
  then show ?thesis
  proof cases
    case 1
    with s ok show ?thesis by (simp add: scanner_sound_def scanner_arcs_def)
  next
    case 2
    then have alive: "Some c \<in> set (ho_contexts H)" using assms(3) by (cases op) (auto simp: attaches_def)
    with s(2) 2(4) have "fc_dataset (arc_val c) = sc_dataset s"
      using host_ok_same_arc [OF assms(1) live_arcsI(3) [OF alive], of "sc_dataset s"] by (simp add: scanner_arcs_def)
    with s ok 2 host_ok_at(2) [OF assms(1) alive] show ?thesis by (simp add: scanner_sound_def scanner_arcs_def)
  qed
qed

lemma host_ok_configure:
  assumes "host_ok fa H" "scanner_at H j s" "op_context_alive H op" "scanner_op_call sa op (Some s) t = (rc, t', Some s')"
  shows "host_ok fa (put_scanner j (Some s') H)"
proof -
  from scanner_calls.call_changes [OF assms(4)] consider "driven s s'" | "scanner_op_inner sa op (Some s) = Ok s'"
    using driven_refl driven_updates(3) by auto
  then show ?thesis
  proof cases
    case 2
    from configured_scanner [OF assms(1-3) this] show ?thesis by (intro host_ok_put_scanner assms(1)) auto
  qed (rule host_ok_driven [OF assms(1,2)])
qed

lemma host_ok_context:
  assumes "host_ok fa H" "dataset_at H i d" "fc_dataset (arc_val c) = ds_inner d \<and> prepared_by fa (arc_val c)"
  shows "host_ok fa (add_context c H)"
  using assms live_arcsI(1) [OF assms(2)] by (intro host_ok_add_context) simp_all

lemma host_ok_change:
  assumes "host_ok fa H" "fresh_address a H" "dataset_at H i d" "handle_call_inner ha a call (Some d) = (r, Some d')"
  shows "host_ok fa (put_dataset i (Some d') H)"
  using changed_dataset [OF assms(4)] live_arcsI(1) [OF assms(3)] assms(2)
  by (intro host_ok_put_dataset assms(1)) auto

lemma host_ok_new_scanner:
  assumes "host_ok fa H" "dataset_at H i d" "lance_scanner_new (Some d) columns filter_ptr t = (Some s, t')"
  shows "host_ok fa (add_scanner s H)"
  using new_scanner_fields [OF assms(3)] live_arcsI(1) [OF assms(2)]
  by (intro host_ok_add_scanner assms(1)) (auto simp: scanner_sound_def scanner_arcs_def)

lemma host_ok_step:
  assumes "host_step da ha wr sa env poll conv schema_of msg_host H H'" "host_ok (sp_fts sa) H"
  shows "host_ok (sp_fts sa) H'"
  using assms
proof (induction rule: host_step.induct)
  case (open_dataset a H uri opts version t d t')
  then show ?case by (intro host_ok_add_dataset) (simp_all add: opened_address(1))
next
  case (open_with_session a H uri opts version session t d t')
  then show ?case by (intro host_ok_add_dataset) (simp_all add: opened_address(2))
next
  case (restore_dataset a H i d0 version t d t')
  then show ?case by (intro host_ok_add_dataset) (simp_all add: opened_address(3))
next
  case (write_dataset a H)
  then show ?case by (intro host_ok_add_dataset) (simp_all add: written_address)
next
  case (prepare_match H i d)
  then show ?case by (blast intro: host_ok_context dest: prepared_context)
next
  case (prepare_query H i d)
  then show ?case by (blast intro: host_ok_context dest: prepared_context)
next
  case (prepare_phrase H i d)
  then show ?case by (blast intro: host_ok_context dest: prepared_context)
qed (auto intro: host_ok_change host_ok_put_dataset host_ok_new_scanner host_ok_configure host_ok_driven host_ok_put_scanner
    host_ok_drop_context driven_updates dest: lance_scanner_next_driven lance_scanner_poll_next_driven
    lance_scanner_to_arrow_stream_driven lance_scanner_scan_async_driven)

lemma host_ok_start: "host_ok fa host_start"
  by (simp add: host_ok_def host_start_def live_arcs_def)

text \<open>A slot that is in use was in use all along, and names the same handle.\<close>

definition same_slots :: "('ds, 'sc, 'cb, 'st) host \<Rightarrow> ('ds, 'sc, 'cb, 'st) host \<Rightarrow> bool" where
  "same_slots H H' \<longleftrightarrow>
     length (ho_scanners H) \<le> length (ho_scanners H') \<and> length (ho_contexts H) \<le> length (ho_contexts H') \<and>
     (\<forall>j s'. j < length (ho_scanners H) \<longrightarrow> scanner_at H' j s' \<longrightarrow> (\<exists>s. scanner_at H j s \<and> sc_dataset s' = sc_dataset s)) \<and>
     (\<forall>k c. k < length (ho_contexts H) \<longrightarrow> context_at H' k c \<longrightarrow> context_at H k c)"

lemma same_slots_refl: "same_slots H H"
  by (auto simp: same_slots_def)

lemma same_slotsD:
  assumes "same_slots H H'"
  shows "j < length (ho_scanners H) \<Longrightarrow> j < length (ho_scanners H')" "k < length (ho_contexts H) \<Longrightarrow> k < length (ho_contexts H')"
    and "j < length (ho_scanners H) \<Longrightarrow> scanner_at H' j s' \<Longrightarrow> \<exists>s. scanner_at H j s \<and> sc_dataset s' = sc_dataset s"
    and "k < length (ho_contexts H) \<Longrightarrow> context_at H' k c \<Longrightarrow> context_at H k c"
  using assms by (auto simp: same_slots_def)

lemma same_slots_trans:
  assumes "same_slots H H'" "same_slots H' H''"
  shows "same_slots H H''"
  unfolding same_slots_def
proof (intro conjI allI impI)
  show "length (ho_scanners H) \<le> length (ho_scanners H'')" "length (ho_contexts H) \<le> length (ho_contexts H'')"
    using assms by (auto simp: same_slots_def)
next
  fix j s''
  assume j: "j < length (ho_scanners H)" and "scanner_at H'' j s''"
  with same_slotsD(3) [OF assms(2) same_slotsD(1) [OF assms(1) j]] obtain s' where "scanner_at H' j s'" "sc_dataset s'' = sc_dataset s'" by blast
  with same_slotsD(3) [OF assms(1) j] show "\<exists>s. scanner_at H j s \<and> sc_dataset s'' = sc_dataset s" by fastforce
next
  fix k c
  assume k: "k < length (ho_contexts H)" and "context_at H'' k c"
  with same_slotsD(4) [OF assms(2) same_slotsD(2) [OF assms(1) k]] have "context_at H' k c" by blast
  with same_slotsD(4) [OF assms(1) k] show "context_at H k c" by blast
qed

lemma same_slots_datasets: "same_slots H (add_dataset d H)" "same_slots H (put_dataset i p H)"
  by (auto simp: same_slots_def add_dataset_def put_dataset_def scanner_at.simps context_at.simps)

lemma same_slots_add: "same_slots H (add_scanner s H)" "same_slots H (add_context c H)"
  by (auto simp: same_slots_def add_scanner_def add_context_def scanner_at.simps context_at.simps nth_append)

lemma nth_update_None: "xs[k := None] ! i = Some x \<Longrightarrow> i < length xs \<Longrightarrow> xs ! i = Some x"
  by (cases "i = k") auto

lemma same_slots_drop: "same_slots H (drop_context k H)"
  by (auto simp: same_slots_def drop_context_def scanner_at.simps context_at.simps dest: nth_update_None)

lemma same_slots_put:
  assumes "\<And>s'. p = Some s' \<Longrightarrow> \<exists>s. scanner_at H j s \<and> sc_dataset s' = sc_dataset s"
  shows "same_slots H (put_scanner j p H)"
proof -
  have "\<exists>s. scanner_at H i s \<and> sc_dataset s' = sc_dataset s"
    if "i < length (ho_scanners H)" "scanner_at (put_scanner j p H) i s'" for i s'
    using assms that by (cases "i = j") (auto simp: put_scanner_def scanner_at.simps)
  then show ?thesis by (auto simp: same_slots_def) (auto simp: put_scanner_def context_at.simps)
qed

lemma same_slots_driven: "scanner_at H j s \<Longrightarrow> driven s s' \<Longrightarrow> same_slots H (put_scanner j (Some s') H)"
  by (rule same_slots_put) (auto dest: driven_source)

lemma same_slots_configure:
  assumes "scanner_at H j s" "scanner_op_call sa op (Some s) t = (rc, t', Some s')"
  shows "same_slots H (put_scanner j (Some s') H)"
proof -
  from scanner_calls.call_changes [OF assms(2)] have "sc_dataset s' = sc_dataset s"
    using op_source by (auto simp: poison_def)
  with assms(1) show ?thesis by (intro same_slots_put) auto
qed

lemma host_step_slots: "host_step da ha wr sa env poll conv schema_of msg_host H H' \<Longrightarrow> same_slots H H'"
  by (induction rule: host_step.induct)
    (auto intro: same_slots_datasets same_slots_add same_slots_drop same_slots_put same_slots_driven same_slots_configure
      driven_updates dest: lance_scanner_next_driven lance_scanner_poll_next_driven lance_scanner_to_arrow_stream_driven
      lance_scanner_scan_async_driven)

lemma host_runs_slots: "runs (host_step da ha wr sa env poll conv schema_of msg_host) H H' \<Longrightarrow> same_slots H H'"
  by (induction rule: runs.induct) (blast intro: same_slots_refl same_slots_trans host_step_slots)+

interpretation hosts: step_system "host_step da ha wr sa env poll conv schema_of msg_host" host_start "host_ok (sp_fts sa)"
  for da ha wr sa env poll conv schema_of msg_host
  by unfold_locales (auto intro: host_ok_start host_ok_step)

subsection \<open>A run\<close>

text \<open>A host opens a dataset, prepares a context, attaches it to a scanner, drops an index through the dataset handle, and
  opens a second scanner.\<close>

definition demo_open_api :: "(nat, unit, unit, unit, unit, unit) dataset_api" where
  "demo_open_api = \<lparr>api_load = (\<lambda>_. Ok 5), api_version = (\<lambda>_. 1), api_count_rows = (\<lambda>_. Ok 3), api_latest_version_id = (\<lambda>_. Ok 1),
     api_export_schema = (\<lambda>_. Ok ()), api_project = (\<lambda>_ _. Ok ()), api_full_projection = (\<lambda>_. ()), api_take = (\<lambda>_ _ _. Ok ()),
     api_take_rows = (\<lambda>_ _ _. Ok ()), api_batch_schema = (\<lambda>_. ()), api_schema_to_ffi = (\<lambda>_. Ok ()),
     api_arrow_error = internal_error, api_fragment_ids = (\<lambda>_. [0])\<rparr>"

definition demo_host_scanner_api :: "(nat, unit, nat, nat) scanner_api" where
  "demo_host_scanner_api =
     \<lparr>sp_fts = demo_fts_api, sp_field = (\<lambda>_ _. None), sp_show_type = (\<lambda>_. ''type''), sp_show_f32 = (\<lambda>_. ''float''),
      sp_fixed_size_list = (\<lambda>_ _. Ok ()), sp_execution_error = internal_error, sp_fts_with_columns = (\<lambda>_ _. Ok ())\<rparr>"

definition demo_host_context :: "(nat, nat) fts_query_context arc" where
  "demo_host_context = Arc 7 \<lparr>fc_dataset = Arc 1 5, fc_query = FtsMatch ''fox'' (Some ''body'') OpOr (Some 0),
     fc_segments = [Fts_Query.demo_segment], fc_prepared = PreparedMatch (Suc 0)\<rparr>"

definition demo_text_scanner :: "(nat, nat, unit, unit) lance_scanner" where
  "demo_text_scanner = (lance_scanner_init (Arc 1 5))\<lparr>sc_fts_context := Some demo_host_context\<rparr>"

definition demo_attached :: "(nat, nat, unit, unit) host" where
  "demo_attached = \<lparr>ho_datasets = [Some \<lparr>ds_inner = Arc 1 5, ds_lock_poisoned = False\<rparr>],
     ho_scanners = [Some demo_text_scanner], ho_contexts = [Some demo_host_context]\<rparr>"

definition demo_moved_on :: "(nat, nat, unit, unit) host" where
  "demo_moved_on = \<lparr>ho_datasets = [Some \<lparr>ds_inner = Arc 2 6, ds_lock_poisoned = False\<rparr>],
     ho_scanners = [Some demo_text_scanner, Some (lance_scanner_init (Arc 2 6))], ho_contexts = [Some demo_host_context]\<rparr>"

lemma demo_host_prepare:
  "lance_dataset_prepare_fts_match_query (sp_fts demo_host_scanner_api) 7 (Some \<lparr>ds_inner = Arc 1 5, ds_lock_poisoned = False\<rparr>) (Some ''body'')
     (Some ''fox'') 0 0 0 None = (Some demo_host_context, None)"
  by (simp add: lance_dataset_prepare_fts_match_query_def prepare_fts_match_query_inner_def parse_query_inputs_def
      non_empty_string_def parse_c_string_def to_str_ok_def coverage_mode_try_from_def match_operator_try_from_def snapshot_def
      prepare_fts_query_context_def demo_fts_api_def Fts_Query.demo_segment_def check_uniform_fields_def current_fragments_def
      u32_try_from_def unindexed_fragments_def open_segments_def check_uniform_params_def prepare_scorer_def reject_if_def Let_def
      clear_last_error_def demo_host_context_def demo_host_scanner_api_def)

lemma demo_host_attach:
  "scanner_op_call demo_host_scanner_api (OpFtsQueryContext (Some demo_host_context)) (Some (lance_scanner_init (Arc 1 5))) None =
     (0, None, Some demo_text_scanner)"
proof -
  have "scanner_op_inner demo_host_scanner_api (OpFtsQueryContext (Some demo_host_context)) (Some (lance_scanner_init (Arc 1 5))) =
      Ok demo_text_scanner"
    by (simp add: scanner_set_fts_query_context_inner_def clone_context_def validate_dataset_identity_def arc_ptr_eq_def
        demo_host_context_def demo_text_scanner_def)
  then show ?thesis by (subst scanner_calls.call_Ok) (simp_all add: clear_last_error_def)
qed

lemma demo_attached_reachable:
  "runs (host_step demo_open_api ha wr demo_host_scanner_api env poll conv schema_of msg_host) host_start demo_attached"
proof -
  let ?step = "host_step demo_open_api ha wr demo_host_scanner_api env poll conv schema_of msg_host"
  let ?d = "\<lparr>ds_inner = Arc 1 (5 :: nat), ds_lock_poisoned = False\<rparr>"
  let ?s = "lance_scanner_init (Arc 1 5) :: (nat, nat, unit, unit) lance_scanner"
  let ?H1 = "add_dataset ?d (host_start :: (nat, nat, unit, unit) host)"
  let ?H2 = "add_context demo_host_context ?H1"
  let ?H3 = "add_scanner ?s ?H2"
  note fields = add_dataset_def add_context_def add_scanner_def host_start_def dataset_at.simps scanner_at.simps
  have open1: "lance_dataset_open demo_open_api 1 (Some ''memory'') None 0 None = (Some ?d, None)"
    by (simp add: lance_dataset_open_def open_dataset_inner_def parse_c_string_def to_str_ok_def parse_storage_options_def
        parse_c_string_array_def demo_open_api_def clear_last_error_def)
  have new1: "lance_scanner_new (Some ?d) None None None = (Some ?s, None)"
    by (simp add: lance_scanner_new_def scanner_new_inner_def parse_c_string_array_def clear_last_error_def snapshot_def)
  have 1: "?step host_start ?H1"
    by (rule host_step.open_dataset [OF _ open1]) (simp add: fresh_address_def live_arcs_def host_start_def)
  have 2: "?step ?H1 ?H2" by (rule host_step.prepare_match [OF _ demo_host_prepare, of _ 0]) (simp add: fields)
  have 3: "?step ?H2 ?H3" by (rule host_step.new_scanner [OF _ new1, of _ 0]) (simp add: fields)
  have 4: "?step ?H3 (put_scanner 0 (Some demo_text_scanner) ?H3)"
    by (rule host_step.configure [OF _ _ demo_host_attach]) (simp_all add: fields)
  have "put_scanner 0 (Some demo_text_scanner) ?H3 = demo_attached" by (simp add: put_scanner_def fields demo_attached_def)
  with runs.more [of ?step, OF runs.more [of ?step, OF runs.more [of ?step, OF runs_one [of ?step, OF 1] 2] 3] 4] show ?thesis by simp
qed

lemma demo_moves_on:
  "runs (host_step da demo_handle_api wr sa env poll conv schema_of msg_host) demo_attached demo_moved_on"
proof -
  let ?step = "host_step da demo_handle_api wr sa env poll conv schema_of msg_host"
  let ?d = "\<lparr>ds_inner = Arc 1 (5 :: nat), ds_lock_poisoned = False\<rparr>"
  let ?d' = "\<lparr>ds_inner = Arc 2 (6 :: nat), ds_lock_poisoned = False\<rparr>"
  let ?s = "lance_scanner_init (Arc 2 6) :: (nat, nat, unit, unit) lance_scanner"
  let ?H1 = "put_dataset 0 (Some ?d') demo_attached"
  note fields = put_dataset_def add_scanner_def demo_attached_def dataset_at.simps
  have new1: "lance_scanner_new (Some ?d') None None None = (Some ?s, None)"
    by (simp add: lance_scanner_new_def scanner_new_inner_def parse_c_string_array_def clear_last_error_def snapshot_def)
  have "live_arcs demo_attached = {Arc 1 5}"
    by (auto simp: live_arcs_def demo_attached_def scanner_arcs_def demo_text_scanner_def demo_host_context_def)
  then have 1: "?step demo_attached ?H1"
    by (intro host_step.change_dataset [OF _ _ demo_drop_index]) (simp_all add: fresh_address_def fields)
  have 2: "?step ?H1 (add_scanner ?s ?H1)" by (rule host_step.new_scanner [OF _ new1, of _ 0]) (simp add: fields)
  have "add_scanner ?s ?H1 = demo_moved_on" by (simp add: fields demo_moved_on_def)
  with runs.more [of ?step, OF runs_one [of ?step, OF 1] 2] show ?thesis by simp
qed

subsection \<open>Properties\<close>

text \<open>C3. However a host interleaves its calls, and whatever addresses the allocator reuses, the identity check of a
  text-search context against a scanner, which compares addresses, accepts exactly when the two hold the same snapshot.\<close>

theorem identity_check_exact:
  assumes "runs (host_step da ha wr sa env poll conv schema_of msg_host) host_start H" "context_at H k c" "scanner_at H j s"
  shows "validate_dataset_identity (sp_fts sa) (arc_val c) (sc_dataset s) = Ok () \<longleftrightarrow> fc_dataset (arc_val c) = sc_dataset s"
proof -
  have "Some c \<in> set (ho_contexts H)" using assms(2) by (metis context_at.simps nth_mem)
  then have "fc_dataset (arc_val c) \<in> live_arcs H" "sc_dataset s \<in> live_arcs H"
    using live_arcsI(2) [OF assms(3)] by (auto simp: scanner_arcs_def dest: live_arcsI(3))
  with host_ok_same_arc [OF hosts.reachable_inv [OF assms(1)]] show ?thesis
    by (simp add: validate_dataset_identity_def reject_if_eq_Ok)
qed

theorem identity_check_exact_witness:
  "validate_dataset_identity demo_fts_api (arc_val demo_host_context) (Arc 1 5) = Ok () \<and>
   validate_dataset_identity demo_fts_api (arc_val demo_host_context) (Arc 2 6) \<noteq> Ok ()"
proof -
  have run: "runs (host_step demo_open_api demo_handle_api wr demo_host_scanner_api env poll conv schema_of msg_host) host_start demo_moved_on"
    for wr env poll conv schema_of msg_host by (rule runs_trans [OF demo_moves_on demo_attached_reachable])
  have "context_at demo_moved_on 0 demo_host_context" "scanner_at demo_moved_on 0 demo_text_scanner"
    "scanner_at demo_moved_on 1 (lance_scanner_init (Arc 2 6))"
    by (simp_all add: demo_moved_on_def context_at.simps scanner_at.simps)
  with identity_check_exact [OF run] have
    "validate_dataset_identity (sp_fts demo_host_scanner_api) (arc_val demo_host_context) (sc_dataset demo_text_scanner) = Ok () \<longleftrightarrow>
       fc_dataset (arc_val demo_host_context) = sc_dataset demo_text_scanner"
    "validate_dataset_identity (sp_fts demo_host_scanner_api) (arc_val demo_host_context) (Arc 2 6) = Ok () \<longleftrightarrow>
       fc_dataset (arc_val demo_host_context) = Arc 2 6"
    by (blast, metis lance_scanner_init_dataset)
  then show ?thesis by (simp add: demo_host_scanner_api_def demo_host_context_def demo_text_scanner_def)
qed

text \<open>C4. In every state that a host can reach, a text-search context that is attached to a scanner was prepared on the
  scanner's own snapshot: its segments are those of the index in that version of the dataset, opened there, although
  the handle that both came from may long have moved on.\<close>

theorem attached_context_of_own_version:
  assumes "runs (host_step da ha wr sa env poll conv schema_of msg_host) host_start H" "scanner_at H j s" "sc_fts_context s = Some c"
  shows "fc_dataset (arc_val c) = sc_dataset s \<and>
    (\<exists>name column ixs. fa_load_scalar_index (sp_fts sa) (arc_val (sc_dataset s)) column = Ok (Some name) \<and>
       fa_load_indices_by_name (sp_fts sa) (arc_val (sc_dataset s)) name = Ok (fc_segments (arc_val c)) \<and>
       segments_ok (sp_fts sa) (arc_val (sc_dataset s)) column (fc_segments (arc_val c)) ixs)"
proof -
  from host_ok_at(1) [OF hosts.reachable_inv [OF assms(1)] assms(2)] assms(3)
  have d: "fc_dataset (arc_val c) = sc_dataset s" and "prepared_by (sp_fts sa) (arc_val c)"
    by (auto simp: scanner_sound_def)
  then obtain column query mode1 where "prepare_fts_query_context (sp_fts sa) (sc_dataset s) column query mode1 = Ok (arc_val c)"
    by (auto simp: prepared_by_def)
  then show ?thesis using d by (elim prepare_fts_query_context_OkD) (auto, blast)
qed

theorem attached_context_of_own_version_witness:
  "\<exists>name. fa_load_scalar_index demo_fts_api 5 ''body'' = Ok (Some name) \<and>
     fa_load_indices_by_name demo_fts_api 5 name = Ok [Fts_Query.demo_segment]"
proof -
  have run: "runs (host_step demo_open_api demo_handle_api wr demo_host_scanner_api env poll conv schema_of msg_host) host_start demo_moved_on"
    for wr env poll conv schema_of msg_host by (rule runs_trans [OF demo_moves_on demo_attached_reachable])
  have "scanner_at demo_moved_on 0 demo_text_scanner" "sc_fts_context demo_text_scanner = Some demo_host_context"
    by (simp_all add: demo_moved_on_def scanner_at.simps demo_text_scanner_def)
  from attached_context_of_own_version [OF run this] obtain name column where
    "fa_load_scalar_index demo_fts_api 5 column = Ok (Some name)" "fa_load_indices_by_name demo_fts_api 5 name = Ok [Fts_Query.demo_segment]"
    by (auto simp: demo_host_scanner_api_def demo_text_scanner_def demo_host_context_def)
  then show ?thesis by (auto simp: demo_fts_api_def split: if_splits)
qed

text \<open>C19. Snapshot isolation: whatever the host does in between, on this handle or any other, a scanner that is still open
  reads the very snapshot it was made on, and a context that is still open is unchanged.\<close>

theorem open_handles_keep_their_snapshot:
  assumes "runs (host_step da ha wr sa env poll conv schema_of msg_host) H H'"
  shows "(scanner_at H j s \<and> scanner_at H' j s' \<longrightarrow> sc_dataset s' = sc_dataset s) \<and>
    (context_at H k c \<and> context_at H' k c' \<longrightarrow> c' = c)"
proof -
  have "\<exists>s0. scanner_at H j s0 \<and> sc_dataset s' = sc_dataset s0" if "scanner_at H j s" "scanner_at H' j s'"
    using host_runs_slots [OF assms] that by (auto simp: same_slots_def scanner_at.simps)
  moreover have "context_at H k c'" if "context_at H k c" "context_at H' k c'"
    using host_runs_slots [OF assms] that by (auto simp: same_slots_def context_at.simps)
  ultimately show ?thesis by (auto simp: scanner_at.simps context_at.simps)
qed

theorem open_handles_keep_their_snapshot_witness:
  "dataset_at demo_moved_on 0 \<lparr>ds_inner = Arc 2 6, ds_lock_poisoned = False\<rparr> \<and>
   (\<exists>s. scanner_at demo_moved_on 0 s \<and> sc_dataset s = Arc 1 5)"
proof -
  obtain s where s: "scanner_at demo_moved_on 0 s" by (simp add: demo_moved_on_def scanner_at.simps)
  have "scanner_at demo_attached 0 demo_text_scanner" by (simp add: demo_attached_def scanner_at.simps)
  with open_handles_keep_their_snapshot [OF demo_moves_on, of 0 demo_text_scanner s] s
  have "sc_dataset s = Arc 1 5" by (simp add: demo_text_scanner_def)
  with s show ?thesis by (auto simp: dataset_at.simps demo_moved_on_def)
qed


end
