(* ===== verification/Spec2Isabelle.thy ===== *)
theory Spec2Isabelle
  imports Multivector Scan_Async Handle_Contract Progress_Gate Index_Json Blob_File Snapshots Writer Query_Typing Scan_End Host_Contract
begin

text \<open>
  Lance-C is the C interface of the Lance columnar format: C hosts open datasets, configure and run scans, change data
  and indexes, and read blobs through opaque handles. This development models the crate's own Rust code under
  \<open>src/\<close> and proves what its entry points promise. Upstream Lance, arrow-rs, tokio and the callbacks of
  the host are not code of this repository: they are arguments of the definitions, usually gathered into a record
  named after its user (\<open>scanner_api\<close>, \<open>mutation_api\<close>, \<open>build_api\<close>, ...), and what the code
  relies on is a named hypothesis of the theorem that needs it.

  \<^bold>\<open>How the parts interact.\<close> A dataset handle owns an \<open>Arc\<close> to an immutable snapshot. Readers (scanners,
  query contexts, builders, blobs) clone the \<open>Arc\<close>; mutations clone the dataset, change the clone and swap it
  in. A scanner collects settings, is frozen when its first stream opens, and hands out batches by blocking calls, by
  polling with a C waker, as an exported Arrow stream, or asynchronously through the dispatcher thread. Every entry point runs
  inside the panic firewall and reports through a thread-local last error; exported streams and iterated scanners are
  poisoned by a panic.

  \<^bold>\<open>Conventions.\<close> A fallible or panicking body returns an \<open>outcome\<close> (\<open>Ok\<close>, \<open>Err\<close> with a
  Lance error, \<open>Panic\<close> with a payload); \<open>obind\<close> is the \<open>?\<close> operator and \<open>reject_if\<close> an early return. A
  C pointer that may be NULL is a \<open>ptr\<close> (an option); a C array with a separate length is a list of at least that
  length. State is passed explicitly: a body named \<open>f_inner\<close> is the Rust function of that name, and \<open>lance_f\<close>
  is the exported C function around it with the thread-local error \<open>tls\<close>. Integers keep their width
  (\<open>u32\<close>, \<open>i32\<close>, \<open>u64\<close>, \<open>usize\<close> of 64 bits), checked and saturating arithmetic is written out, floats are bit
  patterns.

  \<^bold>\<open>Foundations.\<close> \<open>Prelude\<close>: words, outcomes, pointers, decimal printing, shared lemmas. \<open>Errors\<close>
  (\<open>error.rs\<close>): error codes, the last-error slot, \<open>ffi_guard\<close>, \<open>ffi_try!\<close>, \<open>swallow_unwind\<close>.
  \<open>C_Strings\<close> (\<open>helpers.rs\<close>): C strings, NULL-terminated arrays, storage options.
  \<open>Stream_Guard\<close> (\<open>stream_guard.rs\<close>): the two panic-catching readers; the locale \<open>fused_reader\<close> is
  interpreted on both.

  \<^bold>\<open>Datasets.\<close> \<open>Dataset\<close> (\<open>dataset.rs\<close>): handle, snapshot, \<open>with_mut\<close>, open and close,
  metadata, take; the locale \<open>atomic_handle\<close> states that operations through a handle are transactions.
  \<open>Mutations\<close> (\<open>delete.rs\<close>, \<open>update.rs\<close>, \<open>drop_columns.rs\<close>, \<open>alter_columns.rs\<close>,
  \<open>compact.rs\<close>, \<open>add_columns.rs\<close>, \<open>merge_insert.rs\<close>, \<open>restore.rs\<close>): argument validation and
  operations. \<open>Mutation_Contract\<close> has the locale \<open>transactional_calls\<close> and its instance for the
  mutations, \<open>Handle_Contract\<close> the instance for all calls that change a dataset, indexes included.
  \<open>Writer\<close> (\<open>writer.rs\<close>, \<open>fragment_writer.rs\<close>): writing a stream. \<open>Snapshots\<close>
  (\<open>versions.rs\<close>, \<open>data_statistics.rs\<close>, \<open>session.rs\<close>, \<open>batch.rs\<close>): the small handles, with the locale
  \<open>indexed_handle\<close> for those read by count and index. \<open>Blob_File\<close> (\<open>blob.rs\<close>): blob cursors.

  \<^bold>\<open>Scans.\<close> \<open>Scanner\<close>, \<open>Scanner_Setters\<close>, \<open>Scanner_Search\<close>, \<open>Query_Arrays\<close> (\<open>scanner.rs\<close>):
  the scanner record and every configuration entry point. \<open>Scanner_Contract\<close>: the locale \<open>guarded_handle\<close> (poison
  check, firewall, rollback, an invariant kept), interpreted on the scanner with its consistency invariant, and in
  \<open>Query_Typing\<close> with the typing of stored queries. \<open>Fts_Query\<close> (\<open>fts_query.rs\<close>): prepared
  full-text contexts. \<open>Scoped_Expression\<close>, \<open>Scalar_Segment\<close> (\<open>scalar_segment.rs\<close>) and
  \<open>Index_Selection\<close> (\<open>scalar_index_selection.rs\<close>): restricting an index expression to one segment, choosing
  the cheapest covering BTree segment, and configuring the scan from its result. \<open>Scan_Calls\<close>,
  \<open>Scanner_Build\<close>, \<open>Fts_Plan\<close>, \<open>Scan_Stream\<close>: building Lance's scanner as a history of calls, rewriting a
  prepared full-text plan, opening the stream. \<open>Floats\<close>, \<open>Multivector\<close> (\<open>multivector.rs\<close>): late-interaction
  scoring and its place in the plan. \<open>Scan_Iter\<close>: blocking, polled and exported consumption. \<open>Poll_Waker\<close>:
  one-shot wakers and the close protocol as a step relation over atomic critical sections, an instance of the locale
  \<open>callback_boundary\<close> of \<open>Step_Systems\<close>, which the progress gate below shares. \<open>Dispatcher\<close>
  (\<open>async_dispatcher.rs\<close>) and \<open>Scan_Async\<close>: asynchronous scans. \<open>Scan_End\<close>: statistics and release.

  \<^bold>\<open>Indexes.\<close> \<open>Index_Params\<close>, \<open>Index_Lifecycle\<close>, \<open>Index_Json\<close> (\<open>index.rs\<close>): parameters,
  creation, removal, listing, concurrent prewarming. \<open>Model_Schema\<close>, \<open>Model_Arrays\<close>, \<open>Segment_Builder\<close>,
  \<open>Segment_Build\<close>, \<open>Segment_Metadata\<close>, \<open>Progress_Gate\<close> (\<open>index_segment.rs\<close>): foreign model arrays with
  their preflight and provenance, the single-use builders, commit of segments, parsed metadata, and the retirement gate
  of the progress callback as a step relation. \<open>Index_Model\<close> (\<open>index_model.rs\<close>): trained models.

  \<^bold>\<open>The host process.\<close> \<open>Host\<close> puts the entry points together: a step relation whose steps are the calls that a host
  can make on the dataset handles, scanners and text-search contexts that it holds, in any order, with an allocator that
  may give a new snapshot any address at which no snapshot lives. \<open>Host_Contract\<close> proves its invariant (an
  interpretation of the locale \<open>step_system\<close> of \<open>Step_Systems\<close>): held snapshots have distinct addresses, so that the
  pointer identity check of \<open>fts_query.rs\<close> is exact, an attached context belongs to its scanner's snapshot, and open
  handles keep theirs.

  \<^bold>\<open>What the lemmas show.\<close> Per component: which outcome each operation has on every branch (lemmas
  \<open>..._Ok\<close> and \<open>..._OkD\<close>), the invariant and its preservation, and the refinement of a shorter specification
  (\<open>transact\<close> for handles, \<open>spec_items\<close> for guarded streams, \<open>next_spec\<close> for blocking iteration, sums and maxima of
  distances for scores, the set of matching rows for index searches). The claims C1 to C40 stand beside their
  definitions; the one of this file spans builders, commits and handles.

  \<^bold>\<open>Bounds, fuel and termination.\<close> \<open>preflight\<close> terminates by the depth that is left under the limit of 64, whatever graph the pointers form. \<open>block_next\<close> is a \<open>partial_function\<close>, since a stream may be pending
  forever; \<open>block_fuel\<close> counts its polls, and \<open>block_next\<close> returns exactly when some fuel is enough
  (\<open>block_next_iff\<close>). Prewarming and the worker threads run under explicit
  schedules; liveness is stated for schedules that serve every future. \<open>scoped_expression\<close> carries the node and
  depth budgets of the code. The JSON reader of \<open>Index_Json\<close> takes the length of its input as fuel, which bounds
  the number of items.

  \<^bold>\<open>Not modelled.\<close> Unit and integration tests; \<open>lib.rs\<close>, \<open>build.rs\<close> and the C and C++ headers (declarations);
  build and packaging files; \<open>DisplayAs\<close>, \<open>Debug\<close> and the accessors of plan nodes, \<open>DeepSizeOf\<close> and cache
  keys (no behaviour of their own); memory release by \<open>Drop\<close> where nothing but deallocation happens;
  the tokio runtime beyond what \<open>block_on\<close> and \<open>spawn\<close> promise. Pointers are modelled by what they point at, so
  undefined behaviour that violates the documented C contract (dangling pointers, short arrays) is outside the
  model.
\<close>

subsection \<open>From builders to committed segments\<close>

lemma execute_uncommitted_Ok:
  assumes "execute_uncommitted_inner ba bd (Some b) out_bytes out_len = (Ok bytes, b')"
  shows "\<exists>request m. build_request_of bd b = Ok request \<and> ba_execute ba (sb_dataset b) request = Ok m \<and> bytes = ba_encode ba m"
proof -
  have "build_request_of bd (b\<lparr>sb_executed := True\<rparr>) = build_request_of bd b" by (simp add: build_request_of_def)
  with assms show ?thesis by (auto simp: execute_uncommitted_inner_def Let_def obind_eq_Ok split: if_splits)
qed

text \<open>The entries of a C array of byte slices.\<close>

definition byte_slices :: "u8 list list \<Rightarrow> (usize \<times> u8 list) ptr list" where
  "byte_slices bytess = map (\<lambda>x. Some (0, x)) bytess"

definition slice_lengths :: "u8 list list \<Rightarrow> usize list" where
  "slice_lengths bytess = map (\<lambda>x. of_nat (length x)) bytess"

lemma slice_length:
  assumes "x \<noteq> [] \<and> length x \<le> isize_max"
  shows "unat (of_nat (length x) :: usize) = length x" "(of_nat (length x) :: usize) \<noteq> 0"
proof -
  have "length x < 2 ^ 64" "0 < length x" using assms by auto
  then show "unat (of_nat (length x) :: usize) = length x" by (simp add: unat_of_nat)
  with \<open>0 < length x\<close> show "(of_nat (length x) :: usize) \<noteq> 0" by (metis unat_0 less_irrefl)
qed

lemma decode_slices_Cons:
  assumes "x \<noteq> [] \<and> length x \<le> isize_max"
  shows "decode_segments da i (byte_slices (x # xs)) (slice_lengths (x # xs)) =
    obind (map_err_text (\<lambda>e. ''segment_metadata_bytes['' @ show_nat i @ '']: '' @ e) (decode_segment_metadata da x)) (\<lambda>m.
      obind (decode_segments da (Suc i) (byte_slices xs) (slice_lengths xs)) (\<lambda>ms. Ok (m # ms)))"
  using assms slice_length [OF assms] by (simp add: byte_slices_def slice_lengths_def reject_if_def)

text \<open>Bytes that carry metadata are decoded to that metadata, or rejected for a value that is out of range.\<close>

lemma decode_slices:
  assumes "list_all2 (carries da) bytess ms" "\<forall>x\<in>set bytess. x \<noteq> [] \<and> length x \<le> isize_max"
  shows "list_all (representable da) ms \<Longrightarrow> decode_segments da i (byte_slices bytess) (slice_lengths bytess) = Ok ms"
    and "\<not> list_all (representable da) ms \<Longrightarrow>
      \<exists>text1. decode_segments da i (byte_slices bytess) (slice_lengths bytess) = Err (invalid_input text1)"
  using assms
proof (induction arbitrary: i rule: list_all2_induct)
  case Nil
  case 1 then show ?case by (simp add: byte_slices_def slice_lengths_def)
next
  case Nil
  case 2 then show ?case by simp
next
  case (Cons x xs m ms)
  case 1
  then show ?case using Cons.IH(1) decode_carried(1) [OF Cons.hyps(1)] by (simp add: decode_slices_Cons map_err_text_eq_Ok)
next
  case (Cons x xs m ms)
  case 2
  then have x: "x \<noteq> [] \<and> length x \<le> isize_max" by simp
  show ?case
  proof (cases "representable da m")
    case True
    with 2 Cons.IH(2) [of "Suc i"] decode_carried(1) [OF Cons.hyps(1)] show ?thesis
      by (auto simp: decode_slices_Cons [OF x])
  next
    case False
    with decode_carried(2) [OF Cons.hyps(1)] show ?thesis
      by (auto simp: decode_slices_Cons [OF x] map_err_text_def)
  qed
qed

text \<open>C17. The segments that builders build are the segments that a commit of their bytes commits, all together and in
  order, in one transaction on the dataset; and when the decoder of the commit finds a field id, version or time of
  creation of any of them out of range, the commit is rejected and the dataset is not touched. Of Lance it is assumed
  that the message it encodes carries the fields, version and time of the metadata and converts back to it.\<close>

theorem built_segments_commit:
  assumes "list_all2 (\<lambda>b bytes. \<exists>ob ol b'. execute_uncommitted_inner ba bd (Some b) ob ol = (Ok bytes, b')) bs bytess"
    and "\<forall>b\<in>set bs. \<forall>request m. ba_execute ba (sb_dataset b) request = Ok m \<longrightarrow> carries da (ba_encode ba m) m"
    and "\<forall>x\<in>set bytess. x \<noteq> [] \<and> length x \<le> isize_max" "bs \<noteq> []" "length bs \<le> max_pointer_slice"
    and "name \<noteq> []" "to_str_ok name" "col \<noteq> []" "to_str_ok col"
  shows "\<exists>ms. list_all2 (\<lambda>b m. \<exists>request. build_request_of bd b = Ok request \<and> ba_execute ba (sb_dataset b) request = Ok m) bs ms \<and>
    (let result = commit_index_segments_inner da commit a (Some h) (Some name) (Some col) (Some (byte_slices bytess))
           (Some (slice_lengths bytess)) (of_nat (length bs))
     in if list_all (representable da) ms
        then result = (let (r, h') = with_mut a (\<lambda>d. commit d name col ms) h in (r, Some h'))
        else (\<exists>text1. result = (Err (invalid_input text1), Some h)))"
proof -
  let ?built = "\<lambda>b m. \<exists>request. build_request_of bd b = Ok request \<and> ba_execute ba (sb_dataset b) request = Ok m"
  have n: "unat (of_nat (length bs) :: usize) = length bs" "(of_nat (length bs) :: usize) \<noteq> 0"
    using assms(4,5) by (auto simp: unat_of_nat max_pointer_slice_def word_unat_eq_iff)
  have len: "length bytess = length bs" using assms(1) by (simp add: list_all2_lengthD)
  have "\<forall>i<length bs. \<exists>m. ?built (bs ! i) m \<and> carries da (bytess ! i) m"
    using assms(1,2) execute_uncommitted_Ok by (fastforce simp: list_all2_conv_all_nth)
  then obtain f where f: "\<forall>i<length bs. ?built (bs ! i) (f i) \<and> carries da (bytess ! i) (f i)" by metis
  let ?ms = "map f [0..<length bs]"
  have ms: "list_all2 ?built bs ?ms" "list_all2 (carries da) bytess ?ms"
    using f len by (simp_all add: list_all2_conv_all_nth)
  have args: "commit_segments_args da (Some h) (Some name) (Some col) (Some (byte_slices bytess)) (Some (slice_lengths bytess))
      (of_nat (length bs)) = obind (decode_segments da 0 (byte_slices bytess) (slice_lengths bytess)) (\<lambda>segments. Ok (h, name, col, segments))"
    using assms(5-) n len by (simp add: commit_segments_args_def required_string_def byte_slices_def slice_lengths_def reject_if_def not_less)
  show ?thesis
  proof (cases "list_all (representable da) ?ms")
    case True
    with decode_slices(1) [OF ms(2) assms(3)] have "commit_segments_args da (Some h) (Some name) (Some col)
        (Some (byte_slices bytess)) (Some (slice_lengths bytess)) (of_nat (length bs)) = Ok (h, name, col, ?ms)"
      by (simp add: args)
    with ms(1) True show ?thesis by (intro exI [of _ ?ms]) (simp add: commit_index_segments_inner_def mutate_def)
  next
    case False
    from decode_slices(2) [OF ms(2) assms(3) False, of 0] obtain text1 where "commit_segments_args da (Some h) (Some name) (Some col)
        (Some (byte_slices bytess)) (Some (slice_lengths bytess)) (of_nat (length bs)) = Err (invalid_input text1)"
      by (auto simp: args)
    with ms(1) False show ?thesis by (intro exI [of _ ?ms]) (auto simp: commit_index_segments_inner_def mutate_def)
  qed
qed

definition demo_scalar_builder :: "(unit, unit, demo_array, nat) segment_builder" where
  "demo_scalar_builder =
     \<lparr>sb_dataset = (), sb_column = ''id'', sb_index_name = Some ''id_idx'', sb_kind = ScalarSegment ScalarBTree None,
      sb_fragment_ids = Some [0], sb_index_uuid = None, sb_progress = None, sb_executed = False\<rparr>"

definition demo_segment_decoder :: "unit decode_api" where
  "demo_segment_decoder = demo_decode_api\<lparr>da_try_from := (\<lambda>_. Ok demo_metadata)\<rparr>"

theorem built_segments_commit_witness:
  "commit_index_segments_inner demo_segment_decoder (\<lambda>d _ _ ms. (Ok (), d + length ms)) 9
     (Some \<lparr>ds_inner = Arc 1 (40 :: nat), ds_lock_poisoned = False\<rparr>) (Some ''id_idx'') (Some ''id'')
     (Some (byte_slices [[1, 2], [1, 2]])) (Some (slice_lengths [[1, 2], [1, 2]])) 2 =
   (Ok (), Some \<lparr>ds_inner = Arc 9 42, ds_lock_poisoned = False\<rparr>)"
proof -
  let ?b = demo_scalar_builder
  have "execute_uncommitted_inner demo_build_api demo_defaults (Some ?b) (Some None) (Some 0) =
      (Ok [1, 2], Some (retire_progress (?b\<lparr>sb_executed := True\<rparr>)))"
    by (simp add: execute_uncommitted_inner_def demo_scalar_builder_def build_request_of_def build_params_of_def demo_build_api_def)
  then have 1: "list_all2 (\<lambda>b bytes. \<exists>ob ol b'. execute_uncommitted_inner demo_build_api demo_defaults (Some b) ob ol = (Ok bytes, b'))
      [?b, ?b] [[1, 2], [1, 2]]" by auto
  have 2: "\<forall>b\<in>set [?b, ?b]. \<forall>request m. ba_execute demo_build_api (sb_dataset b) request = Ok m \<longrightarrow>
      carries demo_segment_decoder (ba_encode demo_build_api m) m"
    by (simp add: demo_build_api_def carries_def demo_segment_decoder_def demo_decode_api_def demo_metadata_def)
  have ok: "to_str_ok ''id_idx''" "to_str_ok ''id''" "length [?b, ?b] \<le> max_pointer_slice"
    by (simp_all add: to_str_ok_def max_pointer_slice_def)
  have sizes: "\<forall>x\<in>set [[1, 2], [1, 2 :: u8]]. x \<noteq> [] \<and> length x \<le> isize_max" "[?b, ?b] \<noteq> []" "''id_idx'' \<noteq> []" "''id'' \<noteq> []"
    by simp_all
  let ?commit = "\<lambda>(d :: nat) (_ :: string) (_ :: string) (ms :: segment_metadata list). (Ok () :: unit outcome, d + length ms)"
  let ?commits = "commit_index_segments_inner demo_segment_decoder ?commit 9 (Some \<lparr>ds_inner = Arc 1 40, ds_lock_poisoned = False\<rparr>)
       (Some ''id_idx'') (Some ''id'') (Some (byte_slices [[1, 2], [1, 2]])) (Some (slice_lengths [[1, 2], [1, 2]]))
       (of_nat (length [?b, ?b]))"
  from built_segments_commit [OF 1 2 sizes(1,2) ok(3) sizes(3) ok(1) sizes(4) ok(2), of ?commit 9
      "\<lparr>ds_inner = Arc 1 40, ds_lock_poisoned = False\<rparr>"]
  obtain ms where ms: "list_all2 (\<lambda>b m. \<exists>request. build_request_of demo_defaults b = Ok request \<and>
      ba_execute demo_build_api (sb_dataset b) request = Ok m) [?b, ?b] ms"
    and result: "if list_all (representable demo_segment_decoder) ms
      then ?commits = (let (r, h') = with_mut 9 (\<lambda>d. ?commit d ''id_idx'' ''id'' ms) \<lparr>ds_inner = Arc 1 40, ds_lock_poisoned = False\<rparr> in (r, Some h'))
      else (\<exists>text1. ?commits = (Err (invalid_input text1), Some \<lparr>ds_inner = Arc 1 40, ds_lock_poisoned = False\<rparr>))"
    unfolding Let_def by blast
  from ms have "ms = [demo_metadata, demo_metadata]" by (auto simp: list_all2_Cons1 demo_build_api_def)
  with result show ?thesis by (simp add: with_mut_def representable_def demo_metadata_def)
qed

end
